(* ===== verification/Prelude.thy ===== *)
theory Prelude
  imports Main "HOL-Library.AList" "HOL-Library.List_Lexorder" "HOL-Library.Char_ord"
    "HOL-Library.Word" "HOL-Library.Multiset"
begin

text \<open>
  Shared vocabulary of the development. Go's errors are values of one datatype; a Go function
  that reads or changes state is a function of the state that returns an error or a result
  together with the new state. A small weakest-precondition calculus (collection
  \<open>go_wp_rules\<close>) carries the proofs about such functions. Go maps are association lists
  read with \<^const>\<open>map_of\<close>; their keys are enumerated sorted, as the sources do before
  they iterate.
\<close>

section \<open>Go errors\<close>

text \<open>
  An error keeps the format string of the source that made it and the errors it wraps
  (the operands of \<open>%w\<close> and of \<open>errors.Join\<close>). Operands that only appear in the
  text of the message are left out. A sentinel such as \<open>ErrBlocked\<close> is an error with no
  wrapped errors; \<open>errors_Is\<close> follows the chain of wrapped errors as \<open>errors.Is\<close> does.
\<close>

datatype go_error = Errorf (Error: string) (Unwrap: "go_error list")

abbreviation errors_New :: "string \<Rightarrow> go_error" where
  "errors_New msg \<equiv> Errorf msg []"

fun errors_Is :: "go_error \<Rightarrow> go_error \<Rightarrow> bool" where
  "errors_Is (Errorf m ws) target = (Errorf m ws = target \<or> list_ex (\<lambda>e. errors_Is e target) ws)"

lemma errors_Is_refl [simp]: "errors_Is e e"
  by (cases e) simp

lemma errors_Is_wraps [simp]:
  "errors_Is (Errorf m (e # es)) e"
  by simp

definition errors_Join :: "go_error option list \<Rightarrow> go_error option" where
  "errors_Join es = (let ws = List.map_filter (\<lambda>x. x) es
     in if ws = [] then None else Some (Errorf ''joined'' ws))"

lemma errors_Join_None_iff: "errors_Join es = None \<longleftrightarrow> (\<forall>e \<in> set es. e = None)"
  by (induction es) (auto simp: errors_Join_def map_filter_def Let_def split: option.splits)

lemma errors_Join_Some [simp]: "errors_Join (Some e # es) = Some (Errorf ''joined'' (e # List.map_filter id es))"
  by (simp add: errors_Join_def map_filter_def id_def)

section \<open>Stateful computations that may return an error\<close>

type_synonym ('s, 'a) go = "'s \<Rightarrow> (go_error + 'a) \<times> 's"

definition go_return :: "'a \<Rightarrow> ('s, 'a) go" where
  "go_return x = (\<lambda>s. (Inr x, s))"

definition go_throw :: "go_error \<Rightarrow> ('s, 'a) go" where
  "go_throw e = (\<lambda>s. (Inl e, s))"

definition go_bind :: "('s, 'a) go \<Rightarrow> ('a \<Rightarrow> ('s, 'b) go) \<Rightarrow> ('s, 'b) go" where
  "go_bind m k = (\<lambda>s. case m s of (Inl e, s') \<Rightarrow> (Inl e, s') | (Inr x, s') \<Rightarrow> k x s')"

definition go_seq :: "('s, unit) go \<Rightarrow> ('s, 'b) go \<Rightarrow> ('s, 'b) go" where
  "go_seq m n = go_bind m (\<lambda>_. n)"

definition go_get :: "('s \<Rightarrow> 'a) \<Rightarrow> ('s, 'a) go" where
  "go_get f = (\<lambda>s. (Inr (f s), s))"

definition go_modify :: "('s \<Rightarrow> 's) \<Rightarrow> ('s, unit) go" where
  "go_modify f = (\<lambda>s. (Inr (), f s))"

text \<open>\<open>if !b { return err }\<close>\<close>

definition go_require :: "bool \<Rightarrow> go_error \<Rightarrow> ('s, unit) go" where
  "go_require b e = (if b then go_return () else go_throw e)"

text \<open>A call whose error is inspected instead of returned: \<open>r, err := f()\<close>.\<close>

definition go_try :: "('s, 'a) go \<Rightarrow> ('s, go_error + 'a) go" where
  "go_try m = (\<lambda>s. case m s of (r, s') \<Rightarrow> (Inr r, s'))"

text \<open>A call whose error is returned wrapped: \<open>return fmt.Errorf("...: %w", err)\<close>.\<close>

definition go_wrap :: "(go_error \<Rightarrow> go_error) \<Rightarrow> ('s, 'a) go \<Rightarrow> ('s, 'a) go" where
  "go_wrap f m = (\<lambda>s. case m s of (Inl e, s') \<Rightarrow> (Inl (f e), s') | (Inr x, s') \<Rightarrow> (Inr x, s'))"

text \<open>A pure fallible function, and a value that may be an error already.\<close>

definition go_of :: "go_error + 'a \<Rightarrow> ('s, 'a) go" where
  "go_of r = (\<lambda>s. (r, s))"

text \<open>\<open>for _, x := range xs\<close> with early return on error.\<close>

fun go_each :: "('x \<Rightarrow> ('s, unit) go) \<Rightarrow> 'x list \<Rightarrow> ('s, unit) go" where
  "go_each f [] = go_return ()"
| "go_each f (x # xs) = go_seq (f x) (go_each f xs)"

text \<open>\<open>out = append(out, ...)\<close> in a loop with early return on error.\<close>

fun go_concat :: "('x \<Rightarrow> ('s, 'b list) go) \<Rightarrow> 'x list \<Rightarrow> ('s, 'b list) go" where
  "go_concat f [] = go_return []"
| "go_concat f (x # xs) =
     go_bind (f x) (\<lambda>ys. go_bind (go_concat f xs) (\<lambda>zs. go_return (ys @ zs)))"

text \<open>
  A component keeps its own state next to the world of the services it calls. \<open>go_env\<close>
  runs a call to such a service, \<open>go_own\<close> one on the component's own state.
\<close>

definition go_env :: "('w, 'a) go \<Rightarrow> ('s \<times> 'w, 'a) go" where
  "go_env m = (\<lambda>(s, w). case m w of (r, w') \<Rightarrow> (r, (s, w')))"

definition go_own :: "('s, 'a) go \<Rightarrow> ('s \<times> 'w, 'a) go" where
  "go_own m = (\<lambda>(s, w). case m s of (r, s') \<Rightarrow> (r, (s', w)))"

text \<open>Pure fallible computations use the error monad of sums.\<close>

definition sum_bind :: "go_error + 'a \<Rightarrow> ('a \<Rightarrow> go_error + 'b) \<Rightarrow> go_error + 'b" where
  "sum_bind m k = (case m of Inl e \<Rightarrow> Inl e | Inr x \<Rightarrow> k x)"

fun sum_each :: "('x \<Rightarrow> go_error + unit) \<Rightarrow> 'x list \<Rightarrow> go_error + unit" where
  "sum_each f [] = Inr ()"
| "sum_each f (x # xs) = (case f x of Inl e \<Rightarrow> Inl e | Inr _ \<Rightarrow> sum_each f xs)"

lemma sum_bind_simps [simp]:
  "sum_bind (Inl e) k = Inl e" "sum_bind (Inr x) k = k x"
  by (simp_all add: sum_bind_def)

lemma sum_bind_Inr_iff: "sum_bind m k = Inr y \<longleftrightarrow> (\<exists>x. m = Inr x \<and> k x = Inr y)"
  by (cases m) auto

lemma sum_each_Inr_iff: "sum_each f xs = Inr u \<longleftrightarrow> (\<forall>x \<in> set xs. f x = Inr ())"
  by (induction xs) (auto split: sum.splits)

text \<open>Monad laws, and running a sequence from one state.\<close>

lemma go_bind_return_left [simp]: "go_bind (go_return x) k = k x"
  by (simp add: go_bind_def go_return_def)

lemma go_bind_return_right [simp]: "go_bind m go_return = m"
  by (simp add: go_bind_def go_return_def fun_eq_iff split: prod.split sum.split)

lemma go_bind_assoc: "go_bind (go_bind m k) h = go_bind m (\<lambda>x. go_bind (k x) h)"
  by (simp add: go_bind_def fun_eq_iff split: prod.split sum.split)

named_theorems go_run "running a sequence from a state, step by step"

lemma go_run_bind [go_run]:
  "go_bind (go_modify f) k s = k () (f s)"
  "go_bind (go_get g) h s = h (g s) s"
  "go_bind (go_of r) h' s = (case r of Inl e \<Rightarrow> (Inl e, s) | Inr x \<Rightarrow> h' x s)"
  "go_bind (go_require b e) k s = (if b then k () s else (Inl e, s))"
  "go_bind (go_throw e) h'' s = (Inl e, s)"
  by (simp_all add: go_bind_def go_modify_def go_get_def go_of_def go_require_def go_return_def
      go_throw_def)

lemma go_run_end [go_run]:
  "go_modify f s = (Inr (), f s)"
  "go_get g s = (Inr (g s), s)"
  "go_of r s = (r, s)"
  "go_throw e' s = (Inl e', s)"
  "go_return x s = (Inr x, s)"
  "go_require b e s = (if b then Inr () else Inl e, s)"
  by (simp_all add: go_modify_def go_get_def go_of_def go_require_def go_return_def go_throw_def)

lemma go_run_seq [go_run]: "go_seq m n s = go_bind m (\<lambda>_. n) s"
  by (simp add: go_seq_def)

lemma go_bind_Inr: "m s = (Inr x, s') \<Longrightarrow> go_bind m k s = k x s'"
  by (simp add: go_bind_def)

lemma go_bind_Inl: "m s = (Inl e, s') \<Longrightarrow> go_bind m k s = (Inl e, s')"
  by (simp add: go_bind_def)

lemma go_bind_at:
  assumes "m s = m' s'" and "\<And>x t. m' s' = (Inr x, t) \<Longrightarrow> k x t = k' x t"
  shows "go_bind m k s = go_bind m' k' s'"
  using assms by (auto simp: go_bind_def split: prod.splits sum.splits)

lemma go_bind_InrE:
  assumes "go_bind m k s = (Inr y, s')"
  obtains x t where "m s = (Inr x, t)" "k x t = (Inr y, s')"
  using assms by (auto simp: go_bind_def split: prod.splits sum.splits)

section \<open>Weakest preconditions\<close>

named_theorems go_wp_rules "weakest-precondition equations of the combinators"

definition go_wp :: "('s, 'a) go \<Rightarrow> ('a \<Rightarrow> 's \<Rightarrow> bool) \<Rightarrow> (go_error \<Rightarrow> 's \<Rightarrow> bool) \<Rightarrow> 's \<Rightarrow> bool" where
  "go_wp m Q E s = (case m s of (Inl e, s') \<Rightarrow> E e s' | (Inr x, s') \<Rightarrow> Q x s')"

lemma go_wp_return [go_wp_rules]: "go_wp (go_return x) Q E s = Q x s"
  by (simp add: go_wp_def go_return_def)

lemma go_wp_throw [go_wp_rules]: "go_wp (go_throw e) Q E s = E e s"
  by (simp add: go_wp_def go_throw_def)

lemma go_wp_bind [go_wp_rules]:
  "go_wp (go_bind m k) Q E s = go_wp m (\<lambda>x. go_wp (k x) Q E) E s"
  by (simp add: go_wp_def go_bind_def split: prod.splits sum.splits)

lemma go_wp_seq [go_wp_rules]:
  "go_wp (go_seq m n) Q E s = go_wp m (\<lambda>_. go_wp n Q E) E s"
  by (simp add: go_seq_def go_wp_bind)

lemma go_wp_get [go_wp_rules]: "go_wp (go_get f) Q E s = Q (f s) s"
  by (simp add: go_wp_def go_get_def)

lemma go_wp_modify [go_wp_rules]: "go_wp (go_modify f) Q E s = Q () (f s)"
  by (simp add: go_wp_def go_modify_def)

lemma go_wp_require [go_wp_rules]:
  "go_wp (go_require b e) Q E s = (if b then Q () s else E e s)"
  by (simp add: go_require_def go_wp_return go_wp_throw)

lemma go_wp_try [go_wp_rules]:
  "go_wp (go_try m) Q E s = go_wp m (\<lambda>x. Q (Inr x)) (\<lambda>e. Q (Inl e)) s"
  by (simp add: go_wp_def go_try_def split: prod.splits sum.splits)

lemma go_wp_wrap [go_wp_rules]:
  "go_wp (go_wrap f m) Q E s = go_wp m Q (\<lambda>e. E (f e)) s"
  by (simp add: go_wp_def go_wrap_def split: prod.splits sum.splits)

lemma go_wp_of [go_wp_rules]:
  "go_wp (go_of r) Q E s = (case r of Inl e \<Rightarrow> E e s | Inr x \<Rightarrow> Q x s)"
  by (simp add: go_wp_def go_of_def)

lemma go_wp_env [go_wp_rules]:
  "go_wp (go_env m) Q E (s, w) = go_wp m (\<lambda>x w'. Q x (s, w')) (\<lambda>e w'. E e (s, w')) w"
  by (simp add: go_wp_def go_env_def split: prod.splits sum.splits)

lemma go_wp_own [go_wp_rules]:
  "go_wp (go_own m) Q E (s, w) = go_wp m (\<lambda>x s'. Q x (s', w)) (\<lambda>e s'. E e (s', w)) s"
  by (simp add: go_wp_def go_own_def split: prod.splits sum.splits)

lemma go_wp_if [go_wp_rules]:
  "go_wp (if b then m else n) Q E s = (if b then go_wp m Q E s else go_wp n Q E s)"
  by simp

lemma go_wp_case_option [go_wp_rules]:
  "go_wp (case x of None \<Rightarrow> m | Some y \<Rightarrow> n y) Q E s =
   (case x of None \<Rightarrow> go_wp m Q E s | Some y \<Rightarrow> go_wp (n y) Q E s)"
  by (simp split: option.splits)

lemma go_wp_case_sum [go_wp_rules]:
  "go_wp (case x of Inl e \<Rightarrow> m e | Inr y \<Rightarrow> n y) Q E s =
   (case x of Inl e \<Rightarrow> go_wp (m e) Q E s | Inr y \<Rightarrow> go_wp (n y) Q E s)"
  by (simp split: sum.splits)

lemma go_wp_case_prod [go_wp_rules]:
  "go_wp (case p of (a, b) \<Rightarrow> m a b) Q E s = (case p of (a, b) \<Rightarrow> go_wp (m a b) Q E s)"
  by (simp split: prod.splits)

lemma go_wp_let [go_wp_rules]: "go_wp (let x = a in m x) Q E s = go_wp (m a) Q E s"
  by (simp add: Let_def)

lemma go_wp_Nil [go_wp_rules]: "go_wp (go_each f []) Q E s = Q () s"
  by (simp add: go_wp_return)

lemma go_wp_mono:
  assumes "go_wp m Q E s" and "\<And>x s'. Q x s' \<Longrightarrow> Q' x s'" and "\<And>e s'. E e s' \<Longrightarrow> E' e s'"
  shows "go_wp m Q' E' s"
  using assms by (auto simp: go_wp_def split: prod.splits sum.splits)

text \<open>Sequential composition with an intermediate assertion.\<close>

lemma go_wp_bindI:
  assumes "go_wp m R E' s" and "\<And>x s'. R x s' \<Longrightarrow> go_wp (k x) Q E s'" and "\<And>e s'. E' e s' \<Longrightarrow> E e s'"
  shows "go_wp (go_bind m k) Q E s"
  using assms by (auto simp: go_wp_bind intro: go_wp_mono)

lemma go_wp_seqI:
  assumes "go_wp m R E' s" and "\<And>x s'. R x s' \<Longrightarrow> go_wp n Q E s'" and "\<And>e s'. E' e s' \<Longrightarrow> E e s'"
  shows "go_wp (go_seq m n) Q E s"
  using assms unfolding go_seq_def by (rule go_wp_bindI)

lemma go_wp_conj:
  "go_wp m (\<lambda>x s. Q x s \<and> Q' x s) (\<lambda>e s. E e s \<and> E' e s) s \<longleftrightarrow> go_wp m Q E s \<and> go_wp m Q' E' s"
  by (auto simp: go_wp_def split: prod.splits sum.splits)

text \<open>A call to a service about which nothing is known: any result, any new world.\<close>

lemma go_wp_any:
  assumes "\<And>x s'. m s = (Inr x, s') \<Longrightarrow> Q x s'" and "\<And>e s'. m s = (Inl e, s') \<Longrightarrow> E e s'"
  shows "go_wp m Q E s"
  using assms by (auto simp: go_wp_def split: prod.splits sum.splits)

lemma go_wp_resultD:
  assumes "go_wp m Q E s" and "m s = (r, s')"
  shows "case r of Inl e \<Rightarrow> E e s' | Inr x \<Rightarrow> Q x s'"
  using assms by (simp add: go_wp_def split: sum.splits)

text \<open>A loop keeps an invariant that its body keeps, on both exits.\<close>

lemma go_wp_each_invariant:
  assumes "I s"
    and "\<And>x s. x \<in> set xs \<Longrightarrow> I s \<Longrightarrow> go_wp (f x) (\<lambda>_. I) (\<lambda>_. I) s"
  shows "go_wp (go_each f xs) (\<lambda>_. I) (\<lambda>_. I) s"
  using assms
proof (induction xs arbitrary: s)
  case Nil
  then show ?case by (simp add: go_wp_return)
next
  case (Cons x xs)
  have "go_wp (f x) (\<lambda>_. I) (\<lambda>_. I) s"
    using Cons.prems by simp
  then have "go_wp (f x) (\<lambda>_. go_wp (go_each f xs) (\<lambda>_. I) (\<lambda>_. I)) (\<lambda>_. I) s"
    by (rule go_wp_mono) (use Cons in auto)
  then show ?case by (simp add: go_wp_seq)
qed

lemma go_wp_concat_invariant:
  assumes "I s" and "\<And>x s. x \<in> set xs \<Longrightarrow> I s \<Longrightarrow> go_wp (f x) (\<lambda>_. I) (\<lambda>_. I) s"
  shows "go_wp (go_concat f xs) (\<lambda>_. I) (\<lambda>_. I) s"
  using assms
proof (induction xs arbitrary: s)
  case Nil
  then show ?case by (simp add: go_wp_return)
next
  case (Cons x xs)
  then have "go_wp (f x) (\<lambda>_. I) (\<lambda>_. I) s" by simp
  then show ?case
    by (auto simp: go_wp_return intro!: go_wp_bindI [where R = "\<lambda>_. I" and E' = "\<lambda>_. I"]
        Cons.IH Cons.prems(2))
qed

text \<open>A service call keeps the component's own state.\<close>

lemma go_wp_env_any:
  assumes "\<And>x w'. m w = (Inr x, w') \<Longrightarrow> Q x (s, w')" and "\<And>e w'. m w = (Inl e, w') \<Longrightarrow> E e (s, w')"
  shows "go_wp (go_env m) Q E (s, w)"
  using assms by (simp add: go_wp_env go_wp_any)

section \<open>Frames\<close>

text \<open>
  \<open>go_keeps f m\<close>: running \<open>m\<close> leaves the observation \<open>f\<close> of the state unchanged,
  whether it returns a result or an error.
\<close>

named_theorems go_keeps_rules "introduction rules of frames"

definition go_keeps :: "('s \<Rightarrow> 'o) \<Rightarrow> ('s, 'a) go \<Rightarrow> bool" where
  "go_keeps f m \<longleftrightarrow> (\<forall>s. f (snd (m s)) = f s)"

lemma go_keepsD: "go_keeps f m \<Longrightarrow> m s = (r, s') \<Longrightarrow> f s' = f s"
  unfolding go_keeps_def by (metis snd_conv)

lemma go_keeps_wp: "go_keeps f m \<Longrightarrow> go_wp m (\<lambda>_ s'. f s' = f s) (\<lambda>_ s'. f s' = f s) s"
  by (auto intro: go_wp_any dest: go_keepsD)

lemma go_keepsI:
  assumes "\<And>s. go_wp m (\<lambda>_ s'. f s' = f s) (\<lambda>_ s'. f s' = f s) s"
  shows "go_keeps f m"
  unfolding go_keeps_def
proof
  fix s
  obtain r s' where "m s = (r, s')" by (cases "m s")
  with assms [of s] show "f (snd (m s)) = f s" by (cases r) (simp_all add: go_wp_def)
qed

lemma go_keeps_wp_conj:
  assumes "go_keeps f m" and "go_wp m Q E s"
  shows "go_wp m (\<lambda>x s'. f s' = f s \<and> Q x s') (\<lambda>e s'. f s' = f s \<and> E e s') s"
  using assms go_keeps_wp [OF assms(1), of s] by (simp add: go_wp_conj)

lemma go_keeps_pair: "go_keeps f m \<Longrightarrow> go_keeps g m \<Longrightarrow> go_keeps (\<lambda>s. (f s, g s)) m"
  by (simp add: go_keeps_def)

lemma go_keeps_return [go_keeps_rules]: "go_keeps f (go_return x)"
  by (simp add: go_keeps_def go_return_def)

lemma go_keeps_throw [go_keeps_rules]: "go_keeps f (go_throw e)"
  by (simp add: go_keeps_def go_throw_def)

lemma go_keeps_bind [go_keeps_rules]:
  "go_keeps f m \<Longrightarrow> (\<And>x. go_keeps f (k x)) \<Longrightarrow> go_keeps f (go_bind m k)"
  by (simp add: go_keeps_def go_bind_def split: prod.split sum.split) (metis snd_conv)

lemma go_keeps_seq [go_keeps_rules]:
  "go_keeps f m \<Longrightarrow> go_keeps f n \<Longrightarrow> go_keeps f (go_seq m n)"
  by (simp add: go_seq_def go_keeps_bind)

lemma go_keeps_get [go_keeps_rules]: "go_keeps f (go_get g)"
  by (simp add: go_keeps_def go_get_def)

lemma go_keeps_require [go_keeps_rules]: "go_keeps f (go_require b e)"
  by (simp add: go_require_def go_keeps_return go_keeps_throw)

lemma go_keeps_try [go_keeps_rules]: "go_keeps f m \<Longrightarrow> go_keeps f (go_try m)"
  by (simp add: go_keeps_def go_try_def split: prod.split) (metis snd_conv)

lemma go_keeps_wrap [go_keeps_rules]: "go_keeps f m \<Longrightarrow> go_keeps f (go_wrap g m)"
  by (simp add: go_keeps_def go_wrap_def split: prod.split sum.split) (metis snd_conv)

lemma go_keeps_of [go_keeps_rules]: "go_keeps f (go_of r)"
  by (simp add: go_keeps_def go_of_def)

lemma go_keeps_each [go_keeps_rules]:
  "(\<And>x. go_keeps f (g x)) \<Longrightarrow> go_keeps f (go_each g xs)"
  by (induction xs) (simp_all add: go_keeps_return go_keeps_seq)

lemma go_keeps_concat [go_keeps_rules]:
  "(\<And>x. go_keeps f (g x)) \<Longrightarrow> go_keeps f (go_concat g xs)"
  by (induction xs) (simp_all add: go_keeps_bind go_keeps_return)

lemma go_keeps_if [go_keeps_rules]:
  "go_keeps f m \<Longrightarrow> go_keeps f n \<Longrightarrow> go_keeps f (if b then m else n)"
  by simp

lemma go_keeps_case_option [go_keeps_rules]:
  "go_keeps f m \<Longrightarrow> (\<And>y. go_keeps f (n y)) \<Longrightarrow> go_keeps f (case x of None \<Rightarrow> m | Some y \<Rightarrow> n y)"
  by (simp split: option.splits)

lemma go_keeps_case_sum [go_keeps_rules]:
  "(\<And>e. go_keeps f (m e)) \<Longrightarrow> (\<And>y. go_keeps f (n y)) \<Longrightarrow>
   go_keeps f (case x of Inl e \<Rightarrow> m e | Inr y \<Rightarrow> n y)"
  by (simp split: sum.splits)

lemma go_keeps_case_prod [go_keeps_rules]:
  "(\<And>a b. go_keeps f (m a b)) \<Longrightarrow> go_keeps f (case p of (a, b) \<Rightarrow> m a b)"
  by (simp split: prod.splits)

lemma go_keeps_case_list [go_keeps_rules]:
  "go_keeps f m \<Longrightarrow> (\<And>y ys. go_keeps f (n y ys)) \<Longrightarrow> go_keeps f (case x of [] \<Rightarrow> m | y # ys \<Rightarrow> n y ys)"
  by (simp split: list.splits)

lemma go_keeps_let [go_keeps_rules]: "(\<And>x. go_keeps f (m x)) \<Longrightarrow> go_keeps f (let x = a in m x)"
  by (simp add: Let_def)

lemma go_keeps_env_own [go_keeps_rules]: "go_keeps fst (go_env m)"
  by (simp add: go_keeps_def go_env_def split: prod.splits)

lemma go_keeps_own_env [go_keeps_rules]: "go_keeps snd (go_own m)"
  by (simp add: go_keeps_def go_own_def split: prod.splits)

lemma go_keeps_env_world [go_keeps_rules]:
  "go_keeps f m \<Longrightarrow> go_keeps (\<lambda>s. f (snd s)) (go_env m)"
  by (simp add: go_keeps_def go_env_def split: prod.splits) (metis snd_conv)

lemma go_keeps_fst_wp:
  assumes "go_keeps fst m" and "\<And>x w'. Q x (s, w')" and "\<And>e w'. E e (s, w')"
  shows "go_wp m Q E (s, w)"
proof (rule go_wp_any)
  fix x s' assume "m (s, w) = (Inr x, s')"
  with go_keepsD [OF assms(1) this] assms(2) show "Q x s'" by (cases s') simp
next
  fix e s' assume "m (s, w) = (Inl e, s')"
  with go_keepsD [OF assms(1) this] assms(3) show "E e s'" by (cases s') simp
qed

lemma go_keeps_comp: "go_keeps f m \<Longrightarrow> go_keeps (\<lambda>s. g (f s)) m"
  by (simp add: go_keeps_def)

text \<open>A step that keeps an observation, in a sequence whose errors only speak of it.\<close>

lemma go_wp_keep_bind:
  assumes "go_keeps f m" and "f s = c" and "\<And>x s'. f s' = c \<Longrightarrow> go_wp (k x) Q E s'"
    and "\<And>e s'. f s' = c \<Longrightarrow> E e s'"
  shows "go_wp (go_bind m k) Q E s"
  by (rule go_wp_bindI [OF go_keeps_wp [OF assms(1)]]) (simp_all add: assms)

lemma go_wp_keep_seq:
  assumes "go_keeps f m" and "f s = c" and "\<And>s'. f s' = c \<Longrightarrow> go_wp n Q E s'"
    and "\<And>e s'. f s' = c \<Longrightarrow> E e s'"
  shows "go_wp (go_seq m n) Q E s"
  unfolding go_seq_def by (rule go_wp_keep_bind [OF assms(1,2)]) (simp_all add: assms(3,4))

lemma go_require_Inr: "go_require b e s = (Inr x, s') \<Longrightarrow> b \<and> s' = s"
  by (simp add: go_require_def go_return_def go_throw_def split: if_splits)

lemma go_wrap_Inr [simp]: "go_wrap f m s = (Inr x, s') \<longleftrightarrow> m s = (Inr x, s')"
  by (auto simp: go_wrap_def split: prod.splits sum.splits)

lemma go_concat_append:
  "go_concat f (xs @ ys) = go_bind (go_concat f xs) (\<lambda>as. go_bind (go_concat f ys) (\<lambda>bs. go_return (as @ bs)))"
  by (induction xs) (simp_all add: go_bind_assoc)

lemma go_keeps_modify: "(\<And>s. f (g s) = f s) \<Longrightarrow> go_keeps f (go_modify g)"
  by (simp add: go_keeps_def go_modify_def)

section \<open>Invariants\<close>

text \<open>
  \<open>go_preserves P m\<close>: a state with \<open>P\<close> still has it after \<open>m\<close>, whether \<open>m\<close>
  returns a result or an error. A value read from the state is known to come from a state with
  \<open>P\<close>.
\<close>

named_theorems go_preserves_rules "introduction rules of invariants"

definition go_preserves :: "('s \<Rightarrow> bool) \<Rightarrow> ('s, 'a) go \<Rightarrow> bool" where
  "go_preserves P m \<longleftrightarrow> (\<forall>s. P s \<longrightarrow> P (snd (m s)))"

lemma go_preservesD: "go_preserves P m \<Longrightarrow> P s \<Longrightarrow> m s = (r, s') \<Longrightarrow> P s'"
  unfolding go_preserves_def by (metis snd_conv)

lemma go_preserves_wp: "go_preserves P m \<Longrightarrow> P s \<Longrightarrow> go_wp m (\<lambda>_. P) (\<lambda>_. P) s"
  by (auto intro: go_wp_any dest: go_preservesD)

lemma go_preservesI:
  assumes "\<And>s. P s \<Longrightarrow> go_wp m (\<lambda>_. P) (\<lambda>_. P) s"
  shows "go_preserves P m"
  unfolding go_preserves_def
proof (intro allI impI)
  fix s assume "P s"
  obtain r s' where "m s = (r, s')" by (cases "m s")
  with assms [OF \<open>P s\<close>] show "P (snd (m s))" by (cases r) (simp_all add: go_wp_def)
qed

lemma go_keeps_preserves: "go_keeps f m \<Longrightarrow> go_preserves (\<lambda>s. f s = c) m"
  by (simp add: go_keeps_def go_preserves_def)

lemma go_preserves_return [go_preserves_rules]: "go_preserves P (go_return x)"
  by (simp add: go_preserves_def go_return_def)

lemma go_preserves_throw [go_preserves_rules]: "go_preserves P (go_throw e)"
  by (simp add: go_preserves_def go_throw_def)

lemma go_preserves_of [go_preserves_rules]: "go_preserves P (go_of r)"
  by (simp add: go_preserves_def go_of_def)

lemma go_preserves_get [go_preserves_rules]: "go_preserves P (go_get g)"
  by (simp add: go_preserves_def go_get_def)

lemma go_preserves_require [go_preserves_rules]: "go_preserves P (go_require b e)"
  by (simp add: go_require_def go_preserves_return go_preserves_throw)

lemma go_preserves_modify [go_preserves_rules]: "(\<And>s. P s \<Longrightarrow> P (f s)) \<Longrightarrow> go_preserves P (go_modify f)"
  by (simp add: go_preserves_def go_modify_def)

lemma go_preserves_get_bind:
  "(\<And>s. P s \<Longrightarrow> go_preserves P (k (g s))) \<Longrightarrow> go_preserves P (go_bind (go_get g) k)"
  by (simp add: go_preserves_def go_bind_def go_get_def)

lemma go_preserves_bind:
  "go_preserves P m \<Longrightarrow> (\<And>x. go_preserves P (k x)) \<Longrightarrow> go_preserves P (go_bind m k)"
  by (simp add: go_preserves_def go_bind_def split: prod.split sum.split) (metis snd_conv)

lemma go_preserves_seq [go_preserves_rules]:
  "go_preserves P m \<Longrightarrow> go_preserves P n \<Longrightarrow> go_preserves P (go_seq m n)"
  by (simp add: go_seq_def go_preserves_bind)

lemma go_preserves_try [go_preserves_rules]: "go_preserves P m \<Longrightarrow> go_preserves P (go_try m)"
  by (simp add: go_preserves_def go_try_def split: prod.split) (metis snd_conv)

lemma go_preserves_wrap [go_preserves_rules]: "go_preserves P m \<Longrightarrow> go_preserves P (go_wrap g m)"
  by (simp add: go_preserves_def go_wrap_def split: prod.split sum.split) (metis snd_conv)

lemma go_preserves_each [go_preserves_rules]:
  "(\<And>x. x \<in> set xs \<Longrightarrow> go_preserves P (f x)) \<Longrightarrow> go_preserves P (go_each f xs)"
  by (induction xs) (simp_all add: go_preserves_return go_preserves_seq)

lemma go_preserves_if [go_preserves_rules]:
  "(b \<Longrightarrow> go_preserves P m) \<Longrightarrow> (\<not> b \<Longrightarrow> go_preserves P n) \<Longrightarrow> go_preserves P (if b then m else n)"
  by simp

lemma go_preserves_case_option [go_preserves_rules]:
  "(x = None \<Longrightarrow> go_preserves P m) \<Longrightarrow> (\<And>y. x = Some y \<Longrightarrow> go_preserves P (n y)) \<Longrightarrow>
   go_preserves P (case x of None \<Rightarrow> m | Some y \<Rightarrow> n y)"
  by (simp split: option.splits)

lemma go_preserves_case_sum [go_preserves_rules]:
  "(\<And>e. go_preserves P (m e)) \<Longrightarrow> (\<And>y. go_preserves P (n y)) \<Longrightarrow>
   go_preserves P (case x of Inl e \<Rightarrow> m e | Inr y \<Rightarrow> n y)"
  by (simp split: sum.splits)

lemma go_preserves_case_prod [go_preserves_rules]:
  "(\<And>a b. go_preserves P (m a b)) \<Longrightarrow> go_preserves P (case p of (a, b) \<Rightarrow> m a b)"
  by (simp split: prod.splits)

lemma go_preserves_let [go_preserves_rules]: "(\<And>x. go_preserves P (m x)) \<Longrightarrow> go_preserves P (let x = a in m x)"
  by (simp add: Let_def)

lemmas go_preserves_steps = go_preserves_get_bind go_preserves_bind go_preserves_rules

text \<open>A successful run, step by step.\<close>

named_theorems go_success "what a successful run of a combinator says of its parts"

lemma go_bind_success [go_success]:
  "go_bind m k s = (Inr y, s') \<longleftrightarrow> (\<exists>x t. m s = (Inr x, t) \<and> k x t = (Inr y, s'))"
  by (auto simp: go_bind_def split: prod.splits sum.splits)

lemma go_seq_success [go_success]:
  "go_seq m n s = (Inr y, s') \<longleftrightarrow> (\<exists>t. m s = (Inr (), t) \<and> n t = (Inr y, s'))"
  by (simp add: go_seq_def go_bind_success)

lemma go_step_success [go_success]:
  "go_return x s = (Inr y, s') \<longleftrightarrow> x = y \<and> s' = s"
  "go_throw e s = (Inr y, s') \<longleftrightarrow> False"
  "go_get f s = (Inr y, s') \<longleftrightarrow> y = f s \<and> s' = s"
  "go_require b e s = (Inr u, s') \<longleftrightarrow> b \<and> s' = s"
  "go_of r s = (Inr y, s') \<longleftrightarrow> r = Inr y \<and> s' = s"
  "go_try m s = (Inr r', s') \<longleftrightarrow> m s = (r', s')"
  "go_modify g s = (Inr u, s') \<longleftrightarrow> s' = g s"
  by (auto simp: go_return_def go_throw_def go_get_def go_require_def go_of_def go_try_def go_modify_def split: prod.splits)

lemma go_env_result [go_success]:
  "go_env m (s, w) = (r, (s', w')) \<longleftrightarrow> m w = (r, w') \<and> s' = s"
  by (auto simp: go_env_def split: prod.splits)

text \<open>\<open>go_same P m m'\<close>: from a state with \<open>P\<close> the two computations cannot be told apart.\<close>

definition go_same :: "('s \<Rightarrow> bool) \<Rightarrow> ('s, 'a) go \<Rightarrow> ('s, 'a) go \<Rightarrow> bool" where
  "go_same P m m' \<longleftrightarrow> (\<forall>s. P s \<longrightarrow> m s = m' s)"

lemma go_same_refl: "go_same P m m"
  by (simp add: go_same_def)

lemma go_same_bind:
  assumes "go_same P m m'" and "go_preserves P m'" and "\<And>x. go_same P (k x) (k' x)"
  shows "go_same P (go_bind m k) (go_bind m' k')"
  unfolding go_same_def
proof (intro allI impI)
  fix s assume s: "P s"
  show "go_bind m k s = go_bind m' k' s"
  proof (rule go_bind_at)
    show "m s = m' s" using assms(1) s by (simp add: go_same_def)
    fix x t assume "m' s = (Inr x, t)"
    then have "P t" by (rule go_preservesD [OF assms(2) s])
    then show "k x t = k' x t" using assms(3) by (simp add: go_same_def)
  qed
qed

lemma go_same_seq:
  "go_same P m m' \<Longrightarrow> go_preserves P m' \<Longrightarrow> go_same P n n' \<Longrightarrow> go_same P (go_seq m n) (go_seq m' n')"
  unfolding go_seq_def by (rule go_same_bind)

lemma go_same_if: "go_same P m m' \<Longrightarrow> go_same P n n' \<Longrightarrow> go_same P (if b then m else n) (if b then m' else n')"
  by simp

lemmas go_same_rules = go_same_seq go_same_bind go_same_if

section \<open>Go maps and sorted keys\<close>

type_synonym ('k, 'v) gomap = "('k \<times> 'v) list"

definition sort_Strings :: "string list \<Rightarrow> string list" where
  "sort_Strings xs = sort xs"

definition map_keys :: "('k :: linorder, 'v) gomap \<Rightarrow> 'k list" where
  "map_keys m = sort (remdups (map fst m))"

lemma set_map_keys [simp]: "set (map_keys m) = dom (map_of m)"
  by (simp add: map_keys_def dom_map_of_conv_image_fst)

lemma distinct_map_keys [simp]: "distinct (map_keys m)"
  by (simp add: map_keys_def)

lemma sorted_map_keys [simp]: "sorted (map_keys m)"
  by (simp add: map_keys_def)

lemma map_of_update [simp]: "map_of (AList.update k v m) = (map_of m)(k \<mapsto> v)"
  by (simp add: AList.update_conv')

lemma map_of_delete [simp]: "map_of (AList.delete k m) = (map_of m)(k := None)"
  by (simp add: AList.delete_conv')

lemma ran_update_new:
  "map_of m k = None \<Longrightarrow> ran (map_of (AList.update k v m)) = insert v (ran (map_of m))"
  by (simp only: map_of_update ran_map_upd)

lemma ran_delete:
  "map_of m k = Some v \<Longrightarrow> insert v (ran (map_of (AList.delete k m))) = ran (map_of m)"
  unfolding map_of_delete
  by (metis fun_upd_same fun_upd_triv fun_upd_upd ran_map_upd)

lemma set_map_filter: "set (List.map_filter f xs) = {y. \<exists>x \<in> set xs. f x = Some y}"
  by (induction xs) (auto simp: map_filter_def split: option.splits)

lemma map_of_eq_keys: "map_of m = map_of m' \<Longrightarrow> map_keys m = map_keys m'"
  by (simp add: map_keys_def sorted_list_of_set_sort_remdups [symmetric]
      dom_map_of_conv_image_fst [symmetric])

text \<open>\<open>len(m)\<close>\<close>

definition map_len :: "('k :: linorder, 'v) gomap \<Rightarrow> nat" where
  "map_len m = length (map_keys m)"

lemma map_len_card: "map_len m = card (dom (map_of m))"
proof -
  have "map_len m = card (set (map_keys m))"
    by (simp add: map_len_def distinct_card del: set_map_keys)
  then show ?thesis by simp
qed

end
