(* ===== verification/Go_Std.thy ===== *)
theory Go_Std
  imports Prelude
begin

text \<open>
  The parts of Go's standard library the sources call: \<open>strings\<close>, \<open>strconv\<close>,
  \<open>encoding/hex\<close>, \<open>net/netip\<close> and \<open>net\<close>. A Go string is its list of
  bytes, a \<^typ>\<open>string\<close>; comparison is bytewise, as Go's is.
\<close>

section \<open>Bytes and white space\<close>

abbreviation byte :: "char \<Rightarrow> nat" where
  "byte c \<equiv> of_char c"

text \<open>
  The UTF-8 encodings of the characters for which \<open>unicode.IsSpace\<close> holds: the ASCII ones,
  U+0085, U+00A0, U+1680, U+2000 to U+200A, U+2028, U+2029, U+202F, U+205F and U+3000.
  None of them is a proper prefix of another, and none can straddle the bytes of another
  character, so trimming runes and trimming these byte sequences agree, on invalid UTF-8 too.
\<close>

definition ascii_space :: "char \<Rightarrow> bool" where
  "ascii_space c \<longleftrightarrow> byte c \<in> {9, 10, 11, 12, 13, 32}"

fun space2 :: "nat \<Rightarrow> nat \<Rightarrow> bool" where
  "space2 a b \<longleftrightarrow> a = 194 \<and> (b = 133 \<or> b = 160)"

fun space3 :: "nat \<Rightarrow> nat \<Rightarrow> nat \<Rightarrow> bool" where
  "space3 a b c \<longleftrightarrow> (a = 225 \<and> b = 154 \<and> c = 128)
     \<or> (a = 226 \<and> b = 128 \<and> (128 \<le> c \<and> c \<le> 138 \<or> c = 168 \<or> c = 169 \<or> c = 175))
     \<or> (a = 226 \<and> b = 129 \<and> c = 159)
     \<or> (a = 227 \<and> b = 128 \<and> c = 128)"

text \<open>The number of bytes of white space at the front of a string: 0, 1, 2 or 3.\<close>

fun space_len :: "string \<Rightarrow> nat" where
  "space_len [] = 0"
| "space_len [a] = (if ascii_space a then 1 else 0)"
| "space_len [a, b] = (if ascii_space a then 1 else if space2 (byte a) (byte b) then 2 else 0)"
| "space_len (a # b # c # cs) = (if ascii_space a then 1
     else if space2 (byte a) (byte b) then 2
     else if space3 (byte a) (byte b) (byte c) then 3 else 0)"

text \<open>The same at the back, on the reversed string.\<close>

fun space_len_rev :: "string \<Rightarrow> nat" where
  "space_len_rev [] = 0"
| "space_len_rev [a] = (if ascii_space a then 1 else 0)"
| "space_len_rev [b, a] = (if ascii_space b then 1 else if space2 (byte a) (byte b) then 2 else 0)"
| "space_len_rev (c # b # a # cs) = (if ascii_space c then 1
     else if space2 (byte b) (byte c) then 2
     else if space3 (byte a) (byte b) (byte c) then 3 else 0)"

lemma space_len_le: "space_len s \<le> length s"
  by (induction s rule: space_len.induct) auto

lemma space_len_rev_le: "space_len_rev s \<le> length s"
  by (induction s rule: space_len_rev.induct) auto

function trim_front :: "string \<Rightarrow> string" where
  "trim_front s = (if space_len s = 0 then s else trim_front (drop (space_len s) s))"
  by pat_completeness auto
termination
proof (relation "measure length", goal_cases)
  case (2 s)
  then show ?case using space_len_le [of s] by (cases s) auto
qed simp

function trim_back_rev :: "string \<Rightarrow> string" where
  "trim_back_rev s = (if space_len_rev s = 0 then s else trim_back_rev (drop (space_len_rev s) s))"
  by pat_completeness auto
termination
proof (relation "measure length", goal_cases)
  case (2 s)
  then show ?case using space_len_rev_le [of s] by (cases s) auto
qed simp

declare trim_front.simps [simp del] trim_back_rev.simps [simp del]

definition TrimSpace :: "string \<Rightarrow> string" where
  "TrimSpace s = rev (trim_back_rev (rev (trim_front s)))"

lemma trim_front_fixed: "space_len (trim_front s) = 0"
proof (induction s rule: trim_front.induct)
  case (1 s)
  then show ?case by (cases "space_len s = 0") (simp_all add: trim_front.simps [of s])
qed

lemma trim_back_rev_fixed: "space_len_rev (trim_back_rev s) = 0"
proof (induction s rule: trim_back_rev.induct)
  case (1 s)
  then show ?case by (cases "space_len_rev s = 0") (simp_all add: trim_back_rev.simps [of s])
qed

lemma trim_back_rev_drop: "\<exists>n. trim_back_rev s = drop n s"
proof (induction s rule: trim_back_rev.induct)
  case (1 s)
  show ?case
  proof (cases "space_len_rev s = 0")
    case True
    then have "trim_back_rev s = drop 0 s" by (simp add: trim_back_rev.simps [of s])
    then show ?thesis by blast
  next
    case False
    with 1 obtain n where "trim_back_rev (drop (space_len_rev s) s) = drop n (drop (space_len_rev s) s)"
      by blast
    with False show ?thesis by (auto simp: trim_back_rev.simps [of s])
  qed
qed

text \<open>A shorter string can only lose white space at its front, never gain it.\<close>

lemma space_len_take_0: "space_len s = 0 \<Longrightarrow> space_len (take n s) = 0"
proof (induction s rule: space_len.induct)
  case (4 a b c cs)
  consider "n = 0" | "n = 1" | "n = 2" | m where "n = Suc (Suc (Suc m))"
    by (metis One_nat_def Suc_1 not0_implies_Suc)
  then show ?case using 4 by cases (auto simp: numeral_2_eq_2 split: if_splits)
next
  case (3 a b)
  consider "n = 0" | "n = 1" | m where "n = Suc (Suc m)"
    by (metis One_nat_def not0_implies_Suc)
  then show ?case using 3 by cases (auto split: if_splits)
next
  case (2 a)
  then show ?case by (cases n) auto
qed simp

lemma TrimSpace_idem [simp]: "TrimSpace (TrimSpace s) = TrimSpace s"
proof -
  obtain n where n: "trim_back_rev (rev (trim_front s)) = drop n (rev (trim_front s))"
    using trim_back_rev_drop by blast
  then have "TrimSpace s = take (length (trim_front s) - n) (trim_front s)"
    by (simp add: TrimSpace_def rev_drop)
  then have "space_len (TrimSpace s) = 0"
    using space_len_take_0 [OF trim_front_fixed] by simp
  then have f: "trim_front (TrimSpace s) = TrimSpace s"
    by (simp add: trim_front.simps)
  have "space_len_rev (rev (TrimSpace s)) = 0"
    by (simp add: TrimSpace_def trim_back_rev_fixed)
  then have "trim_back_rev (rev (TrimSpace s)) = rev (TrimSpace s)"
    by (simp add: trim_back_rev.simps)
  with f show ?thesis by (simp add: TrimSpace_def)
qed

lemma TrimSpace_Nil [simp]: "TrimSpace [] = []"
  by (simp add: TrimSpace_def trim_front.simps trim_back_rev.simps)

text \<open>A trimmed value and its source name the same thing; the guards of the sources compare
  a value with its trimmed form.\<close>

definition trimmed :: "string \<Rightarrow> bool" where
  "trimmed s \<longleftrightarrow> TrimSpace s = s"

lemma trimmed_TrimSpace [simp]: "trimmed (TrimSpace s)"
  by (simp add: trimmed_def)

section \<open>The strings package\<close>

function Fields_from :: "string \<Rightarrow> string \<Rightarrow> string list" where
  "Fields_from acc s = (case s of
     [] \<Rightarrow> (if acc = [] then [] else [rev acc])
   | c # cs \<Rightarrow> (if space_len s = 0 then Fields_from (c # acc) cs
       else (if acc = [] then [] else [rev acc]) @ Fields_from [] (drop (space_len s) s)))"
  by pat_completeness auto
termination
  by (relation "measure (\<lambda>(acc, s). length s)") auto

declare Fields_from.simps [simp del]

definition Fields :: "string \<Rightarrow> string list" where
  "Fields s = Fields_from [] s"

fun split_on :: "char \<Rightarrow> string \<Rightarrow> string list" where
  "split_on d [] = [[]]"
| "split_on d (c # cs) = (if c = d then [] # split_on d cs
     else (case split_on d cs of [] \<Rightarrow> [[c]] | p # ps \<Rightarrow> (c # p) # ps))"

lemma split_on_not_Nil [simp]: "split_on d s \<noteq> []"
  by (induction s) (auto split: list.splits)

fun Join :: "string list \<Rightarrow> string \<Rightarrow> string" where
  "Join [] sep = []"
| "Join [x] sep = x"
| "Join (x # y # xs) sep = x @ sep @ Join (y # xs) sep"

lemma Join_Cons_char: "Join ((c # p) # ps) sep = c # Join (p # ps) sep"
  by (cases ps) simp_all

lemma Join_split_on: "Join (split_on d s) [d] = s"
proof (induction s)
  case (Cons c cs)
  then show ?case by (cases "split_on d cs") (auto simp: Join_Cons_char)
qed simp

fun HasPrefix :: "string \<Rightarrow> string \<Rightarrow> bool" where
  "HasPrefix s [] = True"
| "HasPrefix [] (p # ps) = False"
| "HasPrefix (c # cs) (p # ps) = (c = p \<and> HasPrefix cs ps)"

fun Contains :: "string \<Rightarrow> string \<Rightarrow> bool" where
  "Contains [] p = (p = [])"
| "Contains (c # cs) p = (HasPrefix (c # cs) p \<or> Contains cs p)"

definition ContainsAny :: "string \<Rightarrow> string \<Rightarrow> bool" where
  "ContainsAny s chars = list_ex (\<lambda>c. c \<in> set chars) s"

definition TrimPrefix :: "string \<Rightarrow> string \<Rightarrow> string" where
  "TrimPrefix s p = (if HasPrefix s p then drop (length p) s else s)"

text \<open>
  The rest of the input of a JSON decoder after one value: a second \<open>Decode\<close> reports
  \<open>io.EOF\<close> when only white space is left.
\<close>

definition json_EOF :: "string \<Rightarrow> bool" where
  "json_EOF rest = list_all (\<lambda>c. byte c \<in> {9, 10, 13, 32}) rest"

text \<open>
  \<open>filepath.Join(dir, name)\<close> for an absolute \<open>dir\<close>: the joined path without empty and
  \<open>.\<close> components, \<open>..\<close> removing the component before it.
\<close>

definition clean_step :: "string \<Rightarrow> string list \<Rightarrow> string list" where
  "clean_step part parts = (if part = [] \<or> part = ''.'' then parts
     else if part = ''..'' then butlast parts else parts @ [part])"

definition filepath_Join :: "string \<Rightarrow> string \<Rightarrow> string" where
  "filepath_Join dir name =
     ''/'' @ Join (fold clean_step (split_on CHR ''/'' (dir @ ''/'' @ name)) []) ''/''"

definition IsAbs :: "string \<Rightarrow> bool" where
  "IsAbs path = HasPrefix path ''/''"

definition lower_char :: "char \<Rightarrow> char" where
  "lower_char c = (if 65 \<le> byte c \<and> byte c \<le> 90 then char_of (byte c + 32) else c)"

text \<open>\<open>strings.ToLower\<close> on the ASCII texts (hex digests, MAC addresses) it is applied to.\<close>

definition ToLower :: "string \<Rightarrow> string" where
  "ToLower s = map lower_char s"

section \<open>Numbers in text\<close>

definition digit :: "char \<Rightarrow> nat option" where
  "digit c = (if 48 \<le> byte c \<and> byte c \<le> 57 then Some (byte c - 48) else None)"

definition hex_digit :: "char \<Rightarrow> nat option" where
  "hex_digit c = (let b = byte c in
     if 48 \<le> b \<and> b \<le> 57 then Some (b - 48)
     else if 97 \<le> b \<and> b \<le> 102 then Some (b - 87)
     else if 65 \<le> b \<and> b \<le> 70 then Some (b - 55) else None)"

definition digit_char :: "nat \<Rightarrow> char" where
  "digit_char d = (if d < 10 then char_of (d + 48) else char_of (d + 87))"

fun number_from :: "(char \<Rightarrow> nat option) \<Rightarrow> nat \<Rightarrow> nat \<Rightarrow> string \<Rightarrow> nat option" where
  "number_from dig base acc [] = Some acc"
| "number_from dig base acc (c # cs) =
     (case dig c of None \<Rightarrow> None | Some d \<Rightarrow> number_from dig base (acc * base + d) cs)"

text \<open>A non-empty run of digits and nothing else.\<close>

definition parse_decimal :: "string \<Rightarrow> nat option" where
  "parse_decimal s = (if s = [] then None else number_from digit 10 0 s)"

definition parse_hex :: "string \<Rightarrow> nat option" where
  "parse_hex s = (if s = [] then None else number_from hex_digit 16 0 s)"

fun digits_of :: "nat \<Rightarrow> nat \<Rightarrow> string" where
  "digits_of base n = (if base < 2 \<or> n < base then [digit_char n]
     else digits_of base (n div base) @ [digit_char (n mod base)])"

declare digits_of.simps [simp del]

definition FormatUint :: "nat \<Rightarrow> string" where
  "FormatUint n = digits_of 10 n"

definition FormatHex :: "nat \<Rightarrow> string" where
  "FormatHex n = digits_of 16 n"

definition hex_byte :: "8 word \<Rightarrow> string" where
  "hex_byte b = [digit_char (unat b div 16), digit_char (unat b mod 16)]"

lemma number_from_append:
  "number_from dig base acc (xs @ ys) =
   Option.bind (number_from dig base acc xs) (\<lambda>a. number_from dig base a ys)"
  by (induction xs arbitrary: acc) (auto split: option.splits)

lemma digit_digit_char: "d < 10 \<Longrightarrow> digit (digit_char d) = Some d"
  by (simp add: digit_def digit_char_def)

lemma digits_of_not_Nil [simp]: "digits_of base n \<noteq> []"
  by (simp add: digits_of.simps)

lemma number_from_digits: "number_from digit 10 0 (digits_of 10 n) = Some n"
proof (induction n rule: less_induct)
  case (less n)
  show ?case
  proof (cases "n < 10")
    case True
    then show ?thesis by (simp add: digits_of.simps digit_digit_char)
  next
    case False
    then have "number_from digit 10 0 (digits_of 10 (n div 10)) = Some (n div 10)"
      using less by simp
    with False show ?thesis
      by (subst digits_of.simps) (simp add: number_from_append digit_digit_char)
  qed
qed

lemma parse_decimal_FormatUint [simp]: "parse_decimal (FormatUint n) = Some n"
  by (simp add: parse_decimal_def FormatUint_def number_from_digits)

lemma FormatUint_inj: "FormatUint m = FormatUint n \<longleftrightarrow> m = n"
  by (metis option.inject parse_decimal_FormatUint)

section \<open>IP addresses\<close>

text \<open>
  \<open>netip.Addr\<close>: four bytes, or eight 16-bit groups with a zone. The zero value
  \<open>netip.Addr{}\<close> is \<^const>\<open>None\<close> of \<open>Addr option\<close> where the sources use it.
\<close>

datatype Addr = V4 "8 word" "8 word" "8 word" "8 word" | V6 "16 word list" string

definition octet :: "string \<Rightarrow> 8 word option" where
  "octet s = (case parse_decimal s of
     Some n \<Rightarrow> (if n \<le> 255 \<and> (length s = 1 \<or> hd s \<noteq> CHR ''0'') then Some (of_nat n) else None)
   | None \<Rightarrow> None)"

fun parseIPv4 :: "string \<Rightarrow> Addr option" where
  "parseIPv4 s = (case map octet (split_on CHR ''.'' s) of
     [Some a, Some b, Some c, Some d] \<Rightarrow> Some (V4 a b c d) | _ \<Rightarrow> None)"

text \<open>
  \<open>parseIPv6\<close> reads up to eight groups. \<open>n\<close> counts the groups that still fit,
  \<open>acc\<close> holds those read and \<open>ell\<close> the position of an ellipsis.
\<close>

fun v6_groups :: "nat \<Rightarrow> nat list \<Rightarrow> nat option \<Rightarrow> string \<Rightarrow> (nat list \<times> nat option) option" where
  "v6_groups 0 acc ell s = (if s = [] then Some (acc, ell) else None)"
| "v6_groups (Suc n) acc ell s =
     (let ds = takeWhile (\<lambda>c. hex_digit c \<noteq> None) s; rest = dropWhile (\<lambda>c. hex_digit c \<noteq> None) s
      in if ds = [] \<or> 4 < length ds then None
      else if rest \<noteq> [] \<and> hd rest = CHR ''.'' then
        (if (ell = None \<and> length acc \<noteq> 6) \<or> n = 0 then None
         else (case parseIPv4 s of
             Some (V4 a b c d) \<Rightarrow>
               Some (acc @ [unat a * 256 + unat b, unat c * 256 + unat d], ell)
           | _ \<Rightarrow> None))
      else (let acc' = acc @ [the (parse_hex ds)] in
        case rest of
          [] \<Rightarrow> Some (acc', ell)
        | c # cs \<Rightarrow>
          (if c \<noteq> CHR '':'' \<or> cs = [] then None
           else if hd cs = CHR '':'' then
             (if ell \<noteq> None then None
              else if tl cs = [] then Some (acc', Some (length acc'))
              else v6_groups n acc' (Some (length acc')) (tl cs))
           else v6_groups n acc' ell cs)))"

fun v6_expand :: "nat list \<times> nat option \<Rightarrow> nat list option" where
  "v6_expand (gs, ell) = (if length gs < 8
     then (case ell of None \<Rightarrow> None
       | Some e \<Rightarrow> Some (take e gs @ replicate (8 - length gs) 0 @ drop e gs))
     else if ell \<noteq> None then None else Some gs)"

definition parseIPv6 :: "string \<Rightarrow> Addr option" where
  "parseIPv6 s = (let body = takeWhile (\<lambda>c. c \<noteq> CHR ''%'') s;
       tail = dropWhile (\<lambda>c. c \<noteq> CHR ''%'') s; zone = tl tail
     in if tail \<noteq> [] \<and> zone = [] then None
     else if body = ''::'' then Some (V6 (replicate 8 0) zone)
     else (let groups = (if HasPrefix body ''::'' then v6_groups 8 [] (Some 0) (drop 2 body)
                         else v6_groups 8 [] None body)
       in map_option (\<lambda>gs. V6 (map of_nat gs) zone) (Option.bind groups v6_expand)))"

definition ParseAddr :: "string \<Rightarrow> Addr option" where
  "ParseAddr s = (case find (\<lambda>c. c = CHR ''.'' \<or> c = CHR '':'' \<or> c = CHR ''%'') s of
     None \<Rightarrow> None
   | Some c \<Rightarrow> (if c = CHR ''.'' then parseIPv4 s
       else if c = CHR '':'' then parseIPv6 s else None))"

definition Is4 :: "Addr \<Rightarrow> bool" where
  "Is4 a = (case a of V4 _ _ _ _ \<Rightarrow> True | _ \<Rightarrow> False)"

definition Is6 :: "Addr \<Rightarrow> bool" where
  "Is6 a = (case a of V6 _ _ \<Rightarrow> True | _ \<Rightarrow> False)"

definition zone_of :: "Addr \<Rightarrow> string" where
  "zone_of a = (case a of V6 _ z \<Rightarrow> z | _ \<Rightarrow> [])"

text \<open>An IPv4-mapped IPv6 address read as IPv4 (its zone dropped, as \<open>Unmap\<close> does).\<close>

definition Unmap :: "Addr \<Rightarrow> Addr" where
  "Unmap a = (case a of
     V6 [g0, g1, g2, g3, g4, g5, g6, g7] z \<Rightarrow>
       (if g0 = 0 \<and> g1 = 0 \<and> g2 = 0 \<and> g3 = 0 \<and> g4 = 0 \<and> g5 = 65535
        then V4 (of_nat (unat g6 div 256)) (of_nat (unat g6 mod 256))
               (of_nat (unat g7 div 256)) (of_nat (unat g7 mod 256))
        else a)
   | _ \<Rightarrow> a)"

definition IsUnspecified :: "Addr \<Rightarrow> bool" where
  "IsUnspecified a \<longleftrightarrow> a = V4 0 0 0 0 \<or> a = V6 (replicate 8 0) []"

definition IsMulticast :: "Addr \<Rightarrow> bool" where
  "IsMulticast a = (case Unmap a of V4 b _ _ _ \<Rightarrow> unat b div 16 = 14
     | V6 gs _ \<Rightarrow> gs \<noteq> [] \<and> unat (hd gs) div 256 = 255)"

definition IsLoopback :: "Addr \<Rightarrow> bool" where
  "IsLoopback a = (case Unmap a of V4 b _ _ _ \<Rightarrow> b = 127
     | V6 gs _ \<Rightarrow> gs = replicate 7 0 @ [1])"

definition IsLinkLocalUnicast :: "Addr \<Rightarrow> bool" where
  "IsLinkLocalUnicast a = (case Unmap a of V4 b c _ _ \<Rightarrow> b = 169 \<and> c = 254
     | V6 gs _ \<Rightarrow> gs \<noteq> [] \<and> unat (hd gs) div 64 = 1018)"

definition IsGlobalUnicast :: "Addr \<Rightarrow> bool" where
  "IsGlobalUnicast a = (let u = Unmap a in
     u \<noteq> V4 0 0 0 0 \<and> u \<noteq> V4 255 255 255 255 \<and> u \<noteq> V6 (replicate 8 0) [] \<and>
     \<not> IsLoopback u \<and> \<not> IsMulticast u \<and> \<not> IsLinkLocalUnicast u)"

definition string4 :: "8 word \<Rightarrow> 8 word \<Rightarrow> 8 word \<Rightarrow> 8 word \<Rightarrow> string" where
  "string4 a b c d = Join (map (FormatUint \<circ> unat) [a, b, c, d]) ''.''"

text \<open>The first longest run of at least two zero groups: its start and length.\<close>

fun zero_run :: "16 word list \<Rightarrow> nat \<Rightarrow> nat \<times> nat \<Rightarrow> nat \<times> nat" where
  "zero_run [] i best = best"
| "zero_run (g # gs) i best =
     (let l = length (takeWhile (\<lambda>x. x = 0) (g # gs))
      in zero_run gs (Suc i) (if 2 \<le> l \<and> snd best < l then (i, l) else best))"

definition string6 :: "16 word list \<Rightarrow> string" where
  "string6 gs = (let hs = map (FormatHex \<circ> unat) gs in
     case zero_run gs 0 (0, 0) of (st, len) \<Rightarrow>
       if len = 0 then Join hs '':''
       else Join (take st hs) '':'' @ ''::'' @ Join (drop (st + len) hs) '':'')"

definition Addr_String :: "Addr \<Rightarrow> string" where
  "Addr_String a = (case a of
     V4 a b c d \<Rightarrow> string4 a b c d
   | V6 gs z \<Rightarrow> (case Unmap a of
        V4 a b c d \<Rightarrow> ''::ffff:'' @ string4 a b c d
      | _ \<Rightarrow> string6 gs) @ (if z = [] then [] else CHR ''%'' # z))"

text \<open>
  \<open>net.IP\<close> is the 16-byte form, in which IPv4 and IPv4-mapped addresses coincide; it is
  represented by the unmapped address. \<open>net.IP.String\<close> then is \<open>Addr_String\<close>.
\<close>

definition ParseIP :: "string \<Rightarrow> Addr option" where
  "ParseIP s = (case ParseAddr s of
     Some a \<Rightarrow> (if zone_of a = [] then Some (Unmap a) else None) | None \<Rightarrow> None)"

definition ParseCIDR :: "string \<Rightarrow> Addr option" where
  "ParseCIDR s = (let addr = takeWhile (\<lambda>c. c \<noteq> CHR ''/'') s;
       rest = dropWhile (\<lambda>c. c \<noteq> CHR ''/'') s
     in if rest = [] then None
     else (case ParseAddr addr of
         None \<Rightarrow> None
       | Some a \<Rightarrow> (case parse_decimal (tl rest) of
           None \<Rightarrow> None
         | Some n \<Rightarrow> (if zone_of a = [] \<and> n \<le> (if Is4 a then 32 else 128)
             then Some (Unmap a) else None))))"

section \<open>Hardware addresses\<close>

type_synonym HardwareAddr = "8 word list"

definition xtoi2 :: "char \<Rightarrow> char \<Rightarrow> 8 word option" where
  "xtoi2 a b = map_option of_nat (parse_hex [a, b])"

fun mac_pairs :: "char \<Rightarrow> string \<Rightarrow> HardwareAddr option" where
  "mac_pairs sep [a, b] = map_option (\<lambda>x. [x]) (xtoi2 a b)"
| "mac_pairs sep (a # b # c # cs) = (if c \<noteq> sep then None
     else (case (xtoi2 a b, mac_pairs sep cs) of
        (Some x, Some xs) \<Rightarrow> Some (x # xs) | _ \<Rightarrow> None))"
| "mac_pairs sep _ = None"

fun mac_quads :: "string \<Rightarrow> HardwareAddr option" where
  "mac_quads [a, b, c, d] = (case (xtoi2 a b, xtoi2 c d) of
     (Some x, Some y) \<Rightarrow> Some [x, y] | _ \<Rightarrow> None)"
| "mac_quads (a # b # c # d # e # cs) = (if e \<noteq> CHR ''.'' then None
     else (case (xtoi2 a b, xtoi2 c d, mac_quads cs) of
        (Some x, Some y, Some xs) \<Rightarrow> Some (x # y # xs) | _ \<Rightarrow> None))"
| "mac_quads _ = None"

definition ParseMAC :: "string \<Rightarrow> HardwareAddr option" where
  "ParseMAC s = (if length s < 14 then None
     else if s ! 2 = CHR '':'' \<or> s ! 2 = CHR ''-'' then
       (if (length s + 1) mod 3 = 0 \<and> (length s + 1) div 3 \<in> {6, 8, 20}
        then mac_pairs (s ! 2) s else None)
     else if s ! 4 = CHR ''.'' then
       (if (length s + 1) mod 5 = 0 \<and> 2 * ((length s + 1) div 5) \<in> {6, 8, 20}
        then mac_quads s else None)
     else None)"

definition HardwareAddr_String :: "HardwareAddr \<Rightarrow> string" where
  "HardwareAddr_String hw = Join (map hex_byte hw) '':''"

end
