(* ===== verification/Ownership_Journal.thy ===== *)
theory Ownership_Journal
  imports Go_Std
begin

text \<open>
  \<open>pkg/ownership/journal.go\<close>: the durable write-ahead journal behind every recovery. A
  journal holds one record (state, sequence number, at most one pending intent) in a file that
  is replaced atomically, and a lock on a file that is never replaced. System calls
  (\<open>golang.org/x/sys/unix\<close>), the JSON codec, SHA-256 and \<open>github.com/google/uuid\<close>
  are arguments: the records \<open>posix\<close> and \<open>codec\<close>.
\<close>

unbundle bit_operations_syntax

section \<open>The environment of a journal\<close>

type_synonym fd = nat

datatype oflag = O_RDONLY | O_WRONLY | O_RDWR | O_CREAT | O_EXCL | O_NOFOLLOW | O_CLOEXEC
  | O_NONBLOCK | O_DIRECTORY

record stat_t =
  st_dev :: nat
  st_ino :: nat
  st_mode :: "32 word"
  st_uid :: nat
  st_nlink :: nat

record 'w posix =
  px_Geteuid :: "'w \<Rightarrow> nat"
  px_OpenRoot :: "('w, fd) go"
  px_Openat :: "fd \<Rightarrow> string \<Rightarrow> oflag list \<Rightarrow> 32 word \<Rightarrow> ('w, fd) go"
  px_Mkdirat :: "fd \<Rightarrow> string \<Rightarrow> 32 word \<Rightarrow> ('w, unit) go"
  px_Fsync :: "fd \<Rightarrow> ('w, unit) go"
  px_Fstat :: "fd \<Rightarrow> ('w, stat_t) go"
  px_Fstatat :: "fd \<Rightarrow> string \<Rightarrow> ('w, stat_t) go"
  px_Flock :: "fd \<Rightarrow> ('w, unit) go"
  px_Write :: "fd \<Rightarrow> string \<Rightarrow> ('w, unit) go"
  px_ReadAll :: "fd \<Rightarrow> int \<Rightarrow> ('w, string) go"
  px_Close :: "fd \<Rightarrow> ('w, unit) go"
  px_Renameat :: "fd \<Rightarrow> string \<Rightarrow> string \<Rightarrow> ('w, unit) go"
  px_Unlinkat :: "fd \<Rightarrow> string \<Rightarrow> ('w, unit) go"
  px_NewUUID :: "('w, string) go"

definition ENOENT :: go_error where "ENOENT = errors_New ''ENOENT''"
definition EEXIST :: go_error where "EEXIST = errors_New ''EEXIST''"
definition ErrBlocked :: go_error where "ErrBlocked = errors_New ''RECOVERY_BLOCKED''"

abbreviation Blocked :: "string \<Rightarrow> go_error" where
  "Blocked msg \<equiv> Errorf msg [ErrBlocked]"

record Domain =
  d_InstallationUID :: string
  d_NodeUID :: string
  d_BootID :: string
  d_NetworkNamespace :: string
  d_ConfigDigest :: string

record Intent =
  in_Sequence :: "64 word"
  in_Operation :: string
  in_Payload :: string

record journal_record =
  jr_Version :: int
  jr_Domain :: Domain
  jr_Sequence :: "64 word"
  jr_State :: string
  jr_Pending :: "Intent option"

text \<open>\<open>json.Marshal\<close> and the strict decoder on the two JSON types, and the digest.\<close>

record codec =
  cd_MarshalRecord :: "journal_record \<Rightarrow> string option"
  cd_DecodeRecord :: "string \<Rightarrow> journal_record option"
  cd_MarshalEnvelope :: "string \<Rightarrow> string \<Rightarrow> string option"
  cd_DecodeEnvelope :: "string \<Rightarrow> (string \<times> string) option"
  cd_SHA256Hex :: "string \<Rightarrow> string"
  cd_ParseUUID :: "string \<Rightarrow> string option"

definition uuid_Nil :: string where
  "uuid_Nil = ''00000000-0000-0000-0000-000000000000''"

record 'w journal_env =
  je_posix :: "'w posix"
  je_codec :: codec
  je_fault :: "(string \<Rightarrow> ('w, unit) go) option"

definition journalVersion :: int where "journalVersion = 1"
definition maxJournalSize :: int where "maxJournalSize = 4194304"
definition lockName :: string where "lockName = ''owner.lock''"
definition journalName :: string where "journalName = ''journal.json''"

definition hex_decoded_length :: "string \<Rightarrow> nat option" where
  "hex_decoded_length s = (if even (length s) \<and> list_all (\<lambda>c. hex_digit c \<noteq> None) s
     then Some (length s div 2) else None)"

definition Domain_validate :: "codec \<Rightarrow> Domain \<Rightarrow> go_error + unit" where
  "Domain_validate cd d =
    (if list_ex (\<lambda>v. case cd_ParseUUID cd v of None \<Rightarrow> True | Some i \<Rightarrow> i = uuid_Nil)
        [d_InstallationUID d, d_NodeUID d, d_BootID d]
     then Inl (errors_New ''installation, node and boot UUIDs are required'')
     else if TrimSpace (d_NetworkNamespace d) = []
        \<or> d_NetworkNamespace d \<noteq> TrimSpace (d_NetworkNamespace d)
     then Inl (errors_New ''network namespace identity required'')
     else if hex_decoded_length (d_ConfigDigest d) \<noteq> Some 32
        \<or> ToLower (d_ConfigDigest d) \<noteq> d_ConfigDigest d
     then Inl (errors_New ''configuration SHA-256 required'')
     else Inr ())"

section \<open>Files and directories\<close>

definition secureFile :: "'w posix \<Rightarrow> fd \<Rightarrow> ('w, unit) go" where
  "secureFile px f =
     go_bind (px_Fstat px f) (\<lambda>s.
     go_require (\<not> (st_mode s AND 61440 \<noteq> 32768 \<or> st_uid s \<noteq> 0 \<or>
                    st_mode s AND 4095 \<noteq> 384 \<or> st_nlink s \<noteq> 1))
       (errors_New ''expected a single-link root-owned regular file mode 0600''))"

text \<open>
  An absolute path equals its \<open>filepath.Clean\<close> exactly when no component is empty,
  \<open>.\<close> or \<open>..\<close>.
\<close>

definition clean_absolute :: "string \<Rightarrow> bool" where
  "clean_absolute path \<longleftrightarrow> HasPrefix path ''/'' \<and>
     (path = ''/'' \<or> (\<forall>c \<in> set (split_on CHR ''/'' (tl path)). c \<notin> {[], ''.'', ''..''}))"

fun open_parts :: "'w posix \<Rightarrow> bool \<Rightarrow> string list \<Rightarrow> fd \<Rightarrow> bool \<Rightarrow> ('w, fd \<times> bool) go" where
  "open_parts px create [] fd created = go_return (fd, created)"
| "open_parts px create (part # parts) fd created =
     (let final = (parts = []); flags = [O_RDONLY, O_DIRECTORY, O_NOFOLLOW, O_CLOEXEC] in
      go_bind (go_try (px_Openat px fd part flags 0)) (\<lambda>opened.
      go_bind (case opened of
          Inr next \<Rightarrow> go_return (Inr next, created)
        | Inl openErr \<Rightarrow>
            if errors_Is openErr ENOENT \<and> create \<and> final then
              go_bind (go_try (px_Mkdirat px fd part 448)) (\<lambda>made.
              case made of
                Inl err \<Rightarrow> go_bind (go_try (px_Close px fd)) (\<lambda>_. go_throw err)
              | Inr _ \<Rightarrow>
                  go_bind (go_try (px_Fsync px fd)) (\<lambda>synced.
                  case synced of
                    Inl err \<Rightarrow> go_bind (go_try (px_Close px fd)) (\<lambda>_. go_throw err)
                  | Inr _ \<Rightarrow>
                      go_bind (go_try (px_Openat px fd part flags 0)) (\<lambda>again.
                      go_return (again, True))))
            else go_return (Inl openErr, created)) (\<lambda>(result, created').
      go_bind (go_try (px_Close px fd)) (\<lambda>_.
      go_bind (go_of result) (\<lambda>next.
      go_bind (go_try (px_Fstat px next)) (\<lambda>st.
      case st of
        Inl err \<Rightarrow> go_bind (go_try (px_Close px next)) (\<lambda>_. go_throw err)
      | Inr s \<Rightarrow>
          if st_uid s \<noteq> 0 \<or> (\<not> final \<and> st_mode s AND 18 \<noteq> 0 \<and> st_mode s AND 512 = 0)
             \<or> (final \<and> st_mode s AND 4095 \<noteq> 448)
          then go_bind (go_try (px_Close px next)) (\<lambda>_. go_throw
            (errors_New ''unsafe ownership/permissions on journal path component %q''))
          else open_parts px create parts next created'))))))"

definition openDirectory :: "'w posix \<Rightarrow> string \<Rightarrow> bool \<Rightarrow> ('w, fd \<times> bool) go" where
  "openDirectory px path create =
     go_seq (go_require (clean_absolute path \<and> path \<noteq> ''/'')
       (errors_New ''explicit clean absolute journal directory required''))
     (go_bind (px_OpenRoot px) (\<lambda>root.
      open_parts px create (split_on CHR ''/'' (tl path)) root False))"

section \<open>The journal\<close>

record Journal =
  j_dir :: "fd \<times> string"
  j_lock :: "fd option"
  j_record :: journal_record
  j_blocked :: "go_error option"
  j_closed :: bool

text \<open>A system call on the descriptor of a file that is not open fails.\<close>

definition with_fd :: "fd option \<Rightarrow> (fd \<Rightarrow> ('w, 'a) go) \<Rightarrow> ('w, 'a) go" where
  "with_fd f call = (case f of None \<Rightarrow> go_throw (errors_New ''EBADF'') | Some fd \<Rightarrow> call fd)"

text \<open>
  \<open>checkLock\<close>: the directory still has the inode that was opened and the lock file is
  still the locked inode.
\<close>

definition checkLock :: "'w posix \<Rightarrow> fd \<times> string \<Rightarrow> fd option \<Rightarrow> ('w, unit) go" where
  "checkLock px dir lock =
     go_bind (go_wrap (\<lambda>_. Blocked ''%w: ownership directory unavailable: %v'')
               (openDirectory px (snd dir) False)) (\<lambda>(current, _).
     go_bind (go_try (px_Fstat px (fst dir))) (\<lambda>heldDir.
     go_bind (go_try (px_Fstat px current)) (\<lambda>pathDir.
     go_bind (go_try (px_Close px current)) (\<lambda>closed.
     case (heldDir, pathDir, closed) of
       (Inr hdir, Inr pdir, Inr _) \<Rightarrow>
         go_seq (go_require (st_dev hdir = st_dev pdir \<and> st_ino hdir = st_ino pdir)
                  (Blocked ''%w: ownership directory inode changed''))
         (go_bind (go_wrap (\<lambda>_. Blocked ''%w: stat held lock: %v'')
                   (with_fd lock (px_Fstat px))) (\<lambda>held.
          go_bind (go_wrap (\<lambda>_. Blocked ''%w: ownership lock unavailable: %v'')
                    (px_Fstatat px (fst dir) lockName)) (\<lambda>path.
          go_seq (go_wrap (\<lambda>_. Blocked ''%w: unsafe held lock: %v'') (with_fd lock (secureFile px)))
          (go_require (st_dev held = st_dev path \<and> st_ino held = st_ino path \<and>
                       st_nlink path = 1 \<and> st_mode path = st_mode held)
             (Blocked ''%w: ownership lock inode changed; never unlink an active lock'')))))
     | _ \<Rightarrow> go_throw (Blocked ''%w: stat ownership directory: %v'')))))"

definition Journal_checkLock :: "'w journal_env \<Rightarrow> (Journal \<times> 'w, unit) go" where
  "Journal_checkLock env =
     go_bind (go_get fst) (\<lambda>j. go_env (checkLock (je_posix env) (j_dir j) (j_lock j)))"

definition Journal_check :: "'w journal_env \<Rightarrow> (Journal \<times> 'w, unit) go" where
  "Journal_check env =
     go_bind (go_get fst) (\<lambda>j.
     if j_closed j then go_throw (Blocked ''%w: journal closed'')
     else (case j_blocked j of
         Some e \<Rightarrow> go_throw e
       | None \<Rightarrow> go_bind (go_try (Journal_checkLock env)) (\<lambda>r. case r of
             Inr _ \<Rightarrow> go_return ()
           | Inl e \<Rightarrow> go_seq (go_modify (map_prod (j_blocked_update (\<lambda>_. Some e)) id))
               (go_throw e))))"

definition boundary :: "'w journal_env \<Rightarrow> string \<Rightarrow> ('w, unit) go" where
  "boundary env name = (case je_fault env of None \<Rightarrow> go_return () | Some fault \<Rightarrow> fault name)"

text \<open>
  \<open>persist\<close> writes the new record to a temporary file, syncs it, renames it over the
  journal and syncs the directory. \<open>persist_write\<close> is the part before the file is closed,
  \<open>persist_publish\<close> the part after; \<open>persist_cleanup\<close> is the deferred function
  that closes a file left open and removes the temporary name.
\<close>

definition persist_write :: "'w journal_env \<Rightarrow> fd \<Rightarrow> string \<Rightarrow> ('w, unit) go" where
  "persist_write env f wrapped = (let px = je_posix env in
     go_seq (secureFile px f)
     (go_seq (px_Write px f wrapped)
     (go_seq (boundary env ''before-file-sync'')
     (px_Fsync px f))))"

definition persist_publish :: "'w journal_env \<Rightarrow> fd \<Rightarrow> string \<Rightarrow> ('w, unit) go" where
  "persist_publish env dirfd name = (let px = je_posix env in
     go_seq (boundary env ''before-rename'')
     (go_seq (px_Renameat px dirfd name journalName)
     (go_seq (boundary env ''before-directory-sync'')
     (go_seq (px_Fsync px dirfd)
     (boundary env ''after-directory-sync'')))))"

definition persist_cleanup ::
  "'w posix \<Rightarrow> fd \<Rightarrow> string \<Rightarrow> fd option \<Rightarrow> go_error option \<Rightarrow> ('w, unit) go" where
  "persist_cleanup px dirfd name f err =
     go_bind (case f of
         None \<Rightarrow> go_return err
       | Some file \<Rightarrow> go_bind (go_try (px_Close px file)) (\<lambda>r.
           go_return (errors_Join [err, case r of Inl e \<Rightarrow> Some e | Inr _ \<Rightarrow> None]))) (\<lambda>err1.
     go_bind (go_try (px_Unlinkat px dirfd name)) (\<lambda>r.
     (let err2 = (case r of
          Inl e \<Rightarrow> (if errors_Is e ENOENT then err1 else errors_Join [err1, Some e])
        | Inr _ \<Rightarrow> err1)
      in case err2 of None \<Rightarrow> go_return () | Some e \<Rightarrow> go_throw e)))"

definition tempName :: "string \<Rightarrow> string" where
  "tempName u = ''.journal-'' @ u"

definition persist_file :: "'w journal_env \<Rightarrow> fd \<Rightarrow> string \<Rightarrow> ('w, unit) go" where
  "persist_file env dirfd wrapped = (let px = je_posix env in
     go_seq (boundary env ''before-create'')
     (go_bind (px_NewUUID px) (\<lambda>u. let name = tempName u in
      go_bind (px_Openat px dirfd name [O_WRONLY, O_CREAT, O_EXCL, O_NOFOLLOW, O_CLOEXEC] 384) (\<lambda>f.
      go_bind (go_try (persist_write env f wrapped)) (\<lambda>r. case r of
        Inl e \<Rightarrow> persist_cleanup px dirfd name (Some f) (Some e)
      | Inr _ \<Rightarrow>
          go_bind (go_try (go_seq (px_Close px f) (persist_publish env dirfd name))) (\<lambda>r2.
          persist_cleanup px dirfd name None (case r2 of Inl e \<Rightarrow> Some e | Inr _ \<Rightarrow> None)))))))"

definition encode_journal :: "codec \<Rightarrow> journal_record \<Rightarrow> go_error + string" where
  "encode_journal cd next = (case cd_MarshalRecord cd next of
     None \<Rightarrow> Inl (errors_New ''json: marshal record'')
   | Some data \<Rightarrow> (case cd_MarshalEnvelope cd data (cd_SHA256Hex cd data) of
       None \<Rightarrow> Inl (errors_New ''json: marshal envelope'')
     | Some wrapped \<Rightarrow> (if maxJournalSize < int (length wrapped)
         then Inl (errors_New ''ownership journal exceeds size bound'') else Inr wrapped)))"

definition write_journal :: "'w journal_env \<Rightarrow> Journal \<Rightarrow> journal_record \<Rightarrow> ('w, unit) go" where
  "write_journal env j next =
     go_seq (checkLock (je_posix env) (j_dir j) (j_lock j))
     (go_bind (go_of (encode_journal (je_codec env) next)) (\<lambda>wrapped.
      persist_file env (fst (j_dir j)) wrapped))"

abbreviation write_failed :: go_error where
  "write_failed \<equiv> Blocked ''%w: durable journal write failed; mutations must stop: %v''"

definition persist :: "'w journal_env \<Rightarrow> journal_record \<Rightarrow> (Journal \<times> 'w, unit) go" where
  "persist env next =
     go_bind (go_get fst) (\<lambda>j.
     go_bind (go_try (go_env (write_journal env j next))) (\<lambda>r. case r of
       Inr _ \<Rightarrow> go_return ()
     | Inl _ \<Rightarrow> go_seq (go_modify (map_prod (j_blocked_update (\<lambda>_. Some write_failed)) id))
         (go_throw write_failed)))"

definition Journal_Snapshot :: "'w journal_env \<Rightarrow> (Journal \<times> 'w, string \<times> Intent option) go" where
  "Journal_Snapshot env =
     go_seq (Journal_check env)
     (go_get (\<lambda>(j, _). (jr_State (j_record j), jr_Pending (j_record j))))"

text \<open>The next record of \<open>Begin\<close> and of \<open>Commit\<close>.\<close>

definition begun :: "journal_record \<Rightarrow> string \<Rightarrow> string \<Rightarrow> journal_record" where
  "begun r operation data = r\<lparr>jr_Sequence := jr_Sequence r + 1, jr_Pending := Some
     \<lparr>in_Sequence = jr_Sequence r + 1, in_Operation = operation, in_Payload = data\<rparr>\<rparr>"

definition committed :: "journal_record \<Rightarrow> string \<Rightarrow> journal_record" where
  "committed r data = r\<lparr>jr_Pending := None, jr_State := data\<rparr>"

text \<open>\<open>payload\<close> and \<open>state\<close> are the results of \<open>json.Marshal\<close> on the caller's value.\<close>

definition Journal_Begin ::
  "'w journal_env \<Rightarrow> string \<Rightarrow> go_error + string \<Rightarrow> (Journal \<times> 'w, 64 word) go" where
  "Journal_Begin env operation payload =
     go_seq (Journal_check env)
     (go_bind (go_get (j_record \<circ> fst)) (\<lambda>rec.
      go_seq (go_require (jr_Pending rec = None)
        (Blocked ''%w: unresolved %s at sequence %d; operation must be verified before acknowledgement''))
      (go_seq (go_require (TrimSpace operation \<noteq> [] \<and> operation = TrimSpace operation)
        (Blocked ''%w: explicit operation required''))
      (go_seq (go_require (jr_Sequence rec \<noteq> - 1) (Blocked ''%w: operation sequence exhausted''))
      (go_bind (go_of payload) (\<lambda>data.
       let next = begun rec operation data in
       go_seq (persist env next)
       (go_seq (go_modify (map_prod (j_record_update (\<lambda>_. next)) id))
       (go_return (jr_Sequence next)))))))))"

definition Journal_Commit ::
  "'w journal_env \<Rightarrow> 64 word \<Rightarrow> go_error + string \<Rightarrow> (Journal \<times> 'w, unit) go" where
  "Journal_Commit env sequence state =
     go_seq (Journal_check env)
     (go_bind (go_get (j_record \<circ> fst)) (\<lambda>rec.
      go_seq (go_require (case jr_Pending rec of None \<Rightarrow> False | Some p \<Rightarrow> in_Sequence p = sequence)
        (Blocked ''%w: stale or missing operation acknowledgement''))
      (go_bind (go_of state) (\<lambda>data.
       let next = committed rec data in
       go_seq (persist env next)
       (go_modify (map_prod (j_record_update (\<lambda>_. next)) id))))))"

definition close_files :: "'w posix \<Rightarrow> Journal \<Rightarrow> ('w, unit) go" where
  "close_files px j =
     go_bind (case j_lock j of
         None \<Rightarrow> go_return None
       | Some lock \<Rightarrow> go_bind (go_try (px_Close px lock)) (\<lambda>r.
           go_return (case r of Inl e \<Rightarrow> Some e | Inr _ \<Rightarrow> None))) (\<lambda>e1.
     go_bind (go_try (px_Close px (fst (j_dir j)))) (\<lambda>r.
     case errors_Join [e1, case r of Inl e \<Rightarrow> Some e | Inr _ \<Rightarrow> None] of
       None \<Rightarrow> go_return () | Some e \<Rightarrow> go_throw e))"

definition Journal_Close :: "'w journal_env \<Rightarrow> (Journal \<times> 'w, unit) go" where
  "Journal_Close env =
     go_bind (go_get fst) (\<lambda>j.
     if j_closed j then go_return ()
     else go_seq (go_modify (map_prod (j_closed_update (\<lambda>_. True)) id))
       (go_env (close_files (je_posix env) j)))"

section \<open>Opening a journal\<close>

text \<open>What \<open>Open\<close> does with the bytes of an existing journal file.\<close>

definition record_ok :: "Domain \<Rightarrow> journal_record \<Rightarrow> bool" where
  "record_ok domain r \<longleftrightarrow> jr_Version r = journalVersion \<and> jr_Domain r = domain \<and> jr_State r \<noteq> [] \<and>
     (case jr_Pending r of None \<Rightarrow> True
      | Some p \<Rightarrow> in_Sequence p = jr_Sequence r \<and> jr_Sequence r \<noteq> 0 \<and>
          TrimSpace (in_Operation p) \<noteq> [] \<and> in_Payload p \<noteq> [])"

definition decode_journal :: "codec \<Rightarrow> Domain \<Rightarrow> string \<Rightarrow> go_error + journal_record" where
  "decode_journal cd domain data =
    (if maxJournalSize < int (length data) then Inl (Blocked ''%w: oversized ownership journal'')
     else (case cd_DecodeEnvelope cd data of
       None \<Rightarrow> Inl (Blocked ''%w: invalid journal envelope: %v'')
     | Some (rec, sha) \<Rightarrow>
         if sha \<noteq> cd_SHA256Hex cd rec then Inl (Blocked ''%w: ownership journal checksum mismatch'')
         else (case cd_DecodeRecord cd rec of
           None \<Rightarrow> Inl (Blocked ''%w: invalid ownership record: %v'')
         | Some r \<Rightarrow> (if record_ok domain r then Inr r
             else Inl (Blocked ''%w: incompatible journal version, domain or operation sequence'')))))"

definition read_journal :: "'w posix \<Rightarrow> fd \<Rightarrow> ('w, string) go" where
  "read_journal px f =
     go_bind (go_try (secureFile px f)) (\<lambda>safe. case safe of
       Inl _ \<Rightarrow> go_bind (go_try (px_Close px f)) (\<lambda>_. go_throw (Blocked ''%w: ownership journal: %v''))
     | Inr _ \<Rightarrow>
         go_bind (go_try (px_ReadAll px f (maxJournalSize + 1))) (\<lambda>data.
         go_bind (go_try (px_Close px f)) (\<lambda>closed.
         case (data, closed) of
           (Inr bytes, Inr _) \<Rightarrow> go_return bytes
         | _ \<Rightarrow> go_throw (Blocked ''%w: read ownership journal: %v''))))"

text \<open>Opening the lock file; the result says whether this call created it.\<close>

definition open_lock :: "'w posix \<Rightarrow> fd \<Rightarrow> bool \<Rightarrow> ('w, fd \<times> bool) go" where
  "open_lock px dirfd created = (let flags = [O_RDWR, O_NOFOLLOW, O_CLOEXEC, O_NONBLOCK] in
     go_wrap (\<lambda>_. Blocked ''%w: open journal lock: %v'')
     (if created then
        go_bind (go_try (px_Openat px dirfd lockName (flags @ [O_CREAT, O_EXCL]) 384)) (\<lambda>r. case r of
          Inr fd \<Rightarrow> go_return (fd, True)
        | Inl e \<Rightarrow> if errors_Is e EEXIST
            then go_bind (px_Openat px dirfd lockName flags 0) (\<lambda>fd. go_return (fd, False))
            else go_throw e)
      else go_bind (px_Openat px dirfd lockName flags 0) (\<lambda>fd. go_return (fd, False))))"

definition initial_record :: "Domain \<Rightarrow> journal_record" where
  "initial_record domain = \<lparr>jr_Version = journalVersion, jr_Domain = domain, jr_Sequence = 0,
     jr_State = ''null'', jr_Pending = None\<rparr>"

definition load_journal ::
  "'w journal_env \<Rightarrow> Domain \<Rightarrow> bool \<Rightarrow> bool \<Rightarrow> fd \<Rightarrow> (Journal \<times> 'w, unit) go" where
  "load_journal env domain create freshLock dirfd =
     go_bind (go_env (go_try (px_Openat (je_posix env) dirfd journalName
          [O_RDONLY, O_NOFOLLOW, O_CLOEXEC, O_NONBLOCK] 0))) (\<lambda>opened. case opened of
       Inl e \<Rightarrow>
         if errors_Is e ENOENT \<and> create \<and> freshLock then
           go_seq (go_modify (map_prod (j_record_update (\<lambda>_. initial_record domain)) id))
             (persist env (initial_record domain))
         else go_throw (Blocked ''%w: open ownership journal: %v'')
     | Inr f \<Rightarrow>
         go_bind (go_env (read_journal (je_posix env) f)) (\<lambda>data.
         go_bind (go_of (decode_journal (je_codec env) domain data)) (\<lambda>rec.
         go_modify (map_prod (j_record_update (\<lambda>_. rec)) id))))"

definition take_lock :: "'w journal_env \<Rightarrow> fd \<Rightarrow> bool \<Rightarrow> (Journal \<times> 'w, unit) go" where
  "take_lock env fd freshLock = (let px = je_posix env in
     go_seq (go_env (go_wrap (\<lambda>_. Blocked ''%w: journal lock: %v'') (secureFile px fd)))
     (go_seq (go_env (go_wrap (\<lambda>_. Blocked
        ''%w: journal owner still active or lock unavailable: %v'') (px_Flock px fd)))
     (go_seq (Journal_checkLock env)
     (if freshLock then go_env (go_wrap (\<lambda>_. Blocked
          ''%w: sync initial ownership lock: %v'') (px_Fsync px fd)) else go_return ()))))"

definition Open_body ::
  "'w journal_env \<Rightarrow> Domain \<Rightarrow> bool \<Rightarrow> bool \<Rightarrow> (Journal \<times> 'w, unit) go" where
  "Open_body env domain create created =
     go_bind (go_get (fst \<circ> j_dir \<circ> fst)) (\<lambda>dirfd.
     go_bind (go_env (open_lock (je_posix env) dirfd created)) (\<lambda>(fd, freshLock).
     go_seq (go_modify (map_prod (j_lock_update (\<lambda>_. Some fd)) id))
     (go_seq (take_lock env fd freshLock)
     (load_journal env domain create freshLock dirfd))))"

definition zero_record :: journal_record where
  "zero_record = \<lparr>jr_Version = 0, jr_Domain = \<lparr>d_InstallationUID = [], d_NodeUID = [],
     d_BootID = [], d_NetworkNamespace = [], d_ConfigDigest = []\<rparr>, jr_Sequence = 0, jr_State = [],
     jr_Pending = None\<rparr>"

text \<open>A failure after the directory is open closes what was opened and joins both errors.\<close>

definition Journal_Open ::
  "'w journal_env \<Rightarrow> string \<Rightarrow> Domain \<Rightarrow> bool \<Rightarrow> ('w, Journal) go" where
  "Journal_Open env directory domain create = (let px = je_posix env in
     go_bind (go_get (px_Geteuid px)) (\<lambda>euid.
     go_seq (go_require (euid = 0) (Blocked ''%w: ownership journals require root''))
     (go_seq (go_wrap (\<lambda>_. Blocked ''%w: invalid journal domain: %v'')
        (go_of (Domain_validate (je_codec env) domain)))
     (go_bind (go_wrap (\<lambda>_. Blocked ''%w: journal directory: %v'')
        (openDirectory px directory create)) (\<lambda>(dirfd, created) w.
      let j0 = \<lparr>j_dir = (dirfd, directory), j_lock = None, j_record = zero_record,
            j_blocked = None, j_closed = False\<rparr> in
      case Open_body env domain create created (j0, w) of
        (Inr _, (j, w')) \<Rightarrow> (Inr j, w')
      | (Inl e, (j, w')) \<Rightarrow>
          (case Journal_Close env (j, w') of
             (Inr _, (_, w'')) \<Rightarrow> (Inl (Errorf ''joined'' [e]), w'')
           | (Inl e2, (_, w'')) \<Rightarrow> (Inl (Errorf ''joined'' [e, e2]), w'')))))))"

section \<open>What the operations do to the journal in memory\<close>

text \<open>The record changes only after the new one was written; a failed write blocks the journal.\<close>

lemma persist_wp:
  assumes "\<And>w'. Q () (j, w')" and "\<And>w'. E write_failed (j\<lparr>j_blocked := Some write_failed\<rparr>, w')"
  shows "go_wp (persist env next) Q E (j, w)"
  unfolding persist_def using assms by (auto simp: go_wp_rules intro!: go_wp_any)

lemma check_wp:
  assumes "\<And>w'. \<not> j_closed j \<Longrightarrow> j_blocked j = None \<Longrightarrow> Q () (j, w')"
    and "\<And>e w' b. (j_blocked j \<noteq> None \<longrightarrow> b = j_blocked j) \<Longrightarrow>
      (j_closed j \<or> b \<noteq> None) \<Longrightarrow> E e (j\<lparr>j_blocked := b\<rparr>, w')"
  shows "go_wp (Journal_check env) Q E (j, w)"
proof (cases "j_closed j \<or> j_blocked j \<noteq> None")
  case True
  have "j\<lparr>j_blocked := j_blocked j\<rparr> = j" by simp
  with assms(2) [of "j_blocked j"] True have "E e (j, w)" for e by auto
  then show ?thesis using True
    by (auto simp: Journal_check_def go_wp_rules split: option.splits)
next
  case False
  then show ?thesis
    unfolding Journal_check_def Journal_checkLock_def
    by (auto simp: go_wp_rules intro!: go_wp_any assms)
qed

text \<open>
  An operation that fails leaves the record alone; a journal that was stopped stays stopped, with
  the same error.
\<close>

definition refused :: "Journal \<Rightarrow> Journal \<Rightarrow> bool" where
  "refused j j' \<longleftrightarrow> j_record j' = j_record j \<and> j_closed j' = j_closed j \<and> j_dir j' = j_dir j \<and>
     j_lock j' = j_lock j \<and> (j_blocked j \<noteq> None \<longrightarrow> j_blocked j' = j_blocked j)"

lemma refused_record: "refused j j' \<Longrightarrow> j_record j' = j_record j"
  by (simp add: refused_def)

lemma refused_refl [simp]: "refused j j"
  by (simp add: refused_def)

lemma refused_update [simp]:
  "refused j (j\<lparr>j_blocked := b\<rparr>) \<longleftrightarrow> (j_blocked j \<noteq> None \<longrightarrow> b = j_blocked j)"
  by (simp add: refused_def)

definition stopped :: "Journal \<Rightarrow> bool" where
  "stopped j \<longleftrightarrow> j_closed j \<or> j_blocked j \<noteq> None"

lemma refused_stopped: "refused j j' \<Longrightarrow> stopped j \<Longrightarrow> stopped j'"
  by (metis refused_def stopped_def)

lemma begun_Sequence [simp]: "jr_Sequence (begun r operation data) = jr_Sequence r + 1"
  by (simp add: begun_def)

lemma Begin_wp:
  assumes "\<And>data w'. \<lbrakk>payload = Inr data; \<not> stopped j; jr_Pending (j_record j) = None;
      jr_Sequence (j_record j) \<noteq> - 1; operation \<noteq> []; TrimSpace operation = operation\<rbrakk> \<Longrightarrow>
      Q (jr_Sequence (j_record j) + 1) (j\<lparr>j_record := begun (j_record j) operation data\<rparr>, w')"
    and "\<And>e j' w'. refused j j' \<Longrightarrow> E e (j', w')"
  shows "go_wp (Journal_Begin env operation payload) Q E (j, w)"
proof (cases "TrimSpace operation = operation")
  case True
  then show ?thesis
    unfolding Journal_Begin_def go_wp_seq
    by (intro check_wp) (auto simp: go_wp_rules stopped_def assms(2) split: sum.split
        intro!: persist_wp assms(1))
next
  case False
  then have "operation \<noteq> TrimSpace operation" by metis
  then show ?thesis
    unfolding Journal_Begin_def go_wp_seq
    by (intro check_wp) (simp_all add: go_wp_rules assms)
qed

lemma Commit_wp:
  assumes "\<And>data p w'. \<lbrakk>state = Inr data; \<not> stopped j; jr_Pending (j_record j) = Some p;
      in_Sequence p = sequence\<rbrakk> \<Longrightarrow> Q () (j\<lparr>j_record := committed (j_record j) data\<rparr>, w')"
    and "\<And>e j' w'. refused j j' \<Longrightarrow> E e (j', w')"
  shows "go_wp (Journal_Commit env sequence state) Q E (j, w)"
  unfolding Journal_Commit_def go_wp_seq
  by (rule check_wp)
    (auto simp: go_wp_rules stopped_def split: sum.splits option.splits
      intro!: persist_wp assms)

lemma Snapshot_wp:
  assumes "\<And>w'. \<not> stopped j \<Longrightarrow> Q (jr_State (j_record j), jr_Pending (j_record j)) (j, w')"
    and "\<And>e j' w'. refused j j' \<Longrightarrow> E e (j', w')"
  shows "go_wp (Journal_Snapshot env) Q E (j, w)"
  unfolding Journal_Snapshot_def go_wp_seq
  by (rule check_wp) (auto simp: go_wp_rules stopped_def intro!: assms)

lemma Close_wp:
  assumes "\<And>x w'. Q x (j\<lparr>j_closed := True\<rparr>, w')"
    and "\<And>e w'. E e (j\<lparr>j_closed := True\<rparr>, w')"
  shows "go_wp (Journal_Close env) Q E (j, w)"
proof (cases "j_closed j")
  case True
  then have "j\<lparr>j_closed := True\<rparr> = j" by simp
  with assms(1) have "Q () (j, w)" by metis
  with True show ?thesis by (simp add: Journal_Close_def go_wp_rules)
next
  case False
  then show ?thesis
    unfolding Journal_Close_def by (auto simp: go_wp_rules assms intro!: go_wp_any)
qed

section \<open>The intent log that clients rely on\<close>

text \<open>
  The clients of a journal (\<open>pkg/evpn/export_recovery.go\<close>,
  \<open>pkg/evpn/remote_recovery.go\<close>) call it through \<open>Begin\<close>, \<open>Commit\<close>
  and \<open>Snapshot\<close>. The contract they rely on speaks of the acknowledged state and the pending
  intent only.
\<close>

record 'w journal_ops =
  jo_Begin :: "string \<Rightarrow> go_error + string \<Rightarrow> ('w, 64 word) go"
  jo_Commit :: "64 word \<Rightarrow> go_error + string \<Rightarrow> ('w, unit) go"
  jo_Snapshot :: "('w, string \<times> Intent option) go"
  jo_Close :: "('w, unit) go"

definition ownership_ops :: "'w journal_env \<Rightarrow> (Journal \<times> 'w) journal_ops" where
  "ownership_ops env = \<lparr>jo_Begin = Journal_Begin env, jo_Commit = Journal_Commit env,
     jo_Snapshot = Journal_Snapshot env, jo_Close = Journal_Close env\<rparr>"

locale intent_log =
  fixes ops :: "'w journal_ops"
    and state_of :: "'w \<Rightarrow> string"
    and pending_of :: "'w \<Rightarrow> Intent option"
    and halted :: "'w \<Rightarrow> bool"
  assumes Begin_law: "go_wp (jo_Begin ops operation payload)
      (\<lambda>n w'. \<not> halted w \<and> pending_of w = None \<and> state_of w' = state_of w \<and>
         (\<exists>data. payload = Inr data \<and> pending_of w' = Some
            \<lparr>in_Sequence = n, in_Operation = operation, in_Payload = data\<rparr>))
      (\<lambda>_ w'. state_of w' = state_of w \<and> pending_of w' = pending_of w \<and> (halted w \<longrightarrow> halted w')) w"
    and Commit_law: "go_wp (jo_Commit ops n state)
      (\<lambda>_ w'. \<not> halted w \<and> (\<exists>i. pending_of w = Some i \<and> in_Sequence i = n) \<and>
         pending_of w' = None \<and> state = Inr (state_of w'))
      (\<lambda>_ w'. state_of w' = state_of w \<and> pending_of w' = pending_of w \<and> (halted w \<longrightarrow> halted w')) w"
    and Snapshot_law: "go_wp (jo_Snapshot ops)
      (\<lambda>r w'. \<not> halted w \<and> r = (state_of w, pending_of w) \<and>
         state_of w' = state_of w \<and> pending_of w' = pending_of w \<and> \<not> halted w')
      (\<lambda>_ w'. state_of w' = state_of w \<and> pending_of w' = pending_of w \<and> (halted w \<longrightarrow> halted w')) w"
begin

text \<open>A halted log refuses every operation and keeps its evidence.\<close>

lemma halted_Begin:
  assumes "halted w"
  shows "\<exists>e w'. jo_Begin ops operation payload w = (Inl e, w') \<and> halted w' \<and>
    state_of w' = state_of w \<and> pending_of w' = pending_of w"
  using Begin_law [of operation payload w] assms
  by (auto simp: go_wp_def split: prod.splits sum.splits)

lemma halted_Commit:
  assumes "halted w"
  shows "\<exists>e w'. jo_Commit ops n state w = (Inl e, w') \<and> halted w' \<and>
    state_of w' = state_of w \<and> pending_of w' = pending_of w"
  using Commit_law [of n state w] assms
  by (auto simp: go_wp_def split: prod.splits sum.splits)

text \<open>An intent that was not acknowledged stops the next one.\<close>

lemma pending_blocks_Begin:
  assumes "pending_of w = Some i"
  shows "\<exists>e w'. jo_Begin ops operation payload w = (Inl e, w') \<and>
    state_of w' = state_of w \<and> pending_of w' = Some i"
  using Begin_law [of operation payload w] assms
  by (auto simp: go_wp_def split: prod.splits sum.splits)

end

lemma ownership_ops_simps [simp]:
  "jo_Begin (ownership_ops env) = Journal_Begin env"
  "jo_Commit (ownership_ops env) = Journal_Commit env"
  "jo_Snapshot (ownership_ops env) = Journal_Snapshot env"
  "jo_Close (ownership_ops env) = Journal_Close env"
  by (simp_all add: ownership_ops_def)

definition log_state :: "Journal \<times> 'w \<Rightarrow> string" where
  "log_state s = jr_State (j_record (fst s))"

definition log_pending :: "Journal \<times> 'w \<Rightarrow> Intent option" where
  "log_pending s = jr_Pending (j_record (fst s))"

definition log_halted :: "Journal \<times> 'w \<Rightarrow> bool" where
  "log_halted s = stopped (fst s)"

lemmas log_defs = log_state_def log_pending_def log_halted_def

interpretation jlog: intent_log "ownership_ops env" log_state log_pending log_halted
  for env :: "'w journal_env"
proof (unfold_locales, goal_cases)
  case (1 operation payload w)
  show ?case unfolding ownership_ops_simps
    by (cases w) (auto simp: log_defs begun_def refused_record refused_stopped intro!: Begin_wp)
next
  case (2 n state w)
  show ?case unfolding ownership_ops_simps
    by (cases w) (auto simp: log_defs committed_def refused_record refused_stopped intro!: Commit_wp)
next
  case (3 w)
  show ?case unfolding ownership_ops_simps
    by (cases w) (auto simp: log_defs refused_record refused_stopped intro!: Snapshot_wp)
qed

section \<open>Every record a process can hold\<close>

lemma decode_journal_ok: "decode_journal cd domain data = Inr r \<Longrightarrow> record_ok domain r"
  by (auto simp: decode_journal_def split: if_splits option.splits)

lemma initial_record_ok [simp]: "record_ok domain (initial_record domain)"
  by (simp add: record_ok_def initial_record_def)

lemma begun_ok:
  "\<lbrakk>record_ok domain r; jr_Sequence r \<noteq> - 1; TrimSpace operation \<noteq> []; data \<noteq> []\<rbrakk> \<Longrightarrow>
   record_ok domain (begun r operation data)"
  by (auto simp: record_ok_def begun_def eq_neg_iff_add_eq_0)

lemma committed_ok: "record_ok domain r \<Longrightarrow> data \<noteq> [] \<Longrightarrow> record_ok domain (committed r data)"
  by (auto simp: record_ok_def committed_def)

lemma open_lock_fresh:
  "go_wp (open_lock px d created) (\<lambda>(fd, fresh) _. fresh \<longrightarrow> created) (\<lambda>_ _. True) w"
  by (auto simp: open_lock_def Let_def go_wp_rules go_return_def intro!: go_wp_any)

lemma take_lock_keeps: "go_keeps fst (take_lock env fd fresh)"
  unfolding take_lock_def Let_def Journal_checkLock_def by (intro go_keeps_rules)

lemma load_journal_wp:
  assumes "\<not> stopped j"
  shows "go_wp (load_journal env domain create fresh dirfd)
    (\<lambda>_ (j', _). \<not> stopped j' \<and> ((create \<and> fresh \<and> j_record j' = initial_record domain) \<or>
        (\<exists>data. decode_journal (je_codec env) domain data = Inr (j_record j'))))
    (\<lambda>_ _. True) (j, w)"
  unfolding load_journal_def using assms
  by (auto simp: go_wp_rules stopped_def split: sum.split intro!: go_wp_any persist_wp)

lemma Open_body_wp:
  assumes "\<not> stopped j"
  shows "go_wp (Open_body env domain create created)
    (\<lambda>_ (j', _). \<not> stopped j' \<and> ((create \<and> created \<and> j_record j' = initial_record domain) \<or>
        (\<exists>data. decode_journal (je_codec env) domain data = Inr (j_record j'))))
    (\<lambda>_ _. True) (j, w)"
proof -
  have load: "go_wp (load_journal env domain create fresh dirfd)
    (\<lambda>_ (j', _). \<not> stopped j' \<and> ((create \<and> created \<and> j_record j' = initial_record domain) \<or>
        (\<exists>data. decode_journal (je_codec env) domain data = Inr (j_record j'))))
    (\<lambda>_ _. True) (j\<lparr>j_lock := Some fd\<rparr>, w')" if "fresh \<longrightarrow> created" for fresh dirfd fd w'
    by (rule go_wp_mono [OF load_journal_wp]) (use assms that in \<open>auto simp: stopped_def\<close>)
  have "go_wp (open_lock (je_posix env) (fst (j_dir j)) created) (\<lambda>(fd, fresh) _. fresh \<longrightarrow> created)
    (\<lambda>_ _. True) w"
    by (rule open_lock_fresh)
  then show ?thesis
    unfolding Open_body_def
    by (auto simp: go_wp_bind go_wp_seq go_wp_get go_wp_env go_wp_modify go_wp_case_prod
        elim!: go_wp_mono intro!: go_keeps_fst_wp [OF take_lock_keeps] load)
qed

text \<open>
  What \<open>Open\<close> returns: a journal that is neither closed nor blocked, whose record was read
  from the disk and verified, or is the initial one in a directory this call created.
\<close>

lemma Open_wp:
  "go_wp (Journal_Open env directory domain create)
     (\<lambda>j _. \<not> stopped j \<and> ((create \<and> j_record j = initial_record domain) \<or>
        (\<exists>data. decode_journal (je_codec env) domain data = Inr (j_record j))))
     (\<lambda>_ _. True) w"
proof -
  have body: "go_wp (\<lambda>w. let j0 = \<lparr>j_dir = (dirfd, directory), j_lock = None, j_record = zero_record,
            j_blocked = None, j_closed = False\<rparr> in
      case Open_body env domain create created (j0, w) of
        (Inr _, (j, w')) \<Rightarrow> (Inr j, w')
      | (Inl e, (j, w')) \<Rightarrow>
          (case Journal_Close env (j, w') of
             (Inr _, (_, w'')) \<Rightarrow> (Inl (Errorf ''joined'' [e]), w'')
           | (Inl e2, (_, w'')) \<Rightarrow> (Inl (Errorf ''joined'' [e, e2]), w'')))
     (\<lambda>j _. \<not> stopped j \<and> ((create \<and> j_record j = initial_record domain) \<or>
        (\<exists>data. decode_journal (je_codec env) domain data = Inr (j_record j))))
     (\<lambda>_ _. True) v" for dirfd created v
    using Open_body_wp [of "\<lparr>j_dir = (dirfd, directory), j_lock = None, j_record = zero_record,
        j_blocked = None, j_closed = False\<rparr>" env domain create created v]
    by (auto simp: go_wp_def stopped_def Let_def split: prod.splits sum.splits)
  show ?thesis
    unfolding Journal_Open_def Let_def
    by (auto simp: go_wp_bind go_wp_seq go_wp_get go_wp_require go_wp_wrap go_wp_of split: sum.split
        intro!: go_wp_any [where m = "openDirectory px d c" for px d c] body [unfolded Let_def])
qed

end
