(* ===== verification/Journal_Durability.thy ===== *)
theory Journal_Durability
  imports Ownership_Journal
begin

text \<open>
  What survives a crash. The system calls are an argument of the journal; here the behaviour
  that POSIX documents for them is stated over an observer of the disk (\<open>disk_view\<close>), and
  \<open>persist\<close>, \<open>Begin\<close> and \<open>Commit\<close> are shown to replace the journal file
  atomically and durably. The theory also has the reachable states of a journal and an
  in-memory file system on which the hypotheses hold.
\<close>

section \<open>An observer of the journal directory\<close>

text \<open>
  For one state directory: the bytes of \<open>journal.json\<close> a reader sees, the bytes it may have
  after a crash, the file a temporary name refers to, the bytes of an open file and whether they
  are on stable storage.
\<close>

record 'w disk_view =
  dv_visible :: "'w \<Rightarrow> string option"
  dv_crash :: "'w \<Rightarrow> string option set"
  dv_entry :: "'w \<Rightarrow> string \<Rightarrow> fd option"
  dv_data :: "'w \<Rightarrow> fd \<Rightarrow> string"
  dv_synced :: "'w \<Rightarrow> fd \<Rightarrow> bool"

definition dv_file :: "'w disk_view \<Rightarrow> 'w \<Rightarrow> string option \<times> string option set" where
  "dv_file v w = (dv_visible v w, dv_crash v w)"

definition dv_temp :: "'w disk_view \<Rightarrow> string \<Rightarrow> fd \<Rightarrow> 'w \<Rightarrow> fd option \<times> string \<times> bool" where
  "dv_temp v name f w = (dv_entry v w name, dv_data v w f, dv_synced v w f)"

text \<open>
  The documented behaviour: only \<open>renameat\<close> onto the journal and \<open>fsync\<close> of its
  directory affect the journal file; \<open>O_EXCL\<close> creates an empty file of its own; a
  written file has the bytes written and \<open>fsync\<close> makes them stable; \<open>renameat\<close>
  replaces the file atomically, so that a crash shows the old bytes or the new ones; after
  \<open>fsync\<close> of the directory a crash shows what is visible.
\<close>

definition posix_durable :: "'w journal_env \<Rightarrow> fd \<Rightarrow> 'w disk_view \<Rightarrow> bool" where
  "posix_durable env d v \<longleftrightarrow> (let px = je_posix env in
     go_keeps (dv_file v) (px_OpenRoot px) \<and>
     (\<forall>f name flags mode. go_keeps (dv_file v) (px_Openat px f name flags mode)) \<and>
     (\<forall>f. go_keeps (dv_file v) (px_Fstat px f)) \<and>
     (\<forall>f name. go_keeps (dv_file v) (px_Fstatat px f name)) \<and>
     (\<forall>f bytes. f \<noteq> d \<longrightarrow> go_keeps (dv_file v) (px_Write px f bytes)) \<and>
     (\<forall>f. go_keeps (dv_file v) (px_Close px f)) \<and>
     (\<forall>f. f \<noteq> d \<longrightarrow> go_keeps (dv_file v) (px_Fsync px f)) \<and>
     (\<forall>name. name \<noteq> journalName \<longrightarrow> go_keeps (dv_file v) (px_Unlinkat px d name)) \<and>
     go_keeps (dv_file v) (px_NewUUID px) \<and>
     (\<forall>name. go_keeps (dv_file v) (boundary env name)) \<and>
     (\<forall>name w. go_wp (px_Openat px d name [O_WRONLY, O_CREAT, O_EXCL, O_NOFOLLOW, O_CLOEXEC] 384)
        (\<lambda>f w'. f \<noteq> d \<and> dv_entry v w' name = Some f \<and> dv_data v w' f = []) (\<lambda>_ _. True) w) \<and>
     (\<forall>name f. go_keeps (dv_temp v name f) (px_Fstat px f)) \<and>
     (\<forall>name f. go_keeps (dv_temp v name f) (px_Close px f)) \<and>
     (\<forall>name f b. go_keeps (dv_temp v name f) (boundary env b)) \<and>
     (\<forall>name f bytes w. go_wp (px_Write px f bytes)
        (\<lambda>_ w'. dv_entry v w' name = dv_entry v w name \<and> dv_data v w' f = dv_data v w f @ bytes)
        (\<lambda>_ _. True) w) \<and>
     (\<forall>name f w. f \<noteq> d \<longrightarrow> go_wp (px_Fsync px f)
        (\<lambda>_ w'. dv_entry v w' name = dv_entry v w name \<and> dv_data v w' f = dv_data v w f \<and>
           dv_synced v w' f) (\<lambda>_ _. True) w) \<and>
     (\<forall>name f w. dv_entry v w name = Some f \<and> dv_synced v w f \<longrightarrow>
        go_wp (px_Renameat px d name journalName)
          (\<lambda>_ w'. dv_visible v w' = Some (dv_data v w f) \<and>
             dv_crash v w' \<subseteq> insert (Some (dv_data v w f)) (dv_crash v w))
          (\<lambda>_ w'. dv_file v w' = dv_file v w) w) \<and>
     (\<forall>w. go_wp (px_Fsync px d)
        (\<lambda>_ w'. dv_visible v w' = dv_visible v w \<and> dv_crash v w' = {dv_visible v w})
        (\<lambda>_ w'. dv_crash v w' \<subseteq> dv_crash v w) w))"

section \<open>Replacing the journal file\<close>

lemma temp_name: "tempName u \<noteq> journalName"
  by (simp add: journalName_def tempName_def)

lemma secureFile_keeps: "go_keeps g (px_Fstat px f) \<Longrightarrow> go_keeps g (secureFile px f)"
  unfolding secureFile_def by (intro go_keeps_rules)

text \<open>The parts of the hypothesis, by call.\<close>

lemma durable_frames:
  assumes "posix_durable env d v"
  shows "go_keeps (dv_file v) (px_OpenRoot (je_posix env))"
    and "go_keeps (dv_file v) (px_Openat (je_posix env) f name flags mode)"
    and "go_keeps (dv_file v) (px_Fstat (je_posix env) f)"
    and "go_keeps (dv_file v) (px_Fstatat (je_posix env) f name)"
    and "go_keeps (dv_file v) (px_Close (je_posix env) f)"
    and "go_keeps (dv_file v) (px_Unlinkat (je_posix env) d (tempName u))"
    and "go_keeps (dv_file v) (px_NewUUID (je_posix env))"
    and "go_keeps (dv_file v) (boundary env b)"
    and "go_keeps (dv_temp v name f) (px_Fstat (je_posix env) f)"
    and "go_keeps (dv_temp v name f) (px_Close (je_posix env) f)"
    and "go_keeps (dv_temp v name f) (boundary env b)"
  using assms temp_name by (simp_all add: posix_durable_def Let_def)

lemma durable_create:
  assumes "posix_durable env d v"
  shows "go_wp (px_Openat (je_posix env) d name [O_WRONLY, O_CREAT, O_EXCL, O_NOFOLLOW, O_CLOEXEC] 384)
     (\<lambda>f w'. dv_file v w' = dv_file v w \<and> f \<noteq> d \<and> dv_entry v w' name = Some f \<and> dv_data v w' f = [])
     (\<lambda>_ w'. dv_file v w' = dv_file v w \<and> True) w"
  by (rule go_keeps_wp_conj) (use assms in \<open>simp_all add: posix_durable_def Let_def\<close>)

lemma durable_write:
  assumes "posix_durable env d v" and "f \<noteq> d"
  shows "go_wp (px_Write (je_posix env) f bytes)
     (\<lambda>_ w'. dv_file v w' = dv_file v w \<and> dv_entry v w' name = dv_entry v w name \<and>
        dv_data v w' f = dv_data v w f @ bytes) (\<lambda>_ w'. dv_file v w' = dv_file v w \<and> True) w"
  by (rule go_keeps_wp_conj) (use assms in \<open>simp_all add: posix_durable_def Let_def\<close>)

lemma durable_sync_file:
  assumes "posix_durable env d v" and "f \<noteq> d"
  shows "go_wp (px_Fsync (je_posix env) f)
     (\<lambda>_ w'. dv_file v w' = dv_file v w \<and> dv_entry v w' name = dv_entry v w name \<and>
        dv_data v w' f = dv_data v w f \<and> dv_synced v w' f) (\<lambda>_ w'. dv_file v w' = dv_file v w \<and> True) w"
  by (rule go_keeps_wp_conj) (use assms in \<open>simp_all add: posix_durable_def Let_def\<close>)

lemma durable_rename:
  assumes "posix_durable env d v" and "dv_temp v name f w = (Some f, bytes, True)"
  shows "go_wp (px_Renameat (je_posix env) d name journalName)
     (\<lambda>_ w'. dv_visible v w' = Some bytes \<and> dv_crash v w' \<subseteq> insert (Some bytes) (dv_crash v w))
     (\<lambda>_ w'. dv_file v w' = dv_file v w) w"
proof -
  have "dv_entry v w name = Some f \<and> dv_synced v w f" and "dv_data v w f = bytes"
    using assms(2) by (auto simp: dv_temp_def)
  with assms(1) show ?thesis unfolding posix_durable_def Let_def by blast
qed

lemma durable_sync_dir:
  assumes "posix_durable env d v"
  shows "go_wp (px_Fsync (je_posix env) d)
     (\<lambda>_ w'. dv_visible v w' = dv_visible v w \<and> dv_crash v w' = {dv_visible v w})
     (\<lambda>_ w'. dv_crash v w' \<subseteq> dv_crash v w) w"
  using assms by (simp add: posix_durable_def Let_def)

text \<open>The file is complete and stable before it is closed.\<close>

lemma persist_write_complete:
  assumes "posix_durable env d v" and "f \<noteq> d" and "dv_entry v w name = Some f" and "dv_data v w f = []"
  shows "go_wp (persist_write env f wrapped)
     (\<lambda>_ w'. dv_file v w' = dv_file v w \<and> dv_temp v name f w' = (Some f, wrapped, True))
     (\<lambda>_ w'. dv_file v w' = dv_file v w) w"
  unfolding persist_write_def Let_def
proof (rule go_wp_seqI)
  let ?both = "\<lambda>w. (dv_file v w, dv_temp v name f w)"
  have keep: "go_keeps ?both (secureFile (je_posix env) f)" "go_keeps ?both (boundary env b)" for b
    using durable_frames [OF assms(1)] by (simp_all add: go_keeps_pair secureFile_keeps)
  show "go_wp (secureFile (je_posix env) f) (\<lambda>_ s. ?both s = ?both w) (\<lambda>_ s. ?both s = ?both w) w"
    by (rule go_keeps_wp) (rule keep)
  fix s assume s: "?both s = ?both w"
  show "go_wp (go_seq (px_Write (je_posix env) f wrapped) (go_seq (boundary env ''before-file-sync'')
      (px_Fsync (je_posix env) f)))
     (\<lambda>_ w'. dv_file v w' = dv_file v w \<and> dv_temp v name f w' = (Some f, wrapped, True))
     (\<lambda>_ w'. dv_file v w' = dv_file v w) s"
  proof (rule go_wp_seqI [OF durable_write [OF assms(1,2), where name = name]])
    fix s1 assume s1: "dv_file v s1 = dv_file v s \<and> dv_entry v s1 name = dv_entry v s name \<and>
      dv_data v s1 f = dv_data v s f @ wrapped"
    show "go_wp (go_seq (boundary env ''before-file-sync'') (px_Fsync (je_posix env) f))
     (\<lambda>_ w'. dv_file v w' = dv_file v w \<and> dv_temp v name f w' = (Some f, wrapped, True))
     (\<lambda>_ w'. dv_file v w' = dv_file v w) s1"
    proof (rule go_wp_seqI [OF go_keeps_wp [OF keep(2)]])
      fix s2 assume "?both s2 = ?both s1"
      with s s1 assms have "dv_file v s2 = dv_file v w" "dv_entry v s2 name = Some f"
        "dv_data v s2 f = wrapped" by (auto simp: dv_temp_def)
      then show "go_wp (px_Fsync (je_posix env) f)
        (\<lambda>_ w'. dv_file v w' = dv_file v w \<and> dv_temp v name f w' = (Some f, wrapped, True))
        (\<lambda>_ w'. dv_file v w' = dv_file v w) s2"
        by (intro go_wp_mono [OF durable_sync_file [OF assms(1,2), where name = name]])
          (auto simp: dv_temp_def)
    qed (use s s1 in auto)
  qed (use s in auto)
qed auto

text \<open>Publishing replaces the old bytes by the new ones or leaves one of the two.\<close>

lemma persist_publish_atomic:
  assumes "posix_durable env d v" and "dv_temp v (tempName u) f w = (Some f, bytes, True)"
  shows "go_wp (persist_publish env d (tempName u))
     (\<lambda>_ w'. dv_crash v w' = {Some bytes})
     (\<lambda>_ w'. dv_crash v w' \<subseteq> insert (Some bytes) (dv_crash v w)) w"
  unfolding persist_publish_def Let_def
proof (rule go_wp_seqI)
  let ?both = "\<lambda>w. (dv_file v w, dv_temp v (tempName u) f w)"
  note bnd = go_keeps_wp [OF durable_frames(8) [OF assms(1)]]
  show "go_wp (boundary env ''before-rename'') (\<lambda>_ s. ?both s = ?both w) (\<lambda>_ s. ?both s = ?both w) w"
    by (rule go_keeps_wp) (intro go_keeps_pair durable_frames [OF assms(1)])
  fix s assume s: "?both s = ?both w"
  then have temp: "dv_temp v (tempName u) f s = (Some f, bytes, True)" using assms(2) by simp
  show "go_wp (go_seq (px_Renameat (je_posix env) d (tempName u) journalName)
      (go_seq (boundary env ''before-directory-sync'')
      (go_seq (px_Fsync (je_posix env) d) (boundary env ''after-directory-sync''))))
     (\<lambda>_ w'. dv_crash v w' = {Some bytes})
     (\<lambda>_ w'. dv_crash v w' \<subseteq> insert (Some bytes) (dv_crash v w)) s"
  proof (rule go_wp_seqI [OF durable_rename [OF assms(1) temp]])
    fix s1 assume s1: "dv_visible v s1 = Some bytes \<and> dv_crash v s1 \<subseteq> insert (Some bytes) (dv_crash v s)"
    show "go_wp (go_seq (boundary env ''before-directory-sync'')
      (go_seq (px_Fsync (je_posix env) d) (boundary env ''after-directory-sync'')))
     (\<lambda>_ w'. dv_crash v w' = {Some bytes})
     (\<lambda>_ w'. dv_crash v w' \<subseteq> insert (Some bytes) (dv_crash v w)) s1"
    proof (rule go_wp_seqI [OF bnd])
      fix s2 assume s2: "dv_file v s2 = dv_file v s1"
      show "go_wp (go_seq (px_Fsync (je_posix env) d) (boundary env ''after-directory-sync''))
        (\<lambda>_ w'. dv_crash v w' = {Some bytes})
        (\<lambda>_ w'. dv_crash v w' \<subseteq> insert (Some bytes) (dv_crash v w)) s2"
        by (rule go_wp_seqI [OF durable_sync_dir [OF assms(1)]], rule go_wp_mono [OF bnd])
          (use s s1 s2 in \<open>auto simp: dv_file_def\<close>)
    qed (use s s1 in \<open>auto simp: dv_file_def\<close>)
  qed (use s in \<open>auto simp: dv_file_def\<close>)
qed (auto simp: dv_file_def)

lemma persist_cleanup_keeps:
  assumes "posix_durable env d v"
  shows "go_keeps (dv_file v) (persist_cleanup (je_posix env) d (tempName u) f err)"
  unfolding persist_cleanup_def Let_def by (intro go_keeps_rules durable_frames [OF assms])

lemma persist_cleanup_error:
  "go_wp (persist_cleanup px d name f (Some e)) (\<lambda>_ _. False) (\<lambda>_ _. True) w"
proof -
  show ?thesis
    unfolding persist_cleanup_def Let_def
  proof (rule go_wp_bindI [where R = "\<lambda>err1 _. err1 \<noteq> None" and E' = "\<lambda>_ _. True"])
    show "go_wp (case f of None \<Rightarrow> go_return (Some e)
       | Some file \<Rightarrow> go_bind (go_try (px_Close px file)) (\<lambda>r.
           go_return (errors_Join [Some e, case r of Inl e \<Rightarrow> Some e | Inr _ \<Rightarrow> None])))
      (\<lambda>err1 _. err1 \<noteq> None) (\<lambda>_ _. True) w"
      by (auto simp: go_wp_rules go_return_def split: option.split intro!: go_wp_any)
  next
    fix err1 :: "go_error option" and s assume "err1 \<noteq> None"
    then show "go_wp (go_bind (go_try (px_Unlinkat px d name)) (\<lambda>r.
       case (case r of Inl e \<Rightarrow> (if errors_Is e ENOENT then err1 else errors_Join [err1, Some e])
             | Inr _ \<Rightarrow> err1) of None \<Rightarrow> go_return () | Some e \<Rightarrow> go_throw e))
      (\<lambda>_ _. False) (\<lambda>_ _. True) s"
      by (auto simp: go_wp_rules go_throw_def intro!: go_wp_any split: option.split if_splits)
  qed simp
qed

lemma persist_file_atomic:
  assumes "posix_durable env d v"
  shows "go_wp (persist_file env d wrapped)
     (\<lambda>_ w'. dv_crash v w' = {Some wrapped})
     (\<lambda>_ w'. dv_crash v w' \<subseteq> insert (Some wrapped) (dv_crash v w)) w"
proof -
  let ?Q = "\<lambda>_ w'. dv_crash v w' = {Some wrapped}"
  let ?E = "\<lambda>_ w'. dv_crash v w' \<subseteq> insert (Some wrapped) (dv_crash v w)"
  note fr = durable_frames [OF assms]
  have clean: "go_wp (persist_cleanup (je_posix env) d (tempName u) f (Some e)) ?Q ?E s"
    if "dv_crash v s \<subseteq> insert (Some wrapped) (dv_crash v w)" for u f e s
    by (rule go_wp_mono [OF go_keeps_wp_conj [OF persist_cleanup_keeps [OF assms] persist_cleanup_error]])
      (use that in \<open>auto simp: dv_file_def\<close>)
  have clean_ok: "go_wp (persist_cleanup (je_posix env) d (tempName u) f None) ?Q ?E s"
    if "dv_crash v s = {Some wrapped}" for u f s
    by (rule go_wp_mono [OF go_keeps_wp [OF persist_cleanup_keeps [OF assms]]])
      (use that in \<open>auto simp: dv_file_def\<close>)
  have publish: "go_wp (go_bind (go_try (go_seq (px_Close (je_posix env) f)
      (persist_publish env d (tempName u)))) (\<lambda>r2. persist_cleanup (je_posix env) d (tempName u) None
        (case r2 of Inl e \<Rightarrow> Some e | Inr _ \<Rightarrow> None))) ?Q ?E s"
    if s: "dv_file v s = dv_file v w" "dv_temp v (tempName u) f s = (Some f, wrapped, True)" for u f s
  proof -
    have "go_wp (go_seq (px_Close (je_posix env) f) (persist_publish env d (tempName u))) ?Q ?E s"
      by (rule go_wp_seqI [OF go_keeps_wp [OF go_keeps_pair [OF fr(5) fr(10) [where name = "tempName u"]]]],
          rule go_wp_mono [OF persist_publish_atomic [OF assms, where f = f]])
        (use s in \<open>auto simp: dv_file_def\<close>)
    then show ?thesis
      by (auto simp: go_wp_bind go_wp_try intro: clean clean_ok elim!: go_wp_mono)
  qed
  have main: "go_wp (go_bind (go_try (persist_write env f wrapped)) (\<lambda>r. case r of
        Inl e \<Rightarrow> persist_cleanup (je_posix env) d (tempName u) (Some f) (Some e)
      | Inr _ \<Rightarrow> go_bind (go_try (go_seq (px_Close (je_posix env) f)
          (persist_publish env d (tempName u)))) (\<lambda>r2. persist_cleanup (je_posix env) d (tempName u) None
            (case r2 of Inl e \<Rightarrow> Some e | Inr _ \<Rightarrow> None)))) ?Q ?E s"
    if s: "dv_file v s = dv_file v w" "f \<noteq> d" "dv_entry v s (tempName u) = Some f" "dv_data v s f = []"
    for u f s
    unfolding go_wp_bind go_wp_try
    apply (rule go_wp_mono [OF persist_write_complete [OF assms s(2-4)]])
     apply (simp only: sum.case, rule publish; use s(1) in simp)
    apply (simp only: sum.case, rule clean; use s(1) in \<open>auto simp: dv_file_def\<close>)
    done
  show ?thesis
    unfolding persist_file_def Let_def
    apply (rule go_wp_seqI [OF go_keeps_wp [OF fr(8)]])
     apply (rule go_wp_bindI [OF go_keeps_wp [OF fr(7)]])
      apply (rule go_wp_bindI [OF durable_create [OF assms]])
       apply (rule main)
          apply (auto simp: dv_file_def)
    done
qed

section \<open>Durable acknowledgements\<close>

lemma open_parts_keeps:
  assumes "posix_durable env d v"
  shows "go_keeps (dv_file v) (open_parts (je_posix env) False parts fd created)"
proof (induction parts arbitrary: fd created)
  case Nil
  show ?case by (simp add: go_keeps_return)
next
  case (Cons part parts)
  show ?case
    unfolding open_parts.simps Let_def
    by (simp only: simp_thms if_False)
      (intro go_keeps_rules Cons.IH durable_frames [OF assms])
qed

lemma checkLock_keeps:
  assumes "posix_durable env d v"
  shows "go_keeps (dv_file v) (checkLock (je_posix env) dir lock)"
  unfolding checkLock_def openDirectory_def with_fd_def
  by (intro go_keeps_rules secureFile_keeps open_parts_keeps [OF assms] durable_frames [OF assms])

text \<open>
  JSON round trip of one record: \<open>json.Marshal\<close> followed by the strict decoder gives back
  the record and the envelope. (The raw messages inside a record come from
  \<open>json.Marshal\<close>, so they are not changed by being embedded.)
\<close>

definition codec_roundtrip :: "codec \<Rightarrow> journal_record \<Rightarrow> bool" where
  "codec_roundtrip cd r \<longleftrightarrow> (\<forall>data. cd_MarshalRecord cd r = Some data \<longrightarrow>
     cd_DecodeRecord cd data = Some r \<and>
     (\<forall>sha wrapped. cd_MarshalEnvelope cd data sha = Some wrapped \<longrightarrow>
        cd_DecodeEnvelope cd wrapped = Some (data, sha)))"

lemma decode_encode:
  assumes "codec_roundtrip cd r" and "record_ok domain r" and "encode_journal cd r = Inr wrapped"
  shows "decode_journal cd domain wrapped = Inr r"
  using assms
  by (auto simp: encode_journal_def decode_journal_def codec_roundtrip_def split: option.splits if_splits)

lemma write_journal_atomic:
  assumes "posix_durable env (fst (j_dir j)) v"
  shows "go_wp (write_journal env j next)
     (\<lambda>_ w'. \<exists>wrapped. encode_journal (je_codec env) next = Inr wrapped \<and> dv_crash v w' = {Some wrapped})
     (\<lambda>_ w'. \<forall>c \<in> dv_crash v w'. c \<in> dv_crash v w \<or>
        (\<exists>wrapped. encode_journal (je_codec env) next = Inr wrapped \<and> c = Some wrapped)) w"
  unfolding write_journal_def
  apply (rule go_wp_seqI [OF go_keeps_wp [OF checkLock_keeps [OF assms]]])
   apply (auto simp: go_wp_bind go_wp_of dv_file_def split: sum.split
      intro!: go_wp_mono [OF persist_file_atomic [OF assms]])
  done

lemma check_durable:
  assumes "posix_durable env d v"
    and "\<And>w'. \<lbrakk>dv_crash v w' = dv_crash v w; \<not> stopped j\<rbrakk> \<Longrightarrow> Q () (j, w')"
    and "\<And>e j' w'. \<lbrakk>dv_crash v w' = dv_crash v w; refused j j'\<rbrakk> \<Longrightarrow> E e (j', w')"
  shows "go_wp (Journal_check env) Q E (j, w)"
proof -
  have keeps: "go_keeps (\<lambda>s. dv_file v (snd s)) (Journal_check env)"
    unfolding Journal_check_def Journal_checkLock_def
    by (intro go_keeps_rules checkLock_keeps [OF assms(1)]) (simp add: go_keeps_def go_modify_def)
  have "go_wp (Journal_check env) (\<lambda>_ (j', _). j' = j \<and> \<not> stopped j) (\<lambda>_ (j', _). refused j j') (j, w)"
    by (rule check_wp) (auto simp: stopped_def)
  from go_keeps_wp_conj [OF keeps this] show ?thesis
    by (rule go_wp_mono) (auto simp: dv_file_def assms(2,3))
qed

lemma persist_durable:
  assumes "posix_durable env (fst (j_dir j)) v"
    and "\<And>w' wrapped. \<lbrakk>encode_journal (je_codec env) next = Inr wrapped; dv_crash v w' = {Some wrapped}\<rbrakk>
      \<Longrightarrow> Q () (j, w')"
    and "\<And>w'. \<forall>c \<in> dv_crash v w'. c \<in> dv_crash v w \<or>
        (\<exists>wrapped. encode_journal (je_codec env) next = Inr wrapped \<and> c = Some wrapped)
      \<Longrightarrow> E write_failed (j\<lparr>j_blocked := Some write_failed\<rparr>, w')"
  shows "go_wp (persist env next) Q E (j, w)"
  unfolding persist_def
  by (simp add: go_wp_bind go_wp_get go_wp_try go_wp_env go_wp_return go_wp_seq go_wp_modify go_wp_throw)
    (rule go_wp_mono [OF write_journal_atomic [OF assms(1)]], use assms(2,3) in auto)

text \<open>
  The two outcomes of an operation that writes the record \<open>next\<close>: every crash from then on
  shows \<open>next\<close>, or a crash shows what it showed before or \<open>next\<close>.
\<close>

definition durably :: "'w journal_env \<Rightarrow> Domain \<Rightarrow> 'w disk_view \<Rightarrow> journal_record \<Rightarrow> 'w \<Rightarrow> bool" where
  "durably env domain v next w \<longleftrightarrow>
     (\<exists>bytes. dv_crash v w = {Some bytes} \<and> decode_journal (je_codec env) domain bytes = Inr next)"

definition old_or_new ::
  "'w journal_env \<Rightarrow> Domain \<Rightarrow> 'w disk_view \<Rightarrow> 'w \<Rightarrow> journal_record \<Rightarrow> 'w \<Rightarrow> bool" where
  "old_or_new env domain v w next w' \<longleftrightarrow> (\<forall>c \<in> dv_crash v w'. c \<in> dv_crash v w \<or>
     (\<exists>bytes. c = Some bytes \<and> decode_journal (je_codec env) domain bytes = Inr next))"

section \<open>An in-memory file system\<close>

text \<open>
  A state directory \<open>/j\<close> (descriptor 2, below the root, descriptor 1) on which the
  hypotheses of this theory hold. Descriptors are inodes; a file is stable once it was synced,
  a directory entry once the directory was.
\<close>

record memfs =
  mf_dir :: bool
  mf_names :: "(string, nat) gomap"
  mf_data :: "(nat, string) gomap"
  mf_synced :: "nat list"
  mf_next :: nat
  mf_crash :: "string option list"

definition mf_content :: "memfs \<Rightarrow> nat \<Rightarrow> string" where
  "mf_content w f = (case map_of (mf_data w) f of None \<Rightarrow> [] | Some s \<Rightarrow> s)"

definition mf_visible :: "memfs \<Rightarrow> string option" where
  "mf_visible w = (case map_of (mf_names w) journalName of
     None \<Rightarrow> None | Some f \<Rightarrow> Some (mf_content w f))"

definition mem_stat :: "nat \<Rightarrow> stat_t" where
  "mem_stat f = \<lparr>st_dev = 1, st_ino = f, st_mode = (if f \<le> 2 then 16832 else 33152), st_uid = 0, st_nlink = 1\<rparr>"

definition mem_open :: "fd \<Rightarrow> string \<Rightarrow> oflag list \<Rightarrow> 32 word \<Rightarrow> (memfs, fd) go" where
  "mem_open d name flags mode w =
    (if d = 1 then (if name = ''j'' \<and> mf_dir w then (Inr 2, w) else (Inl ENOENT, w))
     else if d = 2 then
       (case map_of (mf_names w) name of
          Some f \<Rightarrow> (if O_EXCL \<in> set flags then (Inl EEXIST, w) else (Inr f, w))
        | None \<Rightarrow> (if O_EXCL \<in> set flags \<and> name \<noteq> journalName
            then let f = Suc (foldr max (map snd (mf_names w)) (max 3 (mf_next w))) in (Inr f,
              w\<lparr>mf_next := f, mf_names := AList.update name f (mf_names w),
                mf_data := AList.update f [] (mf_data w),
                mf_synced := filter (\<lambda>g. g \<noteq> f) (mf_synced w)\<rparr>)
            else (Inl ENOENT, w)))
     else (Inl ENOENT, w))"

definition mem_posix :: "memfs posix" where
  "mem_posix = \<lparr>px_Geteuid = (\<lambda>_. 0), px_OpenRoot = go_return 1, px_Openat = mem_open,
     px_Mkdirat = (\<lambda>d name mode. go_modify (mf_dir_update (\<lambda>_. True))),
     px_Fsync = (\<lambda>f w. (Inr (), if f = 2 then w\<lparr>mf_crash := [mf_visible w]\<rparr>
        else w\<lparr>mf_synced := f # mf_synced w\<rparr>)),
     px_Fstat = (\<lambda>f. go_return (mem_stat f)),
     px_Fstatat = (\<lambda>d name w. case map_of (mf_names w) name of
        None \<Rightarrow> (Inl ENOENT, w) | Some f \<Rightarrow> (Inr (mem_stat f), w)),
     px_Flock = (\<lambda>_. go_return ()),
     px_Write = (\<lambda>f bytes w. if map_of (mf_names w) journalName = Some f
        then (Inl (errors_New ''EBADF''), w)
        else (Inr (), w\<lparr>mf_data := AList.update f (mf_content w f @ bytes) (mf_data w)\<rparr>)),
     px_ReadAll = (\<lambda>f limit w. (Inr (if int (length (mf_content w f)) \<le> limit
        then mf_content w f else take (nat limit) (mf_content w f)), w)),
     px_Close = (\<lambda>_. go_return ()),
     px_Renameat = (\<lambda>d old new w. case map_of (mf_names w) old of
        None \<Rightarrow> (Inl ENOENT, w)
      | Some f \<Rightarrow> (Inr (), w\<lparr>mf_names := AList.update new f (AList.delete old (mf_names w)),
          mf_crash := Some (mf_content w f) # mf_crash w\<rparr>)),
     px_Unlinkat = (\<lambda>d name w. case map_of (mf_names w) name of
        None \<Rightarrow> (Inl ENOENT, w) | Some _ \<Rightarrow> (Inr (), w\<lparr>mf_names := AList.delete name (mf_names w)\<rparr>)),
     px_NewUUID = go_return ''u''\<rparr>"

definition mem_view :: "memfs disk_view" where
  "mem_view = \<lparr>dv_visible = mf_visible, dv_crash = set \<circ> mf_crash, dv_entry = map_of \<circ> mf_names,
     dv_data = mf_content, dv_synced = (\<lambda>w f. f \<in> set (mf_synced w))\<rparr>"

lemma le_foldr_max: "x \<in> set xs \<Longrightarrow> x \<le> foldr max xs (a :: nat)" "a \<le> foldr max xs a"
  by (induction xs) (auto simp: le_max_iff_disj)

lemma mem_create_fresh:
  assumes "map_of (mf_names w) name = Some g"
  shows "g \<noteq> Suc (foldr max (map snd (mf_names w)) a)"
proof -
  have "g \<in> set (map snd (mf_names w))"
    using map_of_SomeD [OF assms] by force
  then show ?thesis using le_foldr_max(1) by (metis not_less_eq_eq order_refl)
qed

lemma mem_create_visible:
  assumes "name \<noteq> journalName" and "f = Suc (foldr max (map snd (mf_names w)) a)"
  shows "mf_visible (w\<lparr>mf_next := n, mf_names := AList.update name f (mf_names w),
    mf_data := AList.update f [] (mf_data w), mf_synced := y\<rparr>) = mf_visible w"
  using assms mem_create_fresh [of w journalName]
  by (cases "map_of (mf_names w) journalName") (auto simp: mf_visible_def mf_content_def)

lemma mem_open_keeps: "go_keeps (dv_file mem_view) (mem_open f name flags mode)"
  by (auto simp: go_keeps_def mem_open_def dv_file_def mem_view_def mem_create_visible
      Let_def split: option.split)

lemmas mem_view_defs = dv_file_def dv_temp_def mem_view_def mf_visible_def mf_content_def

lemma mem_frames:
  "go_keeps (dv_file mem_view) (px_Fstatat mem_posix f name)"
  "go_keeps (dv_file mem_view) (px_Write mem_posix f bytes)"
  "f \<noteq> 2 \<Longrightarrow> go_keeps (dv_file mem_view) (px_Fsync mem_posix f)"
  "name \<noteq> journalName \<Longrightarrow> go_keeps (dv_file mem_view) (px_Unlinkat mem_posix 2 name)"
  by (auto simp: mem_posix_def go_keeps_def mem_view_defs split: option.split)

lemma mem_create:
  "go_wp (mem_open 2 name [O_WRONLY, O_CREAT, O_EXCL, O_NOFOLLOW, O_CLOEXEC] 384)
     (\<lambda>f w'. f \<noteq> 2 \<and> dv_entry mem_view w' name = Some f \<and> dv_data mem_view w' f = []) (\<lambda>_ _. True) w"
  using le_foldr_max(2) [of "max 3 (mf_next w)" "map snd (mf_names w)"]
  by (auto simp: mem_open_def go_wp_def mem_view_defs Let_def split: option.split)

lemma mem_file:
  "go_wp (px_Write mem_posix f bytes)
     (\<lambda>_ w'. dv_entry mem_view w' name = dv_entry mem_view w name \<and>
        dv_data mem_view w' f = dv_data mem_view w f @ bytes) (\<lambda>_ _. True) w"
  "f \<noteq> 2 \<Longrightarrow> go_wp (px_Fsync mem_posix f)
     (\<lambda>_ w'. dv_entry mem_view w' name = dv_entry mem_view w name \<and>
        dv_data mem_view w' f = dv_data mem_view w f \<and> dv_synced mem_view w' f) (\<lambda>_ _. True) w"
  by (auto simp: mem_posix_def go_wp_def mem_view_defs)

lemma mem_rename:
  "dv_entry mem_view w name = Some f \<Longrightarrow> go_wp (px_Renameat mem_posix 2 name journalName)
     (\<lambda>_ w'. dv_visible mem_view w' = Some (dv_data mem_view w f) \<and>
        dv_crash mem_view w' \<subseteq> insert (Some (dv_data mem_view w f)) (dv_crash mem_view w))
     (\<lambda>_ w'. dv_file mem_view w' = dv_file mem_view w) w"
  "go_wp (px_Fsync mem_posix 2)
     (\<lambda>_ w'. dv_visible mem_view w' = dv_visible mem_view w \<and>
        dv_crash mem_view w' = {dv_visible mem_view w})
     (\<lambda>_ w'. dv_crash mem_view w' \<subseteq> dv_crash mem_view w) w"
  by (auto simp: mem_posix_def go_wp_def mem_view_defs split: option.split)

lemma mem_pure:
  "px_OpenRoot mem_posix = go_return 1" "px_Openat mem_posix = mem_open"
  "px_Fstat mem_posix f = go_return (mem_stat f)" "px_Close mem_posix f = go_return ()"
  "px_NewUUID mem_posix = go_return ''u''"
  by (simp_all add: mem_posix_def)

lemma mem_durable:
  assumes "je_posix env = mem_posix" and "je_fault env = None"
  shows "posix_durable env 2 mem_view"
proof -
  have "boundary env b = go_return ()" for b
    using assms by (simp add: boundary_def)
  then show ?thesis
    unfolding posix_durable_def Let_def assms(1)
    by (intro conjI allI impI)
      (simp_all add: mem_pure mem_frames mem_create mem_file mem_rename mem_open_keeps go_keeps_return)
qed

text \<open>A codec for the records of a list: a record is written as its position.\<close>

definition mem_codec :: "journal_record list \<Rightarrow> codec" where
  "mem_codec rs = \<lparr>
     cd_MarshalRecord = (\<lambda>r. if r \<in> set rs
       then Some (replicate (length (takeWhile (\<lambda>x. x \<noteq> r) rs)) CHR ''x'') else None),
     cd_DecodeRecord = (\<lambda>s. if length s < length rs then Some (rs ! length s) else None),
     cd_MarshalEnvelope = (\<lambda>data sha. Some (data @ CHR '':'' # sha)),
     cd_DecodeEnvelope = (\<lambda>s. Some (takeWhile (\<lambda>c. c \<noteq> CHR '':'') s, drop 1 (dropWhile (\<lambda>c. c \<noteq> CHR '':'') s))),
     cd_SHA256Hex = (\<lambda>s. ''digest''),
     cd_ParseUUID = (\<lambda>s. Some s)\<rparr>"

lemma While_replicate:
  assumes "P a" and "\<not> P c"
  shows "takeWhile P (replicate n a @ c # s) = replicate n a"
    and "dropWhile P (replicate n a @ c # s) = c # s"
  using assms by (induction n) simp_all

lemma mem_codec_roundtrip: "codec_roundtrip (mem_codec rs) r"
proof -
  have "length (takeWhile (\<lambda>x. x \<noteq> r) rs) < length rs \<and> rs ! length (takeWhile (\<lambda>x. x \<noteq> r) rs) = r"
    if "r \<in> set rs"
    using that by (induction rs) auto
  then show ?thesis
    by (auto simp: codec_roundtrip_def mem_codec_def While_replicate)
qed

definition mem_env :: "journal_record list \<Rightarrow> memfs journal_env" where
  "mem_env rs = \<lparr>je_posix = mem_posix, je_codec = mem_codec rs, je_fault = None\<rparr>"

definition mem_domain :: Domain where
  "mem_domain = \<lparr>d_InstallationUID = ''i'', d_NodeUID = ''n'', d_BootID = ''b'',
     d_NetworkNamespace = ''net'', d_ConfigDigest = replicate 64 CHR ''0''\<rparr>"

definition mem_empty :: memfs where
  "mem_empty = \<lparr>mf_dir = False, mf_names = [], mf_data = [], mf_synced = [], mf_next = 0, mf_crash = [None]\<rparr>"

text \<open>The journal and the disk after \<open>Open\<close> created them.\<close>

definition mem_journal :: Journal where
  "mem_journal = \<lparr>j_dir = (2, ''/j''), j_lock = Some 4, j_record = initial_record mem_domain,
     j_blocked = None, j_closed = False\<rparr>"

definition mem_ready :: memfs where
  "mem_ready = \<lparr>mf_dir = True, mf_names = [(''owner.lock'', 4), (''journal.json'', 5)],
     mf_data = [(4, []), (5, '':digest'')], mf_synced = [5, 4, 1], mf_next = 5,
     mf_crash = [Some '':digest'']\<rparr>"

abbreviation mem_begun :: journal_record where
  "mem_begun \<equiv> begun (initial_record mem_domain) ''op'' ''1''"

abbreviation mem_committed :: journal_record where
  "mem_committed \<equiv> committed mem_begun ''2''"

definition mem_env0 :: "memfs journal_env" where
  "mem_env0 = mem_env [initial_record mem_domain, mem_begun, mem_committed]"

lemma mem_env0_laws:
  "posix_durable mem_env0 2 mem_view" "codec_roundtrip (je_codec mem_env0) r"
  by (simp_all add: mem_durable mem_codec_roundtrip mem_env0_def mem_env_def)

section \<open>Properties of the journal\<close>

lemma old_or_new_refl: "dv_crash v w' = dv_crash v w \<Longrightarrow> old_or_new env domain v w r w'"
  by (simp add: old_or_new_def)





text \<open>The states of one journal: opened, then used by any sequence of calls.\<close>

inductive journal_reach :: "'w journal_env \<Rightarrow> Domain \<Rightarrow> Journal \<times> 'w \<Rightarrow> bool"
  for env domain where
  reach_Open: "Journal_Open env directory domain create w = (Inr j, w') \<Longrightarrow> journal_reach env domain (j, w')"
| reach_Begin: "\<lbrakk>journal_reach env domain s; payload \<noteq> Inr []; Journal_Begin env operation payload s = (r, s')\<rbrakk>
    \<Longrightarrow> journal_reach env domain s'"
| reach_Commit: "\<lbrakk>journal_reach env domain s; state \<noteq> Inr []; Journal_Commit env n state s = (r, s')\<rbrakk>
    \<Longrightarrow> journal_reach env domain s'"
| reach_Snapshot: "\<lbrakk>journal_reach env domain s; Journal_Snapshot env s = (r, s')\<rbrakk>
    \<Longrightarrow> journal_reach env domain s'"
| reach_Close: "\<lbrakk>journal_reach env domain s; Journal_Close env s = (r, s')\<rbrakk> \<Longrightarrow> journal_reach env domain s'"
| reach_world: "journal_reach env domain (j, w) \<Longrightarrow> journal_reach env domain (j, w')"

lemma record_ok_step:
  assumes "go_wp m (\<lambda>_ (j', _). record_ok domain (j_record j')) (\<lambda>_ (j', _). record_ok domain (j_record j')) s"
    and "m s = (r, s')"
  shows "record_ok domain (j_record (fst s'))"
  using go_wp_resultD [OF assms] by (auto split: sum.splits prod.splits)

text \<open>
  C17 (invariant). Whatever calls are made on an opened journal, with whatever results of the
  system calls, its record stays one that \<open>Open\<close> would accept for the same domain; in
  particular at most one operation is pending and it carries the newest sequence number.
\<close>

theorem journal_reach_ok:
  "journal_reach env domain s \<Longrightarrow> record_ok domain (j_record (fst s))"
proof (induction rule: journal_reach.induct)
  case (reach_Open directory create w j w')
  then show ?case
    using go_wp_resultD [OF Open_wp, of env directory domain create w] decode_journal_ok by fastforce
next
  case (reach_Begin s payload operation r s')
  then show ?case
    by (cases s) (auto intro!: record_ok_step [where m = "Journal_Begin env operation payload", OF _ reach_Begin(3)] Begin_wp begun_ok dest!: refused_record)
next
  case (reach_Commit s state n r s')
  then show ?case
    by (cases s) (auto intro!: record_ok_step [where m = "Journal_Commit env n state", OF _ reach_Commit(3)] Commit_wp committed_ok dest!: refused_record)
next
  case (reach_Snapshot s r s')
  then show ?case
    by (cases s) (auto intro!: record_ok_step [where m = "Journal_Snapshot env", OF _ reach_Snapshot(2)] Snapshot_wp dest!: refused_record)
next
  case (reach_Close s r s')
  then show ?case
    by (cases s) (auto intro!: record_ok_step [where m = "Journal_Close env", OF _ reach_Close(2)] Close_wp)
qed simp

theorem journal_reach_ok_witness:
  "case Journal_Begin mem_env0 ''op'' (Inr ''1'') (mem_journal, mem_ready) of (_, s) \<Rightarrow>
     journal_reach mem_env0 mem_domain s \<and> record_ok mem_domain (j_record (fst s)) \<and>
     jr_Pending (j_record (fst s)) \<noteq> None"
proof -
  have "Journal_Open mem_env0 ''/j'' mem_domain True mem_empty = (Inr mem_journal, mem_ready)"
    by code_simp
  then have "journal_reach mem_env0 mem_domain (mem_journal, mem_ready)"
    by (rule reach_Open)
  moreover obtain r s where run: "Journal_Begin mem_env0 ''op'' (Inr ''1'') (mem_journal, mem_ready) = (r, s)"
    by (rule prod.exhaust)
  ultimately have "journal_reach mem_env0 mem_domain s"
    by (intro reach_Begin [OF _ _ run]) simp_all
  moreover from this have "record_ok mem_domain (j_record (fst s))" by (rule journal_reach_ok)
  moreover have "jr_Pending (j_record (fst (snd
    (Journal_Begin mem_env0 ''op'' (Inr ''1'') (mem_journal, mem_ready))))) \<noteq> None"
    by code_simp
  ultimately show ?thesis using run by simp
qed

text \<open>
  C18 (a failed write is final). When writing a record fails, the record in memory is unchanged
  and every later \<open>Begin\<close>, \<open>Commit\<close> and \<open>Snapshot\<close> returns that same
  error, without a system call and without any effect.
\<close>

theorem failed_write_final:
  assumes "persist env r (j, w) = (Inl e, (j', w'))" and "\<not> j_closed j"
  shows "errors_Is e ErrBlocked \<and> j_record j' = j_record j \<and>
    Journal_Begin env operation payload (j', w'') = (Inl e, (j', w'')) \<and>
    Journal_Commit env n state (j', w'') = (Inl e, (j', w'')) \<and>
    Journal_Snapshot env (j', w'') = (Inl e, (j', w''))"
proof -
  have "go_wp (persist env r) (\<lambda>_ _. True)
    (\<lambda>e (j', _). e = write_failed \<and> j' = j\<lparr>j_blocked := Some write_failed\<rparr>) (j, w)"
    by (rule persist_wp) auto
  from go_wp_resultD [OF this assms(1)]
  have "e = write_failed" and "j' = j\<lparr>j_blocked := Some e\<rparr>" by auto
  then have "Journal_check env (j', w'') = (Inl e, (j', w''))"
    using assms(2) by (simp add: Journal_check_def go_bind_def go_get_def go_throw_def)
  then show ?thesis
    using \<open>e = write_failed\<close> \<open>j' = _\<close>
    by (simp add: Journal_Begin_def Journal_Commit_def Journal_Snapshot_def go_seq_def go_bind_def)
qed

theorem failed_write_final_witness:
  "case persist mem_env0 zero_record (mem_journal, mem_ready) of (r, (j, w)) \<Rightarrow>
     r = Inl write_failed \<and> Journal_Begin mem_env0 ''op'' (Inr ''1'') (j, mem_ready) = (Inl write_failed, (j, mem_ready))"
proof -
  obtain r j w where run: "persist mem_env0 zero_record (mem_journal, mem_ready) = (r, (j, w))"
    by (rule prod_cases3)
  have "fst (persist mem_env0 zero_record (mem_journal, mem_ready)) = Inl write_failed"
    by code_simp
  with run have r: "r = Inl write_failed" by simp
  from failed_write_final [of mem_env0 zero_record mem_journal mem_ready write_failed j w "''op''" "Inr ''1''" mem_ready]
  show ?thesis using run r by (simp add: mem_journal_def)
qed


text \<open>
  C39 (bounds). A successful \<open>Begin\<close> hands out the successor of the current sequence number as
  a number: the 64-bit counter never wraps.
\<close>

theorem Begin_sequence:
  "go_wp (Journal_Begin env operation payload)
     (\<lambda>n (j', _). unat n = unat (jr_Sequence (j_record j)) + 1 \<and> jr_Sequence (j_record j') = n)
     (\<lambda>_ (j', _). jr_Sequence (j_record j') = jr_Sequence (j_record j)) (j, w)"
proof (rule Begin_wp)
  fix data w' assume "jr_Sequence (j_record j) \<noteq> - 1"
  then have "jr_Sequence (j_record j) + 1 \<noteq> 0" by (simp add: eq_neg_iff_add_eq_0)
  then show "case (j\<lparr>j_record := begun (j_record j) operation data\<rparr>, w') of
    (j', _) \<Rightarrow> unat (jr_Sequence (j_record j) + 1) = unat (jr_Sequence (j_record j)) + 1 \<and>
      jr_Sequence (j_record j') = jr_Sequence (j_record j) + 1"
    by (simp add: unatSuc add.commute)
qed (simp add: refused_record)

end
