(* ===== verification/Type2_Route.thy ===== *)
theory Type2_Route
  imports Go_Std
begin

text \<open>
  \<open>pkg/evpn/type2.go\<close>: local endpoints, their validation and the EVPN Type-2 route built
  from one. The GoBGP packet library (\<open>github.com/osrg/gobgp/v4/pkg/packet/bgp\<close>) is not
  part of the repository; the functions of it that are called here are the fields of the
  record \<open>bgp_lib\<close>, an argument of the definitions that call them.
\<close>

section \<open>Values of the GoBGP packet library\<close>

text \<open>A parsed route distinguisher and the communities only the library can read are opaque.\<close>

type_synonym rd = string

datatype ExtendedCommunity =
    EncapExtended nat
  | MacMobilityExtended "32 word" bool
  | LibCommunity string

record EVPNMacIPAdvertisementRoute =
  m_RD :: "rd option"
  m_ESI :: string
  m_ETag :: "32 word"
  m_MacAddressLength :: nat
  m_MacAddress :: HardwareAddr
  m_IPAddressLength :: nat
  m_IPAddress :: "Addr option"
  m_Labels :: "32 word list"

datatype EVPNRouteTypeData =
    MacIPAdvertisement EVPNMacIPAdvertisementRoute
  | OtherRouteTypeData string

record EVPNNLRI =
  n_RouteType :: nat
  n_RouteTypeData :: EVPNRouteTypeData

record MpReachNLRI =
  mp_AFI :: nat
  mp_SAFI :: nat
  mp_Nexthop :: "Addr option"
  mp_LinkLocalNexthop :: "Addr option"
  mp_Value :: "EVPNNLRI option list"

datatype PathAttribute =
    PathAttributeOrigin nat
  | PathAttributeNextHop Addr
  | PathAttributeMpReachNLRI MpReachNLRI
  | PathAttributeExtendedCommunities "ExtendedCommunity list"
  | PathAttributeTunnelEncap string
  | PathAttributeKnown nat string
  | PathAttributeOther nat string

definition EVPN_ROUTE_TYPE_MAC_IP_ADVERTISEMENT :: nat where
  "EVPN_ROUTE_TYPE_MAC_IP_ADVERTISEMENT = 2"

definition BGP_ORIGIN_ATTR_TYPE_IGP :: nat where
  "BGP_ORIGIN_ATTR_TYPE_IGP = 0"

definition TUNNEL_TYPE_VXLAN :: nat where
  "TUNNEL_TYPE_VXLAN = 8"

record bgp_lib =
  ParseRouteDistinguisher :: "string \<Rightarrow> rd option"
  RD_String :: "rd \<Rightarrow> string"
  ParseRouteTarget :: "string \<Rightarrow> ExtendedCommunity option"
  Community_Serialize :: "ExtendedCommunity \<Rightarrow> string option"
  Community_String :: "ExtendedCommunity \<Rightarrow> string"
  Community_GetTypes :: "ExtendedCommunity \<Rightarrow> nat \<times> nat"
  NewEVPNMacIPAdvertisementRoute :: "rd \<Rightarrow> string \<Rightarrow> 32 word \<Rightarrow> string \<Rightarrow> Addr \<Rightarrow> 32 word list \<Rightarrow> EVPNNLRI option"
  NLRI_Serialize :: "EVPNNLRI \<Rightarrow> string option"
  NLRI_String :: "EVPNNLRI \<Rightarrow> string"
  NewPathAttributeNextHop :: "Addr \<Rightarrow> PathAttribute option"
  Attribute_Serialize :: "PathAttribute \<Rightarrow> string option"

section \<open>Endpoints and routes\<close>

datatype RouteAction = RouteAdvertise | RouteWithdraw | RouteOther string

record LocalEndpoint =
  ep_NetworkID :: string
  ep_EndpointID :: string
  ep_Incarnation :: string
  ep_MACAddress :: string
  ep_IPAddresses :: "string list"
  ep_VNI :: "32 word"
  ep_RouteDistinguisher :: string
  ep_RouteTargets :: "string list"
  ep_LocalVTEP :: string
  ep_NodeName :: string
  ep_Chassis :: string
  ep_Advertise :: bool
  ep_MACOnly :: bool

record routeOperation =
  op_action :: RouteAction
  op_endpoint :: LocalEndpoint
  op_wireKey :: string
  op_pathUUID :: string

text \<open>
  A pointer to a \<open>routeOperation\<close> is an address together with the value there; the
  sources never write through it.
\<close>

record Type2Route =
  rt_Endpoint :: LocalEndpoint
  rt_Action :: RouteAction
  rt_NLRI :: EVPNNLRI
  rt_PathAttributes :: "PathAttribute list"
  rt_operation :: "(nat \<times> routeOperation) option"

text \<open>\<open>cloneLocalEndpoint\<close> copies the two slices; values in the model are never shared.\<close>

definition cloneLocalEndpoint :: "LocalEndpoint \<Rightarrow> LocalEndpoint" where
  "cloneLocalEndpoint ep = ep\<lparr>ep_IPAddresses := [] @ ep_IPAddresses ep,
     ep_RouteTargets := [] @ ep_RouteTargets ep\<rparr>"

lemma cloneLocalEndpoint_id [simp]: "cloneLocalEndpoint ep = ep"
  by (simp add: cloneLocalEndpoint_def)

section \<open>Selecting the advertised address\<close>

fun primaryIP :: "string list \<Rightarrow> string" where
  "primaryIP [] = []"
| "primaryIP (addr # addresses) =
     (let t = TrimSpace addr in
      if t = [] then primaryIP addresses
      else (case (if Contains t ''/'' then ParseCIDR t else None) of
          Some ip \<Rightarrow> Addr_String ip
        | None \<Rightarrow> (case ParseIP t of
            Some ip \<Rightarrow> Addr_String ip
          | None \<Rightarrow> primaryIP addresses)))"

definition parseSelectedIP :: "string list \<Rightarrow> go_error + Addr" where
  "parseSelectedIP addresses =
     (let ipStr = primaryIP addresses in
      if ipStr = [] then Inl (errors_New ''no host ip available'')
      else (case ParseAddr ipStr of
          None \<Rightarrow> Inl (errors_New ''ParseAddr: unable to parse IP'')
        | Some addr \<Rightarrow> Inr addr))"

section \<open>Keys and equivalence\<close>

definition OwnershipKey :: "LocalEndpoint \<Rightarrow> string" where
  "OwnershipKey ep = TrimSpace (ep_EndpointID ep) @ ''/'' @ TrimSpace (ep_Incarnation ep)"

definition RouteKey :: "LocalEndpoint \<Rightarrow> string" where
  "RouteKey ep = Join [
     TrimSpace (ep_NetworkID ep),
     TrimSpace (ep_EndpointID ep),
     TrimSpace (ep_Incarnation ep),
     TrimSpace (ep_RouteDistinguisher ep),
     TrimSpace (ep_MACAddress ep),
     primaryIP (ep_IPAddresses ep),
     FormatUint (unat (ep_VNI ep)),
     TrimSpace (ep_LocalVTEP ep)] ''/''"

definition equalStringSet :: "string list \<Rightarrow> string list \<Rightarrow> bool" where
  "equalStringSet lhs rhs =
     (if length lhs \<noteq> length rhs then False
      else (let left = sort_Strings lhs; right = sort_Strings rhs
            in list_all2 (=) left right))"

definition Equivalent :: "LocalEndpoint \<Rightarrow> LocalEndpoint \<Rightarrow> bool" where
  "Equivalent ep other \<longleftrightarrow>
     ep_NetworkID ep = ep_NetworkID other \<and>
     ep_EndpointID ep = ep_EndpointID other \<and>
     ep_Incarnation ep = ep_Incarnation other \<and>
     ep_RouteDistinguisher ep = ep_RouteDistinguisher other \<and>
     ep_MACAddress ep = ep_MACAddress other \<and>
     ep_VNI ep = ep_VNI other \<and>
     ep_MACOnly ep = ep_MACOnly other \<and>
     primaryIP (ep_IPAddresses ep) = primaryIP (ep_IPAddresses other) \<and>
     ep_LocalVTEP ep = ep_LocalVTEP other \<and>
     equalStringSet (ep_RouteTargets ep) (ep_RouteTargets other)"

section \<open>Validation and construction\<close>

definition LocalEndpoint_Validate :: "bgp_lib \<Rightarrow> LocalEndpoint \<Rightarrow> go_error + unit" where
  "LocalEndpoint_Validate bgp ep =
    (if TrimSpace (ep_NetworkID ep) = [] then Inl (errors_New ''network id is required'')
     else if TrimSpace (ep_EndpointID ep) = [] then Inl (errors_New ''endpoint id is required'')
     else if TrimSpace (ep_Incarnation ep) = [] then Inl (errors_New ''incarnation is required'')
     else if TrimSpace (ep_MACAddress ep) = [] then Inl (errors_New ''mac address is required'')
     else if ParseAddr (ep_LocalVTEP ep) = None then Inl (errors_New ''invalid local vtep %q: %w'')
     else if ep_VNI ep = 0 then Inl (errors_New ''vni must be non-zero'')
     else if TrimSpace (ep_RouteDistinguisher ep) = []
       then Inl (errors_New ''route distinguisher is required'')
     else if ParseRouteDistinguisher bgp (ep_RouteDistinguisher ep) = None
       then Inl (errors_New ''invalid route distinguisher %q: %w'')
     else if ep_RouteTargets ep = [] then Inl (errors_New ''at least one route target is required'')
     else if list_ex (\<lambda>rt. ParseRouteTarget bgp rt = None) (ep_RouteTargets ep)
       then Inl (errors_New ''invalid route target %q: %w'')
     else if ParseMAC (ep_MACAddress ep) = None then Inl (errors_New ''invalid mac address %q: %w'')
     else if ep_MACOnly ep then
       (if ep_IPAddresses ep \<noteq> []
        then Inl (errors_New ''MAC-only advertisement cannot contain IP addresses'') else Inr ())
     else if primaryIP (ep_IPAddresses ep) = []
       then Inl (errors_New ''at least one ip address is required for EVPN Type-2 advertisement'')
     else Inr ())"

definition libcall :: "string \<Rightarrow> 'a option \<Rightarrow> go_error + 'a" where
  "libcall msg r = (case r of None \<Rightarrow> Inl (errors_New msg) | Some x \<Rightarrow> Inr x)"

lemma libcall_Inr_iff [simp]: "libcall msg r = Inr x \<longleftrightarrow> r = Some x"
  by (auto simp: libcall_def split: option.splits)

fun parse_route_targets :: "bgp_lib \<Rightarrow> string list \<Rightarrow> go_error + ExtendedCommunity list" where
  "parse_route_targets bgp [] = Inr []"
| "parse_route_targets bgp (rt # rts) =
     sum_bind (libcall ''ParseRouteTarget'' (ParseRouteTarget bgp rt)) (\<lambda>parsed.
     sum_bind (parse_route_targets bgp rts) (\<lambda>rest. Inr (parsed # rest)))"

text \<open>The address of the route: none for a MAC-only endpoint, the selected one otherwise.\<close>

definition route_address :: "LocalEndpoint \<Rightarrow> go_error + Addr option" where
  "route_address ep = (if ep_MACOnly ep then Inr None
     else sum_bind (parseSelectedIP (ep_IPAddresses ep)) (\<lambda>addr. Inr (Some addr)))"

definition route_NLRI :: "bgp_lib \<Rightarrow> LocalEndpoint \<Rightarrow> Addr option \<Rightarrow> rd \<Rightarrow> go_error + EVPNNLRI" where
  "route_NLRI bgp ep ipAddr rd = (case ipAddr of
     None \<Rightarrow> Inr \<lparr>n_RouteType = EVPN_ROUTE_TYPE_MAC_IP_ADVERTISEMENT,
        n_RouteTypeData = MacIPAdvertisement \<lparr>m_RD = Some rd, m_ESI = replicate 10 CHR 0x00,
          m_ETag = 0, m_MacAddressLength = 48,
          m_MacAddress = (case ParseMAC (ep_MACAddress ep) of None \<Rightarrow> [] | Some mac \<Rightarrow> mac),
          m_IPAddressLength = 0, m_IPAddress = None, m_Labels = [ep_VNI ep]\<rparr>\<rparr>
   | Some addr \<Rightarrow> libcall ''NewEVPNMacIPAdvertisementRoute''
        (NewEVPNMacIPAdvertisementRoute bgp rd (replicate 10 CHR 0x00) 0
           (ep_MACAddress ep) addr [ep_VNI ep]))"

definition BuildType2Route :: "bgp_lib \<Rightarrow> LocalEndpoint \<Rightarrow> go_error + Type2Route" where
  "BuildType2Route bgp ep =
     sum_bind (LocalEndpoint_Validate bgp ep) (\<lambda>_.
     sum_bind (route_address ep) (\<lambda>ipAddr.
     sum_bind (libcall ''ParseAddr'' (ParseAddr (ep_LocalVTEP ep))) (\<lambda>vtep.
     sum_bind (libcall ''ParseRouteDistinguisher''
                (ParseRouteDistinguisher bgp (ep_RouteDistinguisher ep))) (\<lambda>rd.
     sum_bind (route_NLRI bgp ep ipAddr rd) (\<lambda>nlri.
     sum_bind (parse_route_targets bgp (ep_RouteTargets ep)) (\<lambda>rts.
     sum_bind (libcall ''NewPathAttributeNextHop'' (NewPathAttributeNextHop bgp vtep)) (\<lambda>nextHop.
     Inr \<lparr>rt_Endpoint = ep, rt_Action = RouteAdvertise, rt_NLRI = nlri,
          rt_PathAttributes = [PathAttributeOrigin BGP_ORIGIN_ATTR_TYPE_IGP, nextHop,
             PathAttributeExtendedCommunities (rts @ [EncapExtended TUNNEL_TYPE_VXLAN])],
          rt_operation = None\<rparr>)))))))"

text \<open>The wire key of an endpoint: the text of the NLRI it is advertised with.\<close>

definition wire_key :: "bgp_lib \<Rightarrow> LocalEndpoint \<Rightarrow> string option" where
  "wire_key bgp ep = (case BuildType2Route bgp ep of
     Inl _ \<Rightarrow> None | Inr route \<Rightarrow> Some (NLRI_String bgp (rt_NLRI route)))"

section \<open>Equivalence is an equivalence\<close>

lemma equalStringSet_mset: "equalStringSet xs ys \<longleftrightarrow> mset xs = mset ys"
proof -
  have "mset xs = mset ys \<Longrightarrow> length xs = length ys"
    by (metis size_mset)
  moreover have "sort xs = sort ys \<longleftrightarrow> mset xs = mset ys"
    by (metis mset_sort properties_for_sort sorted_sort)
  ultimately show ?thesis
    by (auto simp: equalStringSet_def sort_Strings_def list_all2_eq [symmetric] Let_def)
qed

lemma Equivalent_refl [simp]: "Equivalent ep ep"
  by (simp add: Equivalent_def equalStringSet_mset)

lemma Equivalent_sym: "Equivalent a b \<Longrightarrow> Equivalent b a"
  by (auto simp: Equivalent_def equalStringSet_mset)

lemma Equivalent_trans: "Equivalent a b \<Longrightarrow> Equivalent b c \<Longrightarrow> Equivalent a c"
  by (auto simp: Equivalent_def equalStringSet_mset)

text \<open>What a successful construction consists of.\<close>

lemma BuildType2Route_InrE:
  assumes "BuildType2Route bgp ep = Inr route"
  obtains ipAddr vtep rd nlri rts nextHop where
    "LocalEndpoint_Validate bgp ep = Inr ()" "route_address ep = Inr ipAddr"
    "ParseAddr (ep_LocalVTEP ep) = Some vtep"
    "ParseRouteDistinguisher bgp (ep_RouteDistinguisher ep) = Some rd"
    "route_NLRI bgp ep ipAddr rd = Inr nlri"
    "parse_route_targets bgp (ep_RouteTargets ep) = Inr rts"
    "NewPathAttributeNextHop bgp vtep = Some nextHop"
    "route = \<lparr>rt_Endpoint = ep, rt_Action = RouteAdvertise, rt_NLRI = nlri,
       rt_PathAttributes = [PathAttributeOrigin BGP_ORIGIN_ATTR_TYPE_IGP, nextHop,
         PathAttributeExtendedCommunities (rts @ [EncapExtended TUNNEL_TYPE_VXLAN])],
       rt_operation = None\<rparr>"
  using assms that unfolding BuildType2Route_def sum_bind_Inr_iff libcall_Inr_iff by auto

lemma BuildType2Route_Endpoint:
  "BuildType2Route bgp ep = Inr route \<Longrightarrow> rt_Endpoint route = ep"
  by (erule BuildType2Route_InrE) simp

lemma BuildType2Route_Validate:
  "BuildType2Route bgp ep = Inr route \<Longrightarrow> LocalEndpoint_Validate bgp ep = Inr ()"
  by (erule BuildType2Route_InrE) simp

lemma parse_route_targets_image:
  "parse_route_targets bgp zs = Inr as \<Longrightarrow> as = map (\<lambda>r. the (ParseRouteTarget bgp r)) zs"
  by (induction zs arbitrary: as) (auto simp: sum_bind_Inr_iff)

text \<open>Equivalent endpoints are advertised with the same NLRI.\<close>

lemma Equivalent_route_address: "Equivalent a b \<Longrightarrow> route_address a = route_address b"
  by (simp add: route_address_def Equivalent_def parseSelectedIP_def)

lemma Equivalent_route_NLRI: "Equivalent a b \<Longrightarrow> route_NLRI bgp a ip rd = route_NLRI bgp b ip rd"
  by (simp add: route_NLRI_def Equivalent_def split: option.splits)

lemma Equivalent_same_NLRI:
  assumes "Equivalent a b" and "BuildType2Route bgp a = Inr ra" and "BuildType2Route bgp b = Inr rb"
  shows "rt_NLRI ra = rt_NLRI rb"
proof -
  note same = Equivalent_route_address [OF assms(1)] Equivalent_route_NLRI [OF assms(1)]
    assms(1) [unfolded Equivalent_def]
  show ?thesis
    by (rule BuildType2Route_InrE [OF assms(2)], rule BuildType2Route_InrE [OF assms(3)])
      (use same in simp)
qed

lemma Equivalent_wire_key:
  assumes "Equivalent a b" and "wire_key bgp a = Some k" and "wire_key bgp b = Some k'"
  shows "k = k'"
  using assms Equivalent_same_NLRI [OF assms(1)] by (auto simp: wire_key_def split: sum.splits)

end
