(* ===== verification/Route_Reconciler.thy ===== *)
theory Route_Reconciler
  imports Type2_Route
begin

text \<open>
  \<open>RouteReconciler\<close> of \<open>pkg/evpn/type2.go\<close> and
  \<open>pkg/evpn/type2_lifecycle.go\<close>: planning against acknowledged state, applying one delta
  at a time, and resynchronisation with the RIB of the local speaker. The RIB source and the
  route applier are services of the world \<open>'w\<close>; a context is the computation
  \<open>ctx.Err()\<close>.
\<close>

section \<open>Interfaces and state\<close>

type_synonym 'w Context = "('w, unit) go"

record OwnedType2Route =
  own_Endpoint :: LocalEndpoint
  own_PathUUID :: string

record Type2RIBPath =
  rp_PathUUID :: string
  rp_Local :: bool
  rp_NLRI :: "EVPNNLRI option"
  rp_PathAttributes :: "PathAttribute list"

record 'w Type2RIBSource =
  src_Snapshot :: "'w Context \<Rightarrow> ('w, Type2RIBPath list) go"

record 'w Type2RouteApplier =
  ap_Add :: "'w Context \<Rightarrow> Type2Route \<Rightarrow> ('w, string) go"
  ap_Delete :: "'w Context \<Rightarrow> OwnedType2Route \<Rightarrow> ('w, unit) go"

definition ErrStaleRouteOperation :: go_error where
  "ErrStaleRouteOperation = errors_New ''stale route operation''"

definition ErrRouteOrder :: go_error where
  "ErrRouteOrder = errors_New ''previous wire-route withdrawal is not acknowledged''"

definition ErrRouteOwnership :: go_error where
  "ErrRouteOwnership = errors_New ''route ownership cannot be verified''"

definition ErrRouteResyncRequired :: go_error where
  "ErrRouteResyncRequired = errors_New ''successful RIB resynchronization is required''"

abbreviation Ownership :: "string \<Rightarrow> go_error" where
  "Ownership msg \<equiv> Errorf msg [ErrRouteOwnership]"

text \<open>
  \<open>pending\<close> maps the address of an operation of the current plan to the operation there;
  \<open>rr_alloc\<close> counts the addresses handed out, so that a new operation never reuses one.
  A Go map that is \<open>nil\<close> reads like an empty one.
\<close>

record RouteReconciler =
  rr_applied :: "(string, OwnedType2Route) gomap"
  rr_foreign :: "string list"
  rr_pending :: "(nat, routeOperation) gomap"
  rr_synchronized :: bool
  rr_alloc :: nat

definition NewRouteReconciler :: RouteReconciler where
  "NewRouteReconciler = \<lparr>rr_applied = [], rr_foreign = [], rr_pending = [], rr_synchronized = False,
     rr_alloc = 0\<rparr>"

section \<open>Planning\<close>

fun desired_map ::
  "bgp_lib \<Rightarrow> string list \<Rightarrow> (string, LocalEndpoint) gomap \<Rightarrow> LocalEndpoint list \<Rightarrow>
   go_error + (string, LocalEndpoint) gomap" where
  "desired_map bgp foreign m [] = Inr m"
| "desired_map bgp foreign m (endpoint # desired) =
     (if \<not> ep_Advertise endpoint then desired_map bgp foreign m desired
      else sum_bind (BuildType2Route bgp endpoint) (\<lambda>route.
        let key = NLRI_String bgp (rt_NLRI route) in
        if (case map_of m key of None \<Rightarrow> False | Some other \<Rightarrow> \<not> Equivalent other endpoint)
        then Inl (Ownership ''%w: conflicting desired owners or attributes for %s'')
        else if key \<in> set foreign
        then Inl (Ownership ''%w: unclaimed local path for %s'')
        else desired_map bgp foreign (AList.update key (cloneLocalEndpoint endpoint) m) desired))"

text \<open>The closure \<open>plan\<close>: a new operation, recorded as pending, and its delta.\<close>

definition plan :: "bgp_lib \<Rightarrow> RouteAction \<Rightarrow> LocalEndpoint \<Rightarrow> string \<Rightarrow> string \<Rightarrow>
    (RouteReconciler, Type2Route list) go" where
  "plan bgp action ep key uuid =
     go_bind (go_of (BuildType2Route bgp (cloneLocalEndpoint ep))) (\<lambda>route.
     go_bind (go_get rr_alloc) (\<lambda>addr.
     let op = \<lparr>op_action = action, op_endpoint = cloneLocalEndpoint ep, op_wireKey = key,
                op_pathUUID = uuid\<rparr> in
     go_seq (go_modify (\<lambda>r. r\<lparr>rr_pending := AList.update addr op (rr_pending r), rr_alloc := Suc addr\<rparr>))
     (go_return [route\<lparr>rt_Action := action, rt_operation := Some (addr, op)\<rparr>])))"

definition plan_withdraw ::
  "bgp_lib \<Rightarrow> (string, LocalEndpoint) gomap \<Rightarrow> string \<Rightarrow> (RouteReconciler, Type2Route list) go" where
  "plan_withdraw bgp desiredMap key =
     go_bind (go_get rr_applied) (\<lambda>applied. case map_of applied key of
       None \<Rightarrow> go_return []
     | Some existing \<Rightarrow>
         if (case map_of desiredMap key of None \<Rightarrow> False
             | Some want \<Rightarrow> Equivalent (own_Endpoint existing) want)
         then go_return []
         else plan bgp RouteWithdraw (own_Endpoint existing) key (own_PathUUID existing))"

definition plan_advertise ::
  "bgp_lib \<Rightarrow> (string, LocalEndpoint) gomap \<Rightarrow> string \<Rightarrow> (RouteReconciler, Type2Route list) go" where
  "plan_advertise bgp desiredMap key =
     go_bind (go_get rr_applied) (\<lambda>applied. case map_of desiredMap key of
       None \<Rightarrow> go_return []
     | Some endpoint \<Rightarrow>
         if (case map_of applied key of None \<Rightarrow> False
             | Some existing \<Rightarrow> Equivalent (own_Endpoint existing) endpoint)
         then go_return []
         else plan bgp RouteAdvertise endpoint key [])"

definition RouteReconciler_Reconcile ::
  "bgp_lib \<Rightarrow> LocalEndpoint list \<Rightarrow> (RouteReconciler, Type2Route list) go" where
  "RouteReconciler_Reconcile bgp desired =
     go_seq (go_modify (rr_pending_update (\<lambda>_. [])))
     (go_bind (go_get id) (\<lambda>r.
      go_bind (go_of (desired_map bgp (rr_foreign r) [] desired)) (\<lambda>desiredMap.
      go_bind (go_concat (plan_withdraw bgp desiredMap) (map_keys (rr_applied r))) (\<lambda>withdrawals.
      go_bind (go_concat (plan_advertise bgp desiredMap) (map_keys desiredMap)) (\<lambda>advertisements.
      go_return (withdrawals @ advertisements))))))"

section \<open>Applying one delta\<close>

definition apply_advertise ::
  "bgp_lib \<Rightarrow> 'w Context \<Rightarrow> 'w Type2RouteApplier \<Rightarrow> routeOperation \<Rightarrow> (RouteReconciler \<times> 'w, unit) go" where
  "apply_advertise bgp ctx api op =
     go_bind (go_get (rr_applied \<circ> fst)) (\<lambda>applied.
     go_seq (go_require (map_of applied (op_wireKey op) = None) ErrRouteOrder)
     (go_bind (go_of (BuildType2Route bgp (cloneLocalEndpoint (op_endpoint op)))) (\<lambda>route.
      go_bind (go_wrap (\<lambda>e. Errorf ''advertise %s: %w'' [e]) (go_env (ap_Add api ctx route))) (\<lambda>id.
      if id = [] then
        go_seq (go_modify (map_prod (rr_synchronized_update (\<lambda>_. False)) (\<lambda>w. w)))
          (go_throw (Ownership ''%w: AddPath returned no UUID''))
      else go_modify (map_prod (\<lambda>r. r\<lparr>rr_applied := AList.update (op_wireKey op)
          \<lparr>own_Endpoint = cloneLocalEndpoint (op_endpoint op), own_PathUUID = id\<rparr> (rr_applied r)\<rparr>) (\<lambda>w. w))))))"

definition apply_withdraw ::
  "'w Context \<Rightarrow> 'w Type2RouteApplier \<Rightarrow> routeOperation \<Rightarrow> (RouteReconciler \<times> 'w, unit) go" where
  "apply_withdraw ctx api op =
     go_bind (go_get (rr_applied \<circ> fst)) (\<lambda>applied. case map_of applied (op_wireKey op) of
       None \<Rightarrow> go_throw ErrStaleRouteOperation
     | Some current \<Rightarrow>
         go_seq (go_require (own_PathUUID current = op_pathUUID op \<and>
             Equivalent (own_Endpoint current) (op_endpoint op)) ErrStaleRouteOperation)
         (go_seq (go_wrap (\<lambda>e. Errorf ''withdraw %s: %w'' [e]) (go_env (ap_Delete api ctx
            \<lparr>own_Endpoint = cloneLocalEndpoint (own_Endpoint current), own_PathUUID = own_PathUUID current\<rparr>)))
         (go_modify (map_prod (\<lambda>r. r\<lparr>rr_applied := AList.delete (op_wireKey op) (rr_applied r)\<rparr>) (\<lambda>w. w)))))"

definition RouteReconciler_Apply ::
  "bgp_lib \<Rightarrow> 'w Context \<Rightarrow> Type2Route \<Rightarrow> 'w Type2RouteApplier option \<Rightarrow> (RouteReconciler \<times> 'w, unit) go" where
  "RouteReconciler_Apply bgp ctx delta api =
     go_bind (go_get fst) (\<lambda>r.
     go_seq (go_require (rr_synchronized r) ErrRouteResyncRequired)
     (case rt_operation delta of
        None \<Rightarrow> go_throw ErrStaleRouteOperation
      | Some (addr, op) \<Rightarrow>
          go_seq (go_require (map_of (rr_pending r) addr = Some op) ErrStaleRouteOperation)
          (case api of
             None \<Rightarrow> go_throw (errors_New ''route applier is required'')
           | Some applier \<Rightarrow>
               go_seq (go_env ctx)
               (go_seq (case op_action op of
                    RouteAdvertise \<Rightarrow> apply_advertise bgp ctx applier op
                  | RouteWithdraw \<Rightarrow> apply_withdraw ctx applier op
                  | RouteOther _ \<Rightarrow> go_throw (errors_New ''unsupported route action %q''))
               (go_modify (map_prod (\<lambda>r. r\<lparr>rr_pending := AList.delete addr (rr_pending r)\<rparr>) (\<lambda>w. w)))))))"

definition AppliedRoutes :: "RouteReconciler \<Rightarrow> OwnedType2Route list" where
  "AppliedRoutes r = List.map_filter (map_of (rr_applied r)) (map_keys (rr_applied r))"

section \<open>Comparing a RIB path with an endpoint\<close>

fun pathNextHop :: "PathAttribute list \<Rightarrow> string" where
  "pathNextHop [] = []"
| "pathNextHop (PathAttributeNextHop a # attrs) = Addr_String a"
| "pathNextHop (PathAttributeMpReachNLRI a # attrs) =
     (case mp_Nexthop a of None \<Rightarrow> ''invalid IP'' | Some ip \<Rightarrow> Addr_String ip)"
| "pathNextHop (_ # attrs) = pathNextHop attrs"

definition last_origin :: "PathAttribute list \<Rightarrow> bool" where
  "last_origin attrs = fold (\<lambda>attr originMatches. case attr of
     PathAttributeOrigin v \<Rightarrow> v = BGP_ORIGIN_ATTR_TYPE_IGP | _ \<Rightarrow> originMatches) attrs False"

definition path_communities :: "PathAttribute list \<Rightarrow> ExtendedCommunity list" where
  "path_communities attrs = concat (map (\<lambda>attr. case attr of
     PathAttributeExtendedCommunities cs \<Rightarrow> cs | _ \<Rightarrow> []) attrs)"

definition default_mobility :: "ExtendedCommunity \<Rightarrow> bool" where
  "default_mobility c = (case c of MacMobilityExtended s sticky \<Rightarrow> s = 0 \<and> \<not> sticky | _ \<Rightarrow> False)"

fun serialize_all :: "bgp_lib \<Rightarrow> ExtendedCommunity list \<Rightarrow> string list option" where
  "serialize_all bgp [] = Some []"
| "serialize_all bgp (c # cs) = (case Community_Serialize bgp c of
     None \<Rightarrow> None
   | Some v \<Rightarrow> (case serialize_all bgp cs of None \<Rightarrow> None | Some vs \<Rightarrow> Some (v # vs)))"

definition ribPathMatchesEndpoint :: "bgp_lib \<Rightarrow> Type2RIBPath \<Rightarrow> LocalEndpoint \<Rightarrow> bool" where
  "ribPathMatchesEndpoint bgp path ep =
    (case (BuildType2Route bgp ep, rp_NLRI path) of
       (Inr want, Some nlri) \<Rightarrow>
         (case NLRI_Serialize bgp nlri of
            None \<Rightarrow> False
          | Some gotNLRI \<Rightarrow>
              if NLRI_Serialize bgp (rt_NLRI want) \<noteq> Some gotNLRI
                \<or> pathNextHop (rp_PathAttributes path) \<noteq> pathNextHop (rt_PathAttributes want) then False
              else if \<not> last_origin (rp_PathAttributes path) then False
              else (case serialize_all bgp (path_communities (rt_PathAttributes want)) of
                  None \<Rightarrow> False
                | Some wantRT \<Rightarrow>
                    (case serialize_all bgp (filter (\<lambda>c. \<not> default_mobility c)
                            (path_communities (rp_PathAttributes path))) of
                       None \<Rightarrow> False
                     | Some filteredRT \<Rightarrow> equalStringSet filteredRT wantRT)))
     | _ \<Rightarrow> False)"

section \<open>Resynchronisation\<close>

fun resync_claims ::
  "bgp_lib \<Rightarrow> (string, OwnedType2Route) gomap \<Rightarrow> OwnedType2Route list \<Rightarrow>
   go_error + (string, OwnedType2Route) gomap" where
  "resync_claims bgp claims [] = Inr claims"
| "resync_claims bgp claims (receipt # receipts) =
    (if own_PathUUID receipt = [] then Inl (Ownership ''%w: receipt has no UUID'')
     else if map_of claims (own_PathUUID receipt) \<noteq> None
     then Inl (Ownership ''%w: duplicate UUID receipt'')
     else (case BuildType2Route bgp (own_Endpoint receipt) of
         Inl e \<Rightarrow> Inl (Errorf ''invalid ownership receipt: %w'' [e])
       | Inr _ \<Rightarrow> resync_claims bgp (AList.update (own_PathUUID receipt) receipt claims) receipts))"

text \<open>One pass over the snapshot: remaining claims, applied routes, foreign keys.\<close>

type_synonym resync_state =
  "(string, OwnedType2Route) gomap \<times> (string, OwnedType2Route) gomap \<times> string list"

fun resync_paths :: "bgp_lib \<Rightarrow> resync_state \<Rightarrow> Type2RIBPath list \<Rightarrow> go_error + resync_state" where
  "resync_paths bgp st [] = Inr st"
| "resync_paths bgp (claims, applied, foreign) (path # paths) =
    (case rp_NLRI path of
       None \<Rightarrow> Inl (errors_New ''RIB snapshot contains a nil NLRI'')
     | Some nlri \<Rightarrow>
         if \<not> rp_Local path then resync_paths bgp (claims, applied, foreign) paths
         else let key = NLRI_String bgp nlri in
         (case map_of claims (rp_PathUUID path) of
            None \<Rightarrow> resync_paths bgp (claims, applied, key # foreign) paths
          | Some receipt \<Rightarrow>
              if \<not> ribPathMatchesEndpoint bgp path (own_Endpoint receipt)
              then Inl (Ownership ''%w: UUID %s payload differs from receipt'')
              else if map_of applied key \<noteq> None
              then Inl (Ownership ''%w: multiple owned paths for %s'')
              else resync_paths bgp (AList.delete (rp_PathUUID path) claims,
                AList.update key (receipt\<lparr>own_Endpoint := cloneLocalEndpoint (own_Endpoint receipt)\<rparr>) applied,
                foreign) paths))"

definition RouteReconciler_Resync ::
  "bgp_lib \<Rightarrow> 'w Context \<Rightarrow> 'w Type2RIBSource option \<Rightarrow> OwnedType2Route list \<Rightarrow>
   (RouteReconciler \<times> 'w, unit) go" where
  "RouteReconciler_Resync bgp ctx source receipts =
     go_seq (go_modify (map_prod (\<lambda>r. r\<lparr>rr_synchronized := False, rr_pending := []\<rparr>) (\<lambda>w. w)))
     (case source of
        None \<Rightarrow> go_throw (errors_New ''RIB source is required'')
      | Some src \<Rightarrow>
          go_bind (go_wrap (\<lambda>e. Errorf ''read local Type-2 RIB: %w'' [e]) (go_env (src_Snapshot src ctx))) (\<lambda>paths.
          go_seq (go_env ctx)
          (go_bind (go_of (resync_claims bgp [] receipts)) (\<lambda>claims.
           go_bind (go_of (resync_paths bgp (claims, [], []) paths)) (\<lambda>(left, applied, foreign).
           go_seq (go_require (left = []) (Ownership ''%w: claimed UUID not present in local RIB''))
           (go_seq (go_require (\<forall>key \<in> set (map_keys applied). key \<notin> set foreign)
              (Ownership ''%w: owned and foreign paths share %s''))
           (go_modify (map_prod (\<lambda>r. r\<lparr>rr_applied := applied, rr_foreign := foreign,
              rr_synchronized := True\<rparr>) (\<lambda>w. w)))))))))"

fun durable_claims ::
  "bgp_lib \<Rightarrow> (string, OwnedType2Route) gomap \<Rightarrow> OwnedType2Route list \<Rightarrow>
   go_error + (string, OwnedType2Route) gomap" where
  "durable_claims bgp claims [] = Inr claims"
| "durable_claims bgp claims (receipt # receipts) =
    (case BuildType2Route bgp (own_Endpoint receipt) of
       Inl _ \<Rightarrow> Inl (Ownership ''%w: invalid durable receipt'')
     | Inr route \<Rightarrow>
         if own_PathUUID receipt = [] then Inl (Ownership ''%w: invalid durable receipt'')
         else let key = NLRI_String bgp (rt_NLRI route) in
         if map_of claims key \<noteq> None then Inl (Ownership ''%w: duplicate durable wire route'')
         else durable_claims bgp (AList.update key receipt claims) receipts)"

fun durable_paths ::
  "bgp_lib \<Rightarrow> (string, OwnedType2Route) gomap \<Rightarrow> (string, OwnedType2Route) gomap \<times> string list \<Rightarrow>
   Type2RIBPath list \<Rightarrow> go_error + (string, OwnedType2Route) gomap \<times> string list" where
  "durable_paths bgp claims st [] = Inr st"
| "durable_paths bgp claims (applied, foreign) (path # paths) =
    (case rp_NLRI path of
       None \<Rightarrow> Inl (Ownership ''%w: nil recovery NLRI'')
     | Some nlri \<Rightarrow>
         if \<not> rp_Local path then durable_paths bgp claims (applied, foreign) paths
         else let key = NLRI_String bgp nlri in
         (case map_of claims key of
            None \<Rightarrow> durable_paths bgp claims (applied, key # foreign) paths
          | Some receipt \<Rightarrow>
              if map_of applied key \<noteq> None
              then Inl (Ownership ''%w: multiple local paths share durable route'')
              else if \<not> ribPathMatchesEndpoint bgp path (own_Endpoint receipt) \<or>
                (rp_PathUUID path \<noteq> [] \<and> rp_PathUUID path \<noteq> own_PathUUID receipt)
              then Inl (Ownership ''%w: durable UUID payload conflict'')
              else durable_paths bgp claims (AList.update key receipt applied, foreign) paths))"

definition RouteReconciler_resyncDurable ::
  "bgp_lib \<Rightarrow> 'w Context \<Rightarrow> 'w Type2RIBSource \<Rightarrow> OwnedType2Route list \<Rightarrow>
   (RouteReconciler \<times> 'w, unit) go" where
  "RouteReconciler_resyncDurable bgp ctx src receipts =
     go_seq (go_modify (map_prod (\<lambda>r. r\<lparr>rr_synchronized := False, rr_pending := []\<rparr>) (\<lambda>w. w)))
     (go_bind (go_wrap (\<lambda>_. Ownership ''%w: recovery RIB unavailable: %v'') (go_env (src_Snapshot src ctx))) (\<lambda>paths.
      go_bind (go_of (durable_claims bgp [] receipts)) (\<lambda>claims.
      go_bind (go_of (durable_paths bgp claims ([], []) paths)) (\<lambda>(applied, foreign).
      go_seq (go_require (map_len applied = map_len claims)
        (Ownership ''%w: durable receipt disappeared during recovery''))
      (go_seq (go_modify (map_prod (\<lambda>r. r\<lparr>rr_applied := applied, rr_foreign := foreign,
          rr_synchronized := True\<rparr>) (\<lambda>w. w)))
       (go_env ctx))))))"

end
