(* ===== verification/Reconciler_Planning.thy ===== *)
theory Reconciler_Planning
  imports Route_Reconciler
begin

text \<open>
  Correctness of planning and of executing a plan. The plan is given an abstract description,
  the list \<open>plan_ops\<close> of operations that turn the acknowledged routes into the desired
  ones; \<open>Reconcile\<close> refines it, and executing its deltas converges.
\<close>

section \<open>The plan as a list of operations\<close>

definition withdraw_op ::
  "(string, OwnedType2Route) gomap \<Rightarrow> (string, LocalEndpoint) gomap \<Rightarrow> string \<Rightarrow> routeOperation option" where
  "withdraw_op applied m key = (case map_of applied key of None \<Rightarrow> None
     | Some o1 \<Rightarrow> if (\<exists>want. map_of m key = Some want \<and> Equivalent (own_Endpoint o1) want) then None
         else Some \<lparr>op_action = RouteWithdraw, op_endpoint = own_Endpoint o1, op_wireKey = key,
           op_pathUUID = own_PathUUID o1\<rparr>)"

definition advertise_op ::
  "(string, OwnedType2Route) gomap \<Rightarrow> (string, LocalEndpoint) gomap \<Rightarrow> string \<Rightarrow> routeOperation option" where
  "advertise_op applied m key = (case map_of m key of None \<Rightarrow> None
     | Some ep \<Rightarrow> if (\<exists>o1. map_of applied key = Some o1 \<and> Equivalent (own_Endpoint o1) ep) then None
         else Some \<lparr>op_action = RouteAdvertise, op_endpoint = ep, op_wireKey = key, op_pathUUID = []\<rparr>)"

definition withdraw_ops where
  "withdraw_ops applied m = List.map_filter (withdraw_op applied m) (map_keys applied)"

definition advertise_ops where
  "advertise_ops applied m = List.map_filter (advertise_op applied m) (map_keys m)"

definition plan_op :: "bgp_lib \<Rightarrow> routeOperation \<Rightarrow> (RouteReconciler, Type2Route list) go" where
  "plan_op bgp op = plan bgp (op_action op) (op_endpoint op) (op_wireKey op) (op_pathUUID op)"

lemma plan_keeps_applied: "go_keeps rr_applied (plan bgp a ep k u)"
  unfolding plan_def Let_def by (intro go_keeps_rules) (simp add: go_keeps_def go_modify_def)

lemma plan_withdraw_op:
  "rr_applied r = applied \<Longrightarrow> plan_withdraw bgp m key r =
     (case withdraw_op applied m key of None \<Rightarrow> (Inr [], r) | Some op \<Rightarrow> plan_op bgp op r)"
  by (auto simp: plan_withdraw_def withdraw_op_def plan_op_def go_bind_def go_get_def go_return_def
      split: option.splits)

lemma plan_advertise_op:
  "rr_applied r = applied \<Longrightarrow> plan_advertise bgp m key r =
     (case advertise_op applied m key of None \<Rightarrow> (Inr [], r) | Some op \<Rightarrow> plan_op bgp op r)"
  by (auto simp: plan_advertise_def advertise_op_def plan_op_def go_bind_def go_get_def go_return_def
      split: option.splits)

lemma concat_plan_ops:
  assumes "\<And>key r. rr_applied r = applied \<Longrightarrow>
      f key r = (case g key of None \<Rightarrow> (Inr [], r) | Some op \<Rightarrow> plan_op bgp op r)"
    and "rr_applied r = applied"
  shows "go_concat f keys r = go_concat (plan_op bgp) (List.map_filter g keys) r"
  using assms(2)
proof (induction keys arbitrary: r)
  case (Cons key keys)
  have "rr_applied (snd (plan_op bgp op r)) = applied" for op
    using plan_keeps_applied Cons.prems by (simp add: plan_op_def go_keeps_def)
  then have later: "go_concat f keys t = go_concat (plan_op bgp) (List.map_filter g keys) t"
    if "plan_op bgp op r = (x, t)" for op x t
    using Cons.IH [of t] that by (metis snd_conv)
  show ?case
  proof (cases "g key")
    case None
    then have "f key r = (Inr [], r)" using assms(1) [OF Cons.prems, of key] by simp
    with None Cons show ?thesis by (simp add: go_bind_Inr map_filter_simps)
  next
    case (Some op)
    then have "f key r = plan_op bgp op r" using assms(1) [OF Cons.prems, of key] by simp
    with Some show ?thesis
      by (auto simp: map_filter_simps later intro!: go_bind_at)
  qed
qed (simp add: map_filter_simps)

text \<open>\<open>Reconcile\<close> refines the list of operations.\<close>

lemma Reconcile_plan_ops:
  "RouteReconciler_Reconcile bgp desired r =
    (case desired_map bgp (rr_foreign r) [] desired of
       Inl e \<Rightarrow> (Inl e, r\<lparr>rr_pending := []\<rparr>)
     | Inr m \<Rightarrow> go_concat (plan_op bgp) (withdraw_ops (rr_applied r) m @ advertise_ops (rr_applied r) m)
         (r\<lparr>rr_pending := []\<rparr>))"
proof -
  let ?r = "r\<lparr>rr_pending := []\<rparr>"
  have w: "go_concat (plan_withdraw bgp m) (map_keys (rr_applied r)) ?r =
      go_concat (plan_op bgp) (withdraw_ops (rr_applied r) m) ?r" for m
    unfolding withdraw_ops_def by (rule concat_plan_ops [OF plan_withdraw_op]) simp_all
  have a: "go_concat (plan_advertise bgp m) (map_keys m) r1 =
      go_concat (plan_op bgp) (advertise_ops (rr_applied r) m) r1" if "rr_applied r1 = rr_applied r" for m r1
    unfolding advertise_ops_def by (rule concat_plan_ops [OF plan_advertise_op]) (simp_all add: that)
  have k: "rr_applied (snd (go_concat (plan_op bgp) ops ?r)) = rr_applied r" for ops
    using go_keeps_concat [of rr_applied "plan_op bgp" ops] plan_keeps_applied
    by (simp add: plan_op_def go_keeps_def)
  have "go_bind (go_concat (plan_withdraw bgp m) (map_keys (rr_applied r))) (\<lambda>ws.
      go_bind (go_concat (plan_advertise bgp m) (map_keys m)) (\<lambda>as. go_return (ws @ as))) ?r =
    go_concat (plan_op bgp) (withdraw_ops (rr_applied r) m @ advertise_ops (rr_applied r) m) ?r" for m
    unfolding go_concat_append
  proof (rule go_bind_at, rule w)
    fix ws r1 assume "go_concat (plan_op bgp) (withdraw_ops (rr_applied r) m) ?r = (Inr ws, r1)"
    then have "rr_applied r1 = rr_applied r" using k by (metis snd_conv)
    then show "go_bind (go_concat (plan_advertise bgp m) (map_keys m)) (\<lambda>as. go_return (ws @ as)) r1 =
      go_bind (go_concat (plan_op bgp) (advertise_ops (rr_applied r) m)) (\<lambda>bs. go_return (ws @ bs)) r1"
      by (intro go_bind_at a) simp_all
  qed
  then show ?thesis
    by (simp add: RouteReconciler_Reconcile_def go_run split: sum.split)
qed

section \<open>The deltas of a plan\<close>

text \<open>A delta carries the route built for its operation and a pointer to that operation.\<close>

definition is_delta :: "bgp_lib \<Rightarrow> nat \<times> routeOperation \<Rightarrow> Type2Route \<Rightarrow> bool" where
  "is_delta bgp p d \<longleftrightarrow> (\<exists>route. BuildType2Route bgp (op_endpoint (snd p)) = Inr route \<and>
     d = route\<lparr>rt_Action := op_action (snd p), rt_operation := Some p\<rparr>)"

lemma is_delta_operation: "is_delta bgp p d \<Longrightarrow> rt_operation d = Some p"
  by (auto simp: is_delta_def)

lemma plan_op_run:
  "plan_op bgp op r = (case BuildType2Route bgp (op_endpoint op) of
     Inl e \<Rightarrow> (Inl e, r)
   | Inr route \<Rightarrow> (Inr [route\<lparr>rt_Action := op_action op, rt_operation := Some (rr_alloc r, op)\<rparr>],
       r\<lparr>rr_pending := AList.update (rr_alloc r) op (rr_pending r), rr_alloc := Suc (rr_alloc r)\<rparr>))"
  by (cases op) (simp add: plan_op_def plan_def go_run Let_def split: sum.split)

lemma enumerate_fst_ge: "(a, op) \<in> set (List.enumerate n ops) \<Longrightarrow> n \<le> a"
  by (simp add: in_set_enumerate_eq)

lemma concat_plan_run:
  assumes "go_concat (plan_op bgp) ops r = (Inr ds, r')"
  shows "list_all2 (is_delta bgp) (List.enumerate (rr_alloc r) ops) ds \<and>
    rr_applied r' = rr_applied r \<and> rr_foreign r' = rr_foreign r \<and>
    rr_synchronized r' = rr_synchronized r \<and> rr_alloc r' = rr_alloc r + length ops \<and>
    (\<forall>a. map_of (rr_pending r') a = (case map_of (List.enumerate (rr_alloc r) ops) a of
       None \<Rightarrow> map_of (rr_pending r) a | Some op \<Rightarrow> Some op))"
  using assms
proof (induction ops arbitrary: r ds)
  case (Cons op ops)
  let ?r1 = "r\<lparr>rr_pending := AList.update (rr_alloc r) op (rr_pending r), rr_alloc := Suc (rr_alloc r)\<rparr>"
  from Cons.prems [unfolded go_concat.simps] obtain ys t where run: "plan_op bgp op r = (Inr ys, t)"
    "go_bind (go_concat (plan_op bgp) ops) (\<lambda>zs. go_return (ys @ zs)) t = (Inr ds, r')"
    by (rule go_bind_InrE)
  then obtain route where route: "BuildType2Route bgp (op_endpoint op) = Inr route" and t: "t = ?r1"
    and ys: "ys = [route\<lparr>rt_Action := op_action op, rt_operation := Some (rr_alloc r, op)\<rparr>]"
    by (auto simp: plan_op_run split: sum.splits)
  from run(2) obtain ds1 where ds1: "go_concat (plan_op bgp) ops ?r1 = (Inr ds1, r')" "ds = ys @ ds1"
    unfolding t by (auto elim!: go_bind_InrE simp: go_return_def)
  have "map_of (List.enumerate (Suc (rr_alloc r)) ops) (rr_alloc r) = None"
    using enumerate_fst_ge by (fastforce simp: map_of_eq_None_iff)
  moreover have "is_delta bgp (rr_alloc r, op) (hd ys)"
    by (simp add: is_delta_def route ys)
  ultimately show ?case
    using Cons.IH [OF ds1(1)] by (simp add: ds1(2) ys split: option.split)
qed (simp add: go_return_def)

lemma concat_plan_succeeds:
  assumes "\<forall>op \<in> set ops. \<exists>route. BuildType2Route bgp (op_endpoint op) = Inr route"
  shows "\<exists>ds r'. go_concat (plan_op bgp) ops r = (Inr ds, r')"
  using assms
proof (induction ops arbitrary: r)
  case (Cons op ops)
  then obtain route where "BuildType2Route bgp (op_endpoint op) = Inr route" by auto
  then obtain ys t where run: "plan_op bgp op r = (Inr ys, t)" by (simp add: plan_op_run)
  from Cons obtain zs r' where "go_concat (plan_op bgp) ops t = (Inr zs, r')" by fastforce
  with run show ?case by (simp add: go_bind_Inr go_return_def)
qed (simp add: go_return_def)

text \<open>What is known of the desired map that \<open>Reconcile\<close> builds.\<close>

lemma desired_map_sound:
  assumes "desired_map bgp foreign m0 desired = Inr m"
    and "\<And>k ep. map_of m0 k = Some ep \<Longrightarrow> wire_key bgp ep = Some k \<and> k \<notin> set foreign"
    and "map_of m k = Some ep"
  shows "wire_key bgp ep = Some k \<and> k \<notin> set foreign \<and>
    (map_of m0 k = Some ep \<or> (ep \<in> set desired \<and> ep_Advertise ep))"
  using assms
proof (induction desired arbitrary: m0)
  case (Cons d desired)
  show ?case
  proof (cases "ep_Advertise d")
    case False
    with Cons show ?thesis by fastforce
  next
    case True
    with Cons.prems(1) obtain route where route: "BuildType2Route bgp d = Inr route"
      by (auto simp: sum_bind_def split: sum.splits)
    let ?k = "NLRI_String bgp (rt_NLRI route)"
    from True Cons.prems(1) route have rest: "?k \<notin> set foreign"
      "desired_map bgp foreign (AList.update ?k d m0) desired = Inr m"
      by (auto simp: Let_def split: if_splits option.splits)
    have "wire_key bgp d = Some ?k" using route by (simp add: wire_key_def)
    then have "wire_key bgp ep1 = Some k1 \<and> k1 \<notin> set foreign"
      if "map_of (AList.update ?k d m0) k1 = Some ep1" for k1 ep1
      using that Cons.prems(2) rest(1) by (auto split: if_splits)
    from Cons.IH [OF rest(2) this Cons.prems(3)] True show ?thesis
      by (cases "k = ?k") auto
  qed
qed simp

lemma desired_map_covers:
  assumes "desired_map bgp foreign m0 desired = Inr m"
  shows "\<forall>ep \<in> set desired. ep_Advertise ep \<longrightarrow>
      (\<exists>k ep'. wire_key bgp ep = Some k \<and> map_of m k = Some ep' \<and> Equivalent ep' ep)"
    and "\<forall>k ep. map_of m0 k = Some ep \<longrightarrow> (\<exists>ep'. map_of m k = Some ep' \<and> Equivalent ep' ep)"
  using assms
proof (induction desired arbitrary: m0)
  case (Cons d desired)
  {
    case 1
    show ?case
    proof (cases "ep_Advertise d")
      case False
      with Cons 1 show ?thesis by fastforce
    next
      case True
      with 1 obtain route where route: "BuildType2Route bgp d = Inr route"
        by (auto simp: sum_bind_def split: sum.splits)
      let ?k = "NLRI_String bgp (rt_NLRI route)"
      from True 1 route have rest: "desired_map bgp foreign (AList.update ?k d m0) desired = Inr m"
        by (auto simp: Let_def split: if_splits option.splits)
      have "wire_key bgp d = Some ?k" using route by (simp add: wire_key_def)
      moreover have "\<exists>ep'. map_of m ?k = Some ep' \<and> Equivalent ep' d"
        using Cons.IH(2) [OF rest] by simp
      ultimately show ?thesis using Cons.IH(1) [OF rest] by auto
    qed
  next
    case 2
    show ?case
    proof (cases "ep_Advertise d")
      case False
      with Cons 2 show ?thesis by simp
    next
      case True
      with 2 obtain route where route: "BuildType2Route bgp d = Inr route"
        by (auto simp: sum_bind_def split: sum.splits)
      let ?k = "NLRI_String bgp (rt_NLRI route)"
      from True 2 route have rest: "desired_map bgp foreign (AList.update ?k d m0) desired = Inr m"
        and same: "\<And>ep. map_of m0 ?k = Some ep \<Longrightarrow> Equivalent ep d"
        by (auto simp: Let_def split: if_splits option.splits)
      show ?thesis
      proof (intro allI impI)
        fix k ep assume ep: "map_of m0 k = Some ep"
        have "\<exists>ep'. map_of m k = Some ep' \<and> Equivalent ep' (if k = ?k then d else ep)"
          using Cons.IH(2) [OF rest] ep by simp
        then show "\<exists>ep'. map_of m k = Some ep' \<and> Equivalent ep' ep"
          using same ep Equivalent_sym Equivalent_trans by (metis (full_types))
      qed
    qed
  }
qed simp_all

section \<open>Executing a plan\<close>

text \<open>The loop of \<open>Exporter.reconcile\<close> over the deltas of one plan, stopping at an error.\<close>

definition execute ::
  "bgp_lib \<Rightarrow> 'w Context \<Rightarrow> 'w Type2RouteApplier \<Rightarrow> Type2Route list \<Rightarrow> (RouteReconciler \<times> 'w, unit) go" where
  "execute bgp ctx api ds = go_each (\<lambda>d. RouteReconciler_Apply bgp ctx d (Some api)) ds"

text \<open>A context that is not cancelled and an applier whose calls succeed.\<close>

definition reliable :: "'w Context \<Rightarrow> 'w Type2RouteApplier \<Rightarrow> bool" where
  "reliable ctx api \<longleftrightarrow> (\<forall>w. \<exists>w'. ctx w = (Inr (), w')) \<and>
     (\<forall>route w. \<exists>id w'. ap_Add api ctx route w = (Inr id, w') \<and> id \<noteq> []) \<and>
     (\<forall>owned w. \<exists>w'. ap_Delete api ctx owned w = (Inr (), w'))"

lemma Apply_withdraw_run:
  assumes "reliable ctx api" and "rr_synchronized r" and "rt_operation d = Some (addr, op)"
    and "map_of (rr_pending r) addr = Some op" and "op_action op = RouteWithdraw"
    and "map_of (rr_applied r) (op_wireKey op) = Some o1" and "own_PathUUID o1 = op_pathUUID op"
    and "Equivalent (own_Endpoint o1) (op_endpoint op)"
  shows "\<exists>w'. RouteReconciler_Apply bgp ctx d (Some api) (r, w) =
    (Inr (), (r\<lparr>rr_applied := AList.delete (op_wireKey op) (rr_applied r),
       rr_pending := AList.delete addr (rr_pending r)\<rparr>, w'))"
proof -
  obtain w1 where w1: "ctx w = (Inr (), w1)" using assms(1) unfolding reliable_def by metis
  obtain w2 where w2: "ap_Delete api ctx
      \<lparr>own_Endpoint = own_Endpoint o1, own_PathUUID = op_pathUUID op\<rparr> w1 = (Inr (), w2)"
    using assms(1) unfolding reliable_def by metis
  from w1 w2 assms(2-8) show ?thesis
    by (simp add: RouteReconciler_Apply_def apply_withdraw_def go_run go_wrap_def go_env_def
        go_bind_def)
qed

lemma Apply_advertise_run:
  assumes "reliable ctx api" and "rr_synchronized r" and "rt_operation d = Some (addr, op)"
    and "map_of (rr_pending r) addr = Some op" and "op_action op = RouteAdvertise"
    and "map_of (rr_applied r) (op_wireKey op) = None" and "BuildType2Route bgp (op_endpoint op) = Inr route"
  shows "\<exists>id w'. RouteReconciler_Apply bgp ctx d (Some api) (r, w) =
    (Inr (), (r\<lparr>rr_applied := AList.update (op_wireKey op)
         \<lparr>own_Endpoint = op_endpoint op, own_PathUUID = id\<rparr> (rr_applied r),
       rr_pending := AList.delete addr (rr_pending r)\<rparr>, w'))"
proof -
  obtain w1 where w1: "ctx w = (Inr (), w1)" using assms(1) unfolding reliable_def by metis
  obtain id w2 where w2: "ap_Add api ctx route w1 = (Inr id, w2)" "id \<noteq> []"
    using assms(1) unfolding reliable_def by metis
  from w1 w2 assms(2-7) show ?thesis
    by (intro exI [of _ id] exI [of _ w2])
      (simp add: RouteReconciler_Apply_def apply_advertise_def go_run go_wrap_def go_env_def go_bind_def)
qed

lemma execute_Cons:
  assumes "RouteReconciler_Apply bgp ctx d (Some api) (r, w) = (Inr (), s)"
  shows "execute bgp ctx api (d # ds) (r, w) = execute bgp ctx api ds s"
  using assms by (simp add: execute_def go_run go_bind_Inr)

lemma execute_append:
  assumes "execute bgp ctx api ds s = (Inr (), s')"
  shows "execute bgp ctx api (ds @ ds') s = execute bgp ctx api ds' s'"
  using assms
proof (induction ds arbitrary: s)
  case (Cons d ds)
  then obtain u t where "RouteReconciler_Apply bgp ctx d (Some api) s = (Inr u, t)"
    "execute bgp ctx api ds t = (Inr (), s')"
    unfolding execute_def by (auto simp: go_run elim!: go_bind_InrE)
  with Cons.IH show ?case by (simp add: execute_def go_run go_bind_Inr)
qed (simp add: execute_def go_return_def)

abbreviation key_of :: "nat \<times> routeOperation \<Rightarrow> string" where
  "key_of p \<equiv> op_wireKey (snd p)"

lemma execute_withdrawals:
  assumes "reliable ctx api" and "list_all2 (is_delta bgp) ps ds" and "rr_synchronized r"
    and "distinct (map fst ps)" and "distinct (map key_of ps)"
    and "\<forall>p \<in> set ps. map_of (rr_pending r) (fst p) = Some (snd p) \<and> op_action (snd p) = RouteWithdraw \<and>
      (\<exists>o1. map_of (rr_applied r) (key_of p) = Some o1 \<and> own_PathUUID o1 = op_pathUUID (snd p) \<and>
         Equivalent (own_Endpoint o1) (op_endpoint (snd p)))"
  shows "\<exists>r' w'. execute bgp ctx api ds (r, w) = (Inr (), (r', w')) \<and> rr_synchronized r' \<and>
    rr_foreign r' = rr_foreign r \<and> rr_alloc r' = rr_alloc r \<and>
    (\<forall>k. map_of (rr_applied r') k = (if k \<in> key_of ` set ps then None else map_of (rr_applied r) k)) \<and>
    (\<forall>a. map_of (rr_pending r') a = (if a \<in> fst ` set ps then None else map_of (rr_pending r) a))"
  using assms(2-)
proof (induction ps ds arbitrary: r w rule: list_all2_induct)
  case Nil
  then show ?case by (auto simp: execute_def go_return_def)
next
  case (Cons p ps d ds)
  let ?r1 = "r\<lparr>rr_applied := AList.delete (key_of p) (rr_applied r),
    rr_pending := AList.delete (fst p) (rr_pending r)\<rparr>"
  from Cons.prems obtain o1 where o1: "map_of (rr_applied r) (key_of p) = Some o1"
    "own_PathUUID o1 = op_pathUUID (snd p)" "Equivalent (own_Endpoint o1) (op_endpoint (snd p))" by auto
  from is_delta_operation [OF Cons.hyps(1)] have "rt_operation d = Some (fst p, snd p)" by simp
  from Apply_withdraw_run [OF assms(1) Cons.prems(1) this _ _ o1] Cons.prems(4)
  obtain w1 where run: "RouteReconciler_Apply bgp ctx d (Some api) (r, w) = (Inr (), (?r1, w1))"
    by fastforce
  have ne: "q \<in> set ps \<Longrightarrow> fst q \<noteq> fst p \<and> key_of q \<noteq> key_of p" for q
    using Cons.prems(2,3) by (auto simp: image_iff)
  obtain r' w' where *: "execute bgp ctx api ds (?r1, w1) = (Inr (), (r', w'))" "rr_synchronized r'"
    "rr_foreign r' = rr_foreign ?r1" "rr_alloc r' = rr_alloc ?r1"
    "\<forall>k. map_of (rr_applied r') k = (if k \<in> key_of ` set ps then None else map_of (rr_applied ?r1) k)"
    "\<forall>a. map_of (rr_pending r') a = (if a \<in> fst ` set ps then None else map_of (rr_pending ?r1) a)"
    using Cons.IH [of ?r1 w1] Cons.prems ne by auto
  then show ?case
    unfolding execute_Cons [OF run] by (intro exI [of _ r'] exI [of _ w']) auto
qed

lemma execute_advertisements:
  assumes "reliable ctx api" and "list_all2 (is_delta bgp) ps ds" and "rr_synchronized r"
    and "distinct (map fst ps)" and "distinct (map key_of ps)"
    and "\<forall>p \<in> set ps. map_of (rr_pending r) (fst p) = Some (snd p) \<and> op_action (snd p) = RouteAdvertise \<and>
      map_of (rr_applied r) (key_of p) = None"
  shows "\<exists>r' w'. execute bgp ctx api ds (r, w) = (Inr (), (r', w')) \<and> rr_synchronized r' \<and>
    rr_foreign r' = rr_foreign r \<and> rr_alloc r' = rr_alloc r \<and>
    (\<forall>p \<in> set ps. \<exists>o1. map_of (rr_applied r') (key_of p) = Some o1 \<and> own_Endpoint o1 = op_endpoint (snd p)) \<and>
    (\<forall>k. k \<notin> key_of ` set ps \<longrightarrow> map_of (rr_applied r') k = map_of (rr_applied r) k) \<and>
    (\<forall>a. map_of (rr_pending r') a = (if a \<in> fst ` set ps then None else map_of (rr_pending r) a))"
  using assms(2-)
proof (induction ps ds arbitrary: r w rule: list_all2_induct)
  case Nil
  then show ?case by (auto simp: execute_def go_return_def)
next
  case (Cons p ps d ds)
  from Cons.hyps(1) obtain route where route: "BuildType2Route bgp (op_endpoint (snd p)) = Inr route"
    by (auto simp: is_delta_def)
  from is_delta_operation [OF Cons.hyps(1)] have "rt_operation d = Some (fst p, snd p)" by simp
  from Apply_advertise_run [OF assms(1) Cons.prems(1) this _ _ _ route] Cons.prems(4)
  obtain id w1 where run: "RouteReconciler_Apply bgp ctx d (Some api) (r, w) =
    (Inr (), (r\<lparr>rr_applied := AList.update (key_of p)
         \<lparr>own_Endpoint = op_endpoint (snd p), own_PathUUID = id\<rparr> (rr_applied r),
       rr_pending := AList.delete (fst p) (rr_pending r)\<rparr>, w1))" (is "_ = (_, (?r1, _))")
    by fastforce
  have ne: "q \<in> set ps \<Longrightarrow> fst q \<noteq> fst p \<and> key_of q \<noteq> key_of p" for q
    using Cons.prems(2,3) by (auto simp: image_iff)
  obtain r' w' where *: "execute bgp ctx api ds (?r1, w1) = (Inr (), (r', w'))" "rr_synchronized r'"
    "rr_foreign r' = rr_foreign ?r1" "rr_alloc r' = rr_alloc ?r1"
    "\<forall>p \<in> set ps. \<exists>o1. map_of (rr_applied r') (key_of p) = Some o1 \<and> own_Endpoint o1 = op_endpoint (snd p)"
    "\<forall>k. k \<notin> key_of ` set ps \<longrightarrow> map_of (rr_applied r') k = map_of (rr_applied ?r1) k"
    "\<forall>a. map_of (rr_pending r') a = (if a \<in> fst ` set ps then None else map_of (rr_pending ?r1) a)"
    using Cons.IH [of ?r1 w1] Cons.prems ne by auto
  have "key_of p \<notin> key_of ` set ps" using ne by fastforce
  with * show ?case
    unfolding execute_Cons [OF run] by (intro exI [of _ r'] exI [of _ w']) auto
qed

end
