(* ===== verification/Sample_Services.thy ===== *)
theory Sample_Services
  imports Route_Reconciler
begin

text \<open>
  Concrete services on which the hypotheses of the development hold: a packet library that
  writes routes as text, a context that is never cancelled, an endpoint, and a speaker that keeps
  its paths in a list and numbers its UUIDs.
\<close>

definition sample_nlri_text :: "EVPNNLRI \<Rightarrow> string" where
  "sample_nlri_text n = (case n_RouteTypeData n of
     MacIPAdvertisement m \<Rightarrow> (case m_RD m of None \<Rightarrow> [] | Some rd \<Rightarrow> rd) @ ''|'' @
       HardwareAddr_String (m_MacAddress m) @ ''|'' @
       (case m_IPAddress m of None \<Rightarrow> [] | Some a \<Rightarrow> Addr_String a)
   | OtherRouteTypeData s \<Rightarrow> ''other|'' @ s)"

definition sample_bgp :: bgp_lib where
  "sample_bgp = \<lparr>
     ParseRouteDistinguisher = (\<lambda>s. if s = [] then None else Some s),
     RD_String = (\<lambda>s. s),
     ParseRouteTarget = (\<lambda>s. if s = [] then None else Some (LibCommunity s)),
     Community_Serialize = (\<lambda>c. Some (case c of LibCommunity s \<Rightarrow> ''rt:'' @ s
        | EncapExtended n \<Rightarrow> ''encap'' | MacMobilityExtended _ _ \<Rightarrow> ''mobility'')),
     Community_String = (\<lambda>c. case c of LibCommunity s \<Rightarrow> s | EncapExtended n \<Rightarrow> ''encap''
        | MacMobilityExtended _ _ \<Rightarrow> ''mobility''),
     Community_GetTypes = (\<lambda>c. case c of LibCommunity _ \<Rightarrow> (0, 2) | EncapExtended _ \<Rightarrow> (3, 12)
        | MacMobilityExtended _ _ \<Rightarrow> (6, 0)),
     NewEVPNMacIPAdvertisementRoute = (\<lambda>rd esi etag mac addr labels.
        case ParseMAC mac of None \<Rightarrow> None | Some hw \<Rightarrow>
        Some \<lparr>n_RouteType = EVPN_ROUTE_TYPE_MAC_IP_ADVERTISEMENT, n_RouteTypeData = MacIPAdvertisement
          \<lparr>m_RD = Some rd, m_ESI = esi, m_ETag = etag, m_MacAddressLength = 48, m_MacAddress = hw,
           m_IPAddressLength = 32, m_IPAddress = Some addr, m_Labels = labels\<rparr>\<rparr>),
     NLRI_Serialize = (\<lambda>n. Some (sample_nlri_text n)),
     NLRI_String = sample_nlri_text,
     NewPathAttributeNextHop = (\<lambda>a. Some (PathAttributeNextHop a)),
     Attribute_Serialize = (\<lambda>a. Some (case a of PathAttributeOrigin n \<Rightarrow> ''origin''
        | PathAttributeNextHop ip \<Rightarrow> ''nh:'' @ Addr_String ip | _ \<Rightarrow> ''other''))\<rparr>"

definition sample_endpoint :: LocalEndpoint where
  "sample_endpoint = \<lparr>ep_NetworkID = ''net-a'', ep_EndpointID = ''vm-1'', ep_Incarnation = ''i-1'',
     ep_MACAddress = ''02:00:00:00:00:01'', ep_IPAddresses = [''10.0.0.5''], ep_VNI = 100,
     ep_RouteDistinguisher = ''65000:1'', ep_RouteTargets = [''65000:100''], ep_LocalVTEP = ''192.0.2.1'',
     ep_NodeName = ''node-a'', ep_Chassis = ''chassis-a'', ep_Advertise = True, ep_MACOnly = False\<rparr>"

definition sample_endpoint2 :: LocalEndpoint where
  "sample_endpoint2 = sample_endpoint\<lparr>ep_EndpointID := ''vm-2'', ep_MACAddress := ''02:00:00:00:00:02'',
     ep_IPAddresses := [''10.0.0.6'']\<rparr>"

definition sample_ctx :: "'w Context" where
  "sample_ctx = go_return ()"

record sample_speaker =
  sp_paths :: "Type2RIBPath list"
  sp_next :: nat

definition sample_uuid :: "nat \<Rightarrow> string" where
  "sample_uuid n = ''uuid-'' @ FormatUint n"

definition sample_add :: "Type2Route \<Rightarrow> (sample_speaker, string) go" where
  "sample_add route s = (Inr (sample_uuid (sp_next s)),
     s\<lparr>sp_paths := sp_paths s @ [\<lparr>rp_PathUUID = sample_uuid (sp_next s), rp_Local = True,
         rp_NLRI = Some (rt_NLRI route), rp_PathAttributes = rt_PathAttributes route\<rparr>],
       sp_next := Suc (sp_next s)\<rparr>)"

definition sample_applier :: "sample_speaker Type2RouteApplier" where
  "sample_applier = \<lparr>ap_Add = (\<lambda>_. sample_add),
     ap_Delete = (\<lambda>_ owned. go_modify (sp_paths_update (filter (\<lambda>p. rp_PathUUID p \<noteq> own_PathUUID owned))))\<rparr>"

definition sample_source :: "sample_speaker Type2RIBSource" where
  "sample_source = \<lparr>src_Snapshot = (\<lambda>_. go_get sp_paths)\<rparr>"

definition sample_world :: sample_speaker where
  "sample_world = \<lparr>sp_paths = [], sp_next = 0\<rparr>"

lemma sample_endpoint_builds:
  "wire_key sample_bgp sample_endpoint = Some ''65000:1|02:00:00:00:00:01|10.0.0.5''"
  "wire_key sample_bgp sample_endpoint2 = Some ''65000:1|02:00:00:00:00:02|10.0.0.6''"
  by code_simp+

end
