(* ===== verification/Reconciler_Properties.thy ===== *)
theory Reconciler_Properties
  imports Reconciler_Planning Sample_Services
begin

text \<open>
  The properties of \<open>RouteReconciler\<close>: what a plan contains, that executing it converges,
  that a delta runs at most once and only in its plan, what one \<open>Apply\<close> does on each branch,
  and what the two resynchronisations adopt.
\<close>

section \<open>Plans\<close>

lemma set_map_filterD: "y \<in> set (List.map_filter f xs) \<Longrightarrow> \<exists>x \<in> set xs. f x = Some y"
  by (induction xs) (auto simp: map_filter_simps split: option.splits)

lemma map_filter_keys:
  assumes "\<And>k x. f k = Some x \<Longrightarrow> g x = k"
  shows "map g (List.map_filter f ks) = filter (\<lambda>k. f k \<noteq> None) ks"
  using assms by (induction ks) (auto simp: map_filter_simps split: option.splits)

lemma withdraw_op_SomeD:
  assumes "withdraw_op applied m k = Some op"
  shows "\<exists>o1. map_of applied k = Some o1 \<and> op = \<lparr>op_action = RouteWithdraw, op_endpoint = own_Endpoint o1,
      op_wireKey = k, op_pathUUID = own_PathUUID o1\<rparr> \<and>
    \<not> (\<exists>want. map_of m k = Some want \<and> Equivalent (own_Endpoint o1) want)"
  using assms unfolding withdraw_op_def by (auto split: option.splits if_splits)

lemma advertise_op_SomeD:
  assumes "advertise_op applied m k = Some op"
  shows "\<exists>ep. map_of m k = Some ep \<and> op = \<lparr>op_action = RouteAdvertise, op_endpoint = ep, op_wireKey = k,
      op_pathUUID = []\<rparr> \<and>
    \<not> (\<exists>o1. map_of applied k = Some o1 \<and> Equivalent (own_Endpoint o1) ep)"
  using assms unfolding advertise_op_def by (auto split: option.splits if_splits)

lemma withdraw_opsD:
  assumes "op \<in> set (withdraw_ops applied m)"
  shows "\<exists>o1. map_of applied (op_wireKey op) = Some o1 \<and> op_action op = RouteWithdraw \<and>
    op_endpoint op = own_Endpoint o1 \<and> op_pathUUID op = own_PathUUID o1"
  using set_map_filterD [OF assms [unfolded withdraw_ops_def]] by (auto dest!: withdraw_op_SomeD)

lemma advertise_opsD:
  assumes "op \<in> set (advertise_ops applied m)"
  shows "map_of m (op_wireKey op) = Some (op_endpoint op) \<and> op_action op = RouteAdvertise \<and>
    op_pathUUID op = []"
  using set_map_filterD [OF assms [unfolded advertise_ops_def]] by (auto dest!: advertise_op_SomeD)

lemma withdraw_ops_keys:
  "map op_wireKey (withdraw_ops applied m) = filter (\<lambda>k. withdraw_op applied m k \<noteq> None) (map_keys applied)"
  unfolding withdraw_ops_def by (rule map_filter_keys) (auto dest!: withdraw_op_SomeD)

lemma advertise_ops_keys:
  "map op_wireKey (advertise_ops applied m) = filter (\<lambda>k. advertise_op applied m k \<noteq> None) (map_keys m)"
  unfolding advertise_ops_def by (rule map_filter_keys) (auto dest!: advertise_op_SomeD)

lemma Reconcile_InrD:
  assumes "RouteReconciler_Reconcile bgp desired r = (Inr ds, r1)"
  obtains m where "desired_map bgp (rr_foreign r) [] desired = Inr m"
    "list_all2 (is_delta bgp)
       (List.enumerate (rr_alloc r) (withdraw_ops (rr_applied r) m @ advertise_ops (rr_applied r) m)) ds"
    "rr_applied r1 = rr_applied r" "rr_foreign r1 = rr_foreign r" "rr_synchronized r1 = rr_synchronized r"
    "rr_alloc r1 = rr_alloc r + length ds"
    "map_of (rr_pending r1) = map_of (List.enumerate (rr_alloc r)
       (withdraw_ops (rr_applied r) m @ advertise_ops (rr_applied r) m))"
proof -
  from assms obtain m where m: "desired_map bgp (rr_foreign r) [] desired = Inr m"
    and run: "go_concat (plan_op bgp) (withdraw_ops (rr_applied r) m @ advertise_ops (rr_applied r) m)
      (r\<lparr>rr_pending := []\<rparr>) = (Inr ds, r1)"
    by (auto simp: Reconcile_plan_ops split: sum.splits)
  note c = concat_plan_run [OF run]
  from c have "length ds = length (withdraw_ops (rr_applied r) m @ advertise_ops (rr_applied r) m)"
    by (auto dest!: list_all2_lengthD)
  moreover from c have "map_of (rr_pending r1) = map_of (List.enumerate (rr_alloc r)
       (withdraw_ops (rr_applied r) m @ advertise_ops (rr_applied r) m))"
    by (auto simp: fun_eq_iff split: option.splits)
  ultimately show thesis using c by (intro that [OF m]) simp_all
qed

text \<open>The acknowledged routes are the desired ones, up to equivalence of endpoints.\<close>

definition matches :: "(string, OwnedType2Route) gomap \<Rightarrow> (string, LocalEndpoint) gomap \<Rightarrow> bool" where
  "matches applied m \<longleftrightarrow> (\<forall>k. case (map_of applied k, map_of m k) of
     (None, None) \<Rightarrow> True | (Some o1, Some ep) \<Rightarrow> Equivalent (own_Endpoint o1) ep | _ \<Rightarrow> False)"

lemma matches_no_ops:
  assumes "matches applied m"
  shows "withdraw_ops applied m = []" and "advertise_ops applied m = []"
proof -
  have "withdraw_op applied m k = None" and "advertise_op applied m k = None" for k
    using assms [unfolded matches_def, rule_format, of k]
    by (auto simp: withdraw_op_def advertise_op_def split: option.splits)
  then show "withdraw_ops applied m = []" and "advertise_ops applied m = []"
    by (simp_all add: withdraw_ops_def advertise_ops_def map_filter_def)
qed

lemma map_key_of_enumerate: "map key_of (List.enumerate n ops) = map op_wireKey ops"
  by (induction ops arbitrary: n) simp_all

lemma map_of_enumerate: "p \<in> set (List.enumerate n ops) \<Longrightarrow> map_of (List.enumerate n ops) (fst p) = Some (snd p)"
  by (cases p) (simp add: map_of_is_SomeI)

lemma execute_plan:
  assumes rel: "reliable ctx api" and sync: "rr_synchronized r"
    and ds: "list_all2 (is_delta bgp) pw dw" "list_all2 (is_delta bgp) pa da"
    and dist: "distinct (map fst (pw @ pa))" "distinct (map key_of pw)" "distinct (map key_of pa)"
    and pend: "\<And>p. p \<in> set (pw @ pa) \<Longrightarrow> map_of (rr_pending r) (fst p) = Some (snd p)"
    and wd: "\<And>p. p \<in> set pw \<Longrightarrow> op_action (snd p) = RouteWithdraw \<and>
      (\<exists>o1. map_of (rr_applied r) (key_of p) = Some o1 \<and> own_PathUUID o1 = op_pathUUID (snd p) \<and>
         Equivalent (own_Endpoint o1) (op_endpoint (snd p)))"
    and ad: "\<And>p. p \<in> set pa \<Longrightarrow> op_action (snd p) = RouteAdvertise \<and>
      (key_of p \<in> key_of ` set pw \<or> map_of (rr_applied r) (key_of p) = None)"
  shows "\<exists>r' w'. execute bgp ctx api (dw @ da) (r, w) = (Inr (), (r', w')) \<and> rr_synchronized r' \<and>
    rr_foreign r' = rr_foreign r \<and>
    (\<forall>p \<in> set pa. \<exists>o1. map_of (rr_applied r') (key_of p) = Some o1 \<and> own_Endpoint o1 = op_endpoint (snd p)) \<and>
    (\<forall>k. k \<notin> key_of ` set pa \<longrightarrow> map_of (rr_applied r') k =
       (if k \<in> key_of ` set pw then None else map_of (rr_applied r) k)) \<and>
    (\<forall>a. map_of (rr_pending r') a = (if a \<in> fst ` set (pw @ pa) then None else map_of (rr_pending r) a))"
proof -
  obtain r1 w1 where 1: "execute bgp ctx api dw (r, w) = (Inr (), (r1, w1))" "rr_synchronized r1"
    "rr_foreign r1 = rr_foreign r"
    "\<forall>k. map_of (rr_applied r1) k = (if k \<in> key_of ` set pw then None else map_of (rr_applied r) k)"
    "\<forall>a. map_of (rr_pending r1) a = (if a \<in> fst ` set pw then None else map_of (rr_pending r) a)"
    using execute_withdrawals [OF rel ds(1) sync, of w] dist pend wd by auto
  have "\<forall>p \<in> set pa. map_of (rr_pending r1) (fst p) = Some (snd p) \<and> op_action (snd p) = RouteAdvertise \<and>
      map_of (rr_applied r1) (key_of p) = None"
    using dist(1) pend ad unfolding 1(4)[rule_format] 1(5)[rule_format] by (auto simp: image_iff) force
  then obtain r' w' where 2: "execute bgp ctx api da (r1, w1) = (Inr (), (r', w'))" "rr_synchronized r'"
    "rr_foreign r' = rr_foreign r1"
    "\<forall>p \<in> set pa. \<exists>o1. map_of (rr_applied r') (key_of p) = Some o1 \<and> own_Endpoint o1 = op_endpoint (snd p)"
    "\<forall>k. k \<notin> key_of ` set pa \<longrightarrow> map_of (rr_applied r') k = map_of (rr_applied r1) k"
    "\<forall>a. map_of (rr_pending r') a = (if a \<in> fst ` set pa then None else map_of (rr_pending r1) a)"
    using execute_advertisements [OF rel ds(2) 1(2), of w1] dist by auto
  show ?thesis
    unfolding execute_append [OF 1(1)] using 1 2
    by (intro exI [of _ r'] exI [of _ w']) auto
qed

lemma snd_in_enumerate: "p \<in> set (List.enumerate n ops) \<Longrightarrow> snd p \<in> set ops"
  by (metis image_eqI list.set_map map_snd_enumerate)

lemma converge_aux:
  assumes "reliable ctx api" and plan: "RouteReconciler_Reconcile bgp desired r = (Inr ds, r1)"
    and sync: "rr_synchronized r"
  obtains m r' w' where "desired_map bgp (rr_foreign r) [] desired = Inr m"
    "execute bgp ctx api ds (r1, w) = (Inr (), (r', w'))" "matches (rr_applied r') m"
    "rr_synchronized r'" "rr_foreign r' = rr_foreign r" "map_of (rr_pending r') = Map.empty"
proof -
  from plan obtain m where m: "desired_map bgp (rr_foreign r) [] desired = Inr m"
    and all: "list_all2 (is_delta bgp)
       (List.enumerate (rr_alloc r) (withdraw_ops (rr_applied r) m @ advertise_ops (rr_applied r) m)) ds"
    and r1: "rr_applied r1 = rr_applied r" "rr_foreign r1 = rr_foreign r"
      "rr_synchronized r1 = rr_synchronized r"
      "map_of (rr_pending r1) = map_of (List.enumerate (rr_alloc r)
       (withdraw_ops (rr_applied r) m @ advertise_ops (rr_applied r) m))"
    by (rule Reconcile_InrD)
  let ?W = "withdraw_ops (rr_applied r) m" and ?A = "advertise_ops (rr_applied r) m"
  let ?pw = "List.enumerate (rr_alloc r) ?W" and ?pa = "List.enumerate (rr_alloc r + length ?W) ?A"
  have split: "List.enumerate (rr_alloc r) (?W @ ?A) = ?pw @ ?pa" by (rule enumerate_append_eq)
  have dist: "distinct (map fst (?pw @ ?pa))" unfolding split [symmetric] by simp
  from all obtain dw da where ds: "ds = dw @ da" "list_all2 (is_delta bgp) ?pw dw"
    "list_all2 (is_delta bgp) ?pa da" unfolding split by (auto simp: list_all2_append1)
  have pend: "map_of (rr_pending r1) (fst p) = Some (snd p)" if "p \<in> set (?pw @ ?pa)" for p
    using that map_of_enumerate [of p "rr_alloc r" "?W @ ?A"] unfolding r1(4) split by blast
  have keys: "key_of ` set ?pw = {k. withdraw_op (rr_applied r) m k \<noteq> None}"
    "key_of ` set ?pa = {k. advertise_op (rr_applied r) m k \<noteq> None}"
    using arg_cong [OF map_key_of_enumerate, of set] withdraw_ops_keys [of "rr_applied r" m]
      advertise_ops_keys [of "rr_applied r" m]
    by (auto simp: withdraw_op_def advertise_op_def simp flip: set_map split: option.splits)
  have wd: "op_action (snd p) = RouteWithdraw \<and>
      (\<exists>o1. map_of (rr_applied r1) (key_of p) = Some o1 \<and> own_PathUUID o1 = op_pathUUID (snd p) \<and>
         Equivalent (own_Endpoint o1) (op_endpoint (snd p)))" if "p \<in> set ?pw" for p
    using withdraw_opsD [OF snd_in_enumerate [OF that]] by (auto simp: r1)
  have ad: "op_action (snd p) = RouteAdvertise \<and> map_of m (key_of p) = Some (op_endpoint (snd p))"
    if "p \<in> set ?pa" for p
    using advertise_opsD [OF snd_in_enumerate [OF that]] by simp
  have free: "op_action (snd p) = RouteAdvertise \<and>
      (key_of p \<in> key_of ` set ?pw \<or> map_of (rr_applied r1) (key_of p) = None)" if "p \<in> set ?pa" for p
  proof -
    have "advertise_op (rr_applied r) m (key_of p) \<noteq> None" using keys(2) that by blast
    then show ?thesis using ad [OF that] unfolding keys(1)
      by (auto simp: r1 advertise_op_def withdraw_op_def split: option.splits if_splits)
  qed
  have dk: "distinct (map key_of ?pw)" "distinct (map key_of ?pa)"
    by (simp_all add: map_key_of_enumerate withdraw_ops_keys advertise_ops_keys)
  have "rr_synchronized r1" using sync r1(3) by simp
  from execute_plan [OF assms(1) this ds(2,3) dist dk pend wd free, of w]
  obtain r' w' where *: "execute bgp ctx api (dw @ da) (r1, w) = (Inr (), (r', w'))" "rr_synchronized r'"
    "rr_foreign r' = rr_foreign r1"
    "\<forall>p \<in> set ?pa. \<exists>o1. map_of (rr_applied r') (key_of p) = Some o1 \<and> own_Endpoint o1 = op_endpoint (snd p)"
    "\<forall>k. k \<notin> key_of ` set ?pa \<longrightarrow> map_of (rr_applied r') k =
       (if k \<in> key_of ` set ?pw then None else map_of (rr_applied r1) k)"
    "\<forall>a. map_of (rr_pending r') a = (if a \<in> fst ` set (?pw @ ?pa) then None else map_of (rr_pending r1) a)"
    by blast
  have "map_of (rr_pending r') = Map.empty"
    using *(6) unfolding r1(4) split by (auto simp: fun_eq_iff map_of_eq_None_iff)
  moreover have "case (map_of (rr_applied r') k, map_of m k) of
     (None, None) \<Rightarrow> True | (Some o1, Some ep) \<Rightarrow> Equivalent (own_Endpoint o1) ep | _ \<Rightarrow> False" for k
  proof (cases "k \<in> key_of ` set ?pa")
    case True
    then show ?thesis using *(4) ad by fastforce
  next
    case False
    then have "advertise_op (rr_applied r) m k = None" using keys(2) by blast
    moreover have "map_of (rr_applied r') k =
      (if withdraw_op (rr_applied r) m k \<noteq> None then None else map_of (rr_applied r) k)"
      using *(5) False unfolding keys(1) r1 by simp
    ultimately show ?thesis
      by (auto simp: advertise_op_def withdraw_op_def split: option.splits if_splits)
  qed
  ultimately show thesis
    using * m r1 by (intro that [OF m]) (simp_all add: ds(1) matches_def)
qed

section \<open>Properties of planning and execution\<close>

text \<open>The acknowledged routes are exactly those of the advertised endpoints.\<close>

definition converged :: "bgp_lib \<Rightarrow> LocalEndpoint list \<Rightarrow> (string, OwnedType2Route) gomap \<Rightarrow> bool" where
  "converged bgp desired applied \<longleftrightarrow>
     (\<forall>ep \<in> set desired. ep_Advertise ep \<longrightarrow> (\<exists>k o1. wire_key bgp ep = Some k \<and>
        map_of applied k = Some o1 \<and> Equivalent (own_Endpoint o1) ep)) \<and>
     (\<forall>k o1. map_of applied k = Some o1 \<longrightarrow> (\<exists>ep \<in> set desired. ep_Advertise ep \<and>
        wire_key bgp ep = Some k \<and> Equivalent (own_Endpoint o1) ep))"

lemma matches_converged:
  assumes m: "desired_map bgp foreign [] desired = Inr m" and "matches applied m"
  shows "converged bgp desired applied"
proof -
  have at: "case (map_of applied k, map_of m k) of
     (None, None) \<Rightarrow> True | (Some o1, Some ep) \<Rightarrow> Equivalent (own_Endpoint o1) ep | _ \<Rightarrow> False" for k
    using assms(2) unfolding matches_def by blast
  have "\<exists>k o1. wire_key bgp ep = Some k \<and> map_of applied k = Some o1 \<and> Equivalent (own_Endpoint o1) ep"
    if ep: "ep \<in> set desired" "ep_Advertise ep" for ep
  proof -
    obtain k ep' where k: "wire_key bgp ep = Some k" "map_of m k = Some ep'" "Equivalent ep' ep"
      using desired_map_covers(1) [OF m] ep by blast
    with at [of k] obtain o1 where "map_of applied k = Some o1" "Equivalent (own_Endpoint o1) ep'"
      by (auto split: option.splits)
    with k Equivalent_trans show ?thesis by blast
  qed
  moreover have "\<exists>ep \<in> set desired. ep_Advertise ep \<and> wire_key bgp ep = Some k \<and> Equivalent (own_Endpoint o1) ep"
    if o1: "map_of applied k = Some o1" for k o1
  proof -
    obtain ep where ep: "map_of m k = Some ep" "Equivalent (own_Endpoint o1) ep"
      using at [of k] o1 by (auto split: option.splits)
    with desired_map_sound [OF m _ ep(1)] show ?thesis by auto
  qed
  ultimately show ?thesis unfolding converged_def by blast
qed

text \<open>A first plan, for one endpoint, on the sample services.\<close>

definition sample_reconciler :: RouteReconciler where
  "sample_reconciler = NewRouteReconciler\<lparr>rr_synchronized := True\<rparr>"

lemma sample_reliable: "reliable sample_ctx sample_applier"
  by (auto simp: reliable_def sample_ctx_def sample_applier_def sample_add_def sample_uuid_def go_run)

lemma sample_plan:
  obtains d r1 where "RouteReconciler_Reconcile sample_bgp [sample_endpoint] sample_reconciler = (Inr [d], r1)"
    "rr_synchronized r1"
proof -
  have "(case RouteReconciler_Reconcile sample_bgp [sample_endpoint] sample_reconciler of
    (Inr [d], r1) \<Rightarrow> rr_synchronized r1 | _ \<Rightarrow> False)"
    by code_simp
  then show thesis
    by (auto split: prod.splits sum.splits list.splits intro: that)
qed

text \<open>
  C3 (convergence). When the plan of \<open>Reconcile\<close> is executed in order against an applier
  whose calls succeed, every delta is applied without error and afterwards the acknowledged
  routes are exactly the routes of the endpoints to be advertised: none missing, none left over,
  each with an equivalent endpoint under its own wire key. No operation stays pending.
\<close>

theorem reconcile_converges:
  assumes "reliable ctx api" and "rr_synchronized r"
    and "RouteReconciler_Reconcile bgp desired r = (Inr ds, r1)"
  shows "\<exists>r' w'. execute bgp ctx api ds (r1, w) = (Inr (), (r', w')) \<and>
    converged bgp desired (rr_applied r') \<and> map_of (rr_pending r') = Map.empty"
  by (rule converge_aux [OF assms(1,3,2), of w]) (auto intro: matches_converged)

theorem reconcile_converges_witness:
  "\<exists>ds r1 r' w'. RouteReconciler_Reconcile sample_bgp [sample_endpoint] sample_reconciler = (Inr ds, r1) \<and>
     execute sample_bgp sample_ctx sample_applier ds (r1, sample_world) = (Inr (), (r', w')) \<and>
     converged sample_bgp [sample_endpoint] (rr_applied r') \<and> rr_applied r' \<noteq> []"
proof (rule sample_plan)
  fix d r1
  assume plan: "RouteReconciler_Reconcile sample_bgp [sample_endpoint] sample_reconciler = (Inr [d], r1)"
  have sync: "rr_synchronized sample_reconciler" by (simp add: sample_reconciler_def)
  obtain r' w' where run: "execute sample_bgp sample_ctx sample_applier [d] (r1, sample_world) = (Inr (), (r', w'))"
    and conv: "converged sample_bgp [sample_endpoint] (rr_applied r')"
    using reconcile_converges [OF sample_reliable sync plan, of sample_world] by auto
  from conv have "rr_applied r' \<noteq> []"
    by (auto simp: converged_def sample_endpoint_def)
  with plan run conv show ?thesis by blast
qed

text \<open>
  C28 (idempotence). After a plan was executed successfully, planning again for the same endpoints
  gives no deltas.
\<close>

theorem replan_empty:
  assumes "reliable ctx api" and "rr_synchronized r"
    and "RouteReconciler_Reconcile bgp desired r = (Inr ds, r1)"
    and "execute bgp ctx api ds (r1, w) = (Inr (), (r', w'))"
  shows "fst (RouteReconciler_Reconcile bgp desired r') = Inr []"
proof (rule converge_aux [OF assms(1,3,2), of w])
  fix m r'' w''
  assume "desired_map bgp (rr_foreign r) [] desired = Inr m"
    "execute bgp ctx api ds (r1, w) = (Inr (), r'', w'')" "matches (rr_applied r'') m"
    "rr_foreign r'' = rr_foreign r"
  with assms(4) show ?thesis
    by (simp add: Reconcile_plan_ops matches_no_ops go_return_def)
qed

theorem replan_empty_witness:
  "\<exists>ds r1 r' w'. RouteReconciler_Reconcile sample_bgp [sample_endpoint] sample_reconciler = (Inr ds, r1) \<and>
     ds \<noteq> [] \<and> execute sample_bgp sample_ctx sample_applier ds (r1, sample_world) = (Inr (), (r', w')) \<and>
     fst (RouteReconciler_Reconcile sample_bgp [sample_endpoint] r') = Inr []"
proof (rule sample_plan)
  fix d r1
  assume plan: "RouteReconciler_Reconcile sample_bgp [sample_endpoint] sample_reconciler = (Inr [d], r1)"
  have sync: "rr_synchronized sample_reconciler" by (simp add: sample_reconciler_def)
  obtain r' w' where run: "execute sample_bgp sample_ctx sample_applier [d] (r1, sample_world) = (Inr (), (r', w'))"
    by (rule converge_aux [OF sample_reliable plan sync, of sample_world])
  with replan_empty [OF sample_reliable sync plan run] plan show ?thesis by blast
qed

text \<open>
  C14 (what a plan may contain). Planning changes neither the acknowledged routes nor the set of
  foreign keys. The deltas are withdrawals followed by advertisements. Each withdrawal names an
  acknowledged route with its UUID; each advertisement is an endpoint of the input that asks to be
  advertised, under its own wire key, which is not the key of an unclaimed path of the speaker.
\<close>

theorem plan_sound:
  assumes "RouteReconciler_Reconcile bgp desired r = (Inr ds, r1)"
  shows "rr_applied r1 = rr_applied r \<and> rr_foreign r1 = rr_foreign r \<and>
    (\<exists>ws as. ds = ws @ as \<and>
      (\<forall>d \<in> set ws. \<exists>a op. rt_operation d = Some (a, op) \<and> op_action op = RouteWithdraw \<and>
         map_of (rr_applied r) (op_wireKey op) =
           Some \<lparr>own_Endpoint = op_endpoint op, own_PathUUID = op_pathUUID op\<rparr>) \<and>
      (\<forall>d \<in> set as. \<exists>a op. rt_operation d = Some (a, op) \<and> op_action op = RouteAdvertise \<and>
         op_endpoint op \<in> set desired \<and> ep_Advertise (op_endpoint op) \<and>
         wire_key bgp (op_endpoint op) = Some (op_wireKey op) \<and> op_wireKey op \<notin> set (rr_foreign r)))"
  using assms
proof (rule Reconcile_InrD)
  fix m
  assume m: "desired_map bgp (rr_foreign r) [] desired = Inr m"
    and all: "list_all2 (is_delta bgp)
       (List.enumerate (rr_alloc r) (withdraw_ops (rr_applied r) m @ advertise_ops (rr_applied r) m)) ds"
    and same: "rr_applied r1 = rr_applied r" "rr_foreign r1 = rr_foreign r"
  from all obtain dw da where ds: "ds = dw @ da"
    "list_all2 (is_delta bgp) (List.enumerate (rr_alloc r) (withdraw_ops (rr_applied r) m)) dw"
    "list_all2 (is_delta bgp) (List.enumerate (rr_alloc r + length (withdraw_ops (rr_applied r) m))
        (advertise_ops (rr_applied r) m)) da"
    unfolding enumerate_append_eq by (auto simp: list_all2_append1)
  have from_op: "\<exists>p. rt_operation d = Some p \<and> snd p \<in> set ops"
    if "list_all2 (is_delta bgp) (List.enumerate n ops) xs" "d \<in> set xs" for n ops xs d
    using that by (metis in_set_conv_nth is_delta_operation list_all2_conv_all_nth nth_mem snd_in_enumerate)
  have "\<exists>a op. rt_operation d = Some (a, op) \<and> op_action op = RouteWithdraw \<and>
         map_of (rr_applied r) (op_wireKey op) =
           Some \<lparr>own_Endpoint = op_endpoint op, own_PathUUID = op_pathUUID op\<rparr>" if "d \<in> set dw" for d
    using from_op [OF ds(2) that] by (auto dest!: withdraw_opsD)
  moreover have "\<exists>a op. rt_operation d = Some (a, op) \<and> op_action op = RouteAdvertise \<and>
         op_endpoint op \<in> set desired \<and> ep_Advertise (op_endpoint op) \<and>
         wire_key bgp (op_endpoint op) = Some (op_wireKey op) \<and> op_wireKey op \<notin> set (rr_foreign r)"
    if "d \<in> set da" for d
    using from_op [OF ds(3) that] desired_map_sound [OF m] by (fastforce dest!: advertise_opsD)
  ultimately show ?thesis using ds(1) same by blast
qed

theorem plan_sound_witness:
  "\<exists>d r1. RouteReconciler_Reconcile sample_bgp [sample_endpoint] sample_reconciler = (Inr [d], r1) \<and>
     (\<exists>a op. rt_operation d = Some (a, op) \<and> op_endpoint op = sample_endpoint)"
proof (rule sample_plan)
  fix d r1
  assume plan: "RouteReconciler_Reconcile sample_bgp [sample_endpoint] sample_reconciler = (Inr [d], r1)"
  from plan_sound [OF plan] have "\<exists>a op. rt_operation d = Some (a, op) \<and> op_endpoint op = sample_endpoint"
    by (auto simp: sample_reconciler_def NewRouteReconciler_def Cons_eq_append_conv)
  with plan show ?thesis by blast
qed

lemma plan_op_fresh:
  "n \<le> rr_alloc r \<and> (\<forall>a op. map_of (rr_pending r) a = Some op \<longrightarrow> n \<le> a) \<Longrightarrow>
   go_wp (plan_op bgp op)
     (\<lambda>_ r'. n \<le> rr_alloc r' \<and> (\<forall>a op. map_of (rr_pending r') a = Some op \<longrightarrow> n \<le> a))
     (\<lambda>_ r'. n \<le> rr_alloc r' \<and> (\<forall>a op. map_of (rr_pending r') a = Some op \<longrightarrow> n \<le> a)) r"
  by (auto simp: go_wp_def plan_op_run split: sum.splits)

lemma Reconcile_fresh:
  assumes "RouteReconciler_Reconcile bgp desired r = (res, r1)" and "map_of (rr_pending r1) a = Some op"
  shows "rr_alloc r \<le> a"
proof (cases "desired_map bgp (rr_foreign r) [] desired")
  case (Inl e)
  with assms show ?thesis by (auto simp: Reconcile_plan_ops)
next
  case (Inr m)
  let ?I = "\<lambda>r'. rr_alloc r \<le> rr_alloc r' \<and> (\<forall>a op. map_of (rr_pending r') a = Some op \<longrightarrow> rr_alloc r \<le> a)"
  have "go_wp (go_concat (plan_op bgp) ops) (\<lambda>_. ?I) (\<lambda>_. ?I) (r\<lparr>rr_pending := []\<rparr>)" for ops
    by (rule go_wp_concat_invariant, simp) (rule plan_op_fresh)
  from go_wp_resultD [OF this] assms Inr show ?thesis
    by (fastforce simp: Reconcile_plan_ops split: sum.splits)
qed



section \<open>One application\<close>

lemma apply_advertise_wp:
  assumes "\<And>id w'. \<lbrakk>map_of (rr_applied r) (op_wireKey op) = None; id \<noteq> []\<rbrakk> \<Longrightarrow>
      Q () (r\<lparr>rr_applied := AList.update (op_wireKey op)
        \<lparr>own_Endpoint = op_endpoint op, own_PathUUID = id\<rparr> (rr_applied r)\<rparr>, w')"
    and "\<And>e b w'. E e (r\<lparr>rr_synchronized := b\<rparr>, w')"
  shows "go_wp (apply_advertise bgp ctx api op) Q E (r, w)"
proof -
  have "E e (r, w')" for e w' using assms(2) [of e "rr_synchronized r" w'] by simp
  with assms show ?thesis
    unfolding apply_advertise_def
    by (auto simp: go_wp_rules split: sum.split intro!: go_wp_any)
qed

lemma apply_withdraw_wp:
  assumes "\<And>o1 w'. \<lbrakk>map_of (rr_applied r) (op_wireKey op) = Some o1; own_PathUUID o1 = op_pathUUID op\<rbrakk> \<Longrightarrow>
      Q () (r\<lparr>rr_applied := AList.delete (op_wireKey op) (rr_applied r)\<rparr>, w')"
    and "\<And>e w'. E e (r, w')"
  shows "go_wp (apply_withdraw ctx api op) Q E (r, w)"
  unfolding apply_withdraw_def using assms
  by (auto simp: go_wp_rules split: option.split intro!: go_wp_any)


lemma go_env_fst: "go_env m (r, w) = (x, t) \<Longrightarrow> fst t = r"
  by (auto simp: go_env_def split: prod.splits)

lemma apply_advertise_calls:
  assumes "\<And>route. \<lbrakk>map_of (rr_applied r) (op_wireKey op) = None; BuildType2Route bgp (op_endpoint op) = Inr route\<rbrakk>
      \<Longrightarrow> ap_Add api ctx route = ap_Add api' ctx route"
  shows "apply_advertise bgp ctx api op (r, w) = apply_advertise bgp ctx api' op (r, w)"
  using assms by (simp add: apply_advertise_def go_run split: sum.split)

lemma apply_withdraw_calls:
  assumes "\<And>o1. map_of (rr_applied r) (op_wireKey op) = Some o1 \<Longrightarrow> ap_Delete api ctx o1 = ap_Delete api' ctx o1"
  shows "apply_withdraw ctx api op (r, w) = apply_withdraw ctx api' op (r, w)"
proof -
  have "\<lparr>own_Endpoint = own_Endpoint o1, own_PathUUID = own_PathUUID o1\<rparr> = o1" for o1 :: OwnedType2Route
    by simp
  then show ?thesis
    using assms by (simp add: apply_withdraw_def go_run split: option.split)
qed

text \<open>
  C31 (only what is acknowledged is deleted). The applier is asked to delete only routes the
  reconciler holds an acknowledgement for, and to add only a route built for a pending
  advertisement whose wire key is free: two appliers that agree on those calls give the same run.
\<close>

theorem Apply_calls:
  assumes "\<forall>o1 \<in> ran (map_of (rr_applied r)). ap_Delete api ctx o1 = ap_Delete api' ctx o1"
    and "\<forall>a op route. map_of (rr_pending r) a = Some op \<and> op_action op = RouteAdvertise \<and>
       map_of (rr_applied r) (op_wireKey op) = None \<and> BuildType2Route bgp (op_endpoint op) = Inr route
       \<longrightarrow> ap_Add api ctx route = ap_Add api' ctx route"
  shows "RouteReconciler_Apply bgp ctx d (Some api) (r, w) = RouteReconciler_Apply bgp ctx d (Some api') (r, w)"
proof -
  have step: "(case op_action op of RouteAdvertise \<Rightarrow> apply_advertise bgp ctx api op
      | RouteWithdraw \<Rightarrow> apply_withdraw ctx api op
      | RouteOther _ \<Rightarrow> go_throw (errors_New ''unsupported route action %q'')) (r, w') =
    (case op_action op of RouteAdvertise \<Rightarrow> apply_advertise bgp ctx api' op
      | RouteWithdraw \<Rightarrow> apply_withdraw ctx api' op
      | RouteOther _ \<Rightarrow> go_throw (errors_New ''unsupported route action %q'')) (r, w')"
    if "map_of (rr_pending r) a = Some op" for a op w'
    using assms that by (auto simp: ranI intro!: apply_advertise_calls apply_withdraw_calls split: RouteAction.split)
  show ?thesis
    unfolding RouteReconciler_Apply_def
    by (auto simp: go_run split: option.split intro!: go_bind_at step dest!: go_env_fst)
qed

theorem Apply_calls_witness:
  "\<exists>d r1. RouteReconciler_Reconcile sample_bgp [sample_endpoint] sample_reconciler = (Inr [d], r1) \<and>
     RouteReconciler_Apply sample_bgp sample_ctx d (Some sample_applier) (r1, sample_world) =
     RouteReconciler_Apply sample_bgp sample_ctx d
       (Some (sample_applier\<lparr>ap_Delete := \<lambda>_ _. go_throw (errors_New ''no deletion'')\<rparr>)) (r1, sample_world)"
proof (rule sample_plan)
  fix d r1
  assume plan: "RouteReconciler_Reconcile sample_bgp [sample_endpoint] sample_reconciler = (Inr [d], r1)"
  then have "rr_applied r1 = []"
    by (auto elim!: Reconcile_InrD simp: sample_reconciler_def NewRouteReconciler_def)
  with plan Apply_calls [of r1 sample_applier sample_ctx
    "sample_applier\<lparr>ap_Delete := \<lambda>_ _. go_throw (errors_New ''no deletion'')\<rparr>" sample_bgp d sample_world]
  show ?thesis by (auto simp: ran_def)
qed

section \<open>Resynchronisation\<close>

lemma resync_claims_sound:
  assumes "resync_claims bgp claims0 receipts = Inr claims"
    and "\<And>u o1. map_of claims0 u = Some o1 \<Longrightarrow> own_PathUUID o1 = u"
  shows "(\<forall>u o1. map_of claims u = Some o1 \<longrightarrow> own_PathUUID o1 = u) \<and>
    ran (map_of claims) = ran (map_of claims0) \<union> set receipts"
  using assms
proof (induction receipts arbitrary: claims0)
  case (Cons x receipts)
  from Cons.prems(1) have fresh: "map_of claims0 (own_PathUUID x) = None"
    and rest: "resync_claims bgp (AList.update (own_PathUUID x) x claims0) receipts = Inr claims"
    by (auto split: if_splits sum.splits)
  have "own_PathUUID o1 = u" if "map_of (AList.update (own_PathUUID x) x claims0) u = Some o1" for u o1
    using that Cons.prems(2) by (auto split: if_splits)
  from Cons.IH [OF rest this] show ?case
    unfolding ran_update_new [OF fresh] by simp
qed auto

text \<open>A path of the snapshot that is the receipt's route under the given wire key.\<close>

definition adopted_from :: "bgp_lib \<Rightarrow> Type2RIBPath list \<Rightarrow> string \<Rightarrow> OwnedType2Route \<Rightarrow> bool" where
  "adopted_from bgp paths key o1 \<longleftrightarrow> (\<exists>path \<in> set paths. \<exists>nlri. rp_Local path \<and> rp_NLRI path = Some nlri \<and>
     NLRI_String bgp nlri = key \<and> ribPathMatchesEndpoint bgp path (own_Endpoint o1) \<and>
     (rp_PathUUID path = own_PathUUID o1))"

lemma adopted_from_Cons: "adopted_from bgp (p # paths) k o1 \<longleftrightarrow>
    adopted_from bgp [p] k o1 \<or> adopted_from bgp paths k o1"
  by (auto simp: adopted_from_def)

text \<open>The invariant of the pass over the snapshot.\<close>

lemma resync_paths_sound:
  assumes "resync_paths bgp (claims, applied, foreign) paths = Inr (claims', applied', foreign')"
    and "\<And>u o1. map_of claims u = Some o1 \<Longrightarrow> own_PathUUID o1 = u"
  shows "ran (map_of claims') \<union> ran (map_of applied') = ran (map_of claims) \<union> ran (map_of applied) \<and>
    (\<forall>k o1. map_of applied' k = Some o1 \<longrightarrow> map_of applied k = Some o1 \<or> adopted_from bgp paths k o1) \<and>
    set foreign \<subseteq> set foreign' \<and>
    (\<forall>path \<in> set paths. \<forall>nlri. rp_Local path \<and> rp_NLRI path = Some nlri \<and> map_of claims (rp_PathUUID path) = None
       \<longrightarrow> NLRI_String bgp nlri \<in> set foreign')"
  using assms
proof (induction paths arbitrary: claims applied foreign)
  case (Cons path paths)
  from Cons.prems(1) obtain nlri where nlri: "rp_NLRI path = Some nlri"
    by (auto split: option.splits)
  let ?key = "NLRI_String bgp nlri"
  consider (skip) "\<not> rp_Local path" "resync_paths bgp (claims, applied, foreign) paths = Inr (claims', applied', foreign')"
    | (foreign) "rp_Local path" "map_of claims (rp_PathUUID path) = None"
        "resync_paths bgp (claims, applied, ?key # foreign) paths = Inr (claims', applied', foreign')"
    | (owned) receipt where "rp_Local path" "map_of claims (rp_PathUUID path) = Some receipt"
        "ribPathMatchesEndpoint bgp path (own_Endpoint receipt)" "map_of applied ?key = None"
        "resync_paths bgp (AList.delete (rp_PathUUID path) claims, AList.update ?key receipt applied, foreign) paths
           = Inr (claims', applied', foreign')"
    using Cons.prems(1) nlri by (auto simp: Let_def split: if_splits option.splits)
  then show ?case
  proof cases
    case skip
    with Cons.IH [OF skip(2) Cons.prems(2)] show ?thesis by (auto simp: adopted_from_Cons [of _ path paths])
  next
    case foreign
    with Cons.IH [OF foreign(3) Cons.prems(2)] nlri show ?thesis by (auto simp: adopted_from_Cons [of _ path paths])
  next
    case owned
    have inv: "own_PathUUID o1 = u" if "map_of (AList.delete (rp_PathUUID path) claims) u = Some o1" for u o1
      using that Cons.prems(2) by (auto split: if_splits)
    have "own_PathUUID receipt = rp_PathUUID path" using Cons.prems(2) owned(2) by blast
    then have here: "adopted_from bgp [path] ?key receipt"
      using owned nlri by (auto simp: adopted_from_def)
    have ran: "ran (map_of (AList.delete (rp_PathUUID path) claims)) \<union> ran (map_of (AList.update ?key receipt applied))
      = ran (map_of claims) \<union> ran (map_of applied)"
      unfolding ran_update_new [OF owned(4)] ran_delete [OF owned(2), symmetric] by simp
    note ih = Cons.IH [OF owned(5) inv, unfolded ran]
    have "map_of applied k = Some o1 \<or> adopted_from bgp (path # paths) k o1" if "map_of applied' k = Some o1" for k o1
    proof -
      have "map_of (AList.update ?key receipt applied) k = Some o1 \<or> adopted_from bgp paths k o1"
        using ih that by blast
      with here show ?thesis
        unfolding adopted_from_Cons [of _ path paths] by (cases "k = ?key") auto
    qed
    with ih owned(1,2) show ?thesis by (auto split: if_splits)
  qed
qed auto

text \<open>
  C32 (resynchronisation adopts receipts only). \<open>Resync\<close> succeeds only when the routes it
  then holds are exactly the receipts it was given, each found in the snapshot of the local speaker
  under its UUID and with the payload of its endpoint; no key of an owned route is foreign, and the
  key of every local path without a receipt is recorded as foreign. When it fails, the reconciler
  is not synchronised and its routes are the old ones. Either way no earlier delta is pending.
\<close>

theorem Resync_adopts_receipts:
  "go_wp (RouteReconciler_Resync bgp ctx source receipts)
     (\<lambda>_ (r', w'). \<exists>src paths w1. source = Some src \<and> src_Snapshot src ctx w = (Inr paths, w1) \<and>
        rr_synchronized r' \<and> rr_pending r' = [] \<and>
        ran (map_of (rr_applied r')) = set receipts \<and>
        (\<forall>k o1. map_of (rr_applied r') k = Some o1 \<longrightarrow> adopted_from bgp paths k o1 \<and> k \<notin> set (rr_foreign r')) \<and>
        (\<forall>path \<in> set paths. \<forall>nlri. rp_Local path \<and> rp_NLRI path = Some nlri \<and>
           rp_PathUUID path \<notin> own_PathUUID ` set receipts \<longrightarrow> NLRI_String bgp nlri \<in> set (rr_foreign r')))
     (\<lambda>_ (r', w'). \<not> rr_synchronized r' \<and> rr_pending r' = [] \<and> rr_applied r' = rr_applied r) (r, w)"
proof -
  have core: "ran (map_of applied) = set receipts \<and>
      (\<forall>k o1. map_of applied k = Some o1 \<longrightarrow> adopted_from bgp paths k o1) \<and>
      (\<forall>path \<in> set paths. \<forall>nlri. rp_Local path \<and> rp_NLRI path = Some nlri \<and>
           rp_PathUUID path \<notin> own_PathUUID ` set receipts \<longrightarrow> NLRI_String bgp nlri \<in> set foreign)"
    if "resync_claims bgp [] receipts = Inr claims"
      "resync_paths bgp (claims, [], []) paths = Inr ([], applied, foreign)" for claims paths applied foreign
  proof -
    from resync_claims_sound [OF that(1)]
    have c: "\<And>u o1. map_of claims u = Some o1 \<Longrightarrow> own_PathUUID o1 = u" "ran (map_of claims) = set receipts"
      by auto
    have "map_of claims u = None" if "u \<notin> own_PathUUID ` set receipts" for u
      using that c by (metis image_eqI option.exhaust ranI)
    with resync_paths_sound [OF that(2) c(1)] c(2) show ?thesis by auto
  qed
  show ?thesis
    unfolding RouteReconciler_Resync_def
    by (auto simp: go_wp_rules split: option.split sum.split intro!: go_wp_any) (use core in blast)+
qed

text \<open>The speaker after it accepted one route of this process and one of another.\<close>

definition sample_rib :: sample_speaker where
  "sample_rib = (case BuildType2Route sample_bgp sample_endpoint of Inl _ \<Rightarrow> sample_world
     | Inr route \<Rightarrow> (case BuildType2Route sample_bgp sample_endpoint2 of Inl _ \<Rightarrow> sample_world
       | Inr route2 \<Rightarrow> snd (sample_add route2 (snd (sample_add route sample_world)))))"

abbreviation sample_receipt :: OwnedType2Route where
  "sample_receipt \<equiv> \<lparr>own_Endpoint = sample_endpoint, own_PathUUID = ''uuid-0''\<rparr>"

theorem Resync_adopts_receipts_witness:
  "case RouteReconciler_Resync sample_bgp sample_ctx (Some sample_source) [sample_receipt]
      (sample_reconciler, sample_rib) of
     (res, (r, _)) \<Rightarrow> res = Inr () \<and> rr_synchronized r \<and> ran (map_of (rr_applied r)) = {sample_receipt} \<and>
       rr_foreign r \<noteq> []"
proof -
  have ok: "(case RouteReconciler_Resync sample_bgp sample_ctx (Some sample_source) [sample_receipt]
      (sample_reconciler, sample_rib) of (res, (r, _)) \<Rightarrow> res = Inr () \<and> rr_foreign r \<noteq> [])"
    by code_simp
  with Resync_adopts_receipts [of sample_bgp sample_ctx "Some sample_source" "[sample_receipt]" sample_rib sample_reconciler]
  show ?thesis
    by (auto simp: go_wp_def split: prod.splits sum.splits)
qed

lemma durable_claims_sound:
  assumes "durable_claims bgp claims0 receipts = Inr claims"
    and "\<And>k o1. map_of claims0 k = Some o1 \<Longrightarrow> wire_key bgp (own_Endpoint o1) = Some k"
  shows "(\<forall>k o1. map_of claims k = Some o1 \<longrightarrow> wire_key bgp (own_Endpoint o1) = Some k) \<and>
    ran (map_of claims) = ran (map_of claims0) \<union> set receipts"
  using assms
proof (induction receipts arbitrary: claims0)
  case (Cons x receipts)
  from Cons.prems(1) obtain route where route: "BuildType2Route bgp (own_Endpoint x) = Inr route"
    by (auto split: sum.splits)
  let ?k = "NLRI_String bgp (rt_NLRI route)"
  from Cons.prems(1) route have fresh: "map_of claims0 ?k = None"
    and rest: "durable_claims bgp (AList.update ?k x claims0) receipts = Inr claims"
    by (auto simp: Let_def split: if_splits)
  have "wire_key bgp (own_Endpoint o1) = Some k" if "map_of (AList.update ?k x claims0) k = Some o1" for k o1
    using that Cons.prems(2) route by (auto simp: wire_key_def split: if_splits)
  from Cons.IH [OF rest this] show ?case
    unfolding ran_update_new [OF fresh] by simp
qed auto

text \<open>A local path of the snapshot that reads back the receipt.\<close>

definition read_back :: "bgp_lib \<Rightarrow> Type2RIBPath list \<Rightarrow> string \<Rightarrow> OwnedType2Route \<Rightarrow> bool" where
  "read_back bgp paths key o1 \<longleftrightarrow> (\<exists>path \<in> set paths. \<exists>nlri. rp_Local path \<and> rp_NLRI path = Some nlri \<and>
     NLRI_String bgp nlri = key \<and> ribPathMatchesEndpoint bgp path (own_Endpoint o1) \<and>
     (rp_PathUUID path = [] \<or> rp_PathUUID path = own_PathUUID o1))"

lemma durable_paths_sound:
  assumes "durable_paths bgp claims (applied, foreign) paths = Inr (applied', foreign')"
    and "\<forall>k \<in> set foreign. map_of claims k = None"
  shows "(\<forall>k o1. map_of applied' k = Some o1 \<longrightarrow> map_of applied k = Some o1 \<or>
       (map_of claims k = Some o1 \<and> read_back bgp paths k o1)) \<and>
    (\<forall>k \<in> set foreign'. map_of claims k = None)"
  using assms
proof (induction paths arbitrary: applied foreign)
  case (Cons path paths)
  from Cons.prems(1) obtain nlri where nlri: "rp_NLRI path = Some nlri"
    by (auto split: option.splits)
  let ?key = "NLRI_String bgp nlri"
  have later: "read_back bgp paths k o1 \<Longrightarrow> read_back bgp (path # paths) k o1" for k o1
    by (auto simp: read_back_def)
  consider (skip) "durable_paths bgp claims (applied, foreign) paths = Inr (applied', foreign')"
    | (foreign) "map_of claims ?key = None"
        "durable_paths bgp claims (applied, ?key # foreign) paths = Inr (applied', foreign')"
    | (owned) receipt where "map_of claims ?key = Some receipt" "read_back bgp [path] ?key receipt"
        "durable_paths bgp claims (AList.update ?key receipt applied, foreign) paths = Inr (applied', foreign')"
    using Cons.prems(1) nlri by (auto simp: Let_def read_back_def split: if_splits option.splits)
  then show ?case
  proof cases
    case skip
    from Cons.IH [OF skip Cons.prems(2)] later show ?thesis by blast
  next
    case foreign
    from Cons.IH [OF foreign(2)] foreign(1) Cons.prems(2) later show ?thesis by simp blast
  next
    case owned
    have here: "read_back bgp (path # paths) ?key receipt" using owned(2) by (auto simp: read_back_def)
    note ih = Cons.IH [OF owned(3) Cons.prems(2)]
    have "map_of applied k = Some o1 \<or> (map_of claims k = Some o1 \<and> read_back bgp (path # paths) k o1)"
      if "map_of applied' k = Some o1" for k o1
    proof -
      have "map_of (AList.update ?key receipt applied) k = Some o1 \<or>
        (map_of claims k = Some o1 \<and> read_back bgp paths k o1)"
        using ih that by blast
      with here owned(1) later show ?thesis by (cases "k = ?key") auto
    qed
    with ih show ?thesis by blast
  qed
qed auto

text \<open>What a durable resynchronisation establishes.\<close>

definition durable_state :: "bgp_lib \<Rightarrow> Type2RIBPath list \<Rightarrow> OwnedType2Route list \<Rightarrow> RouteReconciler \<Rightarrow> bool" where
  "durable_state bgp paths receipts r \<longleftrightarrow> rr_synchronized r \<and> rr_pending r = [] \<and>
     ran (map_of (rr_applied r)) = set receipts \<and>
     (\<forall>k o1. map_of (rr_applied r) k = Some o1 \<longrightarrow> wire_key bgp (own_Endpoint o1) = Some k \<and>
        read_back bgp paths k o1 \<and> k \<notin> set (rr_foreign r))"

lemma durable_paths_all:
  assumes c: "durable_claims bgp [] receipts = Inr claims"
    and p: "durable_paths bgp claims ([], []) paths = Inr (applied, foreign)"
    and len: "map_len applied = map_len claims"
  shows "ran (map_of applied) = set receipts \<and>
     (\<forall>k o1. map_of applied k = Some o1 \<longrightarrow> wire_key bgp (own_Endpoint o1) = Some k \<and>
        read_back bgp paths k o1 \<and> k \<notin> set foreign)"
proof -
  from durable_claims_sound [OF c] have claims: "\<And>k o1. map_of claims k = Some o1 \<Longrightarrow>
      wire_key bgp (own_Endpoint o1) = Some k" "ran (map_of claims) = set receipts" by auto
  from durable_paths_sound [OF p] have sound: "\<And>k o1. map_of applied k = Some o1 \<Longrightarrow>
      map_of claims k = Some o1 \<and> read_back bgp paths k o1" "\<forall>k \<in> set foreign. map_of claims k = None"
    by auto
  have sub: "dom (map_of applied) \<subseteq> dom (map_of claims)" using sound(1) by blast
  have "dom (map_of applied) = dom (map_of claims)"
    by (rule card_subset_eq [OF _ sub]) (use len in \<open>simp_all add: map_len_card finite_dom_map_of\<close>)
  then have "map_of applied k = map_of claims k" for k
    using sound(1) by (metis domIff option.exhaust)
  then have eq: "map_of applied = map_of claims" by blast
  have "k \<notin> set foreign" if "map_of claims k = Some o1" for k o1
    using sound(2) that by auto
  then show ?thesis
    using claims sound(1) unfolding eq by blast
qed

text \<open>
  C33 (durable resynchronisation). \<open>resyncDurable\<close> either establishes that the held routes are
  exactly the durable receipts, each under its own wire key and read back from the snapshot, with
  no foreign key among them; or it leaves the reconciler unsynchronised with its old routes. (An
  error after the first outcome means only that the context was cancelled.)
\<close>

theorem resyncDurable_receipts:
  "go_wp (RouteReconciler_resyncDurable bgp ctx src receipts)
     (\<lambda>_ (r', w'). \<exists>paths w1. src_Snapshot src ctx w = (Inr paths, w1) \<and> durable_state bgp paths receipts r')
     (\<lambda>_ (r', w'). (\<not> rr_synchronized r' \<and> rr_pending r' = [] \<and> rr_applied r' = rr_applied r) \<or>
        (\<exists>paths w1. src_Snapshot src ctx w = (Inr paths, w1) \<and> durable_state bgp paths receipts r')) (r, w)"
  unfolding RouteReconciler_resyncDurable_def
  by (auto simp: go_wp_rules durable_state_def split: sum.split intro!: go_wp_any)
    (use durable_paths_all in blast)+

end
