(* ===== verification/GoBGP_Adapter.thy ===== *)
theory GoBGP_Adapter
  imports Ownership_Journal Sample_Services
begin

text \<open>
  \<open>pkg/evpn/type2_gobgp.go\<close>: the adapter that reads the RIB of one pinned GoBGP speaker and
  adds or deletes single paths there; and \<open>SpeakerReadiness\<close> of
  \<open>pkg/evpn/exporter.go\<close>. The gRPC client (\<open>api.GoBgpServiceClient\<close>), the
  conversions of \<open>apiutil\<close> and the UUID package are arguments. A stream of responses is the
  list of its \<open>Recv\<close> calls; after the last one \<open>Recv\<close> reports \<open>io.EOF\<close>.
\<close>

section \<open>The speaker's API\<close>

text \<open>
  The fields of \<open>api.Path\<close> the sources use. A path attribute is opaque except for the
  next hops of an MP_REACH attribute; a nil attribute is \<open>None\<close>.
\<close>

record api_attribute =
  at_MpReach :: "string list option"
  at_data :: string

record api_path =
  gp_Family :: "(nat \<times> nat) option"
  gp_Nlri :: "string option"
  gp_NlriBinary :: string
  gp_Pattrs :: "api_attribute option list"
  gp_Uuid :: string
  gp_NeighborIp :: string
  gp_IsFromExternal :: bool
  gp_SourceId :: string
  gp_SourceAsn :: "32 word"
  gp_Identifier :: "32 word"
  gp_LocalIdentifier :: "32 word"
  gp_Best :: bool
  gp_Stale :: bool
  gp_Filtered :: bool
  gp_IsNexthopInvalid :: bool
  gp_IsWithdraw :: bool

datatype native_nlri = NativeEVPN EVPNNLRI | NativeOther string

record api_util =
  GetNativeNlri :: "api_path \<Rightarrow> go_error + native_nlri"
  GetNativePathAttributes :: "api_path \<Rightarrow> go_error + PathAttribute list"
  NewPath :: "EVPNNLRI \<Rightarrow> bool \<Rightarrow> PathAttribute list \<Rightarrow> go_error + api_path"
  uuid_FromBytes :: "string \<Rightarrow> string option"
  uuid_Parse :: "string \<Rightarrow> string option"
  uuid_Bytes :: "string \<Rightarrow> string"

text \<open>A response with its destination's paths; \<open>None\<close> is a nil response or destination.\<close>

type_synonym ListPathResponse = "api_path option list option"

record bgp_global =
  bg_Asn :: "32 word"
  bg_RouterId :: string
  bg_Families :: "32 word list"

record 'w GoBgpServiceClient =
  gc_ListPath :: "'w Context \<Rightarrow> ('w, ('w, ListPathResponse) go list option) go"
  gc_AddPath :: "'w Context \<Rightarrow> api_path \<Rightarrow> ('w, string) go"
  gc_DeletePath :: "'w Context \<Rightarrow> string \<Rightarrow> ('w, unit) go"
  gc_GetBgp :: "'w Context \<Rightarrow> ('w, bgp_global option) go"

record 'w ReadinessGate =
  rg_Check :: "'w Context \<Rightarrow> ('w, unit) go"

definition gate_check :: "'w ReadinessGate option \<Rightarrow> 'w Context \<Rightarrow> ('w, unit) go" where
  "gate_check g ctx = (case g of None \<Rightarrow> go_return () | Some gate \<Rightarrow> rg_Check gate ctx)"

text \<open>\<open>oc.AFI_SAFI_TYPE_L2VPN_EVPN.ToInt()\<close> is a constant of the GoBGP configuration package.\<close>

record 'w SpeakerReadiness =
  sr_Client :: "'w GoBgpServiceClient option"
  sr_ASN :: "32 word"
  sr_RouterID :: string
  sr_EVPNFamily :: "32 word"

definition SpeakerReadiness_Check :: "'w SpeakerReadiness \<Rightarrow> 'w Context \<Rightarrow> ('w, unit) go" where
  "SpeakerReadiness_Check s ctx = (case sr_Client s of
     None \<Rightarrow> go_throw (errors_New ''speaker API is not configured'')
   | Some client \<Rightarrow>
       go_bind (go_wrap (\<lambda>e. Errorf ''speaker GetBgp: %w'' [e]) (gc_GetBgp client ctx)) (\<lambda>res.
       case res of
         None \<Rightarrow> go_throw (errors_New ''speaker not ready: expected ASN=%d routerID=%s, got %v'')
       | Some g \<Rightarrow>
           go_seq (go_require (\<not> (sr_ASN s = 0 \<or> bg_Asn g \<noteq> sr_ASN s \<or> bg_RouterId g \<noteq> sr_RouterID s))
             (errors_New ''speaker not ready: expected ASN=%d routerID=%s, got %v''))
           (go_require (sr_EVPNFamily s \<in> set (bg_Families g))
             (errors_New ''speaker not ready: EVPN family missing''))))"

section \<open>Reading the RIB\<close>

record 'w GoBGPType2Adapter =
  ga_Client :: "'w GoBgpServiceClient option"
  ga_Gate :: "'w ReadinessGate option"

text \<open>One path of a response: skipped (\<open>None\<close>) unless it is a MAC/IP advertisement.\<close>

definition native_path :: "api_util \<Rightarrow> api_path option \<Rightarrow> go_error + Type2RIBPath option" where
  "native_path u path = (case path of
     None \<Rightarrow> Inl (errors_New ''nil GoBGP RIB path'')
   | Some p \<Rightarrow> sum_bind (GetNativeNlri u p) (\<lambda>nlri. case nlri of
       NativeOther _ \<Rightarrow> Inr None
     | NativeEVPN evpn \<Rightarrow>
         if n_RouteType evpn \<noteq> EVPN_ROUTE_TYPE_MAC_IP_ADVERTISEMENT then Inr None
         else sum_bind (GetNativePathAttributes u p) (\<lambda>attrs.
           sum_bind (if gp_Uuid p = [] then Inr [] else (case uuid_FromBytes u (gp_Uuid p) of
               None \<Rightarrow> Inl (errors_New ''invalid GoBGP RIB UUID'')
             | Some v \<Rightarrow> if v = uuid_Nil then Inl (errors_New ''invalid GoBGP RIB UUID'') else Inr v)) (\<lambda>uid.
           Inr (Some \<lparr>rp_PathUUID = uid, rp_Local = (uid \<noteq> [] \<or> (gp_NeighborIp p = [] \<and> \<not> gp_IsFromExternal p)),
                rp_NLRI = Some evpn, rp_PathAttributes = attrs\<rparr>)))))"

fun native_paths :: "api_util \<Rightarrow> api_path option list \<Rightarrow> go_error + Type2RIBPath list" where
  "native_paths u [] = Inr []"
| "native_paths u (p # ps) =
     sum_bind (native_path u p) (\<lambda>found.
     sum_bind (native_paths u ps) (\<lambda>rest.
     Inr (case found of None \<Rightarrow> rest | Some path \<Rightarrow> path # rest)))"

fun recv_loop :: "api_util \<Rightarrow> 'w ReadinessGate option \<Rightarrow> 'w Context \<Rightarrow> Type2RIBPath list \<Rightarrow>
    ('w, ListPathResponse) go list \<Rightarrow> ('w, Type2RIBPath list) go" where
  "recv_loop u gate ctx paths [] = go_seq ctx (go_seq (gate_check gate ctx) (go_return paths))"
| "recv_loop u gate ctx paths (recv # stream) =
     go_bind recv (\<lambda>response. case response of
       None \<Rightarrow> go_throw (errors_New ''incomplete GoBGP RIB response'')
     | Some ps \<Rightarrow>
         go_seq (go_require (ps \<noteq> []) (errors_New ''incomplete GoBGP RIB response''))
         (go_bind (go_of (native_paths u ps)) (\<lambda>found.
          recv_loop u gate ctx (paths @ found) stream)))"

definition Adapter_Snapshot ::
  "api_util \<Rightarrow> 'w GoBGPType2Adapter \<Rightarrow> 'w Context \<Rightarrow> ('w, Type2RIBPath list) go" where
  "Adapter_Snapshot u a ctx = (case ga_Client a of
     None \<Rightarrow> go_throw (errors_New ''GoBGP client is required'')
   | Some client \<Rightarrow>
       go_seq (gate_check (ga_Gate a) ctx)
       (go_bind (gc_ListPath client ctx) (\<lambda>stream. case stream of
          None \<Rightarrow> go_throw (errors_New ''nil GoBGP RIB stream'')
        | Some recvs \<Rightarrow> recv_loop u (ga_Gate a) ctx [] recvs)))"

section \<open>Adding and deleting one path\<close>

definition path_key :: "bgp_lib \<Rightarrow> Type2RIBPath \<Rightarrow> string" where
  "path_key bgp path = (case rp_NLRI path of None \<Rightarrow> [] | Some nlri \<Rightarrow> NLRI_String bgp nlri)"

text \<open>The request for a route: binary NLRI for a MAC-only endpoint.\<close>

definition add_request :: "bgp_lib \<Rightarrow> api_util \<Rightarrow> Type2Route \<Rightarrow> go_error + api_path" where
  "add_request bgp u want =
     sum_bind (NewPath u (rt_NLRI want) False (rt_PathAttributes want)) (\<lambda>path.
     if ep_MACOnly (rt_Endpoint want) then
       (case NLRI_Serialize bgp (rt_NLRI want) of
          None \<Rightarrow> Inl (errors_New ''NLRI.Serialize'')
        | Some bytes \<Rightarrow> Inr (path\<lparr>gp_NlriBinary := bytes, gp_Nlri := None\<rparr>))
     else Inr path)"

definition call_client ::
  "'w GoBGPType2Adapter \<Rightarrow> ('w GoBgpServiceClient \<Rightarrow> ('w, 'a) go) \<Rightarrow> ('w, 'a) go" where
  "call_client a call = (case ga_Client a of
     None \<Rightarrow> go_throw (errors_New ''nil pointer dereference'') | Some client \<Rightarrow> call client)"

definition Adapter_Add ::
  "bgp_lib \<Rightarrow> api_util \<Rightarrow> 'w GoBGPType2Adapter \<Rightarrow> 'w Context \<Rightarrow> Type2Route \<Rightarrow> ('w, string) go" where
  "Adapter_Add bgp u a ctx route =
     go_bind (go_of (BuildType2Route bgp (rt_Endpoint route))) (\<lambda>want.
     go_bind (Adapter_Snapshot u a ctx) (\<lambda>paths.
     go_seq (go_require (\<not> list_ex (\<lambda>path. rp_Local path \<and> path_key bgp path = NLRI_String bgp (rt_NLRI want)) paths)
       (Ownership ''%w: local wire route already exists''))
     (go_bind (go_of (add_request bgp u want)) (\<lambda>path.
      go_seq (gate_check (ga_Gate a) ctx)
      (go_bind (call_client a (\<lambda>client. gc_AddPath client ctx path)) (\<lambda>response.
       case uuid_FromBytes u response of
         None \<Rightarrow> go_throw (Ownership ''%w: AddPath returned no valid UUID'')
       | Some uid \<Rightarrow>
           if uid = uuid_Nil then go_throw (Ownership ''%w: AddPath returned no valid UUID'')
           else go_return uid))))))"

text \<open>The first local path with the wire key decides.\<close>

fun delete_found ::
  "bgp_lib \<Rightarrow> api_util \<Rightarrow> 'w GoBGPType2Adapter \<Rightarrow> 'w Context \<Rightarrow> OwnedType2Route \<Rightarrow> string \<Rightarrow> string \<Rightarrow>
   Type2RIBPath list \<Rightarrow> ('w, unit) go" where
  "delete_found bgp u a ctx owned uid key [] = go_return ()"
| "delete_found bgp u a ctx owned uid key (path # paths) =
     (if \<not> rp_Local path \<or> path_key bgp path \<noteq> key then delete_found bgp u a ctx owned uid key paths
      else if rp_PathUUID path \<noteq> [] \<and> rp_PathUUID path \<noteq> uid
      then go_throw (Ownership ''%w: wire route has another UUID'')
      else if \<not> ribPathMatchesEndpoint bgp path (own_Endpoint owned)
      then go_throw (Ownership ''%w: UUID payload changed'')
      else go_seq (gate_check (ga_Gate a) ctx)
        (call_client a (\<lambda>client. gc_DeletePath client ctx (uuid_Bytes u uid))))"

definition Adapter_Delete ::
  "bgp_lib \<Rightarrow> api_util \<Rightarrow> 'w GoBGPType2Adapter \<Rightarrow> 'w Context \<Rightarrow> OwnedType2Route \<Rightarrow> ('w, unit) go" where
  "Adapter_Delete bgp u a ctx owned = (case uuid_Parse u (own_PathUUID owned) of
     None \<Rightarrow> go_throw (Ownership ''%w: exact UUID required for DeletePath'')
   | Some uid \<Rightarrow>
       if uid = uuid_Nil then go_throw (Ownership ''%w: exact UUID required for DeletePath'')
       else go_bind (Adapter_Snapshot u a ctx) (\<lambda>paths.
         go_bind (go_of (BuildType2Route bgp (own_Endpoint owned))) (\<lambda>want.
         delete_found bgp u a ctx owned uid (NLRI_String bgp (rt_NLRI want)) paths)))"

definition adapter_source :: "api_util \<Rightarrow> 'w GoBGPType2Adapter \<Rightarrow> 'w Type2RIBSource" where
  "adapter_source u a = \<lparr>src_Snapshot = Adapter_Snapshot u a\<rparr>"

definition adapter_applier :: "bgp_lib \<Rightarrow> api_util \<Rightarrow> 'w GoBGPType2Adapter \<Rightarrow> 'w Type2RouteApplier" where
  "adapter_applier bgp u a = \<lparr>ap_Add = Adapter_Add bgp u a, ap_Delete = Adapter_Delete bgp u a\<rparr>"

section \<open>What the adapter guarantees\<close>

lemma native_paths_append:
  assumes "native_paths u ps = Inr found" and "native_paths u qs = Inr found'"
  shows "native_paths u (ps @ qs) = Inr (found @ found')"
  using assms by (induction ps arbitrary: found) (auto simp: sum_bind_Inr_iff split: option.splits)

text \<open>Receiving the whole stream.\<close>

definition recv_all :: "('w, ListPathResponse) go list \<Rightarrow> ('w, ListPathResponse list) go" where
  "recv_all stream = go_concat (\<lambda>recv. go_bind recv (\<lambda>r. go_return [r])) stream"

lemma recv_loop_all:
  assumes "recv_loop u gate ctx paths stream w = (Inr res, w')"
  shows "\<exists>responses w1 found. recv_all stream w = (Inr responses, w1) \<and>
    (\<forall>r \<in> set responses. r \<noteq> None \<and> r \<noteq> Some []) \<and>
    native_paths u (concat (map the responses)) = Inr found \<and> res = paths @ found"
  using assms
proof (induction stream arbitrary: paths w)
  case Nil
  then show ?case by (auto simp: go_run recv_all_def elim!: go_bind_InrE)
next
  case (Cons recv stream)
  from Cons.prems obtain response w1 where first: "recv w = (Inr response, w1)"
    and rest: "(case response of None \<Rightarrow> go_throw (errors_New ''incomplete GoBGP RIB response'')
      | Some ps \<Rightarrow> go_seq (go_require (ps \<noteq> []) (errors_New ''incomplete GoBGP RIB response''))
         (go_bind (go_of (native_paths u ps)) (\<lambda>found.
          recv_loop u gate ctx (paths @ found) stream))) w1 = (Inr res, w')"
    unfolding recv_loop.simps by (rule go_bind_InrE)
  then obtain ps found where ps: "response = Some ps" "ps \<noteq> []" "native_paths u ps = Inr found"
    "recv_loop u gate ctx (paths @ found) stream w1 = (Inr res, w')"
    by (auto simp: go_run split: option.splits sum.splits if_splits)
  from Cons.IH [OF ps(4)] obtain responses w2 found' where ih: "recv_all stream w1 = (Inr responses, w2)"
    "\<forall>r \<in> set responses. r \<noteq> None \<and> r \<noteq> Some []" "native_paths u (concat (map the responses)) = Inr found'"
    "res = (paths @ found) @ found'" by blast
  have "native_paths u (ps @ concat (map the responses)) = Inr (found @ found')"
    using ps(3) ih(3) by (rule native_paths_append)
  moreover have "recv_all (recv # stream) w = (Inr (Some ps # responses), w2)"
    using first ps(1) ih(1) by (simp add: recv_all_def go_bind_Inr go_run go_bind_assoc)
  ultimately show ?case
    using ih ps(2) by (intro exI [of _ "Some ps # responses"] exI [of _ w2] exI [of _ "found @ found'"]) simp
qed


text \<open>
  C15 (an addition never replaces a route). When the snapshot taken by \<open>Add\<close> shows a local
  path with the wire key of the endpoint, \<open>Add\<close> returns an ownership error and makes no further
  call: the world is the one the snapshot left.
\<close>

theorem Add_never_replaces:
  assumes "Adapter_Snapshot u a ctx w = (Inr paths, w1)" and "path \<in> set paths" and "rp_Local path"
    and "wire_key bgp (rt_Endpoint route) = Some (path_key bgp path)"
  shows "\<exists>e. Adapter_Add bgp u a ctx route w = (Inl e, w1) \<and> errors_Is e ErrRouteOwnership"
proof -
  from assms(4) obtain want where want: "BuildType2Route bgp (rt_Endpoint route) = Inr want"
    "NLRI_String bgp (rt_NLRI want) = path_key bgp path"
    by (auto simp: wire_key_def split: sum.splits)
  moreover have "list_ex (\<lambda>p. rp_Local p \<and> path_key bgp p = path_key bgp path) paths"
    using assms(2,3) by (auto simp: list_ex_iff)
  ultimately show ?thesis
    using assms(1) by (simp add: Adapter_Add_def go_run go_bind_Inr [where m = "Adapter_Snapshot u a ctx"])
qed

text \<open>
  C16 (only the exact UUID is deleted). Two speakers that answer the listing alike and agree on
  deleting the UUID of the receipt cannot be told apart by \<open>Delete\<close>: no other path is ever
  asked to be deleted. When a complete listing shows no local path with the wire key, nothing is
  deleted and the withdrawal succeeds.
\<close>

theorem Delete_exact_uuid:
  assumes "ga_Client a = Some c" and "ga_Client a' = Some c'" and "ga_Gate a = ga_Gate a'"
    and "gc_ListPath c = gc_ListPath c'"
    and "\<forall>uid. uuid_Parse u (own_PathUUID owned) = Some uid \<longrightarrow>
      gc_DeletePath c ctx (uuid_Bytes u uid) = gc_DeletePath c' ctx (uuid_Bytes u uid)"
  shows "Adapter_Delete bgp u a ctx owned = Adapter_Delete bgp u a' ctx owned \<and>
    (\<forall>w paths w1 want uid. Adapter_Snapshot u a ctx w = (Inr paths, w1) \<and>
       BuildType2Route bgp (own_Endpoint owned) = Inr want \<and>
       uuid_Parse u (own_PathUUID owned) = Some uid \<and> uid \<noteq> uuid_Nil \<and>
       (\<forall>path \<in> set paths. rp_Local path \<longrightarrow> path_key bgp path \<noteq> NLRI_String bgp (rt_NLRI want))
       \<longrightarrow> Adapter_Delete bgp u a ctx owned w = (Inr (), w1))"
proof
  have snap: "Adapter_Snapshot u a ctx = Adapter_Snapshot u a' ctx"
    using assms(1-4) by (simp add: Adapter_Snapshot_def)
  have "delete_found bgp u a ctx owned uid key paths = delete_found bgp u a' ctx owned uid key paths"
    if "uuid_Parse u (own_PathUUID owned) = Some uid" for uid key paths
    using assms that by (induction paths) (simp_all add: call_client_def)
  then show "Adapter_Delete bgp u a ctx owned = Adapter_Delete bgp u a' ctx owned"
    by (simp add: Adapter_Delete_def snap split: option.split)
next
  have absent: "delete_found bgp u a ctx owned uid key paths = go_return ()"
    if "\<forall>path \<in> set paths. rp_Local path \<longrightarrow> path_key bgp path \<noteq> key" for uid key paths
    using that by (induction paths) auto
  show "\<forall>w paths w1 want uid. Adapter_Snapshot u a ctx w = (Inr paths, w1) \<and>
       BuildType2Route bgp (own_Endpoint owned) = Inr want \<and>
       uuid_Parse u (own_PathUUID owned) = Some uid \<and> uid \<noteq> uuid_Nil \<and>
       (\<forall>path \<in> set paths. rp_Local path \<longrightarrow> path_key bgp path \<noteq> NLRI_String bgp (rt_NLRI want))
       \<longrightarrow> Adapter_Delete bgp u a ctx owned w = (Inr (), w1)"
    by (auto simp: Adapter_Delete_def go_bind_Inr go_run absent)
qed

section \<open>A concrete speaker\<close>

text \<open>One path, the route of the sample endpoint; the UUID package maps texts to themselves.\<close>

definition sample_route :: Type2Route where
  "sample_route = projr (BuildType2Route sample_bgp sample_endpoint)"

lemma sample_route_builds: "BuildType2Route sample_bgp sample_endpoint = Inr sample_route"
  using sample_endpoint_builds(1) by (auto simp: wire_key_def sample_route_def split: sum.splits)

definition sample_util :: api_util where
  "sample_util = \<lparr>GetNativeNlri = (\<lambda>_. Inr (NativeEVPN (rt_NLRI sample_route))),
     GetNativePathAttributes = (\<lambda>_. Inr (rt_PathAttributes sample_route)),
     NewPath = (\<lambda>_ _ _. Inl (errors_New ''unsupported'')),
     uuid_FromBytes = Some, uuid_Parse = (\<lambda>s. if s = [] then None else Some s), uuid_Bytes = (\<lambda>s. s)\<rparr>"

definition sample_api_path :: api_path where
  "sample_api_path = \<lparr>gp_Family = Some (25, 70), gp_Nlri = None, gp_NlriBinary = [], gp_Pattrs = [],
     gp_Uuid = ''u-1'', gp_NeighborIp = [], gp_IsFromExternal = False, gp_SourceId = [], gp_SourceAsn = 0,
     gp_Identifier = 0, gp_LocalIdentifier = 0, gp_Best = True, gp_Stale = False, gp_Filtered = False,
     gp_IsNexthopInvalid = False, gp_IsWithdraw = False\<rparr>"

definition sample_client :: "api_path option list list \<Rightarrow> string list GoBgpServiceClient" where
  "sample_client responses = \<lparr>
     gc_ListPath = (\<lambda>_. go_return (Some (map (\<lambda>r. go_return (Some r)) responses))),
     gc_AddPath = (\<lambda>_ _. go_return ''u-2''),
     gc_DeletePath = (\<lambda>_ bytes. go_modify (\<lambda>deleted. bytes # deleted)),
     gc_GetBgp = (\<lambda>_. go_return None)\<rparr>"

definition sample_adapter :: "string list GoBGPType2Adapter" where
  "sample_adapter = \<lparr>ga_Client = Some (sample_client [[Some sample_api_path]]), ga_Gate = None\<rparr>"

definition sample_path :: Type2RIBPath where
  "sample_path = \<lparr>rp_PathUUID = ''u-1'', rp_Local = True, rp_NLRI = Some (rt_NLRI sample_route),
     rp_PathAttributes = rt_PathAttributes sample_route\<rparr>"

lemma sample_route_type: "n_RouteType (rt_NLRI sample_route) = EVPN_ROUTE_TYPE_MAC_IP_ADVERTISEMENT"
  by code_simp

lemma sample_snapshot: "Adapter_Snapshot sample_util sample_adapter sample_ctx w = (Inr [sample_path], w)"
  by (simp add: Adapter_Snapshot_def sample_adapter_def sample_client_def sample_ctx_def gate_check_def go_seq_def
      native_path_def sample_util_def sample_route_type sample_api_path_def sample_path_def uuid_Nil_def go_run)


theorem Add_never_replaces_witness:
  "\<exists>e. Adapter_Add sample_bgp sample_util sample_adapter sample_ctx sample_route [] = (Inl e, []) \<and>
    errors_Is e ErrRouteOwnership"
proof (rule Add_never_replaces [OF sample_snapshot])
  show "sample_path \<in> set [sample_path]" by simp
  show "rp_Local sample_path" by (simp add: sample_path_def)
  show "wire_key sample_bgp (rt_Endpoint sample_route) = Some (path_key sample_bgp sample_path)"
    using BuildType2Route_Endpoint [OF sample_route_builds]
    by (simp add: wire_key_def sample_route_builds path_key_def sample_path_def)
qed

theorem Delete_exact_uuid_witness:
  "Adapter_Delete sample_bgp sample_util sample_adapter sample_ctx
     \<lparr>own_Endpoint = sample_endpoint, own_PathUUID = ''u-1''\<rparr> =
   Adapter_Delete sample_bgp sample_util
     (sample_adapter\<lparr>ga_Client := Some (sample_client [[Some sample_api_path]]
        \<lparr>gc_DeletePath := (\<lambda>_ bytes. if bytes = ''u-1'' then go_modify (\<lambda>deleted. bytes # deleted)
           else go_throw (errors_New ''refused''))\<rparr>)\<rparr>) sample_ctx
     \<lparr>own_Endpoint = sample_endpoint, own_PathUUID = ''u-1''\<rparr>"
  by (rule Delete_exact_uuid [THEN conjunct1])
    (simp add: sample_adapter_def sample_client_def sample_util_def; fail)+

end
