(* ===== verification/Receipted_Applier.thy ===== *)
theory Receipted_Applier
  imports Route_Reconciler
begin

text \<open>
  The interface between \<open>RouteReconciler\<close> and an applier that keeps durable receipts: the
  laws of \<open>Add\<close> and \<open>Delete\<close>, and what they give the reconciler.
\<close>

text \<open>The acknowledged routes are exactly those there are receipts for.\<close>

definition in_step :: "('w \<Rightarrow> OwnedType2Route list) \<Rightarrow> RouteReconciler \<Rightarrow> 'w \<Rightarrow> bool" where
  "in_step receipts_of r w \<longleftrightarrow> ran (map_of (rr_applied r)) = set (receipts_of w)"

definition unique_uuids :: "RouteReconciler \<Rightarrow> bool" where
  "unique_uuids r \<longleftrightarrow> (\<forall>k k' o1 o2. map_of (rr_applied r) k = Some o1 \<and> map_of (rr_applied r) k' = Some o2 \<and>
     own_PathUUID o1 = own_PathUUID o2 \<longrightarrow> k = k')"

lemma unique_uuids_delete:
  assumes "unique_uuids r" and "map_of (rr_applied r) k = Some o2"
  shows "ran (map_of (AList.delete k (rr_applied r))) =
    {o1 \<in> ran (map_of (rr_applied r)). own_PathUUID o1 \<noteq> own_PathUUID o2}"
proof (intro set_eqI iffI)
  fix o1 assume "o1 \<in> ran (map_of (AList.delete k (rr_applied r)))"
  then obtain k1 where "k1 \<noteq> k" "map_of (rr_applied r) k1 = Some o1"
    by (auto simp: ran_def split: if_splits)
  with assms show "o1 \<in> {o1 \<in> ran (map_of (rr_applied r)). own_PathUUID o1 \<noteq> own_PathUUID o2}"
    unfolding unique_uuids_def by (auto intro: ranI)
next
  fix o1 assume "o1 \<in> {o1 \<in> ran (map_of (rr_applied r)). own_PathUUID o1 \<noteq> own_PathUUID o2}"
  then obtain k1 where k1: "map_of (rr_applied r) k1 = Some o1" "own_PathUUID o1 \<noteq> own_PathUUID o2"
    by (auto simp: ran_def)
  with assms(2) have "k1 \<noteq> k" by auto
  with k1 have "map_of (AList.delete k (rr_applied r)) k1 = Some o1" by simp
  then show "o1 \<in> ran (map_of (AList.delete k (rr_applied r)))" by (rule ranI)
qed

text \<open>
  A successful \<open>Add\<close> appends the receipt with the UUID it returns, a successful
  \<open>Delete\<close> removes the receipts of that UUID, and a failure leaves the receipts alone, in
  every world that is \<open>ok\<close>; all calls keep the world \<open>ok\<close>.
\<close>

locale receipted_applier =
  fixes api :: "'w Type2RouteApplier" and ctx :: "'w Context"
    and receipts_of :: "'w \<Rightarrow> OwnedType2Route list" and ok :: "'w \<Rightarrow> bool"
  assumes Add_law: "ok w \<Longrightarrow> go_wp (ap_Add api ctx route)
      (\<lambda>id w'. ok w' \<and> id \<noteq> [] \<and>
         receipts_of w' = receipts_of w @ [\<lparr>own_Endpoint = rt_Endpoint route, own_PathUUID = id\<rparr>])
      (\<lambda>_ w'. ok w' \<and> receipts_of w' = receipts_of w) w"
    and Delete_law: "ok w \<Longrightarrow> go_wp (ap_Delete api ctx owned)
      (\<lambda>_ w'. ok w' \<and> receipts_of w' = filter (\<lambda>o1. own_PathUUID o1 \<noteq> own_PathUUID owned) (receipts_of w))
      (\<lambda>_ w'. ok w' \<and> receipts_of w' = receipts_of w) w"
    and ctx_law: "go_keeps (\<lambda>w. (receipts_of w, ok w)) ctx"
begin

abbreviation stepwise :: "RouteReconciler \<times> 'w \<Rightarrow> bool" where
  "stepwise s \<equiv> in_step receipts_of (fst s) (snd s) \<and> ok (snd s)"

lemma in_step_advertise:
  assumes step: "in_step receipts_of r w" "ok w"
  shows "go_wp (apply_advertise bgp ctx api op) (\<lambda>_. stepwise) (\<lambda>_. stepwise) (r, w)"
proof (cases "BuildType2Route bgp (op_endpoint op)")
  case (Inl e)
  with assms show ?thesis by (auto simp: apply_advertise_def go_wp_rules)
next
  case (Inr route)
  have ep: "rt_Endpoint route = op_endpoint op" using BuildType2Route_Endpoint [OF Inr] .
  have upd: "ran (map_of (AList.update (op_wireKey op) o1 (rr_applied r))) = insert o1 (set (receipts_of w))"
    if "map_of (rr_applied r) (op_wireKey op) = None" for o1
    using step ran_update_new [OF that] unfolding in_step_def by simp
  note add = Add_law [OF step(2), of route, unfolded ep]
  show ?thesis
  proof (cases "map_of (rr_applied r) (op_wireKey op)")
    case None
    have "go_wp (ap_Add api ctx route)
      (\<lambda>id w'. (id = [] \<longrightarrow> in_step receipts_of (r\<lparr>rr_synchronized := False\<rparr>) w' \<and> ok w') \<and> (id \<noteq> [] \<longrightarrow>
         in_step receipts_of (r\<lparr>rr_applied := AList.update (op_wireKey op)
           \<lparr>own_Endpoint = op_endpoint op, own_PathUUID = id\<rparr> (rr_applied r)\<rparr>) w' \<and> ok w'))
      (\<lambda>_ w'. in_step receipts_of r w' \<and> ok w') w"
      by (rule go_wp_mono [OF add]) (use step upd [OF None] in \<open>simp_all add: in_step_def del: map_of_update\<close>)
    then show ?thesis
      by (simp add: apply_advertise_def go_wp_rules Inr None)
  next
    case (Some o1)
    with step show ?thesis by (simp add: apply_advertise_def go_wp_rules)
  qed
qed

lemma in_step_withdraw:
  assumes step: "in_step receipts_of r w" "ok w" and uniq: "unique_uuids r"
  shows "go_wp (apply_withdraw ctx api op) (\<lambda>_. stepwise) (\<lambda>_. stepwise) (r, w)"
proof (cases "map_of (rr_applied r) (op_wireKey op)")
  case None
  with step show ?thesis by (simp add: apply_withdraw_def go_wp_rules)
next
  case (Some o1)
  have "go_wp (ap_Delete api ctx \<lparr>own_Endpoint = own_Endpoint o1, own_PathUUID = own_PathUUID o1\<rparr>)
     (\<lambda>_ w'. in_step receipts_of (r\<lparr>rr_applied := AList.delete (op_wireKey op) (rr_applied r)\<rparr>) w' \<and> ok w')
     (\<lambda>_ w'. in_step receipts_of r w' \<and> ok w') w"
    by (rule go_wp_mono [OF Delete_law [OF step(2)]])
      (use step unique_uuids_delete [OF uniq Some] in \<open>auto simp: in_step_def simp del: map_of_delete\<close>)
  with Some step show ?thesis
    by (cases "own_PathUUID o1 = op_pathUUID op") (simp_all add: apply_withdraw_def go_wp_rules)
qed

lemma in_step_Apply:
  assumes "in_step receipts_of r w" and "ok w" and "unique_uuids r"
  shows "go_wp (RouteReconciler_Apply bgp ctx d (Some api)) (\<lambda>_. stepwise) (\<lambda>_. stepwise) (r, w)"
proof -
  have pend: "in_step receipts_of (r1\<lparr>rr_pending := x\<rparr>) w1 = in_step receipts_of r1 w1" for r1 w1 x
    by (simp add: in_step_def)
  have *: "go_wp ctx (\<lambda>_ w'. in_step receipts_of r w' \<and> ok w') (\<lambda>_ w'. in_step receipts_of r w' \<and> ok w') w"
    by (rule go_wp_mono [OF go_keeps_wp [OF ctx_law]]) (use assms(1,2) in \<open>simp_all add: in_step_def\<close>)
  have then_done: "go_wp (go_seq m (go_modify (map_prod (\<lambda>r. r\<lparr>rr_pending := AList.delete a (rr_pending r)\<rparr>) (\<lambda>w. w))))
      (\<lambda>_. stepwise) (\<lambda>_. stepwise) s"
    if "go_wp m (\<lambda>_. stepwise) (\<lambda>_. stepwise) s" for m a s
    by (rule go_wp_seqI [OF that]) (auto simp: go_wp_modify pend)
  have act: "go_wp (case op_action op of RouteAdvertise \<Rightarrow> apply_advertise bgp ctx api op
      | RouteWithdraw \<Rightarrow> apply_withdraw ctx api op
      | RouteOther _ \<Rightarrow> go_throw (errors_New ''unsupported route action %q''))
      (\<lambda>_. stepwise) (\<lambda>_. stepwise) (r, w1)"
    if "in_step receipts_of r w1" "ok w1" for op w1
    using that in_step_advertise in_step_withdraw [OF _ _ assms(3)]
    by (simp add: go_wp_throw split: RouteAction.split)
  have run: "go_wp (go_seq (go_env ctx) n) (\<lambda>_. stepwise) (\<lambda>_. stepwise) (r, w)"
    if "\<And>w1. in_step receipts_of r w1 \<Longrightarrow> ok w1 \<Longrightarrow> go_wp n (\<lambda>_. stepwise) (\<lambda>_. stepwise) (r, w1)"
    for n :: "(RouteReconciler \<times> 'w, unit) go"
    unfolding go_wp_seq go_wp_env by (rule go_wp_mono [OF *]) (simp_all add: that)
  show ?thesis
    unfolding RouteReconciler_Apply_def go_wp_bind go_wp_get go_wp_seq [of "go_require _ _"] go_wp_require
      go_wp_case_option go_wp_case_prod go_wp_throw
    using assms(1,2) by (auto split: option.split intro!: run then_done act)
qed

end

end
