(* ===== verification/Export_Recovery.thy ===== *)
theory Export_Recovery
  imports GoBGP_Adapter Receipted_Applier
begin

text \<open>
  \<open>pkg/evpn/export_recovery.go\<close>: durable ownership of exported routes. Every addition and
  withdrawal is a journalled intent, executed, read back from the speaker and then acknowledged;
  after a restart \<open>Recover\<close> decides which receipts still hold. The journal is used through
  its operations (\<open>journal_ops\<close>); the JSON coding of the two record types is an argument.
\<close>

section \<open>State\<close>

record 'w VerifiedSpeaker =
  vs_Check :: "'w Context \<Rightarrow> ('w, unit) go"
  vs_Incarnation :: "('w, string) go"

record exportReceipt =
  xr_Owned :: OwnedType2Route
  xr_NLRI :: string
  xr_Attributes :: "string list"
  xr_Incarnation :: string

text \<open>\<open>Receipts\<close> is \<open>None\<close> when the slice is nil, which \<open>reflect.DeepEqual\<close> distinguishes.\<close>

record exportRecoveryState =
  xs_Version :: int
  xs_Incarnation :: string
  xs_Receipts :: "exportReceipt list option"

record exportIntent =
  xi_Incarnation :: string
  xi_Route :: exportReceipt

definition receipt_list :: "exportRecoveryState \<Rightarrow> exportReceipt list" where
  "receipt_list s = (case xs_Receipts s of None \<Rightarrow> [] | Some rs \<Rightarrow> rs)"

text \<open>
  \<open>json.Marshal\<close> of the two types and one \<open>Decode\<close> of a strict decoder, which returns
  the value and the input left over.
\<close>

record export_codec =
  xc_MarshalState :: "exportRecoveryState \<Rightarrow> go_error + string"
  xc_MarshalIntent :: "exportIntent \<Rightarrow> go_error + string"
  xc_DecodeState :: "string \<Rightarrow> go_error + exportRecoveryState \<times> string"
  xc_DecodeIntent :: "string \<Rightarrow> go_error + exportIntent \<times> string"

record 'w ExportRecovery =
  er_state :: exportRecoveryState
  er_source :: "'w Type2RIBSource"
  er_applier :: "'w Type2RouteApplier"
  er_speaker :: "'w VerifiedSpeaker"
  er_fault :: "(string \<Rightarrow> ('w, unit) go) option"

record 'w export_env =
  xe_bgp :: bgp_lib
  xe_util :: api_util
  xe_codec :: export_codec
  xe_journal :: "'w journal_ops"

section \<open>Receipts\<close>

definition decodeExportRecord :: "(string \<Rightarrow> go_error + 'a \<times> string) \<Rightarrow> string \<Rightarrow> go_error + 'a" where
  "decodeExportRecord decode data = sum_bind (decode data) (\<lambda>(v, rest).
     if json_EOF rest then Inr v else Inl (errors_New ''expected one exporter record''))"

fun serialize_attributes :: "bgp_lib \<Rightarrow> PathAttribute list \<Rightarrow> string list option" where
  "serialize_attributes bgp [] = Some []"
| "serialize_attributes bgp (a # as) = (case Attribute_Serialize bgp a of
     None \<Rightarrow> None
   | Some v \<Rightarrow> (case serialize_attributes bgp as of None \<Rightarrow> None | Some vs \<Rightarrow> Some (v # vs)))"

definition durableExportRoute ::
  "bgp_lib \<Rightarrow> LocalEndpoint \<Rightarrow> string \<Rightarrow> string \<Rightarrow> go_error + exportReceipt" where
  "durableExportRoute bgp endpoint incarnation uid =
     sum_bind (BuildType2Route bgp endpoint) (\<lambda>route.
     case NLRI_Serialize bgp (rt_NLRI route) of
       None \<Rightarrow> Inl (errors_New ''NLRI.Serialize'')
     | Some nlri \<Rightarrow> (case serialize_attributes bgp (rt_PathAttributes route) of
         None \<Rightarrow> Inl (errors_New ''PathAttribute.Serialize'')
       | Some attrs \<Rightarrow> Inr \<lparr>xr_Owned = \<lparr>own_Endpoint = cloneLocalEndpoint endpoint, own_PathUUID = uid\<rparr>,
           xr_NLRI = nlri, xr_Attributes = attrs, xr_Incarnation = incarnation\<rparr>))"

definition sameExportPayload :: "exportReceipt \<Rightarrow> exportReceipt \<Rightarrow> bool" where
  "sameExportPayload a b \<longleftrightarrow> xr_NLRI a = xr_NLRI b \<and> xr_Attributes a = xr_Attributes b"

fun validate_receipts :: "bgp_lib \<Rightarrow> api_util \<Rightarrow> string \<Rightarrow> string list \<Rightarrow> string list \<Rightarrow>
    exportReceipt list \<Rightarrow> go_error + unit" where
  "validate_receipts bgp u incarnation keys ids [] = Inr ()"
| "validate_receipts bgp u incarnation keys ids (receipt # receipts) =
    (case uuid_Parse u (own_PathUUID (xr_Owned receipt)) of
       None \<Rightarrow> Inl (errors_New ''invalid or duplicate UUID/incarnation receipt'')
     | Some uid \<Rightarrow>
         if uid = uuid_Nil \<or> uid \<in> set ids \<or> xr_Incarnation receipt \<noteq> incarnation
         then Inl (errors_New ''invalid or duplicate UUID/incarnation receipt'')
         else (case durableExportRoute bgp (own_Endpoint (xr_Owned receipt)) (xr_Incarnation receipt)
                 (own_PathUUID (xr_Owned receipt)) of
             Inl _ \<Rightarrow> Inl (errors_New ''receipt payload differs from recorded endpoint'')
           | Inr want \<Rightarrow>
               if \<not> sameExportPayload want receipt
               then Inl (errors_New ''receipt payload differs from recorded endpoint'')
               else if xr_NLRI receipt \<in> set keys then Inl (errors_New ''duplicate wire-route receipt'')
               else validate_receipts bgp u incarnation (xr_NLRI receipt # keys) (uid # ids) receipts))"

definition ExportRecovery_validate :: "bgp_lib \<Rightarrow> api_util \<Rightarrow> exportRecoveryState \<Rightarrow> go_error + unit" where
  "ExportRecovery_validate bgp u s =
     (if xs_Version s \<noteq> 1 \<or> (xs_Incarnation s = [] \<and> receipt_list s \<noteq> [])
      then Inl (errors_New ''incompatible exporter schema/incarnation'')
      else validate_receipts bgp u (xs_Incarnation s) [] [] (receipt_list s))"

definition withoutExportReceipt :: "exportReceipt list \<Rightarrow> string \<Rightarrow> exportReceipt list" where
  "withoutExportReceipt receipts uid = filter (\<lambda>receipt. own_PathUUID (xr_Owned receipt) \<noteq> uid) receipts"

definition ExportRecovery_receipts :: "exportRecoveryState \<Rightarrow> OwnedType2Route list" where
  "ExportRecovery_receipts s = sort_key own_PathUUID (map (\<lambda>receipt.
     (xr_Owned receipt)\<lparr>own_Endpoint := cloneLocalEndpoint (own_Endpoint (xr_Owned receipt))\<rparr>) (receipt_list s))"

section \<open>Opening\<close>

text \<open>
  \<open>open_journal\<close> is \<open>ownership.Open\<close> with the configured directory and domain. A zero
  state has version 0 and no receipts.
\<close>

definition zero_state :: exportRecoveryState where
  "zero_state = \<lparr>xs_Version = 0, xs_Incarnation = [], xs_Receipts = None\<rparr>"

definition open_state :: "'w export_env \<Rightarrow> string \<times> Intent option \<Rightarrow> go_error + exportRecoveryState" where
  "open_state env snap = (case snap of (data, pending) \<Rightarrow>
     if data \<noteq> ''null'' then
       sum_bind (decodeExportRecord (xc_DecodeState (xe_codec env)) data) (\<lambda>s.
       sum_bind (ExportRecovery_validate (xe_bgp env) (xe_util env) s) (\<lambda>_. Inr s))
     else if pending = None \<or> map_option in_Operation pending = Some ''export-checkpoint''
     then Inr (zero_state\<lparr>xs_Version := 1\<rparr>)
     else Inr zero_state)"

definition OpenExportRecovery ::
  "'w export_env \<Rightarrow> ('w, unit) go \<Rightarrow> 'w Type2RIBSource option \<Rightarrow> 'w Type2RouteApplier option \<Rightarrow>
   'w VerifiedSpeaker option \<Rightarrow> ('w, 'w ExportRecovery) go" where
  "OpenExportRecovery env open_journal source applier speaker =
    (case (source, applier, speaker) of
       (Some src, Some api, Some sp) \<Rightarrow>
         go_seq open_journal
         (go_bind (go_try (jo_Snapshot (xe_journal env))) (\<lambda>snap.
          let state = sum_bind snap (open_state env);
              unresolved = (case snap of Inr (_, Some _) \<Rightarrow> True | _ \<Rightarrow> False)
          in case state of
               Inr s \<Rightarrow>
                 if \<not> (xs_Version s = 0 \<and> unresolved)
                 then go_return \<lparr>er_state = s, er_source = src, er_applier = api, er_speaker = sp,
                        er_fault = None\<rparr>
                 else go_bind (go_try (jo_Close (xe_journal env))) (\<lambda>closed.
                   go_throw (the (errors_Join [Some (Blocked ''%w: invalid exporter state: %v''),
                     (case closed of Inl e \<Rightarrow> Some e | Inr _ \<Rightarrow> None)])))
             | Inl _ \<Rightarrow> go_bind (go_try (jo_Close (xe_journal env))) (\<lambda>closed.
                 go_throw (the (errors_Join [Some (Blocked ''%w: invalid exporter state: %v''),
                   (case closed of Inl e \<Rightarrow> Some e | Inr _ \<Rightarrow> None)])))))
     | _ \<Rightarrow> go_throw (Blocked ''%w: exporter recovery requires attested speaker, RIB and applier''))"

section \<open>Observation\<close>

definition check_observed :: "bgp_lib \<Rightarrow> Type2RIBPath \<Rightarrow> go_error + unit" where
  "check_observed bgp path = (case rp_NLRI path of
     None \<Rightarrow> Inl (Blocked ''%w: nil RIB NLRI'')
   | Some nlri \<Rightarrow> (case NLRI_Serialize bgp nlri of
       None \<Rightarrow> Inl (Blocked ''%w: invalid RIB NLRI: %v'') | Some _ \<Rightarrow> Inr ()))"

definition observation ::
  "bgp_lib \<Rightarrow> 'w Type2RIBSource \<Rightarrow> 'w VerifiedSpeaker \<Rightarrow> 'w Context \<Rightarrow> ('w, string \<times> Type2RIBPath list) go" where
  "observation bgp source speaker ctx =
     go_seq (go_wrap (\<lambda>_. Blocked ''%w: provider attestation: %v'') (vs_Check speaker ctx))
     (go_bind (go_wrap (\<lambda>_. Blocked ''%w: missing speaker incarnation: %v'') (vs_Incarnation speaker)) (\<lambda>before.
      go_seq (go_require (before \<noteq> []) (Blocked ''%w: missing speaker incarnation: %v''))
      (go_bind (go_wrap (\<lambda>_. Blocked ''%w: incomplete/unavailable RIB: %v'') (src_Snapshot source ctx)) (\<lambda>paths.
       go_seq (go_wrap (\<lambda>_. Blocked ''%w: speaker changed during RIB read: %v'') (vs_Check speaker ctx))
       (go_bind (go_wrap (\<lambda>_. Blocked ''%w: RIB incarnation changed'') (vs_Incarnation speaker)) (\<lambda>after.
        go_seq (go_require (before = after) (Blocked ''%w: RIB incarnation changed''))
        (go_seq (go_of (sum_each (check_observed bgp) paths))
        (go_return (before, paths)))))))))"

definition matchingExportPaths :: "bgp_lib \<Rightarrow> Type2RIBPath list \<Rightarrow> exportReceipt \<Rightarrow> Type2RIBPath list" where
  "matchingExportPaths bgp paths receipt = filter (\<lambda>path. rp_Local path \<and>
     (case rp_NLRI path of None \<Rightarrow> False | Some nlri \<Rightarrow> NLRI_Serialize bgp nlri = Some (xr_NLRI receipt))) paths"

text \<open>The single path that confirms a receipt; listings may omit its UUID.\<close>

definition confirms :: "bgp_lib \<Rightarrow> Type2RIBPath list \<Rightarrow> LocalEndpoint \<Rightarrow> string \<Rightarrow> bool" where
  "confirms bgp found ep uid = (case found of
     [path] \<Rightarrow> ribPathMatchesEndpoint bgp path ep \<and> (rp_PathUUID path = [] \<or> rp_PathUUID path = uid)
   | _ \<Rightarrow> False)"

section \<open>Recovery\<close>

text \<open>The receipts that the observed RIB confirms in the current incarnation.\<close>

fun retained :: "bgp_lib \<Rightarrow> string \<Rightarrow> Type2RIBPath list \<Rightarrow> exportReceipt list \<Rightarrow> go_error + exportReceipt list" where
  "retained bgp current paths [] = Inr []"
| "retained bgp current paths (receipt # receipts) =
    (let found = matchingExportPaths bgp paths receipt in
     if found = [] then retained bgp current paths receipts
     else if current \<noteq> xr_Incarnation receipt \<or>
       \<not> confirms bgp found (own_Endpoint (xr_Owned receipt)) (own_PathUUID (xr_Owned receipt))
     then Inl (Blocked ''%w: retained old or conflicting path; no adoption'')
     else sum_bind (retained bgp current paths receipts) (\<lambda>rest. Inr (receipt # rest)))"

definition next_state :: "string \<Rightarrow> exportReceipt list \<Rightarrow> exportRecoveryState" where
  "next_state current receipts = \<lparr>xs_Version = 1, xs_Incarnation = current,
     xs_Receipts = (if receipts = [] then None else Some receipts)\<rparr>"

definition recover_checkpoint :: "export_codec \<Rightarrow> exportRecoveryState \<Rightarrow> Intent \<Rightarrow> go_error + unit" where
  "recover_checkpoint cd state pending =
    (case decodeExportRecord (xc_DecodeState cd) (in_Payload pending) of
       Inl _ \<Rightarrow> Inl (Blocked ''%w: invalid exporter checkpoint'')
     | Inr checkpoint \<Rightarrow>
         if xs_Version checkpoint \<noteq> 1 then Inl (Blocked ''%w: invalid exporter checkpoint'')
         else if \<not> list_all (\<lambda>candidate. candidate \<in> set (receipt_list state)) (receipt_list checkpoint)
         then Inl (Blocked ''%w: checkpoint cannot introduce ownership'')
         else Inr ())"

definition recover_intent :: "bgp_lib \<Rightarrow> export_codec \<Rightarrow> Intent \<Rightarrow> go_error + exportIntent" where
  "recover_intent bgp cd pending =
    (case decodeExportRecord (xc_DecodeIntent cd) (in_Payload pending) of
       Inl _ \<Rightarrow> Inl (Blocked ''%w: invalid exporter intent: %v'')
     | Inr intent \<Rightarrow>
         (case durableExportRoute bgp (own_Endpoint (xr_Owned (xi_Route intent))) (xi_Incarnation intent)
             (own_PathUUID (xr_Owned (xi_Route intent))) of
            Inl _ \<Rightarrow> Inl (Blocked ''%w: invalid intent payload'')
          | Inr want \<Rightarrow>
              if \<not> sameExportPayload want (xi_Route intent) \<or> xi_Incarnation intent = []
              then Inl (Blocked ''%w: invalid intent payload'') else Inr intent))"

text \<open>Finish a pending withdrawal; the result is the state without its receipt.\<close>

definition recover_delete ::
  "'w export_env \<Rightarrow> 'w Context \<Rightarrow> 'w ExportRecovery \<Rightarrow> string \<Rightarrow> exportIntent \<Rightarrow> Type2RIBPath list \<Rightarrow>
   exportRecoveryState \<Rightarrow> ('w, exportRecoveryState) go" where
  "recover_delete env ctx r current intent found nxt =
    (let route = xi_Route intent; uid = own_PathUUID (xr_Owned route); bgp = xe_bgp env in
     go_seq (go_require (list_ex (\<lambda>receipt. own_PathUUID (xr_Owned receipt) = uid \<and>
         sameExportPayload receipt route) (receipt_list (er_state r)))
       (Blocked ''%w: deletion intent has no durable UUID receipt''))
     (go_seq (if found \<noteq> [] then
         go_seq (go_require (current = xi_Incarnation intent) (Blocked ''%w: withdrawal cannot cross incarnations''))
         (go_seq (go_wrap (\<lambda>_. Blocked ''%w: exact pending UUID withdrawal: %v'')
            (ap_Delete (er_applier r) ctx (xr_Owned route)))
         (go_bind (go_wrap (\<lambda>_. Blocked ''%w: pending withdrawal absence unverified: %v'')
            (observation bgp (er_source r) (er_speaker r) ctx)) (\<lambda>(verified, observed).
          go_require (verified = current \<and> matchingExportPaths bgp observed route = [])
            (Blocked ''%w: pending withdrawal absence unverified: %v''))))
       else go_return ())
     (go_return (nxt\<lparr>xs_Receipts := Some (withoutExportReceipt (receipt_list nxt) uid)\<rparr>))))"

definition resolve_pending ::
  "'w export_env \<Rightarrow> 'w Context \<Rightarrow> 'w ExportRecovery \<Rightarrow> string \<Rightarrow> Type2RIBPath list \<Rightarrow> Intent \<Rightarrow>
   exportRecoveryState \<Rightarrow> ('w, exportRecoveryState) go" where
  "resolve_pending env ctx r current paths pending nxt =
    (if in_Operation pending = ''export-checkpoint'' then
       go_seq (go_of (recover_checkpoint (xe_codec env) (er_state r) pending)) (go_return nxt)
     else go_bind (go_of (recover_intent (xe_bgp env) (xe_codec env) pending)) (\<lambda>intent.
       let found = matchingExportPaths (xe_bgp env) paths (xi_Route intent) in
       if in_Operation pending = ''export-add'' then
         go_seq (go_require (own_PathUUID (xr_Owned (xi_Route intent)) = [] \<and> found = [])
           (Blocked ''%w: unresolved AddPath with retained route'')) (go_return nxt)
       else if in_Operation pending = ''export-delete''
       then recover_delete env ctx r current intent found nxt
       else go_throw (Blocked ''%w: unknown exporter operation %q'')))"

text \<open>Acknowledge the next state: resolve the pending intent, or write a checkpoint.\<close>

definition settle ::
  "'w export_env \<Rightarrow> 'w Context \<Rightarrow> 'w ExportRecovery \<Rightarrow> string \<Rightarrow> Type2RIBPath list \<Rightarrow> Intent option \<Rightarrow>
   exportRecoveryState \<Rightarrow> ('w, exportRecoveryState) go" where
  "settle env ctx r current paths pending nxt = (case pending of
     Some intent \<Rightarrow>
       go_bind (resolve_pending env ctx r current paths intent nxt) (\<lambda>resolved.
       go_seq (jo_Commit (xe_journal env) (in_Sequence intent) (xc_MarshalState (xe_codec env) resolved))
       (go_return resolved))
   | None \<Rightarrow>
       if er_state r \<noteq> nxt then
         go_bind (jo_Begin (xe_journal env) ''export-checkpoint'' (xc_MarshalState (xe_codec env) nxt)) (\<lambda>seq.
         go_seq (jo_Commit (xe_journal env) seq (xc_MarshalState (xe_codec env) nxt)) (go_return nxt))
       else go_return nxt)"

text \<open>Everything \<open>Recover\<close> does before it replaces its state.\<close>

definition recover_state ::
  "'w export_env \<Rightarrow> 'w Context \<Rightarrow> 'w ExportRecovery \<Rightarrow> ('w, exportRecoveryState) go" where
  "recover_state env ctx r =
     go_bind (observation (xe_bgp env) (er_source r) (er_speaker r) ctx) (\<lambda>(current, paths).
     go_bind (jo_Snapshot (xe_journal env)) (\<lambda>(_, pending).
     go_bind (go_of (retained (xe_bgp env) current paths (receipt_list (er_state r)))) (\<lambda>receipts.
     settle env ctx r current paths pending (next_state current receipts))))"

definition ExportRecovery_Recover ::
  "'w export_env \<Rightarrow> 'w Context \<Rightarrow> ('w ExportRecovery \<times> 'w, OwnedType2Route list) go" where
  "ExportRecovery_Recover env ctx =
     go_bind (go_get fst) (\<lambda>r.
     go_bind (go_env (recover_state env ctx r)) (\<lambda>nxt.
     go_seq (go_modify (map_prod (\<lambda>r. r\<lparr>er_state := nxt\<rparr>) (\<lambda>w. w)))
     (go_return (ExportRecovery_receipts nxt))))"

section \<open>Adding and deleting\<close>

definition ExportRecovery_boundary :: "'w ExportRecovery \<Rightarrow> string \<Rightarrow> ('w, unit) go" where
  "ExportRecovery_boundary r name = (case er_fault r of None \<Rightarrow> go_return () | Some fault \<Rightarrow> fault name)"

text \<open>\<open>Add\<close> up to its acknowledgement: the UUID and the new state.\<close>

definition add_acknowledged ::
  "'w export_env \<Rightarrow> 'w Context \<Rightarrow> 'w ExportRecovery \<Rightarrow> Type2Route \<Rightarrow> ('w, string \<times> exportRecoveryState) go" where
  "add_acknowledged env ctx r route =
    (let bgp = xe_bgp env; observe = observation bgp (er_source r) (er_speaker r) ctx in
     go_bind observe (\<lambda>(current, paths).
     go_seq (go_require (current = xs_Incarnation (er_state r)) (Blocked ''%w: speaker requires recovery''))
     (go_bind (go_of (durableExportRoute bgp (rt_Endpoint route) current [])) (\<lambda>receipt.
      go_seq (go_require (matchingExportPaths bgp paths receipt = []) (Blocked ''%w: foreign/unclaimed local route''))
      (go_bind (jo_Begin (xe_journal env) ''export-add''
          (xc_MarshalIntent (xe_codec env) \<lparr>xi_Incarnation = current, xi_Route = receipt\<rparr>)) (\<lambda>seq.
       go_seq (ExportRecovery_boundary r ''add-intent'')
       (go_bind (ap_Add (er_applier r) ctx route) (\<lambda>uid.
        go_seq (ExportRecovery_boundary r ''add-executed'')
        (go_seq (go_require (case uuid_Parse (xe_util env) uid of None \<Rightarrow> False | Some parsed \<Rightarrow> parsed \<noteq> uuid_Nil)
           (Blocked ''%w: no acknowledged UUID''))
        (go_bind (go_wrap (\<lambda>_. Blocked ''%w: AddPath readback unverified: %v'') observe) (\<lambda>(verified, observed).
         go_seq (go_require (verified = current \<and>
             confirms bgp (matchingExportPaths bgp observed receipt) (rt_Endpoint route) uid)
           (Blocked ''%w: AddPath readback unverified: %v''))
         (let nxt = (er_state r)\<lparr>xs_Receipts := Some (receipt_list (er_state r) @
             [receipt\<lparr>xr_Owned := (xr_Owned receipt)\<lparr>own_PathUUID := uid\<rparr>\<rparr>])\<rparr> in
          go_seq (jo_Commit (xe_journal env) seq (xc_MarshalState (xe_codec env) nxt))
          (go_return (uid, nxt))))))))))))))"

definition ExportRecovery_Add ::
  "'w export_env \<Rightarrow> 'w Context \<Rightarrow> Type2Route \<Rightarrow> ('w ExportRecovery \<times> 'w, string) go" where
  "ExportRecovery_Add env ctx route =
     go_bind (go_get fst) (\<lambda>r.
     go_bind (go_env (add_acknowledged env ctx r route)) (\<lambda>(uid, nxt).
     go_seq (go_modify (map_prod (\<lambda>r. r\<lparr>er_state := nxt\<rparr>) (\<lambda>w. w)))
     (go_seq (go_env (ExportRecovery_boundary r ''add-ack''))
     (go_return uid))))"

text \<open>The loop keeps the last receipt that matches.\<close>

definition delete_receipt :: "exportRecoveryState \<Rightarrow> OwnedType2Route \<Rightarrow> exportReceipt option" where
  "delete_receipt s owned = fold (\<lambda>receipt found.
     if own_PathUUID (xr_Owned receipt) = own_PathUUID owned \<and>
        Equivalent (own_Endpoint (xr_Owned receipt)) (own_Endpoint owned)
     then Some receipt else found) (receipt_list s) None"

definition delete_acknowledged ::
  "'w export_env \<Rightarrow> 'w Context \<Rightarrow> 'w ExportRecovery \<Rightarrow> OwnedType2Route \<Rightarrow> ('w, exportRecoveryState) go" where
  "delete_acknowledged env ctx r owned =
    (let bgp = xe_bgp env; observe = observation bgp (er_source r) (er_speaker r) ctx in
     go_bind observe (\<lambda>(current, _).
     case delete_receipt (er_state r) owned of
       None \<Rightarrow> go_throw (Blocked ''%w: exact durable receipt in current incarnation required'')
     | Some receipt \<Rightarrow>
         go_seq (go_require (xr_Incarnation receipt = current)
           (Blocked ''%w: exact durable receipt in current incarnation required''))
         (go_bind (jo_Begin (xe_journal env) ''export-delete''
             (xc_MarshalIntent (xe_codec env) \<lparr>xi_Incarnation = current, xi_Route = receipt\<rparr>)) (\<lambda>seq.
          go_seq (ExportRecovery_boundary r ''delete-intent'')
          (go_seq (ap_Delete (er_applier r) ctx owned)
          (go_seq (ExportRecovery_boundary r ''delete-executed'')
          (go_bind (go_wrap (\<lambda>_. Blocked ''%w: withdrawal readback unverified: %v'') observe) (\<lambda>(verified, paths).
           go_seq (go_require (verified = current \<and> matchingExportPaths bgp paths receipt = [])
             (Blocked ''%w: withdrawal readback unverified: %v''))
           (let nxt = (er_state r)\<lparr>xs_Receipts := Some (withoutExportReceipt (receipt_list (er_state r))
               (own_PathUUID owned))\<rparr> in
            go_seq (jo_Commit (xe_journal env) seq (xc_MarshalState (xe_codec env) nxt))
            (go_return nxt))))))))))"

definition ExportRecovery_Delete ::
  "'w export_env \<Rightarrow> 'w Context \<Rightarrow> OwnedType2Route \<Rightarrow> ('w ExportRecovery \<times> 'w, unit) go" where
  "ExportRecovery_Delete env ctx owned =
     go_bind (go_get fst) (\<lambda>r.
     go_bind (go_env (delete_acknowledged env ctx r owned)) (\<lambda>nxt.
     go_seq (go_modify (map_prod (\<lambda>r. r\<lparr>er_state := nxt\<rparr>) (\<lambda>w. w)))
     (go_env (ExportRecovery_boundary r ''delete-ack''))))"

definition ExportRecovery_Close :: "'w export_env \<Rightarrow> ('w, unit) go" where
  "ExportRecovery_Close env = jo_Close (xe_journal env)"

definition ExportRecovery_Rebind ::
  "'w Type2RIBSource option \<Rightarrow> 'w Type2RouteApplier option \<Rightarrow> 'w VerifiedSpeaker option \<Rightarrow>
   ('w ExportRecovery \<times> 'w, unit) go" where
  "ExportRecovery_Rebind source applier speaker =
    (case (source, applier, speaker) of
       (Some src, Some api, Some sp) \<Rightarrow>
         go_modify (map_prod (\<lambda>r. r\<lparr>er_source := src, er_applier := api, er_speaker := sp\<rparr>) (\<lambda>w. w))
     | _ \<Rightarrow> go_throw (Blocked ''%w: missing replacement transport evidence''))"

end
