(* ===== verification/Recovery_Properties.thy ===== *)
theory Recovery_Properties
  imports Export_Recovery Journal_Durability
begin

text \<open>
  What durable ownership guarantees: recovery never adopts a path, an unacknowledged addition
  that is still in the RIB blocks, mutations are journalled before they are executed, memory is
  never ahead of the journal, and the reconciler stays in step with the receipts.
\<close>

section \<open>Receipts after each operation\<close>

lemma add_acknowledged_result:
  assumes "add_acknowledged env ctx r route w = (Inr (uid, nxt), w')"
  shows "\<exists>receipt. receipt_list nxt = receipt_list (er_state r) @ [receipt] \<and>
    xr_Owned receipt = \<lparr>own_Endpoint = rt_Endpoint route, own_PathUUID = uid\<rparr> \<and>
    uuid_Parse (xe_util env) uid \<noteq> None"
  using assms
  by (auto simp: add_acknowledged_def Let_def go_seq_def go_run receipt_list_def durableExportRoute_def
      sum_bind_Inr_iff cloneLocalEndpoint_def
      elim!: go_bind_InrE dest!: go_require_Inr split: option.splits sum.splits if_splits)

lemma delete_acknowledged_result:
  assumes "delete_acknowledged env ctx r owned w = (Inr nxt, w')"
  shows "receipt_list nxt = withoutExportReceipt (receipt_list (er_state r)) (own_PathUUID owned)"
  using assms
  by (auto simp: delete_acknowledged_def Let_def go_seq_def go_run receipt_list_def
      elim!: go_bind_InrE dest!: go_require_Inr split: option.splits if_splits)

lemma retained_confirmed:
  assumes "retained bgp current paths receipts = Inr kept"
  shows "set kept \<subseteq> {receipt \<in> set receipts. xr_Incarnation receipt = current \<and>
    confirms bgp (matchingExportPaths bgp paths receipt)
      (own_Endpoint (xr_Owned receipt)) (own_PathUUID (xr_Owned receipt))}"
  using assms
  by (induction receipts arbitrary: kept) (auto simp: Let_def sum_bind_Inr_iff split: if_splits)

lemma receipt_list_next [simp]: "receipt_list (next_state current receipts) = receipts"
  by (simp add: receipt_list_def next_state_def)

lemma next_state_simps [simp]:
  "xs_Incarnation (next_state current receipts) = current" "xs_Version (next_state current receipts) = 1"
  by (simp_all add: next_state_def)

lemma receipt_list_updates [simp]:
  "receipt_list (s\<lparr>xs_Receipts := Some rs\<rparr>) = rs"
  by (simp add: receipt_list_def)

lemma resolve_pending_subset:
  assumes "resolve_pending env ctx r current paths pending nxt w = (Inr resolved, w')"
  shows "set (receipt_list resolved) \<subseteq> set (receipt_list nxt) \<and> xs_Incarnation resolved = xs_Incarnation nxt"
  using assms
  by (auto simp: resolve_pending_def recover_delete_def Let_def go_seq_def go_run withoutExportReceipt_def
      elim!: go_bind_InrE split: if_splits sum.splits)

lemma settle_subset:
  assumes "settle env ctx r current paths pending nxt w = (Inr nxt', w')"
  shows "set (receipt_list nxt') \<subseteq> set (receipt_list nxt) \<and> xs_Incarnation nxt' = xs_Incarnation nxt"
  using assms resolve_pending_subset
  by (cases pending) (fastforce simp: settle_def go_run go_seq_def elim!: go_bind_InrE split: if_splits)+

lemma recover_state_retained:
  assumes "recover_state env ctx r w = (Inr nxt, w')"
  shows "\<exists>current paths w1. observation (xe_bgp env) (er_source r) (er_speaker r) ctx w = (Inr (current, paths), w1) \<and>
    xs_Incarnation nxt = current \<and>
    set (receipt_list nxt) \<subseteq> {receipt \<in> set (receipt_list (er_state r)). xr_Incarnation receipt = current \<and>
      confirms (xe_bgp env) (matchingExportPaths (xe_bgp env) paths receipt)
        (own_Endpoint (xr_Owned receipt)) (own_PathUUID (xr_Owned receipt))}"
proof -
  from assms obtain current paths w1 pending kept w2 where obs:
    "observation (xe_bgp env) (er_source r) (er_speaker r) ctx w = (Inr (current, paths), w1)"
    and kept: "retained (xe_bgp env) current paths (receipt_list (er_state r)) = Inr kept"
    and settled: "settle env ctx r current paths pending (next_state current kept) w2 = (Inr nxt, w')"
    unfolding recover_state_def by (auto simp: go_run elim!: go_bind_InrE split: sum.splits)
  with retained_confirmed [OF kept] settle_subset [OF settled] show ?thesis by fastforce
qed

text \<open>
  C12 (recovery never adopts). \<open>Recover\<close> keeps only receipts it already held, of the
  incarnation it observes now, each confirmed by exactly one matching local path; it returns
  exactly those. When it fails nothing changes in memory.
\<close>

theorem Recover_never_adopts:
  "case ExportRecovery_Recover env ctx (r, w) of
     (Inl _, (r', _)) \<Rightarrow> r' = r
   | (Inr owned, (r', _)) \<Rightarrow> r' = r\<lparr>er_state := er_state r'\<rparr> \<and> owned = ExportRecovery_receipts (er_state r') \<and>
      (\<exists>current paths w1. observation (xe_bgp env) (er_source r) (er_speaker r) ctx w = (Inr (current, paths), w1) \<and>
       xs_Incarnation (er_state r') = current \<and>
       set (receipt_list (er_state r')) \<subseteq> {receipt \<in> set (receipt_list (er_state r)). xr_Incarnation receipt = current \<and>
         confirms (xe_bgp env) (matchingExportPaths (xe_bgp env) paths receipt)
           (own_Endpoint (xr_Owned receipt)) (own_PathUUID (xr_Owned receipt))})"
proof (cases "recover_state env ctx r w")
  case (Pair res w')
  have fst: "fst (r, w) = r" by simp
  show ?thesis
  proof (cases res)
    case (Inl e)
    with Pair show ?thesis by (simp add: ExportRecovery_Recover_def go_run go_bind_def go_env_def)
  next
    case (Inr nxt)
    with Pair recover_state_retained [of env ctx r w nxt w'] show ?thesis
      by (simp add: ExportRecovery_Recover_def go_run go_seq_def go_bind_def go_env_def)
  qed
qed

text \<open>
  C34 (an unacknowledged addition blocks). While the journal holds an unacknowledged
  \<open>AddPath\<close> whose route is still in the RIB, \<open>Recover\<close> returns a blocked error and
  changes nothing: the path never becomes a receipt.
\<close>

theorem unacknowledged_add_blocks:
  assumes "observation (xe_bgp env) (er_source r) (er_speaker r) ctx w = (Inr (current, paths), w1)"
    and "jo_Snapshot (xe_journal env) w1 = (Inr (data, Some i), w2)" and "in_Operation i = ''export-add''"
    and "decodeExportRecord (xc_DecodeIntent (xe_codec env)) (in_Payload i) = Inr intent"
    and "matchingExportPaths (xe_bgp env) paths (xi_Route intent) \<noteq> []"
  shows "\<exists>e. ExportRecovery_Recover env ctx (r, w) = (Inl e, (r, w2)) \<and> errors_Is e ErrBlocked"
proof -
  have kept: "\<exists>e. retained (xe_bgp env) current paths rs = Inl e \<and> errors_Is e ErrBlocked" 
    if "\<nexists>kept. retained (xe_bgp env) current paths rs = Inr kept" for rs
    using that
  proof (induction rs)
    case (Cons a rs)
    then show ?case
      by (cases "retained (xe_bgp env) current paths rs") (auto simp: Let_def split: if_splits)
  qed simp
  have blocks: "\<exists>e. resolve_pending env ctx r current paths i nxt w2 = (Inl e, w2) \<and> errors_Is e ErrBlocked" for nxt
    using assms(3-5) by (auto simp: resolve_pending_def go_run recover_intent_def Let_def split: sum.splits)
  have "\<exists>e. recover_state env ctx r w = (Inl e, w2) \<and> errors_Is e ErrBlocked"
  proof (cases "retained (xe_bgp env) current paths (receipt_list (er_state r))")
    case (Inl e)
    with kept [of "receipt_list (er_state r)"] assms(1,2) show ?thesis
      by (simp add: recover_state_def go_bind_def go_of_def)
  next
    case (Inr rs)
    obtain e where "resolve_pending env ctx r current paths i (next_state current rs) w2 = (Inl e, w2)"
      "errors_Is e ErrBlocked" using blocks by blast
    with Inr assms(1,2) show ?thesis
      by (simp add: recover_state_def go_bind_def go_of_def settle_def)
  qed
  then show ?thesis
    by (auto simp: ExportRecovery_Recover_def go_run go_bind_def go_env_def)
qed

section \<open>Journalled before executed\<close>

definition add_journalled :: "bgp_lib \<Rightarrow> export_codec \<Rightarrow> Intent option \<Rightarrow> Type2Route \<Rightarrow> bool" where
  "add_journalled bgp cd pending route \<longleftrightarrow> (\<exists>n current receipt data. pending =
       Some \<lparr>in_Sequence = n, in_Operation = ''export-add'', in_Payload = data\<rparr> \<and>
     durableExportRoute bgp (rt_Endpoint route) current [] = Inr receipt \<and>
     xc_MarshalIntent cd \<lparr>xi_Incarnation = current, xi_Route = receipt\<rparr> = Inr data)"

definition delete_journalled ::
  "export_codec \<Rightarrow> exportRecoveryState \<Rightarrow> Intent option \<Rightarrow> OwnedType2Route \<Rightarrow> bool" where
  "delete_journalled cd s pending owned \<longleftrightarrow> (\<exists>n receipt data. pending =
       Some \<lparr>in_Sequence = n, in_Operation = ''export-delete'', in_Payload = data\<rparr> \<and>
     delete_receipt s owned = Some receipt \<and>
     xc_MarshalIntent cd \<lparr>xi_Incarnation = xr_Incarnation receipt, xi_Route = receipt\<rparr> = Inr data)"

text \<open>An applier that refuses every call for which the journal holds no matching intent.\<close>

definition write_ahead ::
  "('w \<Rightarrow> Intent option) \<Rightarrow> 'w export_env \<Rightarrow> exportRecoveryState \<Rightarrow> 'w Type2RouteApplier \<Rightarrow> 'w Type2RouteApplier" where
  "write_ahead pending_of env s api = \<lparr>
     ap_Add = (\<lambda>ctx route w. if add_journalled (xe_bgp env) (xe_codec env) (pending_of w) route
       then ap_Add api ctx route w else (Inl (errors_New ''not journalled''), w)),
     ap_Delete = (\<lambda>ctx owned w. if delete_journalled (xe_codec env) s (pending_of w) owned
       then ap_Delete api ctx owned w else (Inl (errors_New ''not journalled''), w))\<rparr>"

context intent_log
begin

lemma Begin_pending:
  assumes "jo_Begin ops operation payload w = (Inr n, w')"
  shows "\<exists>data. payload = Inr data \<and>
    pending_of w' = Some \<lparr>in_Sequence = n, in_Operation = operation, in_Payload = data\<rparr>"
  using go_wp_resultD [OF Begin_law assms] by auto

lemma add_write_ahead:
  assumes "xe_journal env = ops" and "er_fault r = None"
  shows "add_acknowledged env ctx (r\<lparr>er_applier := write_ahead pending_of env s (er_applier r)\<rparr>) route =
    add_acknowledged env ctx r route"
  unfolding add_acknowledged_def Let_def
  by (rule ext) (auto simp: go_run assms ExportRecovery_boundary_def write_ahead_def add_journalled_def
      intro!: go_bind_at split: sum.splits dest!: Begin_pending)

lemma delete_write_ahead:
  assumes "xe_journal env = ops" and "er_fault r = None"
  shows "delete_acknowledged env ctx (r\<lparr>er_applier := write_ahead pending_of env (er_state r) (er_applier r)\<rparr>) owned =
    delete_acknowledged env ctx r owned"
  unfolding delete_acknowledged_def Let_def
  by (rule ext) (auto simp: go_run assms ExportRecovery_boundary_def write_ahead_def delete_journalled_def
      intro!: go_bind_at split: sum.splits option.splits dest!: Begin_pending)

lemma log_keeps:
  "go_keeps state_of (jo_Begin ops operation payload)" "go_keeps state_of (jo_Snapshot ops)"
  by (rule go_keepsI, rule go_wp_mono [OF Begin_law]; simp)
    (rule go_keepsI, rule go_wp_mono [OF Snapshot_law]; simp)

end

section \<open>Memory and journal\<close>

text \<open>The services of a recovery do not touch its journal, observed by \<open>f\<close>; no test hook is set.\<close>

definition separate :: "('w \<Rightarrow> 'o) \<Rightarrow> 'w ExportRecovery \<Rightarrow> 'w Context \<Rightarrow> bool" where
  "separate f r ctx \<longleftrightarrow> go_keeps f (src_Snapshot (er_source r) ctx) \<and> go_keeps f (vs_Check (er_speaker r) ctx) \<and>
     go_keeps f (vs_Incarnation (er_speaker r)) \<and> (\<forall>route. go_keeps f (ap_Add (er_applier r) ctx route)) \<and>
     (\<forall>owned. go_keeps f (ap_Delete (er_applier r) ctx owned)) \<and> er_fault r = None"

text \<open>The journal acknowledges exactly the state in memory.\<close>

definition recorded :: "('w \<Rightarrow> string) \<Rightarrow> 'w export_env \<Rightarrow> 'w ExportRecovery \<times> 'w \<Rightarrow> bool" where
  "recorded state_of env s \<longleftrightarrow> xc_MarshalState (xe_codec env) (er_state (fst s)) = Inr (state_of (snd s))"

lemma separate_observation:
  assumes "separate f r ctx"
  shows "go_keeps f (observation bgp (er_source r) (er_speaker r) ctx)"
  using assms unfolding separate_def observation_def by (auto intro!: go_keeps_rules)

lemma separate_boundary: "separate f r ctx \<Longrightarrow> ExportRecovery_boundary r name = go_return ()"
  by (simp add: separate_def ExportRecovery_boundary_def)

lemma separate_resolve:
  assumes "separate f r ctx"
  shows "go_keeps f (resolve_pending env ctx r current paths intent nxt)"
  using separate_observation [OF assms] assms
  unfolding separate_def resolve_pending_def recover_delete_def Let_def
  by (intro go_keeps_rules) auto

context intent_log
begin

lemma keep_steps:
  "\<lbrakk>go_keeps state_of m; state_of w = c; \<And>x w'. state_of w' = c \<Longrightarrow> go_wp (k x) Q (\<lambda>_ w'. state_of w' = c) w'\<rbrakk> \<Longrightarrow>
   go_wp (go_bind m k) Q (\<lambda>_ w'. state_of w' = c) w"
  "\<lbrakk>go_keeps state_of m'; state_of w = c; \<And>w'. state_of w' = c \<Longrightarrow> go_wp n Q (\<lambda>_ w'. state_of w' = c) w'\<rbrakk> \<Longrightarrow>
   go_wp (go_seq m' n) Q (\<lambda>_ w'. state_of w' = c) w"
  by (rule go_wp_keep_bind; simp) (rule go_wp_keep_seq; simp)

lemma Commit_recorded:
  assumes "state_of w = c" and "\<And>w'. xc_MarshalState cd nxt = Inr (state_of w') \<Longrightarrow> Q x w'"
  shows "go_wp (go_seq (jo_Commit ops n (xc_MarshalState cd nxt)) (go_return x)) Q (\<lambda>_ w'. state_of w' = c) w"
  by (rule go_wp_seqI [OF Commit_law]) (use assms in \<open>auto simp: go_wp_return\<close>)

lemma add_recorded:
  assumes "xe_journal env = ops" and "separate state_of r ctx" and "state_of w = c"
  shows "go_wp (add_acknowledged env ctx r route)
    (\<lambda>(_, nxt) w'. xc_MarshalState (xe_codec env) nxt = Inr (state_of w')) (\<lambda>_ w'. state_of w' = c) w"
  using assms(3) separate_observation [OF assms(2)] assms(2)
  unfolding add_acknowledged_def Let_def assms(1) separate_boundary [OF assms(2)] separate_def case_prod_beta
  by (intro Commit_recorded keep_steps log_keeps go_keeps_rules) (assumption | simp)+

lemma delete_recorded:
  assumes "xe_journal env = ops" and "separate state_of r ctx" and "state_of w = c"
  shows "go_wp (delete_acknowledged env ctx r owned)
    (\<lambda>nxt w'. xc_MarshalState (xe_codec env) nxt = Inr (state_of w')) (\<lambda>_ w'. state_of w' = c) w"
  using assms(3) separate_observation [OF assms(2)] assms(2)
  unfolding delete_acknowledged_def Let_def assms(1) separate_boundary [OF assms(2)] separate_def case_prod_beta
  by (cases "delete_receipt (er_state r) owned"; simp only: option.case)
    (intro Commit_recorded keep_steps log_keeps go_keeps_rules; (assumption | simp add: go_wp_throw)+)+

lemma settle_recorded:
  assumes "xe_journal env = ops" and "separate state_of r ctx" and "state_of w = c"
    and "xc_MarshalState (xe_codec env) (er_state r) = Inr c"
  shows "go_wp (settle env ctx r current paths pending nxt)
    (\<lambda>nxt w'. xc_MarshalState (xe_codec env) nxt = Inr (state_of w')) (\<lambda>_ w'. state_of w' = c) w"
proof -
  have checkpoint: "go_wp (go_bind (jo_Begin ops ''export-checkpoint'' (xc_MarshalState (xe_codec env) nxt)) (\<lambda>seq.
      go_seq (jo_Commit ops seq (xc_MarshalState (xe_codec env) nxt)) (go_return nxt)))
    (\<lambda>nxt w'. xc_MarshalState (xe_codec env) nxt = Inr (state_of w')) (\<lambda>_ w'. state_of w' = c) w"
    using assms(3) by (intro Commit_recorded keep_steps log_keeps)
  have resolve: "go_wp (go_bind (resolve_pending env ctx r current paths intent nxt) (\<lambda>resolved.
      go_seq (jo_Commit ops (in_Sequence intent) (xc_MarshalState (xe_codec env) resolved)) (go_return resolved)))
    (\<lambda>nxt w'. xc_MarshalState (xe_codec env) nxt = Inr (state_of w')) (\<lambda>_ w'. state_of w' = c) w" for intent
    using assms(3) by (intro Commit_recorded keep_steps separate_resolve assms(2))
  show ?thesis
    using checkpoint resolve assms(3,4)
    by (cases "er_state r = nxt") (simp_all add: settle_def assms(1) go_wp_return split: option.split)
qed

lemma recover_recorded:
  assumes "xe_journal env = ops" and "separate state_of r ctx" and "state_of w = c"
    and "xc_MarshalState (xe_codec env) (er_state r) = Inr c"
  shows "go_wp (recover_state env ctx r)
    (\<lambda>nxt w'. xc_MarshalState (xe_codec env) nxt = Inr (state_of w')) (\<lambda>_ w'. state_of w' = c) w"
  using assms(3,4) separate_observation [OF assms(2)] settle_recorded [OF assms(1,2)]
  unfolding recover_state_def assms(1) case_prod_beta
  by (intro keep_steps log_keeps go_keeps_rules) simp_all

end



section \<open>The recovery as an applier\<close>

definition recovery_applier :: "'w export_env \<Rightarrow> 'w Context \<Rightarrow> ('w ExportRecovery \<times> 'w) Type2RouteApplier" where
  "recovery_applier env ctx = \<lparr>ap_Add = (\<lambda>_. ExportRecovery_Add env ctx), ap_Delete = (\<lambda>_. ExportRecovery_Delete env ctx)\<rparr>"

definition recovery_receipts :: "'w ExportRecovery \<times> 'w \<Rightarrow> OwnedType2Route list" where
  "recovery_receipts s = map xr_Owned (receipt_list (er_state (fst s)))"

definition recovery_ready :: "'w export_env \<Rightarrow> 'w ExportRecovery \<times> 'w \<Rightarrow> bool" where
  "recovery_ready env s \<longleftrightarrow> er_fault (fst s) = None \<and> uuid_Parse (xe_util env) [] = None"

interpretation recov: receipted_applier "recovery_applier env ctx" "go_env ctx" recovery_receipts "recovery_ready env"
  for env :: "'w export_env" and ctx :: "'w Context"
proof (unfold_locales, goal_cases)
  case (1 s route)
  obtain r w where s: "s = (r, w)" by (cases s)
  have "go_wp (add_acknowledged env ctx r route) (\<lambda>(uid, nxt) _. uid \<noteq> [] \<and> map xr_Owned (receipt_list nxt) =
      recovery_receipts s @ [\<lparr>own_Endpoint = rt_Endpoint route, own_PathUUID = uid\<rparr>]) (\<lambda>_ _. True) w"
    by (rule go_wp_any) (use 1 in \<open>auto simp: recovery_receipts_def recovery_ready_def s dest!: add_acknowledged_result\<close>)
  then have "go_wp (add_acknowledged env ctx r route)
      (\<lambda>x w'. case x of (uid, nxt) \<Rightarrow> recovery_ready env (r\<lparr>er_state := nxt\<rparr>, w') \<and> uid \<noteq> [] \<and>
        recovery_receipts (r\<lparr>er_state := nxt\<rparr>, w') = recovery_receipts s @ [\<lparr>own_Endpoint = rt_Endpoint route, own_PathUUID = uid\<rparr>])
      (\<lambda>_ w'. recovery_ready env (r, w') \<and> recovery_receipts (r, w') = recovery_receipts s) w"
    by (rule go_wp_mono) (use 1 in \<open>auto simp: recovery_receipts_def recovery_ready_def s\<close>)
  with 1 show ?case
    by (simp add: recovery_applier_def ExportRecovery_Add_def go_wp_rules ExportRecovery_boundary_def s
        recovery_ready_def case_prod_beta)
next
  case (2 s owned)
  obtain r w where s: "s = (r, w)" by (cases s)
  have "go_wp (delete_acknowledged env ctx r owned) (\<lambda>nxt _. map xr_Owned (receipt_list nxt) =
      filter (\<lambda>o1. own_PathUUID o1 \<noteq> own_PathUUID owned) (recovery_receipts s)) (\<lambda>_ _. True) w"
    by (rule go_wp_any) (auto simp: recovery_receipts_def s withoutExportReceipt_def filter_map comp_def
        dest!: delete_acknowledged_result)
  then have "go_wp (delete_acknowledged env ctx r owned)
      (\<lambda>nxt w'. recovery_ready env (r\<lparr>er_state := nxt\<rparr>, w') \<and> recovery_receipts (r\<lparr>er_state := nxt\<rparr>, w') =
         filter (\<lambda>o1. own_PathUUID o1 \<noteq> own_PathUUID owned) (recovery_receipts s))
      (\<lambda>_ w'. recovery_ready env (r, w') \<and> recovery_receipts (r, w') = recovery_receipts s) w"
    by (rule go_wp_mono) (use 2 in \<open>auto simp: recovery_receipts_def recovery_ready_def s\<close>)
  with 2 show ?case
    by (simp add: recovery_applier_def ExportRecovery_Delete_def go_wp_rules ExportRecovery_boundary_def s
        recovery_ready_def)
next
  case 3
  then show ?case
    by (simp add: go_keeps_def go_env_def recovery_receipts_def recovery_ready_def split: prod.split)
qed


section \<open>A concrete recovery\<close>

text \<open>
  A speaker whose RIB is empty or holds the sample route, with one incarnation; state and
  intents are coded by their receipts' UUIDs and the tag of the sample intent.
\<close>

definition sample_receipt :: exportReceipt where
  "sample_receipt = projr (durableExportRoute sample_bgp sample_endpoint ''boot-1'' [])"

definition sample_export_codec :: export_codec where
  "sample_export_codec = \<lparr>xc_MarshalState = (\<lambda>s. Inr ''state''), xc_MarshalIntent = (\<lambda>_. Inr ''intent''),
     xc_DecodeState = (\<lambda>s. Inl (errors_New ''unsupported'')),
     xc_DecodeIntent = (\<lambda>s. Inr (\<lparr>xi_Incarnation = ''boot-1'', xi_Route = sample_receipt\<rparr>, []))\<rparr>"

definition sample_recovery :: "Type2RIBPath list \<Rightarrow> 'w ExportRecovery" where
  "sample_recovery paths = \<lparr>er_state = \<lparr>xs_Version = 1, xs_Incarnation = ''boot-1'', xs_Receipts = None\<rparr>,
     er_source = \<lparr>src_Snapshot = (\<lambda>_. go_return paths)\<rparr>,
     er_applier = \<lparr>ap_Add = (\<lambda>_ _. go_return ''u-1''), ap_Delete = (\<lambda>_ _. go_return ())\<rparr>,
     er_speaker = \<lparr>vs_Check = (\<lambda>_. go_return ()), vs_Incarnation = go_return ''boot-1''\<rparr>,
     er_fault = None\<rparr>"

definition sample_export_env :: "'w journal_ops \<Rightarrow> 'w export_env" where
  "sample_export_env ops = \<lparr>xe_bgp = sample_bgp, xe_util = sample_util, xe_codec = sample_export_codec, xe_journal = ops\<rparr>"

definition pending_ops :: "Intent option \<Rightarrow> 'w journal_ops" where
  "pending_ops i = \<lparr>jo_Begin = (\<lambda>_ _. go_throw ErrBlocked), jo_Commit = (\<lambda>_ _. go_throw ErrBlocked),
     jo_Snapshot = go_return (''null'', i), jo_Close = go_return ()\<rparr>"

lemma sample_receipt_matches:
  "matchingExportPaths sample_bgp [sample_path] sample_receipt = [sample_path]"
  "check_observed sample_bgp sample_path = Inr ()"
  by code_simp+

theorem unacknowledged_add_blocks_witness:
  "\<exists>e. ExportRecovery_Recover
      (sample_export_env (pending_ops (Some \<lparr>in_Sequence = 1, in_Operation = ''export-add'', in_Payload = ''intent''\<rparr>)))
      sample_ctx (sample_recovery [sample_path], ()) = (Inl e, (sample_recovery [sample_path], ())) \<and> errors_Is e ErrBlocked"
  by (rule unacknowledged_add_blocks [where current = "''boot-1''" and paths = "[sample_path]" and
      ?w1.0 = "()" and data = "''null''" and i = "\<lparr>in_Sequence = 1, in_Operation = ''export-add'', in_Payload = ''intent''\<rparr>"
      and intent = "\<lparr>xi_Incarnation = ''boot-1'', xi_Route = sample_receipt\<rparr>"])
    (simp_all add: observation_def sample_recovery_def sample_export_env_def pending_ops_def go_run go_wrap_def
      go_bind_def go_seq_def go_return_def sample_receipt_matches sample_export_codec_def decodeExportRecord_def json_EOF_def)

lemma sample_separate: "separate f (sample_recovery paths) sample_ctx"
  by (simp add: separate_def sample_recovery_def go_keeps_return)




end
