(* ===== verification/Endpoint_Observer.thy ===== *)
theory Endpoint_Observer
  imports Sample_Services
begin

text \<open>
  \<open>pkg/evpn/observer.go\<close>: the endpoints of this chassis, read from the OVN databases. The
  databases are a service of the world; \<open>map[string]string\<close> values are association lists in
  the order in which they are ranged over. The keys of the external IDs are those of
  \<open>pkg/attachment/identity.go\<close>.
\<close>

section \<open>Interfaces\<close>

record 'w EndpointObserver =
  eo_DesiredLocalEndpoints :: "'w Context \<Rightarrow> ('w, LocalEndpoint list) go"

record EVPNNetworkConfig =
  nc_NetworkID :: string
  nc_LogicalSwitch :: string
  nc_Enabled :: bool
  nc_VNI :: "32 word"
  nc_RouteDistinguisher :: string
  nc_RouteTargets :: "string list"
  nc_LocalVTEP :: string
  nc_ExporterSource :: string
  nc_BridgeDevice :: string
  nc_VXLANDevice :: string
  nc_AdvertiseDevice :: string

definition ExportSource :: "EVPNNetworkConfig \<Rightarrow> string" where
  "ExportSource c = (if nc_ExporterSource c = [] then ''cni'' else nc_ExporterSource c)"

record OVNLogicalSwitchPort =
  lsp_Name :: string
  lsp_Addresses :: "string list"
  lsp_ExternalIDs :: "(string, string) gomap"

record OVNPortBinding =
  pb_LogicalPort :: string
  pb_Chassis :: string

record 'w OVNStateSource =
  os_ListLogicalSwitchPorts :: "'w Context \<Rightarrow> ('w, OVNLogicalSwitchPort list) go"
  os_ListPortBindings :: "'w Context \<Rightarrow> ('w, OVNPortBinding list) go"

record 'w OVNEndpointObserver =
  oo_Source :: "'w OVNStateSource option"
  oo_LocalNode :: string
  oo_LocalChassis :: string
  oo_Networks :: "(string, EVPNNetworkConfig) gomap"

definition ExternalIDEndpointID :: string where "ExternalIDEndpointID = ''evpn.framework/endpoint-id''"
definition ExternalIDNetworkID :: string where "ExternalIDNetworkID = ''evpn.framework/network-id''"
definition ExternalIDAttachID :: string where "ExternalIDAttachID = ''evpn.framework/attachment-id''"
definition ExternalIDWorkloadUID :: string where "ExternalIDWorkloadUID = ''evpn.framework/workload-uid''"
definition ExternalIDIncarnation :: string where "ExternalIDIncarnation = ''evpn.framework/incarnation''"

section \<open>Reading a port\<close>

text \<open>\<open>m[k]\<close> of a map of strings: the zero value when the key is absent.\<close>

definition map_get :: "('k, string) gomap \<Rightarrow> 'k \<Rightarrow> string" where
  "map_get m k = (case map_of m k of None \<Rightarrow> [] | Some v \<Rightarrow> v)"

fun parseAddressPair :: "string list \<Rightarrow> (string \<times> string) option" where
  "parseAddressPair [] = None"
| "parseAddressPair (raw # addresses) =
    (case Fields (TrimSpace raw) of
       first # second # _ \<Rightarrow>
         (let candidateMAC = TrimSpace first; candidateIP = TrimSpace second in
          if ParseMAC candidateMAC = None then parseAddressPair addresses
          else if ParseIP candidateIP = None then
            (case ParseCIDR candidateIP of
               None \<Rightarrow> parseAddressPair addresses
             | Some parsedIP \<Rightarrow> Some (candidateMAC, Addr_String parsedIP))
          else Some (candidateMAC, candidateIP))
     | _ \<Rightarrow> parseAddressPair addresses)"

definition normalizeExternalIDs :: "(string, string) gomap \<Rightarrow> (string, string) gomap" where
  "normalizeExternalIDs ids = fold (\<lambda>(k, v) out. AList.update (TrimSpace k) (TrimSpace v) out) ids []"

definition binding_by_port :: "OVNPortBinding list \<Rightarrow> (string, string) gomap" where
  "binding_by_port bindings = fold (\<lambda>b m. if TrimSpace (pb_LogicalPort b) = [] then m
     else AList.update (TrimSpace (pb_LogicalPort b)) (TrimSpace (pb_Chassis b)) m) bindings []"

text \<open>The endpoint of one port, if it is advertised from here.\<close>

definition port_endpoint :: "'w OVNEndpointObserver \<Rightarrow> (string, string) gomap \<Rightarrow> OVNLogicalSwitchPort \<Rightarrow>
    LocalEndpoint option" where
  "port_endpoint o1 bindingByPort lsp =
    (let lspName = TrimSpace (lsp_Name lsp) in
     if lspName = [] then None
     else if TrimSpace (map_get bindingByPort lspName) \<noteq> TrimSpace (oo_LocalChassis o1) then None
     else let ids = normalizeExternalIDs (lsp_ExternalIDs lsp); networkID = map_get ids ExternalIDNetworkID in
       case map_of (oo_Networks o1) networkID of
         None \<Rightarrow> None
       | Some cfg \<Rightarrow>
           if \<not> nc_Enabled cfg then None
           else let endpointID = map_get ids ExternalIDEndpointID;
             incarnation = map_get ids ExternalIDIncarnation;
             attachmentID = map_get ids ExternalIDAttachID;
             workloadUID = map_get ids ExternalIDWorkloadUID in
           if endpointID = [] \<or> incarnation = [] \<or> attachmentID = [] \<or> workloadUID = [] then None
           else (case parseAddressPair (lsp_Addresses lsp) of
               None \<Rightarrow> None
             | Some (mac, ip) \<Rightarrow> Some \<lparr>ep_NetworkID = networkID, ep_EndpointID = endpointID,
                 ep_Incarnation = incarnation, ep_MACAddress = mac, ep_IPAddresses = [ip], ep_VNI = nc_VNI cfg,
                 ep_RouteDistinguisher = nc_RouteDistinguisher cfg, ep_RouteTargets = nc_RouteTargets cfg,
                 ep_LocalVTEP = nc_LocalVTEP cfg, ep_NodeName = TrimSpace (oo_LocalNode o1),
                 ep_Chassis = TrimSpace (oo_LocalChassis o1), ep_Advertise = True, ep_MACOnly = False\<rparr>))"

definition endpoints_by_key :: "LocalEndpoint list \<Rightarrow> (string, LocalEndpoint) gomap" where
  "endpoints_by_key eps = fold (\<lambda>ep m. AList.update (RouteKey ep) ep m) eps []"

text \<open>The values of the map, sorted by their route keys, which are the keys of the map.\<close>

definition sorted_endpoints :: "(string, LocalEndpoint) gomap \<Rightarrow> LocalEndpoint list" where
  "sorted_endpoints m = List.map_filter (map_of m) (map_keys m)"

definition OVN_DesiredLocalEndpoints ::
  "'w OVNEndpointObserver \<Rightarrow> 'w Context \<Rightarrow> ('w, LocalEndpoint list) go" where
  "OVN_DesiredLocalEndpoints o1 ctx = (case oo_Source o1 of
     None \<Rightarrow> go_throw (errors_New ''ovn source is required'')
   | Some source \<Rightarrow>
       go_seq (go_require (TrimSpace (oo_LocalChassis o1) \<noteq> []) (errors_New ''local chassis is required''))
       (go_bind (os_ListLogicalSwitchPorts source ctx) (\<lambda>ports.
        go_bind (os_ListPortBindings source ctx) (\<lambda>bindings.
        go_return (sorted_endpoints (endpoints_by_key
          (List.map_filter (port_endpoint o1 (binding_by_port bindings)) ports)))))))"

section \<open>What is advertised\<close>

lemma endpoints_by_key_fold:
  "map_of (fold (\<lambda>ep m. AList.update (RouteKey ep) ep m) eps m0) k =
   (case filter (\<lambda>ep. RouteKey ep = k) (rev eps) of [] \<Rightarrow> map_of m0 k | ep # _ \<Rightarrow> Some ep)"
  by (induction eps arbitrary: m0) (auto split: list.splits)

lemma endpoints_by_key_Some:
  "map_of (endpoints_by_key eps) k = Some ep \<Longrightarrow> ep \<in> set eps \<and> RouteKey ep = k"
  unfolding endpoints_by_key_def endpoints_by_key_fold
  by (auto split: list.splits dest!: filter_eq_ConsD) (metis in_set_conv_decomp set_rev)

lemma endpoints_by_key_dom: "dom (map_of (endpoints_by_key eps)) = RouteKey ` set eps"
  unfolding endpoints_by_key_def endpoints_by_key_fold dom_def
  by (auto simp: filter_empty_conv split: list.splits dest!: filter_eq_ConsD)

lemma sorted_endpoints_keys:
  "map RouteKey (sorted_endpoints (endpoints_by_key eps)) = map_keys (endpoints_by_key eps)"
proof -
  have "map RouteKey (List.map_filter (map_of (endpoints_by_key eps)) ks) = ks"
    if "set ks \<subseteq> dom (map_of (endpoints_by_key eps))" for ks
    using that by (induction ks) (auto simp: map_filter_def dest: endpoints_by_key_Some)
  then show ?thesis by (simp add: sorted_endpoints_def)
qed

lemma sorted_endpoints_set:
  "set (sorted_endpoints (endpoints_by_key eps)) \<subseteq> set eps \<and>
   RouteKey ` set (sorted_endpoints (endpoints_by_key eps)) = RouteKey ` set eps"
proof
  show "set (sorted_endpoints (endpoints_by_key eps)) \<subseteq> set eps"
    by (auto simp: sorted_endpoints_def set_map_filter dest!: endpoints_by_key_Some)
  have "RouteKey ` set (sorted_endpoints (endpoints_by_key eps)) = set (map_keys (endpoints_by_key eps))"
    unfolding sorted_endpoints_keys [symmetric] by simp
  then show "RouteKey ` set (sorted_endpoints (endpoints_by_key eps)) = RouteKey ` set eps"
    by (simp add: endpoints_by_key_dom)
qed


text \<open>What an advertised port looks like.\<close>

lemma port_endpoint_Some:
  assumes "port_endpoint o1 m lsp = Some ep"
  shows "TrimSpace (map_get m (TrimSpace (lsp_Name lsp))) = TrimSpace (oo_LocalChassis o1) \<and> ep_Advertise ep \<and>
    (\<exists>cfg. map_of (oo_Networks o1) (ep_NetworkID ep) = Some cfg \<and> nc_Enabled cfg \<and> ep_VNI ep = nc_VNI cfg \<and>
       ep_LocalVTEP ep = nc_LocalVTEP cfg) \<and> ep_EndpointID ep \<noteq> [] \<and> ep_Incarnation ep \<noteq> []"
  using assms by (auto simp: port_endpoint_def Let_def split: if_splits option.splits)

definition sample_ports :: "OVNLogicalSwitchPort list" where
  "sample_ports = [\<lparr>lsp_Name = ''p1'', lsp_Addresses = [''02:00:00:00:00:01 10.0.0.5''],
     lsp_ExternalIDs = [(ExternalIDNetworkID, ''net-a''), (ExternalIDEndpointID, ''vm-1''),
       (ExternalIDIncarnation, ''i-1''), (ExternalIDAttachID, ''a-1''), (ExternalIDWorkloadUID, ''w-1'')]\<rparr>]"

definition sample_bindings :: "OVNPortBinding list" where
  "sample_bindings = [\<lparr>pb_LogicalPort = ''p1'', pb_Chassis = ''chassis-a''\<rparr>]"

definition sample_network :: EVPNNetworkConfig where
  "sample_network = \<lparr>nc_NetworkID = ''net-a'', nc_LogicalSwitch = ''ls-a'', nc_Enabled = True,
     nc_VNI = 100, nc_RouteDistinguisher = ''65000:1'', nc_RouteTargets = [''65000:100''],
     nc_LocalVTEP = ''192.0.2.1'', nc_ExporterSource = [], nc_BridgeDevice = [], nc_VXLANDevice = [],
     nc_AdvertiseDevice = []\<rparr>"

definition sample_observer :: "unit OVNEndpointObserver" where
  "sample_observer = \<lparr>oo_Source = Some \<lparr>os_ListLogicalSwitchPorts = (\<lambda>_. go_return sample_ports),
       os_ListPortBindings = (\<lambda>_. go_return sample_bindings)\<rparr>,
     oo_LocalNode = ''node-a'', oo_LocalChassis = ''chassis-a'', oo_Networks = [(''net-a'', sample_network)]\<rparr>"

definition sample_observed :: "LocalEndpoint list" where
  "sample_observed = sorted_endpoints (endpoints_by_key (List.map_filter (port_endpoint sample_observer
     (binding_by_port sample_bindings)) sample_ports))"

lemma sample_observer_run: "OVN_DesiredLocalEndpoints sample_observer sample_ctx () = (Inr sample_observed, ())"
proof -
  have "TrimSpace (oo_LocalChassis sample_observer) \<noteq> []" by code_simp
  then show ?thesis
    by (simp add: OVN_DesiredLocalEndpoints_def sample_observed_def go_run) (simp add: sample_observer_def go_run)
qed


end
