(* ===== verification/Exporter.thy ===== *)
theory Exporter
  imports Endpoint_Observer Recovery_Properties Reconciler_Properties
begin

text \<open>
  \<open>pkg/evpn/exporter.go\<close>: validation of the exporter's configuration and
  \<open>EndpointExporter\<close>, which drives the reconciler from observed endpoints behind readiness
  and continuity checks. Observer, gates, RIB source, applier and recovery are services of the
  world; the recovery object lives in the world because the applier is the same object.
\<close>

section \<open>Configuration\<close>

text \<open>\<open>net.SplitHostPort\<close>.\<close>

fun index_byte :: "char \<Rightarrow> string \<Rightarrow> nat option" where
  "index_byte c [] = None"
| "index_byte c (x # xs) = (if x = c then Some 0 else map_option Suc (index_byte c xs))"

definition last_index_byte :: "char \<Rightarrow> string \<Rightarrow> nat option" where
  "last_index_byte c s = map_option (\<lambda>i. length s - Suc i) (index_byte c (rev s))"

definition SplitHostPort :: "string \<Rightarrow> (string \<times> string) option" where
  "SplitHostPort hostport = (case last_index_byte (CHR '':'') hostport of
     None \<Rightarrow> None
   | Some i \<Rightarrow>
       (case (if HasPrefix hostport ''['' then
           (case index_byte (CHR '']'') hostport of
              None \<Rightarrow> None
            | Some end_ix \<Rightarrow> if Suc end_ix = i then Some (drop 1 (take end_ix hostport), 1, Suc end_ix) else None)
         else let host = take i hostport in
           if index_byte (CHR '':'') host = None then Some (host, 0, 0) else None) of
          None \<Rightarrow> None
        | Some (host, j, k) \<Rightarrow>
            if index_byte (CHR ''['') (drop j hostport) \<noteq> None \<or> index_byte (CHR '']'') (drop k hostport) \<noteq> None
            then None else Some (host, drop (Suc i) hostport)))"

record ExportRecoveryConfig =
  rc_StateDirectory :: string
  rc_Domain :: Domain

record ExporterConfig =
  xc_Enabled :: bool
  xc_DryRun :: bool
  xc_ProcessContinuity :: bool
  xc_NodeName :: string
  xc_LocalChassis :: string
  xc_GRPCEndpoint :: string
  xc_ASN :: "32 word"
  xc_RouterID :: string
  xc_Networks :: "EVPNNetworkConfig list"
  xc_AttestationConfigPath :: string
  xc_Recovery :: "ExportRecoveryConfig option"

definition validate_endpoint :: "ExporterConfig \<Rightarrow> go_error + unit" where
  "validate_endpoint c =
    (if HasPrefix (xc_GRPCEndpoint c) ''unix:///'' then
       (if TrimPrefix (xc_GRPCEndpoint c) ''unix://'' = ''/''
        then Inl (errors_New ''node-local gRPC socket path is required'') else Inr ())
     else if xc_ProcessContinuity c
     then Inl (errors_New ''process continuity requires a node-local Unix socket'')
     else if (case SplitHostPort (xc_GRPCEndpoint c) of
         None \<Rightarrow> False
       | Some (host, port) \<Rightarrow>
           (case (ParseIP host, parse_decimal port) of
              (Some ip, Some number) \<Rightarrow> IsLoopback ip \<and> number \<noteq> 0 \<and> number < 65536
            | _ \<Rightarrow> False))
     then Inr ()
     else Inl (errors_New ''GoBGP endpoint must be an absolute Unix socket or loopback host:port, not a cluster Service''))"

definition bad_device :: "string list \<Rightarrow> string \<Rightarrow> bool" where
  "bad_device devices name \<longleftrightarrow> name = [] \<or> name = ''.'' \<or> name = ''..'' \<or> length name > 15 \<or>
     ContainsAny name (''/ '' @ [char_of (9 :: nat), char_of (10 :: nat)]) \<or> name \<in> set devices"

fun claim_devices :: "string list \<Rightarrow> string list \<Rightarrow> string list option" where
  "claim_devices devices [] = Some devices"
| "claim_devices devices (name # names) =
     (if bad_device devices name then None else claim_devices (name # devices) names)"

text \<open>The authority of one network; the sets of device names and native VNIs are carried along.\<close>

definition validate_source ::
  "ExporterConfig \<Rightarrow> string list \<times> 32 word list \<Rightarrow> EVPNNetworkConfig \<Rightarrow> go_error + string list \<times> 32 word list" where
  "validate_source c st cfg = (case st of (devices, nativeVNIs) \<Rightarrow>
     if ExportSource cfg = ''cni'' \<or> ExportSource cfg = ''framework'' then
       (if nc_BridgeDevice cfg \<noteq> [] \<or> nc_VXLANDevice cfg \<noteq> [] \<or> nc_AdvertiseDevice cfg \<noteq> []
        then Inl (errors_New ''network %s: Netlink devices require ovn-netlink authority'') else Inr st)
     else if ExportSource cfg = ''ovn-netlink'' then
       (if \<not> xc_DryRun c \<and> \<not> xc_ProcessContinuity c
        then Inl (errors_New ''native live export requires process continuity and a shared host PID namespace'')
        else if nc_VNI cfg \<in> set nativeVNIs then Inl (errors_New ''native exporter requires unique VNI mapping'')
        else (case claim_devices devices [nc_BridgeDevice cfg, nc_VXLANDevice cfg, nc_AdvertiseDevice cfg] of
            None \<Rightarrow> Inl (errors_New ''native exporter requires distinct explicit Linux device names'')
          | Some claimed \<Rightarrow> Inr (claimed, nc_VNI cfg # nativeVNIs)))
     else Inl (errors_New ''network %s: unsupported exporter source %q''))"

definition validate_route_fields :: "bgp_lib \<Rightarrow> EVPNNetworkConfig \<Rightarrow> go_error + unit" where
  "validate_route_fields bgp cfg =
    (if nc_VNI cfg = 0 \<or> nc_VNI cfg > 16777215 then Inl (errors_New ''network %s: VNI outside 1..16777215'')
     else if (case ParseAddr (nc_LocalVTEP cfg) of
         None \<Rightarrow> True
       | Some vtep \<Rightarrow> \<not> Is4 vtep \<or> IsUnspecified vtep \<or> IsMulticast vtep \<or> IsLoopback vtep)
     then Inl (errors_New ''network %s: explicit unicast VTEP IPv4 required'')
     else if ParseRouteDistinguisher bgp (nc_RouteDistinguisher cfg) = None
     then Inl (errors_New ''network %s: invalid RD: %w'')
     else if nc_RouteTargets cfg = [] then Inl (errors_New ''network %s: export RT required'')
     else if list_ex (\<lambda>rt. ParseRouteTarget bgp rt = None) (nc_RouteTargets cfg)
     then Inl (errors_New ''network %s: invalid RT: %w'')
     else Inr ())"

fun validate_networks :: "bgp_lib \<Rightarrow> ExporterConfig \<Rightarrow> string list \<Rightarrow> string list \<Rightarrow> string list \<times> 32 word list \<Rightarrow>
    EVPNNetworkConfig list \<Rightarrow> go_error + unit" where
  "validate_networks bgp c seen switches st [] = Inr ()"
| "validate_networks bgp c seen switches st (cfg # cfgs) =
    (if nc_NetworkID cfg = [] \<or> nc_LogicalSwitch cfg = [] \<or> nc_NetworkID cfg \<in> set seen \<or>
       nc_LogicalSwitch cfg \<in> set switches
     then Inl (errors_New ''networks require unique nonempty NetworkID and LogicalSwitch'')
     else sum_bind (validate_source c st cfg) (\<lambda>st'.
       sum_bind (validate_route_fields bgp cfg) (\<lambda>_.
       validate_networks bgp c (nc_NetworkID cfg # seen) (nc_LogicalSwitch cfg # switches) st' cfgs)))"

definition ExporterConfig_Validate :: "bgp_lib \<Rightarrow> ExporterConfig \<Rightarrow> go_error + unit" where
  "ExporterConfig_Validate bgp c =
    (if \<not> xc_Enabled c then Inr ()
     else if (case xc_Recovery c of None \<Rightarrow> False | Some rc \<Rightarrow>
         \<not> xc_ProcessContinuity c \<or> xc_AttestationConfigPath c = [] \<or> rc_StateDirectory rc = [])
     then Inl (errors_New ''export recovery requires process continuity, provider attestation and a private journal'')
     else if xc_NodeName c = [] \<or> xc_LocalChassis c = [] \<or> xc_ASN c = 0
     then Inl (errors_New ''export requires node name, local chassis and nonzero expected ASN'')
     else if (case ParseAddr (xc_RouterID c) of
         None \<Rightarrow> True | Some rid \<Rightarrow> \<not> Is4 rid \<or> IsUnspecified rid \<or> IsMulticast rid)
     then Inl (errors_New ''expected router ID must be a unicast IPv4 address'')
     else sum_bind (validate_endpoint c) (\<lambda>_. validate_networks bgp c [] [] ([], []) (xc_Networks c)))"

section \<open>The exporter\<close>

record ExportResult =
  res_Desired :: "LocalEndpoint list"
  res_Applied :: "OwnedType2Route list"
  res_DryRun :: bool
  res_OwnershipUnverified :: bool
  res_RecoveryState :: string

text \<open>\<open>Recover\<close> is what the exporter calls on its recovery.\<close>

record 'w RecoveryClient =
  rv_Recover :: "'w Context \<Rightarrow> ('w, OwnedType2Route list) go"

record 'w EndpointExporter =
  ee_Observer :: "'w EndpointObserver option"
  ee_Gate :: "'w ReadinessGate option"
  ee_Continuity :: "'w ReadinessGate option"
  ee_Source :: "'w Type2RIBSource option"
  ee_Applier :: "'w Type2RouteApplier option"
  ee_DryRun :: bool
  ee_Recovery :: "'w RecoveryClient option"
  ee_reconciler :: "RouteReconciler option"
  ee_initialized :: bool
  ee_blocked :: "go_error option"

text \<open>
  The body runs on the exporter and the named result, which is also returned with an error. A
  reconciler operation runs on the exporter's reconciler.
\<close>

type_synonym 'w exporting = "('w EndpointExporter \<times> ExportResult) \<times> 'w"

definition the_reconciler :: "'w EndpointExporter \<Rightarrow> RouteReconciler" where
  "the_reconciler e = (case ee_reconciler e of None \<Rightarrow> NewRouteReconciler | Some r \<Rightarrow> r)"

definition on_reconciler :: "(RouteReconciler \<times> 'w, 'a) go \<Rightarrow> ('w exporting, 'a) go" where
  "on_reconciler m = (\<lambda>((e, res), w). case m (the_reconciler e, w) of
     (x, (r, w')) \<Rightarrow> (x, ((e\<lparr>ee_reconciler := Some r\<rparr>, res), w')))"

definition on_exporter :: "('w EndpointExporter \<Rightarrow> 'w EndpointExporter) \<Rightarrow> ('w exporting, unit) go" where
  "on_exporter f = go_modify (\<lambda>((e, res), w). ((f e, res), w))"

definition get_exporter :: "('w exporting, 'w EndpointExporter) go" where
  "get_exporter = go_get (fst \<circ> fst)"

lemma get_exporter_run: "go_bind get_exporter k ((e, res), w) = k e ((e, res), w)"
  by (simp add: get_exporter_def go_run)

text \<open>\<open>result.Applied = e.reconciler.AppliedRoutes()\<close>, and the other assignments to the result.\<close>

definition refresh_applied :: "('w exporting, unit) go" where
  "refresh_applied = go_modify (\<lambda>((e, res), w). ((e, res\<lparr>res_Applied := AppliedRoutes (the_reconciler e)\<rparr>), w))"

definition set_desired :: "LocalEndpoint list \<Rightarrow> ('w exporting, unit) go" where
  "set_desired desired = go_modify (\<lambda>((e, res), w). ((e, res\<lparr>res_Desired := desired\<rparr>), w))"

text \<open>\<open>e.blocked = err; return result, e.blocked\<close>\<close>

definition block :: "go_error \<Rightarrow> ('w exporting, 'a) go" where
  "block err = go_bind (on_exporter (\<lambda>e. e\<lparr>ee_blocked := Some err\<rparr>)) (\<lambda>_. go_throw err)"

text \<open>\<open>e.Continuity == nil || e.Continuity.Check(ctx) != nil\<close>\<close>

definition continuity_lost :: "'w EndpointExporter \<Rightarrow> 'w Context \<Rightarrow> ('w exporting, bool) go" where
  "continuity_lost e ctx = (case ee_Continuity e of
     None \<Rightarrow> go_return True
   | Some g \<Rightarrow> go_bind (go_try (go_env (rg_Check g ctx))) (\<lambda>r. go_return (case r of Inl _ \<Rightarrow> True | Inr _ \<Rightarrow> False)))"

text \<open>What is wanted: every observed endpoint must give a route.\<close>

definition observe_desired :: "bgp_lib \<Rightarrow> 'w EndpointExporter \<Rightarrow> 'w Context \<Rightarrow> 'w EndpointObserver option \<Rightarrow>
    ('w exporting, LocalEndpoint list) go" where
  "observe_desired bgp e ctx observer = (case observer of
     None \<Rightarrow> go_throw (errors_New ''endpoint observer required'')
   | Some obs \<Rightarrow>
       go_bind (go_wrap (\<lambda>err. Errorf ''endpoint observation failed; retaining applied routes: %w'' [err])
         (go_env (eo_DesiredLocalEndpoints obs ctx))) (\<lambda>desired.
       go_seq (set_desired desired)
       (go_seq (go_of (sum_each (\<lambda>ep. case BuildType2Route bgp ep of
            Inl err \<Rightarrow> Inl (Errorf ''invalid observed endpoint: %w'' [err]) | Inr _ \<Rightarrow> Inr ()) desired))
       (go_return desired))))"

text \<open>Readiness and continuity of the speaker before a pass.\<close>

definition speaker_gates :: "'w EndpointExporter \<Rightarrow> 'w ReadinessGate \<Rightarrow> 'w Context \<Rightarrow> ('w exporting, unit) go" where
  "speaker_gates e gate ctx =
     go_seq (case ee_Continuity e of
        Some g \<Rightarrow>
          if ee_initialized e then
            go_bind (go_try (go_env (rg_Check g ctx))) (\<lambda>r. case r of
              Inr _ \<Rightarrow> go_return ()
            | Inl err \<Rightarrow> if ee_Recovery e \<noteq> None
                then go_throw (Errorf ''RECOVERY_BLOCKED: speaker re-attestation required: %w'' [err])
                else block (Errorf ''speaker continuity lost; no writes: %w'' [err]))
          else go_return ()
      | None \<Rightarrow> go_return ())
     (go_seq (go_bind (go_try (go_env (rg_Check gate ctx))) (\<lambda>r. case r of
        Inr _ \<Rightarrow> go_return ()
      | Inl err \<Rightarrow>
          if ee_Recovery e \<noteq> None then go_throw err
          else if AppliedRoutes (the_reconciler e) \<noteq> [] then
            go_bind (continuity_lost e ctx) (\<lambda>lost.
            if lost then block (Errorf ''speaker continuity lost; restart/resync required: %w'' [err])
            else go_throw err)
          else go_throw err))
     (case ee_Continuity e of
        Some g \<Rightarrow> go_wrap (\<lambda>err. Errorf ''speaker continuity unverified; no writes: %w'' [err]) (go_env (rg_Check g ctx))
      | None \<Rightarrow> go_return ()))"

text \<open>What is ours: durable receipts, or nothing on the first pass.\<close>

definition synchronize :: "bgp_lib \<Rightarrow> 'w EndpointExporter \<Rightarrow> 'w Type2RIBSource \<Rightarrow> 'w Context \<Rightarrow> ('w exporting, unit) go" where
  "synchronize bgp e source ctx = (case ee_Recovery e of
     Some recovery \<Rightarrow>
       go_bind (go_env (rv_Recover recovery ctx)) (\<lambda>receipts.
       go_seq (on_reconciler (RouteReconciler_resyncDurable bgp ctx source receipts))
       (go_seq refresh_applied
       (on_exporter (\<lambda>e. e\<lparr>ee_initialized := True\<rparr>))))
   | None \<Rightarrow>
       if \<not> ee_initialized e then
         go_seq (on_reconciler (RouteReconciler_Resync bgp ctx (Some source) []))
         (on_exporter (\<lambda>e. e\<lparr>ee_initialized := True\<rparr>))
       else go_return ())"

definition path_present :: "bgp_lib \<Rightarrow> Type2RIBPath list \<Rightarrow> OwnedType2Route \<Rightarrow> bool" where
  "path_present bgp paths owned = list_ex (\<lambda>path. rp_Local path \<and> ribPathMatchesEndpoint bgp path (own_Endpoint owned)) paths"

text \<open>Every acknowledged route must still be in the RIB.\<close>

definition confirm_applied :: "bgp_lib \<Rightarrow> 'w Type2RIBSource \<Rightarrow> 'w Context \<Rightarrow> ('w exporting, unit) go" where
  "confirm_applied bgp source ctx =
     go_bind (go_wrap (\<lambda>err. Errorf ''RIB unavailable; no writes: %w'' [err]) (go_env (src_Snapshot source ctx))) (\<lambda>paths.
     go_bind (go_get (\<lambda>((_, res), _). res_Applied res)) (\<lambda>applied.
     if list_all (path_present bgp paths) applied then go_return ()
     else block (Errorf ''%w: confirmed path disappeared; possible speaker restart, no writes'' [ErrRouteResyncRequired])))"

text \<open>One delta: readiness and continuity again, then the mutation.\<close>

definition mutation_gates :: "'w EndpointExporter \<Rightarrow> 'w ReadinessGate \<Rightarrow> 'w Context \<Rightarrow> ('w exporting, unit) go" where
  "mutation_gates e gate ctx =
     go_seq (go_bind (go_try (go_env (rg_Check gate ctx))) (\<lambda>r. case r of
        Inr _ \<Rightarrow> go_return ()
      | Inl err \<Rightarrow>
          if ee_Recovery e \<noteq> None then go_throw err
          else go_bind (continuity_lost e ctx) (\<lambda>lost.
            if lost then block (Errorf ''speaker readiness lost before mutation: %w'' [err])
            else go_throw (Errorf ''speaker readiness uncertain; writes frozen: %w'' [err]))))
     (case ee_Continuity e of
        None \<Rightarrow> go_return ()
      | Some g \<Rightarrow> go_bind (go_try (go_env (rg_Check g ctx))) (\<lambda>r. case r of
          Inr _ \<Rightarrow> go_return ()
        | Inl err \<Rightarrow> if ee_Recovery e \<noteq> None then go_throw err
            else block (Errorf ''speaker continuity lost before mutation: %w'' [err])))"

definition apply_delta :: "bgp_lib \<Rightarrow> 'w EndpointExporter \<Rightarrow> 'w ReadinessGate \<Rightarrow> 'w Type2RouteApplier \<Rightarrow> 'w Context \<Rightarrow>
    Type2Route \<Rightarrow> ('w exporting, unit) go" where
  "apply_delta bgp e gate applier ctx delta =
     go_seq (mutation_gates e gate ctx)
     (go_bind (go_try (on_reconciler (RouteReconciler_Apply bgp ctx delta (Some applier)))) (\<lambda>r.
      go_seq refresh_applied (go_of r)))"

definition export_pass :: "bgp_lib \<Rightarrow> 'w EndpointExporter \<Rightarrow> 'w ReadinessGate \<Rightarrow> 'w Type2RIBSource \<Rightarrow>
    'w Type2RouteApplier \<Rightarrow> 'w Context \<Rightarrow> LocalEndpoint list \<Rightarrow> ('w exporting, unit) go" where
  "export_pass bgp e gate source applier ctx desired =
     go_seq (speaker_gates e gate ctx)
     (go_seq (synchronize bgp e source ctx)
     (go_seq (confirm_applied bgp source ctx)
     (go_bind (on_reconciler (go_own (RouteReconciler_Reconcile bgp desired))) (\<lambda>deltas.
      go_seq (go_each (apply_delta bgp e gate applier ctx) deltas)
      refresh_applied))))"

definition live_pass :: "bgp_lib \<Rightarrow> 'w EndpointExporter \<Rightarrow> 'w Context \<Rightarrow> LocalEndpoint list \<Rightarrow> ('w exporting, unit) go" where
  "live_pass bgp e ctx desired = (case (ee_Gate e, ee_Source e, ee_Applier e) of
     (Some gate, Some source, Some applier) \<Rightarrow> export_pass bgp e gate source applier ctx desired
   | _ \<Rightarrow> go_throw (errors_New ''speaker readiness, RIB source and applier required''))"

definition export_body :: "bgp_lib \<Rightarrow> 'w Context \<Rightarrow> 'w EndpointObserver option \<Rightarrow> ('w exporting, unit) go" where
  "export_body bgp ctx observer =
     go_seq (on_exporter (\<lambda>e. e\<lparr>ee_reconciler := Some (the_reconciler e)\<rparr>))
     (go_seq refresh_applied
     (go_bind get_exporter (\<lambda>e.
      case ee_blocked e of
        Some err \<Rightarrow> go_throw err
      | None \<Rightarrow>
          go_bind (observe_desired bgp e ctx observer) (\<lambda>desired.
          if ee_DryRun e then go_return () else live_pass bgp e ctx desired))))"

text \<open>The deferred function fills in the last two fields of the result.\<close>

definition exporter_reconcile :: "bgp_lib \<Rightarrow> 'w Context \<Rightarrow> 'w EndpointObserver option \<Rightarrow> 'w EndpointExporter \<times> 'w \<Rightarrow>
    (ExportResult \<times> go_error option) \<times> ('w EndpointExporter \<times> 'w)" where
  "exporter_reconcile bgp ctx observer = (\<lambda>(e, w).
     let result = \<lparr>res_Desired = [], res_Applied = [], res_DryRun = ee_DryRun e,
           res_OwnershipUnverified = False, res_RecoveryState = []\<rparr> in
     case export_body bgp ctx observer ((e, result), w) of
       (r, ((e', res), w')) \<Rightarrow>
         let err = (case r of Inl x \<Rightarrow> Some x | Inr _ \<Rightarrow> None);
             unverified = (ee_blocked e' \<noteq> None \<or> err \<noteq> None) in
         ((res\<lparr>res_OwnershipUnverified := unverified,
              res_RecoveryState := (if ee_Recovery e' = None then res_RecoveryState res
                else if unverified then ''RECOVERY_BLOCKED'' else ''RUNNING'')\<rparr>, err), (e', w')))"

definition EndpointExporter_Reconcile :: "bgp_lib \<Rightarrow> 'w Context \<Rightarrow> 'w EndpointExporter \<times> 'w \<Rightarrow>
    (ExportResult \<times> go_error option) \<times> ('w EndpointExporter \<times> 'w)" where
  "EndpointExporter_Reconcile bgp ctx s = exporter_reconcile bgp ctx (ee_Observer (fst s)) s"

definition fixedLocalEndpoints :: "LocalEndpoint list \<Rightarrow> 'w EndpointObserver" where
  "fixedLocalEndpoints p = \<lparr>eo_DesiredLocalEndpoints = (\<lambda>_. go_return p)\<rparr>"

text \<open>A nil slice in a non-nil interface: the observer is there even when nothing is kept.\<close>

definition drain_keep :: "string list \<Rightarrow> 'w EndpointExporter \<Rightarrow> LocalEndpoint list" where
  "drain_keep networks e = (case ee_reconciler e of
     None \<Rightarrow> []
   | Some r \<Rightarrow> filter (\<lambda>ep. ep_NetworkID ep \<notin> set networks) (map own_Endpoint (AppliedRoutes r)))"

definition DrainNetworks :: "bgp_lib \<Rightarrow> 'w Context \<Rightarrow> string list \<Rightarrow> 'w EndpointExporter \<times> 'w \<Rightarrow>
    (ExportResult \<times> go_error option) \<times> ('w EndpointExporter \<times> 'w)" where
  "DrainNetworks bgp ctx networks s =
     exporter_reconcile bgp ctx (Some (fixedLocalEndpoints (drain_keep networks (fst s)))) s"

end
