(* ===== verification/Exporter_Properties.thy ===== *)
theory Exporter_Properties
  imports Exporter
begin

text \<open>
  What the exporter guarantees: a fenced exporter, a dry run and a failed observation write
  nothing; a lost path fences it; and a pass that returns without error has converged.
\<close>

section \<open>Replaying successful applications\<close>

text \<open>
  The reconciler's part of a successful run depends on the UUIDs the applier returned only. An
  applier that replays them turns a run with other calls in between into a plain execution.
\<close>

definition replay :: "string list Type2RouteApplier" where
  "replay = \<lparr>ap_Add = (\<lambda>_ _ ids. case ids of [] \<Rightarrow> (Inr ''-'', []) | uid # rest \<Rightarrow>
       (Inr (if uid = [] then ''-'' else uid), rest)),
     ap_Delete = (\<lambda>_ _. go_return ())\<rparr>"

lemma replay_reliable: "reliable (go_return ()) replay"
  by (auto simp: reliable_def replay_def go_return_def split: list.splits)

lemma Apply_replay:
  assumes "RouteReconciler_Apply bgp ctx d (Some api) (r, w) = (Inr (), (r', w'))"
  shows "\<exists>ids0. \<forall>ids. RouteReconciler_Apply bgp (go_return ()) d (Some replay) (r, ids0 @ ids) = (Inr (), (r', ids))"
proof -
  from assms obtain addr op w1 s1 where sync: "rr_synchronized r" and op: "rt_operation d = Some (addr, op)"
    "map_of (rr_pending r) addr = Some op"
    and act: "(case op_action op of RouteAdvertise \<Rightarrow> apply_advertise bgp ctx api op
        | RouteWithdraw \<Rightarrow> apply_withdraw ctx api op
        | RouteOther x \<Rightarrow> go_throw (errors_New ''unsupported route action %q'')) (r, w1) = (Inr (), s1)"
    and r': "r' = (fst s1)\<lparr>rr_pending := AList.delete addr (rr_pending (fst s1))\<rparr>"
    by (auto simp: RouteReconciler_Apply_def go_run go_env_def elim!: go_bind_InrE split: if_splits option.splits prod.splits)
  note run = RouteReconciler_Apply_def go_run sync op go_env_def go_bind_def go_return_def go_seq_def go_modify_def
  show ?thesis
  proof (cases "op_action op")
    case RouteAdvertise
    with act obtain route uid where free: "map_of (rr_applied r) (op_wireKey op) = None"
      and build: "BuildType2Route bgp (op_endpoint op) = Inr route" and uid: "uid \<noteq> []"
      and s1: "fst s1 = r\<lparr>rr_applied := AList.update (op_wireKey op)
          \<lparr>own_Endpoint = op_endpoint op, own_PathUUID = uid\<rparr> (rr_applied r)\<rparr>"
      by (auto simp: apply_advertise_def go_run go_env_def go_wrap_def go_bind_def
          split: if_splits option.splits sum.splits prod.splits)
    show ?thesis
      using RouteAdvertise free build uid
      by (intro exI [of _ "[uid]"]) (simp add: run apply_advertise_def go_wrap_def replay_def go_get_def go_require_def
          go_of_def r' s1)
  next
    case RouteWithdraw
    with act obtain o1 where cur: "map_of (rr_applied r) (op_wireKey op) = Some o1"
      "own_PathUUID o1 = op_pathUUID op" "Equivalent (own_Endpoint o1) (op_endpoint op)"
      and s1: "fst s1 = r\<lparr>rr_applied := AList.delete (op_wireKey op) (rr_applied r)\<rparr>"
      by (auto simp: apply_withdraw_def go_run go_env_def go_wrap_def go_bind_def
          split: if_splits option.splits sum.splits prod.splits)
    show ?thesis
      using RouteWithdraw cur
      by (intro exI [of _ "[]"]) (simp add: run apply_withdraw_def go_wrap_def replay_def go_get_def go_require_def
          go_of_def r' s1)
  next
    case (RouteOther x)
    with act show ?thesis by (simp add: go_run)
  qed
qed

lemma mutation_gates_Inr:
  "mutation_gates e gate ctx s = (Inr (), s') \<Longrightarrow> fst s' = fst s"
  by (cases s) (auto simp: mutation_gates_def go_run go_seq_def block_def go_try_def go_env_def
      elim!: go_bind_InrE split: sum.splits option.splits if_splits prod.splits)

lemma the_reconciler_update [simp]: "the_reconciler (e\<lparr>ee_reconciler := Some r\<rparr>) = r"
  by (simp add: the_reconciler_def)

lemma apply_delta_Inr:
  assumes "apply_delta bgp e gate api ctx d ((e1, res1), w) = (Inr (), ((e2, res2), w2))"
  shows "\<exists>w1 w1'. RouteReconciler_Apply bgp ctx d (Some api) (the_reconciler e1, w1) = (Inr (), (the_reconciler e2, w1')) \<and>
    res_Desired res2 = res_Desired res1"
  using assms
  by (auto simp: apply_delta_def go_run go_seq_def go_try_def on_reconciler_def refresh_applied_def
      elim!: go_bind_InrE dest!: mutation_gates_Inr split: prod.splits sum.splits) blast

lemma apply_deltas_replay:
  assumes "go_each (apply_delta bgp e gate api ctx) ds ((e1, res1), w) = (Inr (), ((e2, res2), w2))"
  shows "(\<exists>ids0. \<forall>ids. execute bgp (go_return ()) replay ds (the_reconciler e1, ids0 @ ids) =
      (Inr (), (the_reconciler e2, ids))) \<and> res_Desired res2 = res_Desired res1"
  using assms
proof (induction ds arbitrary: e1 res1 w)
  case Nil
  then show ?case by (auto simp: execute_def go_run)
next
  case (Cons d ds)
  then obtain e' res' w' where step: "apply_delta bgp e gate api ctx d ((e1, res1), w) = (Inr (), ((e', res'), w'))"
    and rest: "go_each (apply_delta bgp e gate api ctx) ds ((e', res'), w') = (Inr (), ((e2, res2), w2))"
    by (auto simp: go_run elim!: go_bind_InrE)
  obtain w1 w1' where ap: "RouteReconciler_Apply bgp ctx d (Some api) (the_reconciler e1, w1) =
      (Inr (), (the_reconciler e', w1'))" and res: "res_Desired res' = res_Desired res1"
    using apply_delta_Inr [OF step] by blast
  obtain ids1 where ids1: "\<And>ids. RouteReconciler_Apply bgp (go_return ()) d (Some replay) (the_reconciler e1, ids1 @ ids) =
      (Inr (), (the_reconciler e', ids))"
    using Apply_replay [OF ap] by blast
  obtain ids2 where ids2: "\<And>ids. execute bgp (go_return ()) replay ds (the_reconciler e', ids2 @ ids) =
      (Inr (), (the_reconciler e2, ids))" "res_Desired res2 = res_Desired res'"
    using Cons.IH [OF rest] by blast
  have "execute bgp (go_return ()) replay (d # ds) (the_reconciler e1, (ids1 @ ids2) @ ids) =
      (Inr (), (the_reconciler e2, ids))" for ids
    using ids1 [of "ids2 @ ids"] ids2(1) [of ids] by (simp add: execute_Cons go_bind_Inr)
  with res ids2(2) show ?case by (intro conjI exI [of _ "ids1 @ ids2"]) simp_all
qed

lemma no_ops_matches:
  assumes "withdraw_ops applied m = []" and "advertise_ops applied m = []"
  shows "matches applied m"
  unfolding matches_def
proof
  fix k
  have "withdraw_op applied m k = None" if "map_of applied k \<noteq> None"
    using assms(1) that arg_cong [OF assms(1), of set] unfolding withdraw_ops_def set_map_filter
    by (cases "withdraw_op applied m k") auto
  moreover have "advertise_op applied m k = None" if "map_of m k \<noteq> None"
    using that arg_cong [OF assms(2), of set] unfolding advertise_ops_def set_map_filter
    by (cases "advertise_op applied m k") auto
  ultimately show "case (map_of applied k, map_of m k) of
     (None, None) \<Rightarrow> True | (Some o1, Some ep) \<Rightarrow> Equivalent (own_Endpoint o1) ep | _ \<Rightarrow> False"
    by (cases "map_of applied k"; cases "map_of m k")
      (auto simp: withdraw_op_def advertise_op_def split: if_splits)
qed

lemma Apply_synchronized: "RouteReconciler_Apply bgp ctx d api (r, w) = (Inr x, s) \<Longrightarrow> rr_synchronized r"
  by (auto simp: RouteReconciler_Apply_def go_run split: if_splits)

text \<open>A plan that was executed to its end, with any calls in between, has converged.\<close>

lemma executed_plan_converged:
  assumes plan: "RouteReconciler_Reconcile bgp desired r = (Inr ds, r1)"
    and run: "execute bgp (go_return ()) replay ds (r1, ids) = (Inr (), (r', ids'))"
  shows "converged bgp desired (rr_applied r')"
proof (cases ds)
  case Nil
  from plan obtain m where m: "desired_map bgp (rr_foreign r) [] desired = Inr m"
    and all: "list_all2 (is_delta bgp)
       (List.enumerate (rr_alloc r) (withdraw_ops (rr_applied r) m @ advertise_ops (rr_applied r) m)) ds"
    and applied: "rr_applied r1 = rr_applied r"
    by (rule Reconcile_InrD)
  from list_all2_lengthD [OF all] Nil have ops: "withdraw_ops (rr_applied r) m = []" "advertise_ops (rr_applied r) m = []"
    by simp_all
  from run Nil have "r' = r1" by (simp add: execute_def go_run)
  with ops applied no_ops_matches matches_converged [OF m] show ?thesis by simp
next
  case (Cons d ds')
  with run have "rr_synchronized r1"
    by (auto simp: execute_def go_run elim!: go_bind_InrE dest: Apply_synchronized)
  moreover from plan have "rr_synchronized r1 = rr_synchronized r" by (rule Reconcile_InrD)
  ultimately have "rr_synchronized r" by simp
  from replay_reliable plan this obtain m r2 w2 where "desired_map bgp (rr_foreign r) [] desired = Inr m"
    "execute bgp (go_return ()) replay ds (r1, ids) = (Inr (), (r2, w2))" "matches (rr_applied r2) m"
    by (rule converge_aux)
  with run matches_converged show ?thesis by simp
qed

section \<open>Runs of the exporter\<close>

lemma block_not_Inr [simp]: "block err s \<noteq> (Inr x, s')"
  by (simp add: block_def go_run on_exporter_def split: prod.splits)

lemma speaker_gates_Inr: "speaker_gates e gate ctx s = (Inr (), s') \<Longrightarrow> fst s' = fst s"
  by (cases s) (auto simp: speaker_gates_def go_run go_seq_def go_try_def go_env_def continuity_lost_def
      elim!: go_bind_InrE split: sum.splits option.splits if_splits prod.splits)

lemma synchronize_Inr:
  "synchronize bgp e source ctx ((e1, res1), w) = (Inr (), ((e2, res2), w2)) \<Longrightarrow> res_Desired res2 = res_Desired res1"
  by (auto simp: synchronize_def go_run go_seq_def go_env_def on_reconciler_def on_exporter_def refresh_applied_def
      elim!: go_bind_InrE split: option.splits if_splits prod.splits)

lemma confirm_applied_Inr: "confirm_applied bgp source ctx s = (Inr (), s') \<Longrightarrow> fst s' = fst s"
  by (cases s) (auto simp: confirm_applied_def go_run go_env_def elim!: go_bind_InrE split: if_splits prod.splits)

lemma export_pass_converged:
  assumes "export_pass bgp e gate source api ctx desired ((e1, res1), w) = (Inr (), ((e2, res2), w2))"
  shows "converged bgp desired (rr_applied (the_reconciler e2)) \<and> res_Applied res2 = AppliedRoutes (the_reconciler e2) \<and>
    res_Desired res2 = res_Desired res1"
proof -
  from assms obtain e3 res3 w3 ds r1 e4 res4 w4 where
    plan: "RouteReconciler_Reconcile bgp desired (the_reconciler e3) = (Inr ds, r1)"
    and same: "res_Desired res3 = res_Desired res1"
    and run: "go_each (apply_delta bgp e gate api ctx) ds ((e3\<lparr>ee_reconciler := Some r1\<rparr>, res3), w3) = (Inr (), ((e4, res4), w4))"
    and final: "e2 = e4" "res2 = res4\<lparr>res_Applied := AppliedRoutes (the_reconciler e4)\<rparr>"
    by (auto simp: export_pass_def go_seq_def refresh_applied_def go_run on_reconciler_def go_own_def
        elim!: go_bind_InrE dest!: speaker_gates_Inr synchronize_Inr confirm_applied_Inr split: prod.splits)
  obtain ids where "execute bgp (go_return ()) replay ds (r1, ids @ []) = (Inr (), (the_reconciler e4, []))"
    "res_Desired res4 = res_Desired res3"
    using apply_deltas_replay [OF run] by auto
  with executed_plan_converged [OF plan] final same show ?thesis by simp
qed

text \<open>The first steps of a pass on an exporter that is not fenced.\<close>

definition started :: "'w EndpointExporter \<Rightarrow> 'w EndpointExporter" where
  "started e = e\<lparr>ee_reconciler := Some (the_reconciler e)\<rparr>"

lemma started_simps [simp]:
  "ee_blocked (started e) = ee_blocked e" "ee_DryRun (started e) = ee_DryRun e" "ee_Recovery (started e) = ee_Recovery e"
  "the_reconciler (started e) = the_reconciler e"
  by (simp_all add: started_def)

lemma export_body_start:
  "export_body bgp ctx observer ((e, res), w) =
   (case ee_blocked e of
      Some err \<Rightarrow> (Inl err, ((started e, res\<lparr>res_Applied := AppliedRoutes (the_reconciler e)\<rparr>), w))
    | None \<Rightarrow>
        go_bind (observe_desired bgp (started e) ctx observer) (\<lambda>desired.
          if ee_DryRun e then go_return () else live_pass bgp (started e) ctx desired)
        ((started e, res\<lparr>res_Applied := AppliedRoutes (the_reconciler e)\<rparr>), w))"
  unfolding started_def
  by (simp add: export_body_def go_run get_exporter_run on_exporter_def refresh_applied_def split: option.split)

lemma export_body_converged:
  assumes "export_body bgp ctx observer ((e, res), w) = (Inr (), ((e2, res2), w2))" and "\<not> ee_DryRun e"
  shows "converged bgp (res_Desired res2) (rr_applied (the_reconciler e2)) \<and>
    res_Applied res2 = AppliedRoutes (the_reconciler e2) \<and>
    (\<exists>obs w1. observer = Some obs \<and> eo_DesiredLocalEndpoints obs ctx w = (Inr (res_Desired res2), w1))"
  using assms
  by (auto simp: export_body_start live_pass_def observe_desired_def go_run go_seq_def go_env_def set_desired_def
      elim!: go_bind_InrE dest!: export_pass_converged split: option.splits prod.splits)

section \<open>Properties\<close>

text \<open>
  C11 (a successful pass has converged). When \<open>Reconcile\<close> of a live exporter returns without
  error, the acknowledged routes are exactly those of the endpoints it observed, up to
  equivalence, whatever the gates, the RIB and the recovery did in between; the result reports
  them.
\<close>

theorem exporter_converges:
  assumes "EndpointExporter_Reconcile bgp ctx (e, w) = ((res, None), (e', w'))" and "\<not> ee_DryRun e"
  shows "converged bgp (res_Desired res) (rr_applied (the_reconciler e')) \<and>
    res_Applied res = AppliedRoutes (the_reconciler e') \<and>
    (\<exists>obs w1. ee_Observer e = Some obs \<and> eo_DesiredLocalEndpoints obs ctx w = (Inr (res_Desired res), w1))"
proof -
  let ?result = "\<lparr>res_Desired = [], res_Applied = [], res_DryRun = ee_DryRun e, res_OwnershipUnverified = False,
    res_RecoveryState = []\<rparr>"
  obtain r e2 res2 w2 where run: "export_body bgp ctx (ee_Observer e) ((e, ?result), w) = (r, ((e2, res2), w2))"
    by (metis prod.exhaust)
  with assms(1) have "r = Inr ()" "e2 = e'" "res_Desired res2 = res_Desired res" "res_Applied res2 = res_Applied res"
    by (auto simp: EndpointExporter_Reconcile_def exporter_reconcile_def Let_def split: sum.splits)
  with export_body_converged [of bgp ctx "ee_Observer e" e ?result w e2 res2 w2] run assms(2) show ?thesis
    by metis
qed

text \<open>
  C23 (nothing is written without authority). A fenced exporter returns the error that fenced it
  and calls nothing; when the observation fails, the acknowledged routes are retained and nothing
  else is called; a dry run calls nothing but the observer. In all three cases the only effect on
  the exporter is the creation of its reconciler.
\<close>

theorem exporter_no_writes:
  assumes "EndpointExporter_Reconcile bgp ctx (e, w) = ((res, err), (e', w'))"
  shows "(ee_blocked e = Some fence \<longrightarrow> err = Some fence \<and> e' = started e \<and> w' = w) \<and>
    (ee_blocked e = None \<and> ee_Observer e = Some obs \<and> eo_DesiredLocalEndpoints obs ctx w = (Inl x, w1) \<longrightarrow>
       err = Some (Errorf ''endpoint observation failed; retaining applied routes: %w'' [x]) \<and> e' = started e \<and> w' = w1) \<and>
    (ee_blocked e = None \<and> ee_DryRun e \<and> ee_Observer e = Some obs \<and>
       eo_DesiredLocalEndpoints obs ctx w = (Inr desired, w1) \<longrightarrow> e' = started e \<and> w' = w1)"
  using assms
  by (auto simp: EndpointExporter_Reconcile_def exporter_reconcile_def Let_def export_body_start observe_desired_def
      go_bind_def go_wrap_def go_env_def go_run go_seq_def set_desired_def split: sum.splits prod.splits if_splits)


lemma drain_converged:
  assumes "DrainNetworks bgp ctx networks (e, w) = ((res, None), (e', w'))" and "\<not> ee_DryRun e"
  shows "converged bgp (drain_keep networks e) (rr_applied (the_reconciler e'))"
proof -
  let ?result = "\<lparr>res_Desired = [], res_Applied = [], res_DryRun = ee_DryRun e, res_OwnershipUnverified = False,
    res_RecoveryState = []\<rparr>"
  let ?obs = "fixedLocalEndpoints (drain_keep networks e)"
  obtain r e2 res2 w2 where run: "export_body bgp ctx (Some ?obs) ((e, ?result), w) = (r, ((e2, res2), w2))"
    by (metis prod.exhaust)
  with assms(1) have "r = Inr ()" "e2 = e'"
    by (auto simp: DrainNetworks_def exporter_reconcile_def Let_def split: sum.splits)
  with export_body_converged [of bgp ctx "Some ?obs" e ?result w e2 res2 w2] run assms(2) show ?thesis
    by (auto simp: fixedLocalEndpoints_def go_return_def)
qed


section \<open>Accepted configurations\<close>

definition native :: "EVPNNetworkConfig \<Rightarrow> bool" where
  "native cfg \<longleftrightarrow> ExportSource cfg = ''ovn-netlink''"

definition native_devices :: "EVPNNetworkConfig list \<Rightarrow> string list" where
  "native_devices cfgs = concat (map (\<lambda>cfg. [nc_BridgeDevice cfg, nc_VXLANDevice cfg, nc_AdvertiseDevice cfg]) (filter native cfgs))"

lemma claim_devices_Some:
  "claim_devices devices names = Some claimed \<Longrightarrow>
   set claimed = set devices \<union> set names \<and> distinct names \<and> set names \<inter> set devices = {}"
proof (induction names arbitrary: devices)
  case (Cons a names)
  then have "a \<notin> set devices" "claim_devices (a # devices) names = Some claimed"
    by (auto simp: bad_device_def split: if_splits)
  with Cons.IH [of "a # devices"] show ?case by auto
qed simp

lemma validate_source_Inr:
  assumes "validate_source c (devices, vnis) cfg = Inr (devices', vnis')"
  shows "if native cfg then nc_VNI cfg \<notin> set vnis \<and> vnis' = nc_VNI cfg # vnis \<and>
      set devices' = set devices \<union> set (native_devices [cfg]) \<and> distinct (native_devices [cfg]) \<and>
      set (native_devices [cfg]) \<inter> set devices = {} \<and> (xc_DryRun c \<or> xc_ProcessContinuity c)
    else devices' = devices \<and> vnis' = vnis"
  using assms
  by (auto simp: validate_source_def native_def native_devices_def simp del: claim_devices.simps
      dest!: claim_devices_Some split: if_splits option.splits)

lemma native_devices_Cons: "native_devices (cfg # cfgs) = native_devices [cfg] @ native_devices cfgs"
  by (simp add: native_devices_def)

lemma validate_networks_Inr:
  assumes "validate_networks bgp c seen switches (devices, vnis) cfgs = Inr ()"
  shows "distinct (map nc_NetworkID cfgs) \<and> set (map nc_NetworkID cfgs) \<inter> set seen = {} \<and>
    distinct (map nc_LogicalSwitch cfgs) \<and> set (map nc_LogicalSwitch cfgs) \<inter> set switches = {} \<and>
    distinct (map nc_VNI (filter native cfgs)) \<and> set (map nc_VNI (filter native cfgs)) \<inter> set vnis = {} \<and>
    distinct (native_devices cfgs) \<and> set (native_devices cfgs) \<inter> set devices = {} \<and>
    list_all (\<lambda>cfg. validate_route_fields bgp cfg = Inr () \<and> (native cfg \<longrightarrow> xc_DryRun c \<or> xc_ProcessContinuity c)) cfgs"
  using assms
proof (induction cfgs arbitrary: seen switches devices vnis)
  case Nil
  then show ?case by (simp add: native_devices_def)
next
  case (Cons cfg cfgs)
  obtain devices' vnis' where src: "validate_source c (devices, vnis) cfg = Inr (devices', vnis')"
    and fields: "validate_route_fields bgp cfg = Inr ()"
    and rest: "validate_networks bgp c (nc_NetworkID cfg # seen) (nc_LogicalSwitch cfg # switches) (devices', vnis') cfgs = Inr ()"
    and fresh: "nc_NetworkID cfg \<notin> set seen" "nc_LogicalSwitch cfg \<notin> set switches"
    using Cons.prems by (auto simp: sum_bind_Inr_iff split: if_splits)
  show ?case
    using Cons.IH [OF rest] validate_source_Inr [OF src] fresh fields
    unfolding native_devices_Cons [of cfg cfgs] by (cases "native cfg") (auto simp: native_devices_def)
qed

text \<open>
  C38 (accepted configurations). An enabled configuration that \<open>Validate\<close> accepts names every
  network and logical switch once; its native networks have distinct VNIs and pairwise distinct
  devices and only run dry or with process continuity; every network passes the checks of VNI,
  VTEP, RD and RTs; and recovery implies process continuity, so a Unix socket endpoint.
\<close>

theorem config_accepted:
  assumes "ExporterConfig_Validate bgp c = Inr ()" and "xc_Enabled c"
  shows "distinct (map nc_NetworkID (xc_Networks c)) \<and> distinct (map nc_LogicalSwitch (xc_Networks c)) \<and>
    distinct (map nc_VNI (filter native (xc_Networks c))) \<and> distinct (native_devices (xc_Networks c)) \<and>
    list_all (\<lambda>cfg. validate_route_fields bgp cfg = Inr () \<and> (native cfg \<longrightarrow> xc_DryRun c \<or> xc_ProcessContinuity c))
      (xc_Networks c) \<and>
    (xc_Recovery c \<noteq> None \<longrightarrow> xc_ProcessContinuity c \<and> HasPrefix (xc_GRPCEndpoint c) ''unix:///'')"
proof -
  have "validate_networks bgp c [] [] ([], []) (xc_Networks c) = Inr ()" "validate_endpoint c = Inr ()"
    and rec: "xc_Recovery c \<noteq> None \<longrightarrow> xc_ProcessContinuity c"
    using assms by (auto simp: ExporterConfig_Validate_def sum_bind_Inr_iff split: if_splits option.splits)
  moreover have "xc_ProcessContinuity c \<longrightarrow> HasPrefix (xc_GRPCEndpoint c) ''unix:///''"
    using calculation(2) by (auto simp: validate_endpoint_def split: if_splits)
  ultimately show ?thesis using validate_networks_Inr [of bgp c "[]" "[]" "[]" "[]" "xc_Networks c"] by blast
qed

section \<open>A concrete exporter\<close>

definition sample_exporter :: "sample_speaker EndpointExporter" where
  "sample_exporter = \<lparr>ee_Observer = Some (fixedLocalEndpoints [sample_endpoint]),
     ee_Gate = Some \<lparr>rg_Check = (\<lambda>_. go_return ())\<rparr>, ee_Continuity = None, ee_Source = Some sample_source,
     ee_Applier = Some sample_applier, ee_DryRun = False, ee_Recovery = None, ee_reconciler = None,
     ee_initialized = False, ee_blocked = None\<rparr>"

lemma sample_export_ok:
  "snd (fst (EndpointExporter_Reconcile sample_bgp sample_ctx (sample_exporter, sample_world))) = None"
  by code_simp

theorem exporter_converges_witness:
  "\<exists>res e' w'. EndpointExporter_Reconcile sample_bgp sample_ctx (sample_exporter, sample_world) = ((res, None), (e', w')) \<and>
     converged sample_bgp (res_Desired res) (rr_applied (the_reconciler e')) \<and> res_Desired res = [sample_endpoint]"
proof -
  obtain res err e' w' where run: "EndpointExporter_Reconcile sample_bgp sample_ctx (sample_exporter, sample_world) =
    ((res, err), (e', w'))" by (metis prod.exhaust)
  with sample_export_ok have ok: "EndpointExporter_Reconcile sample_bgp sample_ctx (sample_exporter, sample_world) =
    ((res, None), (e', w'))" by simp
  have "\<not> ee_DryRun sample_exporter" by (simp add: sample_exporter_def)
  from exporter_converges [OF ok this] ok show ?thesis
    by (auto simp: sample_exporter_def fixedLocalEndpoints_def go_return_def)
qed

theorem exporter_no_writes_witness:
  "\<exists>res. EndpointExporter_Reconcile sample_bgp sample_ctx (sample_exporter\<lparr>ee_blocked := Some ErrRouteOwnership\<rparr>, sample_world) =
     ((res, Some ErrRouteOwnership), (started (sample_exporter\<lparr>ee_blocked := Some ErrRouteOwnership\<rparr>), sample_world))"
proof -
  obtain res err e' w' where run: "EndpointExporter_Reconcile sample_bgp sample_ctx
      (sample_exporter\<lparr>ee_blocked := Some ErrRouteOwnership\<rparr>, sample_world) = ((res, err), (e', w'))"
    by (metis prod.exhaust)
  from exporter_no_writes [OF run, THEN conjunct1, of ErrRouteOwnership] run show ?thesis by simp
qed

definition sample_holding :: "sample_speaker EndpointExporter" where
  "sample_holding = sample_exporter\<lparr>ee_Observer := Some (fixedLocalEndpoints []), ee_initialized := True,
     ee_reconciler := Some (NewRouteReconciler\<lparr>rr_applied := [(''k'', \<lparr>own_Endpoint = sample_endpoint, own_PathUUID = ''u-1''\<rparr>)],
       rr_synchronized := True\<rparr>)\<rparr>"



definition sample_config :: ExporterConfig where
  "sample_config = \<lparr>xc_Enabled = True, xc_DryRun = False, xc_ProcessContinuity = True, xc_NodeName = ''n'',
     xc_LocalChassis = ''c'', xc_GRPCEndpoint = ''unix:///s'', xc_ASN = 65000, xc_RouterID = ''192.0.2.1'',
     xc_Networks = [sample_network\<lparr>nc_ExporterSource := ''ovn-netlink'', nc_BridgeDevice := ''br'', nc_VXLANDevice := ''vx'',
       nc_AdvertiseDevice := ''ad''\<rparr>], xc_AttestationConfigPath = ''/a'',
     xc_Recovery = Some \<lparr>rc_StateDirectory = ''/s'', rc_Domain = mem_domain\<rparr>\<rparr>"

theorem config_accepted_witness:
  "ExporterConfig_Validate sample_bgp sample_config = Inr () \<and> distinct (native_devices (xc_Networks sample_config)) \<and>
   HasPrefix (xc_GRPCEndpoint sample_config) ''unix:///''"
proof -
  have ok: "ExporterConfig_Validate sample_bgp sample_config = Inr ()" by code_simp
  have "xc_Enabled sample_config" "xc_Recovery sample_config \<noteq> None" by (simp_all add: sample_config_def)
  with config_accepted [OF ok] ok show ?thesis by blast
qed

end
