(* ===== verification/Remote_Import.thy ===== *)
theory Remote_Import
  imports GoBGP_Adapter "HOL-Library.Product_Lexorder"
begin

text \<open>
  \<open>pkg/evpn/remote_type2.go\<close>: reading the routes of other nodes. A complete listing is
  decoded and validated path by path, joined into endpoints, and published after two equal
  consecutive observations. The packet library, \<open>apiutil\<close>, the JSON coding and SHA-256 behind
  \<open>remoteHash\<close> are arguments.
\<close>

section \<open>Reading the RIB\<close>

record RemoteRIBSnapshot =
  rib_Paths :: "api_path option list"
  rib_Complete :: bool

record 'w RemoteRIBSource =
  rs_ReadRemoteRIB :: "'w Context \<Rightarrow> ('w, RemoteRIBSnapshot) go"

record 'w RemotePathReader =
  pr_ListPath :: "'w Context \<Rightarrow> ('w, ('w, ListPathResponse) go list option) go"

record 'w GoBGPRemoteRIBSource =
  gs_Client :: "'w RemotePathReader option"
  gs_Gate :: "'w ReadinessGate option"

fun some_paths :: "api_path option list \<Rightarrow> go_error + api_path option list" where
  "some_paths [] = Inr []"
| "some_paths (p # ps) = (case p of
     None \<Rightarrow> Inl (errors_New ''nil remote RIB path'')
   | Some path \<Rightarrow> sum_bind (some_paths ps) (\<lambda>rest. Inr (Some path # rest)))"

fun remote_loop :: "'w ReadinessGate \<Rightarrow> 'w Context \<Rightarrow> api_path option list \<Rightarrow> ('w, ListPathResponse) go list \<Rightarrow>
    ('w, RemoteRIBSnapshot) go" where
  "remote_loop gate ctx paths [] =
     go_seq ctx (go_seq (rg_Check gate ctx) (go_return \<lparr>rib_Paths = paths, rib_Complete = True\<rparr>))"
| "remote_loop gate ctx paths (recv # stream) =
     go_bind (go_wrap (\<lambda>e. Errorf ''incomplete remote RIB stream: %w'' [e]) recv) (\<lambda>response. case response of
       None \<Rightarrow> go_throw (errors_New ''incomplete remote RIB destination'')
     | Some ps \<Rightarrow>
         go_seq (go_require (ps \<noteq> []) (errors_New ''incomplete remote RIB destination''))
         (go_bind (go_of (some_paths ps)) (\<lambda>found. remote_loop gate ctx (paths @ found) stream)))"

definition ReadRemoteRIB :: "'w GoBGPRemoteRIBSource \<Rightarrow> 'w Context \<Rightarrow> ('w, RemoteRIBSnapshot) go" where
  "ReadRemoteRIB s ctx = (case (gs_Client s, gs_Gate s) of
     (Some client, Some gate) \<Rightarrow>
       go_seq (rg_Check gate ctx)
       (go_bind (pr_ListPath client ctx) (\<lambda>stream. case stream of
          None \<Rightarrow> go_throw (errors_New ''nil remote RIB stream'')
        | Some recvs \<Rightarrow> remote_loop gate ctx [] recvs))
   | _ \<Rightarrow> go_throw (errors_New ''remote RIB reader and actual speaker readiness gate required''))"

section \<open>Data\<close>

record RemotePathIdentity =
  pi_Key :: string
  pi_NeighborIP :: string
  pi_SourceID :: string
  pi_SourceASN :: "32 word"
  pi_Identifier :: "32 word"
  pi_LocalIdentifier :: "32 word"

record DecodedRemoteType2 =
  dr_Source :: RemotePathIdentity
  dr_Classification :: string
  dr_RouteType :: nat
  dr_RD :: string
  dr_EthernetTag :: "32 word"
  dr_ESI :: string
  dr_MAC :: string
  dr_IP :: string
  dr_Labels :: "32 word list"
  dr_RouteTargets :: "string list"
  dr_Encapsulation :: "string list"
  dr_NextHop :: string
  dr_Best :: bool
  dr_Stale :: bool
  dr_Filtered :: bool
  dr_NexthopInvalid :: bool
  dr_AttributeKey :: string

record ValidatedRemoteRoute =
  vr_NetworkID :: string
  vr_VNI :: "32 word"
  vr_Route :: DecodedRemoteType2

record DesiredRemoteEndpoint =
  de_Key :: string
  de_NetworkID :: string
  de_VNI :: "32 word"
  de_MAC :: string
  de_IP :: string
  de_RemoteVTEP :: string
  de_ValidationState :: string
  de_Routes :: "ValidatedRemoteRoute list"

text \<open>The reason of an issue is the text of an error, represented by the error.\<close>

record RemoteImportIssue =
  is_PathKey :: string
  is_Reason :: go_error

record RemoteImportSnapshot =
  sn_Authoritative :: bool
  sn_Generation :: "64 word"
  sn_Endpoints :: "DesiredRemoteEndpoint list"
  sn_Issues :: "RemoteImportIssue list"

text \<open>
  What the importer uses of libraries: \<open>remoteHash\<close> at its four types, the ESI and tunnel type
  of the packet library.
\<close>

record import_lib =
  il_bgp :: bgp_lib
  il_util :: api_util
  il_ESI_Serialize :: "string \<Rightarrow> string option"
  il_TunnelType_String :: "nat \<Rightarrow> string"
  il_hash_identity :: "string \<Rightarrow> RemotePathIdentity \<Rightarrow> string"
  il_hash_strings :: "string list \<Rightarrow> string"
  il_hash_snapshot :: "RemoteImportSnapshot \<Rightarrow> string"

definition AFI_L2VPN :: nat where "AFI_L2VPN = 25"
definition SAFI_EVPN :: nat where "SAFI_EVPN = 70"
definition EC_SUBTYPE_ROUTE_TARGET :: nat where "EC_SUBTYPE_ROUTE_TARGET = 2"

definition unicastIPv4 :: "string \<Rightarrow> bool" where
  "unicastIPv4 value = (case ParseAddr value of
     None \<Rightarrow> False | Some ip \<Rightarrow> Is4 ip \<and> IsGlobalUnicast ip \<and> \<not> IsLoopback ip)"

section \<open>Decoding a path\<close>

text \<open>
  The decoder fills in its result step by step and returns it with an error too: it is a
  computation on the result.
\<close>

type_synonym 'a decoding = "(DecodedRemoteType2, 'a) go"

definition invalid_route :: DecodedRemoteType2 where
  "invalid_route = \<lparr>dr_Source = \<lparr>pi_Key = [], pi_NeighborIP = [], pi_SourceID = [], pi_SourceASN = 0, pi_Identifier = 0,
     pi_LocalIdentifier = 0\<rparr>, dr_Classification = ''invalid'', dr_RouteType = 0, dr_RD = [], dr_EthernetTag = 0,
     dr_ESI = [], dr_MAC = [], dr_IP = [], dr_Labels = [], dr_RouteTargets = [], dr_Encapsulation = [], dr_NextHop = [],
     dr_Best = False, dr_Stale = False, dr_Filtered = False, dr_NexthopInvalid = False, dr_AttributeKey = []\<rparr>"

definition hex_string :: "string \<Rightarrow> string" where
  "hex_string s = concat (map (\<lambda>c. hex_byte (word_of_nat (byte c))) s)"

definition path_identity :: "api_path \<Rightarrow> RemotePathIdentity" where
  "path_identity path = \<lparr>pi_Key = [], pi_NeighborIP = gp_NeighborIp path, pi_SourceID = gp_SourceId path,
     pi_SourceASN = gp_SourceAsn path, pi_Identifier = gp_Identifier path, pi_LocalIdentifier = gp_LocalIdentifier path\<rparr>"

definition decode_source :: "import_lib \<Rightarrow> api_path \<Rightarrow> EVPNNLRI \<Rightarrow> string decoding" where
  "decode_source lib path n =
     go_seq (go_modify (\<lambda>r. r\<lparr>dr_RouteType := n_RouteType n\<rparr>))
     (go_bind (go_of (libcall ''NLRI.Serialize'' (NLRI_Serialize (il_bgp lib) n))) (\<lambda>wire.
      go_seq (go_modify (\<lambda>r. r\<lparr>dr_Source := (path_identity path)\<lparr>pi_Key := il_hash_identity lib (hex_string wire) (path_identity path)\<rparr>,
        dr_Best := gp_Best path, dr_Stale := gp_Stale path, dr_Filtered := gp_Filtered path,
        dr_NexthopInvalid := gp_IsNexthopInvalid path\<rparr>))
      (go_seq (if gp_IsWithdraw path then go_modify (\<lambda>r. r\<lparr>dr_Classification := ''withdrawn''\<rparr>)
        else if gp_NeighborIp path = [] \<and> \<not> gp_IsFromExternal path
        then go_modify (\<lambda>r. r\<lparr>dr_Classification := ''local''\<rparr>)
        else if ParseIP (gp_NeighborIp path) \<noteq> None \<and> ParseIP (gp_SourceId path) \<noteq> None \<and> gp_SourceAsn path \<noteq> 0
        then go_modify (\<lambda>r. r\<lparr>dr_Classification := ''remote''\<rparr>)
        else go_throw (errors_New ''ambiguous route source''))
      (go_return wire))))"

definition address_string :: "Addr option \<Rightarrow> string" where
  "address_string a = (case a of None \<Rightarrow> ''invalid IP'' | Some ip \<Rightarrow> Addr_String ip)"

definition is_family :: "(Addr \<Rightarrow> bool) \<Rightarrow> Addr option \<Rightarrow> bool" where
  "is_family f a = (case a of None \<Rightarrow> False | Some ip \<Rightarrow> f ip)"

definition decode_mac_ip :: "import_lib \<Rightarrow> EVPNNLRI \<Rightarrow> unit decoding" where
  "decode_mac_ip lib n = (case n_RouteTypeData n of
     OtherRouteTypeData _ \<Rightarrow> go_throw (errors_New ''missing Type-2 route data or RD'')
   | MacIPAdvertisement m \<Rightarrow> (case m_RD m of
       None \<Rightarrow> go_throw (errors_New ''missing Type-2 route data or RD'')
     | Some rd \<Rightarrow>
         go_seq (go_modify (\<lambda>r. r\<lparr>dr_RD := RD_String (il_bgp lib) rd, dr_MAC := HardwareAddr_String (m_MacAddress m),
           dr_EthernetTag := m_ETag m\<rparr>))
         (go_seq (if m_IPAddressLength m \<noteq> 0 then
             go_seq (go_modify (\<lambda>r. r\<lparr>dr_IP := address_string (m_IPAddress m)\<rparr>))
             (go_require (\<not> ((m_IPAddressLength m \<noteq> 32 \<or> \<not> is_family Is4 (m_IPAddress m)) \<and>
                 (m_IPAddressLength m \<noteq> 128 \<or> \<not> is_family Is6 (m_IPAddress m))))
               (errors_New ''inconsistent IP length''))
           else go_return ())
         (go_seq (go_require (m_MacAddressLength m = 48 \<and> length (m_MacAddress m) = 6) (errors_New ''invalid MAC length''))
         (go_bind (go_of (libcall ''ESI.Serialize'' (il_ESI_Serialize lib (m_ESI m)))) (\<lambda>esi.
          go_modify (\<lambda>r. r\<lparr>dr_ESI := hex_string esi, dr_Labels := m_Labels m\<rparr>)))))))"

fun check_attributes :: "api_attribute option list \<Rightarrow> go_error + unit" where
  "check_attributes [] = Inr ()"
| "check_attributes (attr # attrs) = (case attr of
     None \<Rightarrow> Inl (errors_New ''nil path attribute'')
   | Some a \<Rightarrow> (case at_MpReach a of
       Some hops \<Rightarrow> if length hops \<noteq> 1 then Inl (errors_New ''exactly one MP_REACH next-hop required'')
         else check_attributes attrs
     | None \<Rightarrow> check_attributes attrs))"

definition GetType :: "PathAttribute \<Rightarrow> nat" where
  "GetType attr = (case attr of
     PathAttributeOrigin _ \<Rightarrow> 1
   | PathAttributeNextHop _ \<Rightarrow> 3
   | PathAttributeMpReachNLRI _ \<Rightarrow> 14
   | PathAttributeExtendedCommunities _ \<Rightarrow> 16
   | PathAttributeTunnelEncap _ \<Rightarrow> 23
   | PathAttributeKnown t _ \<Rightarrow> t
   | PathAttributeOther t _ \<Rightarrow> t)"

definition decode_community :: "import_lib \<Rightarrow> ExtendedCommunity \<Rightarrow> unit decoding" where
  "decode_community lib community =
    (case Community_GetTypes (il_bgp lib) community of (typ, subtype) \<Rightarrow>
       if subtype = EC_SUBTYPE_ROUTE_TARGET \<and> (typ = 0 \<or> typ = 1 \<or> typ = 2)
       then go_modify (\<lambda>r. r\<lparr>dr_RouteTargets := dr_RouteTargets r @ [Community_String (il_bgp lib) community]\<rparr>)
       else (case community of
           EncapExtended tunnel \<Rightarrow>
             go_modify (\<lambda>r. r\<lparr>dr_Encapsulation := dr_Encapsulation r @ [il_TunnelType_String lib tunnel]\<rparr>)
         | _ \<Rightarrow> go_throw (errors_New ''unsupported extended community %s'')))"

definition decode_attribute :: "import_lib \<Rightarrow> string \<Rightarrow> PathAttribute \<Rightarrow> unit decoding" where
  "decode_attribute lib wire attr = (case attr of
     PathAttributeOrigin v \<Rightarrow> go_require (v \<le> 2) (errors_New ''invalid origin'')
   | PathAttributeMpReachNLRI a \<Rightarrow>
       go_seq (go_require (mp_AFI a = AFI_L2VPN \<and> mp_SAFI a = SAFI_EVPN \<and> mp_LinkLocalNexthop a = None)
         (errors_New ''unsupported MP_REACH family/next-hop''))
       (case mp_Value a of
          [Some nlri] \<Rightarrow>
            go_seq (go_require (NLRI_Serialize (il_bgp lib) nlri = Some wire)
              (errors_New ''MP_REACH NLRI differs from path NLRI''))
            (go_modify (\<lambda>r. r\<lparr>dr_NextHop := address_string (mp_Nexthop a)\<rparr>))
        | _ \<Rightarrow> go_throw (errors_New ''exactly one matching MP_REACH NLRI required''))
   | PathAttributeNextHop _ \<Rightarrow> go_throw (errors_New ''EVPN requires MP_REACH next-hop'')
   | PathAttributeExtendedCommunities cs \<Rightarrow> go_each (decode_community lib) cs
   | PathAttributeTunnelEncap _ \<Rightarrow>
       go_throw (errors_New ''tunnel encapsulation attribute unsupported; VXLAN extended community required'')
   | PathAttributeKnown _ _ \<Rightarrow> go_return ()
   | PathAttributeOther _ _ \<Rightarrow> go_throw (errors_New ''unsupported path attribute %d''))"

fun decode_attributes :: "import_lib \<Rightarrow> string \<Rightarrow> nat list \<Rightarrow> string list \<Rightarrow> PathAttribute list \<Rightarrow>
    (nat list \<times> string list) decoding" where
  "decode_attributes lib wire seen bytes [] = go_return (seen, bytes)"
| "decode_attributes lib wire seen bytes (attr # attrs) =
     go_seq (go_require (GetType attr \<notin> set seen) (errors_New ''duplicate path attribute %d''))
     (go_bind (go_of (libcall ''PathAttribute.Serialize'' (Attribute_Serialize (il_bgp lib) attr))) (\<lambda>b.
      go_seq (decode_attribute lib wire attr)
      (decode_attributes lib wire (GetType attr # seen) (bytes @ [hex_string b]) attrs)))"

definition decode_path_attributes :: "import_lib \<Rightarrow> api_path \<Rightarrow> string \<Rightarrow> unit decoding" where
  "decode_path_attributes lib path wire =
     go_seq (go_of (check_attributes (gp_Pattrs path)))
     (go_bind (go_wrap (\<lambda>e. Errorf ''decode path attributes: %w'' [e]) (go_of (GetNativePathAttributes (il_util lib) path))) (\<lambda>attrs.
      go_bind (decode_attributes lib wire [] [] attrs) (\<lambda>(seen, bytes).
      go_seq (go_require (1 \<in> set seen \<and> 14 \<in> set seen \<and> 16 \<in> set seen)
        (errors_New ''missing required origin, MP_REACH or extended communities''))
      (go_modify (\<lambda>r. r\<lparr>dr_AttributeKey := il_hash_strings lib (sort_Strings bytes),
        dr_RouteTargets := sort_Strings (dr_RouteTargets r), dr_Encapsulation := sort_Strings (dr_Encapsulation r)\<rparr>)))))"

definition decode_body :: "import_lib \<Rightarrow> api_path \<Rightarrow> unit decoding" where
  "decode_body lib path =
     go_seq (go_require (gp_Family path = Some (AFI_L2VPN, SAFI_EVPN)) (errors_New ''expected EVPN AFI/SAFI''))
     (go_bind (go_wrap (\<lambda>e. Errorf ''decode EVPN NLRI: %w'' [e]) (go_of (GetNativeNlri (il_util lib) path))) (\<lambda>nlri. case nlri of
        NativeOther _ \<Rightarrow> go_throw (errors_New ''non-EVPN NLRI in EVPN table'')
      | NativeEVPN n \<Rightarrow>
          go_bind (decode_source lib path n) (\<lambda>wire.
          if n_RouteType n \<noteq> EVPN_ROUTE_TYPE_MAC_IP_ADVERTISEMENT then go_return ()
          else go_seq (decode_mac_ip lib n)
            (go_bind (go_get dr_Classification) (\<lambda>class.
             if gp_IsWithdraw path \<or> class = ''local'' then go_return ()
             else decode_path_attributes lib path wire)))))"

definition DecodeRemoteType2 :: "import_lib \<Rightarrow> api_path option \<Rightarrow> (go_error + unit) \<times> DecodedRemoteType2" where
  "DecodeRemoteType2 lib path = (case path of
     None \<Rightarrow> (Inl (errors_New ''expected EVPN AFI/SAFI''), invalid_route)
   | Some p \<Rightarrow> decode_body lib p invalid_route)"

section \<open>Configuration and validation\<close>

record RemoteImportNetwork =
  rn_NetworkID :: string
  rn_VNI :: "32 word"
  rn_ImportRouteTargets :: "string list"
  rn_AllowedVTEPs :: "string list"

record RemoteImportConfig =
  ic_LocalVTEP :: string
  ic_Networks :: "RemoteImportNetwork list"

fun import_networks_ok :: "bgp_lib \<Rightarrow> string \<Rightarrow> string list \<Rightarrow> 32 word list \<Rightarrow> RemoteImportNetwork list \<Rightarrow> go_error + unit" where
  "import_networks_ok bgp local_vtep names vnis [] = Inr ()"
| "import_networks_ok bgp local_vtep names vnis (n # ns) =
    (if TrimSpace (rn_NetworkID n) = [] \<or> rn_NetworkID n \<in> set names \<or> rn_VNI n = 0 \<or> rn_VNI n > 16777215 \<or>
       rn_VNI n \<in> set vnis
     then Inl (errors_New ''unique network IDs and explicit unique VNIs in 1..16777215 required'')
     else if rn_ImportRouteTargets n = [] \<or> rn_AllowedVTEPs n = []
     then Inl (errors_New ''network %s requires explicit import RT and VTEP allowlists'')
     else if list_ex (\<lambda>rt. case ParseRouteTarget bgp rt of None \<Rightarrow> True | Some parsed \<Rightarrow> Community_String bgp parsed \<noteq> rt)
       (rn_ImportRouteTargets n)
     then Inl (errors_New ''network %s invalid/noncanonical import RT %q'')
     else if list_ex (\<lambda>ip. \<not> unicastIPv4 ip \<or> ip = local_vtep) (rn_AllowedVTEPs n)
     then Inl (errors_New ''network %s invalid/locally owned remote VTEP %q'')
     else import_networks_ok bgp local_vtep (rn_NetworkID n # names) (rn_VNI n # vnis) ns)"

definition RemoteImportConfig_Validate :: "bgp_lib \<Rightarrow> RemoteImportConfig \<Rightarrow> go_error + unit" where
  "RemoteImportConfig_Validate bgp c =
    (if \<not> unicastIPv4 (ic_LocalVTEP c) \<or> ic_Networks c = []
     then Inl (errors_New ''explicit local IPv4 VTEP and import networks required'')
     else import_networks_ok bgp (ic_LocalVTEP c) [] [] (ic_Networks c))"

definition containsRemote :: "string list \<Rightarrow> string \<Rightarrow> bool" where
  "containsRemote values value = list_ex (\<lambda>candidate. candidate = value) values"

definition remote_fields_ok :: "bgp_lib \<Rightarrow> RemoteImportConfig \<Rightarrow> DecodedRemoteType2 \<Rightarrow> go_error + unit" where
  "remote_fields_ok bgp c r =
    (if dr_Classification r \<noteq> ''remote'' \<or> dr_RouteType r \<noteq> EVPN_ROUTE_TYPE_MAC_IP_ADVERTISEMENT \<or>
       dr_Stale r \<or> dr_Filtered r \<or> dr_NexthopInvalid r
     then Inl (errors_New ''not an eligible current remote Type-2 path'')
     else if ParseRouteDistinguisher bgp (dr_RD r) = None then Inl (errors_New ''invalid RD'')
     else if (case ParseMAC (dr_MAC r) of
         None \<Rightarrow> True
       | Some mac \<Rightarrow> length mac \<noteq> 6 \<or> bit (hd mac) 0) \<or>
       dr_MAC r = ''00:00:00:00:00:00'' \<or> (dr_IP r \<noteq> [] \<and> \<not> unicastIPv4 (dr_IP r))
     then Inl (errors_New ''unsupported unicast MAC/optional IPv4'')
     else if dr_ESI r \<noteq> ''00000000000000000000'' \<or> dr_EthernetTag r \<noteq> 0 \<or> length (dr_Labels r) \<noteq> 1 \<or>
       dr_Encapsulation r \<noteq> [''vxlan'']
     then Inl (errors_New ''only zero ESI/tag, one VXLAN VNI and explicit VXLAN encapsulation supported'')
     else if \<not> unicastIPv4 (dr_NextHop r) \<or> dr_NextHop r = ic_LocalVTEP c
     then Inl (errors_New ''invalid or local path next-hop'')
     else Inr ())"

fun import_network :: "DecodedRemoteType2 \<Rightarrow> RemoteImportNetwork list \<Rightarrow> go_error + ValidatedRemoteRoute" where
  "import_network r [] = Inl (errors_New ''no configured VNI mapping'')"
| "import_network r (n # ns) =
    (if rn_VNI n \<noteq> hd (dr_Labels r) then import_network r ns
     else if \<not> containsRemote (rn_AllowedVTEPs n) (dr_NextHop r) then Inl (errors_New ''remote VTEP not allowlisted'')
     else if list_ex (containsRemote (dr_RouteTargets r)) (rn_ImportRouteTargets n)
     then Inr \<lparr>vr_NetworkID = rn_NetworkID n, vr_VNI = rn_VNI n, vr_Route = r\<rparr>
     else Inl (errors_New ''no import RT intersection''))"

definition ValidateRoute :: "bgp_lib \<Rightarrow> RemoteImportConfig \<Rightarrow> DecodedRemoteType2 \<Rightarrow> go_error + ValidatedRemoteRoute" where
  "ValidateRoute bgp c r = sum_bind (remote_fields_ok bgp c r) (\<lambda>_. import_network r (ic_Networks c))"

section \<open>The importer\<close>

record 'w ReadOnlyType2Importer =
  im_source :: "'w RemoteRIBSource"
  im_config :: RemoteImportConfig
  im_confirmed :: RemoteImportSnapshot
  im_pending :: string

definition zero_snapshot :: RemoteImportSnapshot where
  "zero_snapshot = \<lparr>sn_Authoritative = False, sn_Generation = 0, sn_Endpoints = [], sn_Issues = []\<rparr>"

definition NewReadOnlyType2Importer ::
  "bgp_lib \<Rightarrow> 'w RemoteRIBSource option \<Rightarrow> RemoteImportConfig \<Rightarrow> go_error + 'w ReadOnlyType2Importer" where
  "NewReadOnlyType2Importer bgp source config = (case source of
     None \<Rightarrow> Inl (errors_New ''remote RIB source required'')
   | Some src \<Rightarrow> sum_bind (RemoteImportConfig_Validate bgp config) (\<lambda>_.
       Inr \<lparr>im_source = src, im_config = config, im_confirmed = zero_snapshot, im_pending = []\<rparr>))"

definition RebindSource :: "'w RemoteRIBSource option \<Rightarrow> ('w ReadOnlyType2Importer, unit) go" where
  "RebindSource source = (case source of
     None \<Rightarrow> go_throw (errors_New ''remote RIB source required'')
   | Some src \<Rightarrow> go_modify (\<lambda>i. i\<lparr>im_source := src, im_pending := [],
       im_confirmed := (im_confirmed i)\<lparr>sn_Authoritative := False\<rparr>\<rparr>))"

text \<open>Values have no shared slices here: the deep copy is the value itself.\<close>

definition copyRemoteSnapshot :: "RemoteImportSnapshot \<Rightarrow> RemoteImportSnapshot" where
  "copyRemoteSnapshot s = s\<lparr>sn_Endpoints := map (\<lambda>ep. ep\<lparr>de_Routes := map (\<lambda>v. v\<lparr>vr_Route := (vr_Route v)
       \<lparr>dr_Labels := [] @ dr_Labels (vr_Route v), dr_RouteTargets := [] @ dr_RouteTargets (vr_Route v),
        dr_Encapsulation := [] @ dr_Encapsulation (vr_Route v)\<rparr>\<rparr>) (de_Routes ep)\<rparr>) (sn_Endpoints s),
     sn_Issues := [] @ sn_Issues s\<rparr>"

text \<open>The local variables of \<open>Poll\<close>.\<close>

record poll_state =
  po_endpoints :: "(string, DesiredRemoteEndpoint) gomap"
  po_identities :: "(string, string) gomap"
  po_macs :: "(string, string) gomap"
  po_ips :: "(string, string) gomap"
  po_quarantined :: "DecodedRemoteType2 list"
  po_issues :: "RemoteImportIssue list"

type_synonym poll_error = "go_error \<times> RemoteImportIssue list"

definition endpoint_at :: "(string, DesiredRemoteEndpoint) gomap \<Rightarrow> string \<Rightarrow> DesiredRemoteEndpoint" where
  "endpoint_at m key = (case map_of m key of
     Some ep \<Rightarrow> ep
   | None \<Rightarrow> \<lparr>de_Key = [], de_NetworkID = [], de_VNI = 0, de_MAC = [], de_IP = [], de_RemoteVTEP = [],
       de_ValidationState = [], de_Routes = []\<rparr>)"

definition ip_conflict :: "poll_state \<Rightarrow> string \<Rightarrow> string \<Rightarrow> bool" where
  "ip_conflict st ipKey key = (case map_of (po_ips st) ipKey of None \<Rightarrow> False | Some previous \<Rightarrow> previous \<noteq> key)"

text \<open>The endpoint of a validated route: the one known for its MAC, or a new one.\<close>

definition poll_endpoint :: "import_lib \<Rightarrow> poll_state \<Rightarrow> ValidatedRemoteRoute \<Rightarrow> string \<Rightarrow> string \<Rightarrow>
    poll_error + string \<times> poll_state" where
  "poll_endpoint lib st valid macKey ipKey =
    (let r = vr_Route valid; nextKey = il_hash_strings lib [vr_NetworkID valid, dr_MAC r, dr_IP r] in
     case map_of (po_macs st) macKey of
       Some key \<Rightarrow>
         (let ep = endpoint_at (po_endpoints st) key in
          if de_RemoteVTEP ep \<noteq> dr_NextHop r then Inl (errors_New ''conflicting remote VTEPs'', [])
          else if de_IP ep \<noteq> [] \<and> dr_IP r \<noteq> [] \<and> de_IP ep \<noteq> dr_IP r then Inl (errors_New ''conflicting IPv4 bindings'', [])
          else if de_IP ep = [] \<and> dr_IP r \<noteq> [] then
            (if ip_conflict st ipKey key then Inl (errors_New ''conflicting IPv4 bindings'', [])
             else Inr (nextKey, st\<lparr>po_endpoints := AList.update nextKey (ep\<lparr>de_Key := nextKey, de_IP := dr_IP r\<rparr>)
                 (AList.delete key (po_endpoints st)), po_macs := AList.update macKey nextKey (po_macs st)\<rparr>))
          else Inr (key, st))
     | None \<Rightarrow>
         if dr_IP r \<noteq> [] \<and> ip_conflict st ipKey nextKey then Inl (errors_New ''conflicting IPv4 bindings'', [])
         else Inr (nextKey, st\<lparr>po_endpoints := AList.update nextKey \<lparr>de_Key = nextKey, de_NetworkID = vr_NetworkID valid,
             de_VNI = vr_VNI valid, de_MAC = dr_MAC r, de_IP = dr_IP r, de_RemoteVTEP = dr_NextHop r,
             de_ValidationState = ''validated'', de_Routes = []\<rparr> (po_endpoints st),
           po_macs := AList.update macKey nextKey (po_macs st)\<rparr>))"

definition poll_valid :: "import_lib \<Rightarrow> poll_state \<Rightarrow> ValidatedRemoteRoute \<Rightarrow> poll_error + poll_state" where
  "poll_valid lib st valid =
    (let r = vr_Route valid; macKey = vr_NetworkID valid @ ''/'' @ dr_MAC r;
       ipKey = (if dr_IP r \<noteq> [] then vr_NetworkID valid @ ''/'' @ dr_IP r else []) in
     case poll_endpoint lib st valid macKey ipKey of
       Inl e \<Rightarrow> Inl e
     | Inr (key, st') \<Rightarrow>
         if dr_IP r \<noteq> [] \<and> ip_conflict st' ipKey key then Inl (errors_New ''conflicting IPv4 bindings'', [])
         else let ep = endpoint_at (po_endpoints st') key in
           Inr (st'\<lparr>po_ips := (if dr_IP r \<noteq> [] then AList.update ipKey key (po_ips st') else po_ips st'),
             po_endpoints := AList.update key (ep\<lparr>de_Routes := de_Routes ep @ [valid]\<rparr>) (po_endpoints st')\<rparr>))"

definition poll_path :: "import_lib \<Rightarrow> RemoteImportConfig \<Rightarrow> poll_state \<Rightarrow> api_path option \<Rightarrow> poll_error + poll_state" where
  "poll_path lib c st path = (case DecodeRemoteType2 lib path of
     (Inl e, r) \<Rightarrow> Inl (Errorf ''invalid raw BGP path: %w'' [e], [\<lparr>is_PathKey = pi_Key (dr_Source r), is_Reason = e\<rparr>])
   | (Inr _, r) \<Rightarrow>
       if dr_Classification r = ''local'' \<or> dr_Classification r = ''withdrawn'' then Inr st
       else if dr_Stale r \<or> dr_Filtered r \<or> dr_NexthopInvalid r
       then Inl (errors_New ''remote path validity uncertain'', [])
       else let key = pi_Key (dr_Source r) in
         case map_of (po_identities st) key of
           Some previous \<Rightarrow>
             if previous \<noteq> dr_AttributeKey r
             then Inl (errors_New ''conflicting payloads for the same remote path identity'', []) else Inr st
         | None \<Rightarrow>
             let st1 = st\<lparr>po_identities := AList.update key (dr_AttributeKey r) (po_identities st)\<rparr> in
             case ValidateRoute (il_bgp lib) c r of
               Inl e \<Rightarrow> Inr (st1\<lparr>po_issues := po_issues st1 @ [\<lparr>is_PathKey = key, is_Reason = e\<rparr>],
                   po_quarantined := po_quarantined st1 @ [r]\<rparr>)
             | Inr valid \<Rightarrow> poll_valid lib st1 valid)"

fun poll_paths :: "import_lib \<Rightarrow> RemoteImportConfig \<Rightarrow> poll_state \<Rightarrow> api_path option list \<Rightarrow> poll_error + poll_state" where
  "poll_paths lib c st [] = Inr st"
| "poll_paths lib c st (path # paths) = (case poll_path lib c st path of
     Inl e \<Rightarrow> Inl e | Inr st' \<Rightarrow> poll_paths lib c st' paths)"

definition overlap :: "RemoteImportNetwork \<Rightarrow> DecodedRemoteType2 \<Rightarrow> DesiredRemoteEndpoint \<Rightarrow> bool" where
  "overlap network r ep \<longleftrightarrow> de_NetworkID ep = rn_NetworkID network \<and>
     (de_MAC ep = dr_MAC r \<or> (dr_IP r \<noteq> [] \<and> de_IP ep = dr_IP r))"

text \<open>The values of a map in the order of its keys; only whether one overlaps matters.\<close>

definition map_values :: "('k :: linorder, 'v) gomap \<Rightarrow> 'v list" where
  "map_values m = List.map_filter (map_of m) (map_keys m)"

fun quarantine_conflict :: "RemoteImportConfig \<Rightarrow> DesiredRemoteEndpoint list \<Rightarrow> DesiredRemoteEndpoint list \<Rightarrow>
    (DecodedRemoteType2 \<times> RemoteImportNetwork) list \<Rightarrow> go_error option" where
  "quarantine_conflict c eps confirmed [] = None"
| "quarantine_conflict c eps confirmed ((r, network) # rest) =
    (if dr_Labels r = [] \<or> rn_VNI network \<noteq> hd (dr_Labels r) then quarantine_conflict c eps confirmed rest
     else if list_ex (overlap network r) eps
     then Some (errors_New ''quarantined route conflicts with validated endpoint'')
     else if list_ex (overlap network r) confirmed
     then Some (errors_New ''quarantined route conflicts with confirmed endpoint'')
     else quarantine_conflict c eps confirmed rest)"

definition issue_order :: "RemoteImportIssue \<Rightarrow> string \<times> string" where
  "issue_order i = (is_PathKey i, Error (is_Reason i))"

definition next_snapshot :: "poll_state \<Rightarrow> RemoteImportSnapshot" where
  "next_snapshot st = \<lparr>sn_Authoritative = False, sn_Generation = 0,
     sn_Endpoints = map (\<lambda>ep. ep\<lparr>de_Routes := sort_key (\<lambda>v. pi_Key (dr_Source (vr_Route v))) (de_Routes ep)\<rparr>)
       (map_values (po_endpoints st)),
     sn_Issues = sort_key issue_order (po_issues st)\<rparr>"

definition empty_poll :: poll_state where
  "empty_poll = \<lparr>po_endpoints = [], po_identities = [], po_macs = [], po_ips = [], po_quarantined = [], po_issues = []\<rparr>"

text \<open>What one complete listing says, or why it cannot be trusted.\<close>

definition observe_paths :: "import_lib \<Rightarrow> RemoteImportConfig \<Rightarrow> RemoteImportSnapshot \<Rightarrow> api_path option list \<Rightarrow>
    poll_error + RemoteImportSnapshot" where
  "observe_paths lib c confirmed paths = (case poll_paths lib c empty_poll paths of
     Inl e \<Rightarrow> Inl e
   | Inr st \<Rightarrow>
       (case quarantine_conflict c (map_values (po_endpoints st)) (sn_Endpoints confirmed)
           (List.product (po_quarantined st) (ic_Networks c)) of
          Some e \<Rightarrow> Inl (e, po_issues st)
        | None \<Rightarrow> Inr (next_snapshot st)))"

definition uncertain :: "poll_error \<Rightarrow> 'w ReadOnlyType2Importer \<Rightarrow>
    (RemoteImportSnapshot \<times> go_error option) \<times> 'w ReadOnlyType2Importer" where
  "uncertain e i = (let s = copyRemoteSnapshot (im_confirmed i) in
     ((s\<lparr>sn_Authoritative := False, sn_Issues := sn_Issues s @ snd e\<rparr>, Some (fst e)), i\<lparr>im_pending := []\<rparr>))"

text \<open>Publish an observation that equals the previous one.\<close>

definition publish :: "import_lib \<Rightarrow> RemoteImportSnapshot \<Rightarrow> 'w ReadOnlyType2Importer \<Rightarrow>
    (RemoteImportSnapshot \<times> go_error option) \<times> 'w ReadOnlyType2Importer" where
  "publish lib nxt i =
    (let key = il_hash_snapshot lib nxt in
     if im_pending i \<noteq> key then
       (((copyRemoteSnapshot (im_confirmed i))\<lparr>sn_Authoritative := False, sn_Issues := sn_Issues nxt\<rparr>, None),
        i\<lparr>im_pending := key\<rparr>)
     else
       let comparison = (copyRemoteSnapshot (im_confirmed i))\<lparr>sn_Authoritative := False, sn_Generation := 0\<rparr>;
         generation = (if il_hash_snapshot lib comparison \<noteq> key then sn_Generation (im_confirmed i) + 1
           else sn_Generation (im_confirmed i));
         final = nxt\<lparr>sn_Generation := generation, sn_Authoritative := True\<rparr> in
       ((copyRemoteSnapshot final, None), i\<lparr>im_confirmed := final\<rparr>))"

definition Poll :: "import_lib \<Rightarrow> 'w Context \<Rightarrow> 'w ReadOnlyType2Importer \<times> 'w \<Rightarrow>
    (RemoteImportSnapshot \<times> go_error option) \<times> ('w ReadOnlyType2Importer \<times> 'w)" where
  "Poll lib ctx = (\<lambda>(i, w). case rs_ReadRemoteRIB (im_source i) ctx w of
     (Inl e, w1) \<Rightarrow> (case uncertain (e, []) i of (r, i') \<Rightarrow> (r, (i', w1)))
   | (Inr raw, w1) \<Rightarrow>
       (case (if rib_Complete raw then ctx w1 else (Inl (errors_New ''incomplete''), w1)) of
          (Inl _, w2) \<Rightarrow> (case uncertain (errors_New ''incomplete/cancelled RIB observation'', []) i of (r, i') \<Rightarrow> (r, (i', w2)))
        | (Inr _, w2) \<Rightarrow>
            (case (case observe_paths lib (im_config i) (im_confirmed i) (rib_Paths raw) of
                Inl e \<Rightarrow> uncertain e i | Inr nxt \<Rightarrow> publish lib nxt i) of
               (r, i') \<Rightarrow> (r, (i', w2)))))"

end
