(* ===== verification/Remote_Import_Properties.thy ===== *)
theory Remote_Import_Properties
  imports Remote_Import
begin

text \<open>
  What the importer publishes: endpoints that are free of conflicts and backed by validated
  routes, only after two equal consecutive observations, and the confirmed ones in every doubtful
  case.
\<close>

section \<open>Keys that cannot be confused\<close>

lemma append_sep_inj:
  assumes "a @ c # x = b @ c # y" and "c \<notin> set x" and "c \<notin> set y"
  shows "a = b \<and> x = y"
proof -
  have "rev x @ c # rev a = rev y @ c # rev b"
    using arg_cong [OF assms(1), of rev] by simp
  moreover have "takeWhile (\<lambda>z. z \<noteq> c) (u @ c # v) = u" if "c \<notin> set u" for u v
    using that by (induction u) auto
  ultimately have "rev x = rev y"
    using assms(2,3) by (metis set_rev)
  with assms(1) show ?thesis by simp
qed

lemma number_from_digit_chars:
  "number_from dig base acc s = Some n \<Longrightarrow> c \<in> set s \<Longrightarrow> dig c \<noteq> None"
  by (induction s arbitrary: acc) (auto split: option.splits)

lemma split_on_set: "c \<in> set s \<Longrightarrow> c = d \<or> (\<exists>p \<in> set (split_on d s). c \<in> set p)"
  by (induction s) (auto split: list.splits if_splits)

lemma xtoi2_chars: "xtoi2 a b = Some x \<Longrightarrow> hex_digit a \<noteq> None \<and> hex_digit b \<noteq> None"
  by (auto simp: xtoi2_def parse_hex_def split: option.splits)

lemma mac_pairs_chars: "mac_pairs sep s = Some m \<Longrightarrow> c \<in> set s \<Longrightarrow> c = sep \<or> hex_digit c \<noteq> None"
  by (induction sep s arbitrary: m rule: mac_pairs.induct) (auto dest!: xtoi2_chars split: if_splits option.splits)

lemma mac_quads_chars: "mac_quads s = Some m \<Longrightarrow> c \<in> set s \<Longrightarrow> c = CHR ''.'' \<or> hex_digit c \<noteq> None"
  by (induction s arbitrary: m rule: mac_quads.induct) (auto dest!: xtoi2_chars split: if_splits option.splits)

lemma slash_no_digit: "hex_digit CHR ''/'' = None" "digit CHR ''/'' = None"
  by (simp_all add: hex_digit_def digit_def)

lemma ParseMAC_no_slash: "ParseMAC s = Some m \<Longrightarrow> CHR ''/'' \<notin> set s"
  using slash_no_digit
  by (auto simp: ParseMAC_def split: if_splits dest!: mac_pairs_chars [where c = "CHR ''/''"] mac_quads_chars [where c = "CHR ''/''"])

lemma octet_chars: "octet s = Some b \<Longrightarrow> c \<in> set s \<Longrightarrow> digit c \<noteq> None"
  by (auto simp: octet_def parse_decimal_def dest!: number_from_digit_chars split: option.splits if_splits)

lemma parseIPv4_no_slash:
  assumes "parseIPv4 s = Some a"
  shows "CHR ''/'' \<notin> set s"
proof
  assume "CHR ''/'' \<in> set s"
  then obtain p where p: "p \<in> set (split_on CHR ''.'' s)" "CHR ''/'' \<in> set p"
    using split_on_set [of "CHR ''/''" s "CHR ''.''"] by auto
  from assms have "\<forall>o1 \<in> set (map octet (split_on CHR ''.'' s)). o1 \<noteq> None"
    by (auto split: list.splits option.splits)
  with p octet_chars slash_no_digit show False by fastforce
qed

lemma parseIPv6_not_4: "parseIPv6 s = Some a \<Longrightarrow> \<not> Is4 a"
  by (auto simp: parseIPv6_def Let_def Is4_def split: if_splits)

lemma unicastIPv4_no_slash: "unicastIPv4 s \<Longrightarrow> CHR ''/'' \<notin> set s"
  using parseIPv4_no_slash parseIPv6_not_4
  by (auto simp: unicastIPv4_def ParseAddr_def simp del: parseIPv4.simps split: option.splits if_splits)

section \<open>Endpoints are free of conflicts\<close>

text \<open>A route that backs an endpoint.\<close>

definition backs :: "bgp_lib \<Rightarrow> RemoteImportConfig \<Rightarrow> DesiredRemoteEndpoint \<Rightarrow> ValidatedRemoteRoute \<Rightarrow> bool" where
  "backs bgp c ep v \<longleftrightarrow> ValidateRoute bgp c (vr_Route v) = Inr v \<and> vr_NetworkID v = de_NetworkID ep \<and>
     dr_MAC (vr_Route v) = de_MAC ep \<and> dr_NextHop (vr_Route v) = de_RemoteVTEP ep \<and>
     (dr_IP (vr_Route v) = [] \<or> dr_IP (vr_Route v) = de_IP ep)"

definition mac_key :: "DesiredRemoteEndpoint \<Rightarrow> string" where
  "mac_key ep = de_NetworkID ep @ ''/'' @ de_MAC ep"

definition ip_key :: "DesiredRemoteEndpoint \<Rightarrow> string" where
  "ip_key ep = de_NetworkID ep @ ''/'' @ de_IP ep"

definition endpoint_ok :: "import_lib \<Rightarrow> RemoteImportConfig \<Rightarrow> DesiredRemoteEndpoint \<Rightarrow> bool" where
  "endpoint_ok lib c ep \<longleftrightarrow> de_Key ep = il_hash_strings lib [de_NetworkID ep, de_MAC ep, de_IP ep] \<and>
     CHR ''/'' \<notin> set (de_MAC ep) \<and> CHR ''/'' \<notin> set (de_IP ep) \<and>
     (de_NetworkID ep, de_VNI ep) \<in> (\<lambda>n. (rn_NetworkID n, rn_VNI n)) ` set (ic_Networks c) \<and> list_all (backs (il_bgp lib) c ep) (de_Routes ep)"

text \<open>The three maps of \<open>Poll\<close> agree.\<close>

definition indexed :: "import_lib \<Rightarrow> RemoteImportConfig \<Rightarrow> (string \<rightharpoonup> DesiredRemoteEndpoint) \<Rightarrow>
    (string \<rightharpoonup> string) \<Rightarrow> (string \<rightharpoonup> string) \<Rightarrow> bool" where
  "indexed lib c E M P \<longleftrightarrow>
     (\<forall>key ep. E key = Some ep \<longrightarrow> de_Key ep = key \<and> endpoint_ok lib c ep \<and> M (mac_key ep) = Some key \<and>
        (de_IP ep \<noteq> [] \<longrightarrow> P (ip_key ep) = Some key)) \<and>
     (\<forall>k key. M k = Some key \<longrightarrow> (\<exists>ep. E key = Some ep \<and> k = mac_key ep)) \<and>
     (\<forall>k key. P k = Some key \<longrightarrow> (\<exists>ep. E key = Some ep \<and> de_IP ep \<noteq> [] \<and> k = ip_key ep))"

lemma indexedI:
  assumes "\<And>key ep. E key = Some ep \<Longrightarrow> de_Key ep = key \<and> endpoint_ok lib c ep \<and> M (mac_key ep) = Some key \<and>
      (de_IP ep \<noteq> [] \<longrightarrow> P (ip_key ep) = Some key)"
    and "\<And>k key. M k = Some key \<Longrightarrow> \<exists>ep. E key = Some ep \<and> k = mac_key ep"
    and "\<And>k key. P k = Some key \<Longrightarrow> \<exists>ep. E key = Some ep \<and> de_IP ep \<noteq> [] \<and> k = ip_key ep"
  shows "indexed lib c E M P"
  unfolding indexed_def using assms by simp

lemma indexedD:
  assumes "indexed lib c E M P"
  shows "E key = Some ep \<Longrightarrow> de_Key ep = key \<and> endpoint_ok lib c ep \<and> M (mac_key ep) = Some key"
    and "E key = Some ep \<Longrightarrow> de_IP ep \<noteq> [] \<Longrightarrow> P (ip_key ep) = Some key"
    and "M k = Some key \<Longrightarrow> \<exists>ep. E key = Some ep \<and> k = mac_key ep"
    and "P k = Some key \<Longrightarrow> \<exists>ep. E key = Some ep \<and> de_IP ep \<noteq> [] \<and> k = ip_key ep"
  using assms [unfolded indexed_def, THEN conjunct1, rule_format, of key ep]
    assms [unfolded indexed_def, THEN conjunct2, THEN conjunct1, rule_format, of k key]
    assms [unfolded indexed_def, THEN conjunct2, THEN conjunct2, rule_format, of k key] by simp_all

text \<open>A new endpoint for a MAC and an address that are not yet known.\<close>

lemma indexed_new:
  assumes ix: "indexed lib c E M P" and ok: "endpoint_ok lib c ep" and key: "de_Key ep = key"
    and fresh: "M (mac_key ep) = None" "E key = None" and ip: "de_IP ep \<noteq> [] \<Longrightarrow> P (ip_key ep) = None"
  shows "indexed lib c (E(key \<mapsto> ep)) (M(mac_key ep \<mapsto> key)) (if de_IP ep \<noteq> [] then P(ip_key ep \<mapsto> key) else P)"
proof (rule indexedI)
  fix k1 e1 assume "(E(key \<mapsto> ep)) k1 = Some e1"
  then consider "k1 = key" "e1 = ep" | "k1 \<noteq> key" "E k1 = Some e1" by (auto split: if_splits)
  then show "de_Key e1 = k1 \<and> endpoint_ok lib c e1 \<and> (M(mac_key ep \<mapsto> key)) (mac_key e1) = Some k1 \<and>
    (de_IP e1 \<noteq> [] \<longrightarrow> (if de_IP ep \<noteq> [] then P(ip_key ep \<mapsto> key) else P) (ip_key e1) = Some k1)"
  proof cases
    case 1
    with ok key show ?thesis by simp
  next
    case 2
    from indexedD(1) [OF ix 2(2)] indexedD(2) [OF ix 2(2)] fresh(1) ip show ?thesis by auto
  qed
next
  fix k k1 assume "(M(mac_key ep \<mapsto> key)) k = Some k1"
  then show "\<exists>e1. (E(key \<mapsto> ep)) k1 = Some e1 \<and> k = mac_key e1"
    using indexedD(3) [OF ix, of k k1] fresh(2) by (auto split: if_splits)
next
  fix k k1 assume "(if de_IP ep \<noteq> [] then P(ip_key ep \<mapsto> key) else P) k = Some k1"
  then show "\<exists>e1. (E(key \<mapsto> ep)) k1 = Some e1 \<and> de_IP e1 \<noteq> [] \<and> k = ip_key e1"
    using indexedD(4) [OF ix, of k k1] fresh(2) by (auto split: if_splits)
qed

text \<open>One more route for a known endpoint.\<close>

lemma indexed_route:
  assumes "indexed lib c E M P" and "E key = Some ep" and "backs (il_bgp lib) c ep v"
  shows "indexed lib c (E(key \<mapsto> ep\<lparr>de_Routes := de_Routes ep @ [v]\<rparr>)) M P"
proof -
  let ?ep = "ep\<lparr>de_Routes := de_Routes ep @ [v]\<rparr>"
  have "endpoint_ok lib c (ep\<lparr>de_Routes := de_Routes ep @ [v]\<rparr>)"
    using indexedD(1) [OF assms(1,2)] assms(3) by (auto simp: endpoint_ok_def backs_def list_all_iff)
  moreover have "mac_key (ep\<lparr>de_Routes := rs\<rparr>) = mac_key ep" "ip_key (ep\<lparr>de_Routes := rs\<rparr>) = ip_key ep" for rs
    by (simp_all add: mac_key_def ip_key_def)
  ultimately have new: "de_Key ?ep = key \<and> endpoint_ok lib c ?ep \<and> M (mac_key ?ep) = Some key \<and>
      (de_IP ?ep \<noteq> [] \<longrightarrow> P (ip_key ?ep) = Some key)" "mac_key ?ep = mac_key ep" "ip_key ?ep = ip_key ep"
    using indexedD(1,2) [OF assms(1,2)] by simp_all
  show ?thesis
  proof (rule indexedI)
    fix k1 e1 assume "(E(key \<mapsto> ?ep)) k1 = Some e1"
    with new(1) indexedD(1,2) [OF assms(1), of k1 e1]
    show "de_Key e1 = k1 \<and> endpoint_ok lib c e1 \<and> M (mac_key e1) = Some k1 \<and> (de_IP e1 \<noteq> [] \<longrightarrow> P (ip_key e1) = Some k1)"
      by (cases "k1 = key") auto
  next
    fix k k1 assume "M k = Some k1"
    with indexedD(3) [OF assms(1), of k k1] assms(2) new(2)
    show "\<exists>e1. (E(key \<mapsto> ?ep)) k1 = Some e1 \<and> k = mac_key e1" by (cases "k1 = key") auto
  next
    fix k k1 assume "P k = Some k1"
    with indexedD(4) [OF assms(1), of k k1] assms(2) new(3)
    show "\<exists>e1. (E(key \<mapsto> ?ep)) k1 = Some e1 \<and> de_IP e1 \<noteq> [] \<and> k = ip_key e1" by (cases "k1 = key") auto
  qed
qed

text \<open>Removing an endpoint without address, to add it again with one.\<close>

lemma indexed_remove:
  assumes ix: "indexed lib c E M P" and ep: "E key = Some ep" and "de_IP ep = []"
  shows "indexed lib c (E(key := None)) (M(mac_key ep := None)) P"
proof -
  have "M (mac_key e1) \<noteq> M (mac_key ep)" if "E k1 = Some e1" "k1 \<noteq> key" for k1 e1
    using indexedD(1) [OF ix that(1)] indexedD(1) [OF ix ep] that(2) by simp
  then have other: "mac_key e1 \<noteq> mac_key ep" if "E k1 = Some e1" "k1 \<noteq> key" for k1 e1
    using that by metis
  show ?thesis
  proof (rule indexedI)
    fix k1 e1 assume "(E(key := None)) k1 = Some e1"
    then have "E k1 = Some e1" "k1 \<noteq> key" by (auto split: if_splits)
    with indexedD(1,2) [OF ix, of k1 e1] other [of k1 e1] show "de_Key e1 = k1 \<and> endpoint_ok lib c e1 \<and>
      (M(mac_key ep := None)) (mac_key e1) = Some k1 \<and> (de_IP e1 \<noteq> [] \<longrightarrow> P (ip_key e1) = Some k1)" by auto
  next
    fix k k1 assume "(M(mac_key ep := None)) k = Some k1"
    then show "\<exists>e1. (E(key := None)) k1 = Some e1 \<and> k = mac_key e1"
      using indexedD(3) [OF ix, of k k1] ep by (auto split: if_splits)
  next
    fix k k1 assume "P k = Some k1"
    then show "\<exists>e1. (E(key := None)) k1 = Some e1 \<and> de_IP e1 \<noteq> [] \<and> k = ip_key e1"
      using indexedD(4) [OF ix, of k k1] ep assms(3) by auto
  qed
qed

section \<open>Polling keeps the index\<close>

lemma import_network_Inr:
  "import_network r ns = Inr v \<Longrightarrow> vr_Route v = r \<and>
    (\<exists>n \<in> set ns. rn_NetworkID n = vr_NetworkID v \<and> rn_VNI n = vr_VNI v \<and> rn_VNI n = hd (dr_Labels r) \<and>
       dr_NextHop r \<in> set (rn_AllowedVTEPs n) \<and> set (rn_ImportRouteTargets n) \<inter> set (dr_RouteTargets r) \<noteq> {})"
  by (induction ns) (auto simp: containsRemote_def list_ex_iff split: if_splits)

lemma ValidateRoute_Inr:
  assumes "ValidateRoute bgp c r = Inr v"
  shows "vr_Route v = r" and "CHR ''/'' \<notin> set (dr_MAC r)" and "CHR ''/'' \<notin> set (dr_IP r)"
    and "(vr_NetworkID v, vr_VNI v) \<in> (\<lambda>n. (rn_NetworkID n, rn_VNI n)) ` set (ic_Networks c)"
proof -
  have f: "remote_fields_ok bgp c r = Inr ()" and n: "import_network r (ic_Networks c) = Inr v"
    using assms by (auto simp: ValidateRoute_def sum_bind_Inr_iff)
  from import_network_Inr [OF n] obtain net where net: "vr_Route v = r" "net \<in> set (ic_Networks c)"
    "rn_NetworkID net = vr_NetworkID v" "rn_VNI net = vr_VNI v" by blast
  then show "vr_Route v = r" by simp
  show "(vr_NetworkID v, vr_VNI v) \<in> (\<lambda>n. (rn_NetworkID n, rn_VNI n)) ` set (ic_Networks c)"
    using net by (intro image_eqI [of _ _ net]) simp_all
  from f have "\<exists>m. ParseMAC (dr_MAC r) = Some m" "dr_IP r = [] \<or> unicastIPv4 (dr_IP r)"
    by (auto simp: remote_fields_ok_def split: if_splits option.splits)
  with ParseMAC_no_slash unicastIPv4_no_slash show "CHR ''/'' \<notin> set (dr_MAC r)" "CHR ''/'' \<notin> set (dr_IP r)" by auto
qed

text \<open>The endpoint that \<open>poll_endpoint\<close> selects for a validated route.\<close>

definition selected :: "import_lib \<Rightarrow> RemoteImportConfig \<Rightarrow> ValidatedRemoteRoute \<Rightarrow> string \<Rightarrow> poll_state \<Rightarrow> bool" where
  "selected lib c v key st \<longleftrightarrow> (\<exists>ep. map_of (po_endpoints st) key = Some ep \<and> backs (il_bgp lib) c ep v \<and>
     indexed lib c (map_of (po_endpoints st)) (map_of (po_macs st))
       (if dr_IP (vr_Route v) \<noteq> [] then (map_of (po_ips st))(vr_NetworkID v @ ''/'' @ dr_IP (vr_Route v) \<mapsto> key)
        else map_of (po_ips st)))"

abbreviation poll_ok :: "import_lib \<Rightarrow> RemoteImportConfig \<Rightarrow> poll_state \<Rightarrow> bool" where
  "poll_ok lib c st \<equiv> indexed lib c (map_of (po_endpoints st)) (map_of (po_macs st)) (map_of (po_ips st))"

lemma selected_new:
  assumes ix: "indexed lib c E M (map_of (po_ips st))" and hash: "inj (il_hash_strings lib)"
    and v: "ValidateRoute (il_bgp lib) c (vr_Route v) = Inr v"
    and ep: "de_Key ep = il_hash_strings lib [vr_NetworkID v, dr_MAC (vr_Route v), dr_IP (vr_Route v)]"
      "de_NetworkID ep = vr_NetworkID v" "de_MAC ep = dr_MAC (vr_Route v)" "de_IP ep = dr_IP (vr_Route v)"
      "de_RemoteVTEP ep = dr_NextHop (vr_Route v)" "list_all (backs (il_bgp lib) c ep) (de_Routes ep)"
      "(de_NetworkID ep, de_VNI ep) \<in> (\<lambda>n. (rn_NetworkID n, rn_VNI n)) ` set (ic_Networks c)"
    and fresh: "M (mac_key ep) = None" "de_IP ep \<noteq> [] \<Longrightarrow> map_of (po_ips st) (ip_key ep) = None"
    and st: "map_of (po_endpoints st) = E(de_Key ep \<mapsto> ep)" "map_of (po_macs st) = M(mac_key ep \<mapsto> de_Key ep)"
  shows "selected lib c v (de_Key ep) st"
proof -
  have ok: "endpoint_ok lib c ep"
    using ValidateRoute_Inr [OF v] ep by (simp add: endpoint_ok_def)
  have "E (de_Key ep) = None"
  proof (cases "E (de_Key ep)")
    case (Some e1)
    have "il_hash_strings lib [de_NetworkID e1, de_MAC e1, de_IP e1] = il_hash_strings lib
        [vr_NetworkID v, dr_MAC (vr_Route v), dr_IP (vr_Route v)]"
      using indexedD(1) [OF ix Some] ep(1) unfolding endpoint_ok_def by metis
    then have "mac_key e1 = mac_key ep" using ep(2,3) unfolding inj_eq [OF hash] by (simp add: mac_key_def)
    with indexedD(1) [OF ix Some] fresh(1) show ?thesis by simp
  qed simp
  note new = indexed_new [OF ix ok refl fresh(1) this fresh(2)]
  have ipk: "ip_key ep = vr_NetworkID v @ ''/'' @ dr_IP (vr_Route v)" using ep by (simp add: ip_key_def)
  have "indexed lib c (map_of (po_endpoints st)) (map_of (po_macs st))
    (if dr_IP (vr_Route v) \<noteq> [] then (map_of (po_ips st))(vr_NetworkID v @ ''/'' @ dr_IP (vr_Route v) \<mapsto> de_Key ep)
     else map_of (po_ips st))"
    using new unfolding st ipk ep(4) .
  moreover have "backs (il_bgp lib) c ep v" using v ep by (simp add: backs_def)
  ultimately show ?thesis unfolding selected_def st(1) by auto
qed

lemma selected_known:
  assumes ix: "poll_ok lib c st" and v: "ValidateRoute (il_bgp lib) c (vr_Route v) = Inr v"
    and ep: "map_of (po_endpoints st) key = Some ep" "de_NetworkID ep = vr_NetworkID v" "de_MAC ep = dr_MAC (vr_Route v)"
      "de_RemoteVTEP ep = dr_NextHop (vr_Route v)" "dr_IP (vr_Route v) = [] \<or> de_IP ep = dr_IP (vr_Route v)"
  shows "selected lib c v key st"
proof -
  have "dr_IP (vr_Route v) \<noteq> [] \<Longrightarrow> (map_of (po_ips st))(vr_NetworkID v @ ''/'' @ dr_IP (vr_Route v) \<mapsto> key) = map_of (po_ips st)"
    using indexedD(2) [OF ix ep(1)] ep(2,5) by (auto simp: ip_key_def fun_eq_iff)
  moreover have "backs (il_bgp lib) c ep v" using v ep by (auto simp: backs_def)
  ultimately show ?thesis using ix ep(1) unfolding selected_def by auto
qed

lemma poll_endpoint_selects:
  assumes ix: "poll_ok lib c st" and hash: "inj (il_hash_strings lib)"
    and v: "ValidateRoute (il_bgp lib) c (vr_Route v) = Inr v"
    and run: "poll_endpoint lib st v (vr_NetworkID v @ ''/'' @ dr_MAC (vr_Route v))
      (if dr_IP (vr_Route v) \<noteq> [] then vr_NetworkID v @ ''/'' @ dr_IP (vr_Route v) else []) = Inr (key, st')"
  shows "selected lib c v key st'"
proof (cases "map_of (po_macs st) (vr_NetworkID v @ ''/'' @ dr_MAC (vr_Route v))")
  case (Some key0)
  obtain ep where ep: "map_of (po_endpoints st) key0 = Some ep" "vr_NetworkID v @ ''/'' @ dr_MAC (vr_Route v) = mac_key ep"
    using indexedD(3) [OF ix Some] by blast
  have okep: "endpoint_ok lib c ep" using indexedD(1) [OF ix ep(1)] by simp
  have same: "de_NetworkID ep = vr_NetworkID v" "de_MAC ep = dr_MAC (vr_Route v)"
    using append_sep_inj [of "vr_NetworkID v" "CHR ''/''" "dr_MAC (vr_Route v)" "de_NetworkID ep" "de_MAC ep"]
      ep(2) ValidateRoute_Inr(2) [OF v] okep by (auto simp: mac_key_def endpoint_ok_def)
  have vtep: "de_RemoteVTEP ep = dr_NextHop (vr_Route v)"
    using run Some ep(1) by (auto simp: poll_endpoint_def Let_def endpoint_at_def split: if_splits)
  show ?thesis
  proof (cases "de_IP ep = [] \<and> dr_IP (vr_Route v) \<noteq> []")
    case False
    with run Some ep(1) vtep have "key = key0" "st' = st" "dr_IP (vr_Route v) = [] \<or> de_IP ep = dr_IP (vr_Route v)"
      by (auto simp: poll_endpoint_def Let_def endpoint_at_def split: if_splits)
    with selected_known [OF ix v ep(1) same vtep] show ?thesis by simp
  next
    case True
    let ?key = "il_hash_strings lib [vr_NetworkID v, dr_MAC (vr_Route v), dr_IP (vr_Route v)]"
    let ?ep = "ep\<lparr>de_Key := ?key, de_IP := dr_IP (vr_Route v)\<rparr>"
    from run Some ep(1) vtep True have key: "key = ?key"
      and st': "st' = st\<lparr>po_endpoints := AList.update ?key ?ep (AList.delete key0 (po_endpoints st)),
        po_macs := AList.update (mac_key ep) ?key (po_macs st)\<rparr>"
      and free: "\<not> ip_conflict st (vr_NetworkID v @ ''/'' @ dr_IP (vr_Route v)) key0"
      unfolding ep(2) by (auto simp: poll_endpoint_def Let_def endpoint_at_def split: if_splits)
    have "map_of (po_ips st) (ip_key ?ep) = None"
    proof (cases "map_of (po_ips st) (ip_key ?ep)")
      case (Some k)
      with free same have "k = key0" by (auto simp: ip_conflict_def ip_key_def)
      with indexedD(4) [OF ix Some] ep(1) True show ?thesis by auto
    qed simp
    moreover have "indexed lib c ((map_of (po_endpoints st))(key0 := None)) ((map_of (po_macs st))(mac_key ep := None))
      (map_of (po_ips st'))"
      using indexed_remove [OF ix ep(1)] True by (simp add: st')
    moreover have "mac_key ?ep = mac_key ep" by (simp add: mac_key_def)
    ultimately have "selected lib c v (de_Key ?ep) st'"
      by (intro selected_new [OF _ hash v, where E = "(map_of (po_endpoints st))(key0 := None)"
            and M = "(map_of (po_macs st))(mac_key ep := None)"])
        (use okep same vtep True in \<open>auto simp: st' endpoint_ok_def backs_def list_all_iff\<close>)
    with key show ?thesis by simp
  qed
next
  case None
  let ?key = "il_hash_strings lib [vr_NetworkID v, dr_MAC (vr_Route v), dr_IP (vr_Route v)]"
  let ?ep = "\<lparr>de_Key = ?key, de_NetworkID = vr_NetworkID v, de_VNI = vr_VNI v, de_MAC = dr_MAC (vr_Route v),
    de_IP = dr_IP (vr_Route v), de_RemoteVTEP = dr_NextHop (vr_Route v), de_ValidationState = ''validated'', de_Routes = []\<rparr>"
  have mk: "mac_key ?ep = vr_NetworkID v @ ''/'' @ dr_MAC (vr_Route v)" "ip_key ?ep = vr_NetworkID v @ ''/'' @ dr_IP (vr_Route v)"
    by (simp_all add: mac_key_def ip_key_def)
  from run None have key: "key = ?key"
    and st': "st' = st\<lparr>po_endpoints := AList.update ?key ?ep (po_endpoints st), po_macs := AList.update (mac_key ?ep) ?key (po_macs st)\<rparr>"
    and free: "dr_IP (vr_Route v) \<noteq> [] \<Longrightarrow> \<not> ip_conflict st (ip_key ?ep) ?key"
    unfolding mk by (auto simp: poll_endpoint_def Let_def split: if_splits)
  have ip: "map_of (po_ips st) (ip_key ?ep) = None" if "dr_IP (vr_Route v) \<noteq> []"
  proof (cases "map_of (po_ips st) (ip_key ?ep)")
    case (Some k)
    with free [OF that] have k: "k = ?key" by (simp add: ip_conflict_def)
    obtain e1 where e1: "map_of (po_endpoints st) ?key = Some e1" using indexedD(4) [OF ix Some] k by blast
    then have "il_hash_strings lib [de_NetworkID e1, de_MAC e1, de_IP e1] = ?key"
      using indexedD(1) [OF ix e1] unfolding endpoint_ok_def by metis
    then have "mac_key e1 = mac_key ?ep" unfolding inj_eq [OF hash] by (simp add: mac_key_def)
    with indexedD(1) [OF ix e1] None mk(1) show ?thesis by simp
  qed simp
  have "selected lib c v (de_Key ?ep) st'"
    by (rule selected_new [where E = "map_of (po_endpoints st)" and M = "map_of (po_macs st)"])
      (use ix hash v None ip ValidateRoute_Inr(4) [OF v] mk in \<open>simp_all add: st'\<close>)
  with key show ?thesis by simp
qed

lemma poll_valid_ok:
  assumes "poll_ok lib c st" and "inj (il_hash_strings lib)" and "ValidateRoute (il_bgp lib) c (vr_Route v) = Inr v"
    and "poll_valid lib st v = Inr st'"
  shows "poll_ok lib c st'"
proof -
  from assms(4) obtain key st1 where run: "poll_endpoint lib st v (vr_NetworkID v @ ''/'' @ dr_MAC (vr_Route v))
      (if dr_IP (vr_Route v) \<noteq> [] then vr_NetworkID v @ ''/'' @ dr_IP (vr_Route v) else []) = Inr (key, st1)"
    and st': "st' = st1\<lparr>po_ips := (if dr_IP (vr_Route v) \<noteq> [] then AList.update (vr_NetworkID v @ ''/'' @ dr_IP (vr_Route v)) key (po_ips st1)
        else po_ips st1), po_endpoints := AList.update key ((endpoint_at (po_endpoints st1) key)
        \<lparr>de_Routes := de_Routes (endpoint_at (po_endpoints st1) key) @ [v]\<rparr>) (po_endpoints st1)\<rparr>"
    by (auto simp: poll_valid_def Let_def split: sum.splits if_splits)
  from poll_endpoint_selects [OF assms(1-3) run] obtain ep where "map_of (po_endpoints st1) key = Some ep"
    "backs (il_bgp lib) c ep v" "indexed lib c (map_of (po_endpoints st1)) (map_of (po_macs st1))
       (if dr_IP (vr_Route v) \<noteq> [] then (map_of (po_ips st1))(vr_NetworkID v @ ''/'' @ dr_IP (vr_Route v) \<mapsto> key)
        else map_of (po_ips st1))"
    unfolding selected_def by blast
  from indexed_route [OF this(3,1,2)] this(1) show ?thesis
    by (simp add: st' endpoint_at_def split: if_splits)
qed

lemma poll_path_cases:
  assumes "poll_path lib c st path = Inr st'"
  obtains "po_endpoints st' = po_endpoints st" "po_macs st' = po_macs st" "po_ips st' = po_ips st"
  | v ids where "ValidateRoute (il_bgp lib) c (vr_Route v) = Inr v" "poll_valid lib (st\<lparr>po_identities := ids\<rparr>) v = Inr st'"
proof -
  obtain res r where dec: "DecodeRemoteType2 lib path = (res, r)" by (cases "DecodeRemoteType2 lib path")
  show thesis
  proof (cases "ValidateRoute (il_bgp lib) c r")
    case (Inl e)
    with assms dec show thesis
      by (auto simp: poll_path_def Let_def split: sum.splits if_splits option.splits intro: that(1))
  next
    case (Inr v)
    with ValidateRoute_Inr(1) [OF Inr] have v: "ValidateRoute (il_bgp lib) c (vr_Route v) = Inr v" by simp
    let ?ids = "AList.update (pi_Key (dr_Source r)) (dr_AttributeKey r) (po_identities st)"
    have "st' = st \<or> poll_valid lib (st\<lparr>po_identities := ?ids\<rparr>) v = Inr st'"
      using assms dec Inr by (auto simp: poll_path_def Let_def split: sum.splits if_splits option.splits)
    with that v show thesis by blast
  qed
qed

lemma poll_path_ok:
  assumes "poll_ok lib c st" and "inj (il_hash_strings lib)" and "poll_path lib c st path = Inr st'"
  shows "poll_ok lib c st'"
  using assms(3)
proof (cases rule: poll_path_cases)
  case 1
  with assms(1) show ?thesis by simp
next
  case (2 v ids)
  from assms(1) show ?thesis by (intro poll_valid_ok [OF _ assms(2) 2]) simp
qed

lemma poll_paths_ok:
  assumes "inj (il_hash_strings lib)" and "poll_ok lib c st" and "poll_paths lib c st paths = Inr st'"
  shows "poll_ok lib c st'"
  using assms(2,3)
  by (induction paths arbitrary: st) (auto split: sum.splits dest: poll_path_ok [OF _ assms(1)])

lemma empty_poll_ok: "poll_ok lib c empty_poll"
  by (rule indexedI) (simp_all add: empty_poll_def)

text \<open>Every endpoint has a route.\<close>

definition all_routed :: "poll_state \<Rightarrow> bool" where
  "all_routed st \<longleftrightarrow> (\<forall>key ep. map_of (po_endpoints st) key = Some ep \<longrightarrow> de_Routes ep \<noteq> [])"

lemma poll_endpoint_routed:
  assumes "all_routed st" and "poll_endpoint lib st v mk ik = Inr (key, st')" and "k \<noteq> key"
    and "map_of (po_endpoints st') k = Some ep"
  shows "de_Routes ep \<noteq> []"
  using assms by (auto simp: poll_endpoint_def Let_def all_routed_def split: option.splits if_splits)

lemma poll_valid_routed:
  assumes "all_routed st" and "poll_valid lib st v = Inr st'"
  shows "all_routed st'"
  unfolding all_routed_def
proof (intro allI impI)
  fix k ep assume ep: "map_of (po_endpoints st') k = Some ep"
  from assms(2) obtain mk ik key st1 rs where run: "poll_endpoint lib st v mk ik = Inr (key, st1)"
    and st': "po_endpoints st' = AList.update key ((endpoint_at (po_endpoints st1) key)\<lparr>de_Routes := rs @ [v]\<rparr>) (po_endpoints st1)"
    by (auto simp: poll_valid_def Let_def split: sum.splits if_splits)
  show "de_Routes ep \<noteq> []"
    using ep poll_endpoint_routed [OF assms(1) run] by (cases "k = key") (auto simp: st')
qed

lemma poll_path_routed:
  assumes "all_routed st" and "poll_path lib c st path = Inr st'"
  shows "all_routed st'"
  using assms(2)
proof (cases rule: poll_path_cases)
  case 1
  with assms(1) show ?thesis by (simp add: all_routed_def)
next
  case (2 v ids)
  then show ?thesis using assms(1) by (intro poll_valid_routed [OF _ 2(2)]) (simp add: all_routed_def)
qed

lemma poll_paths_routed: "all_routed st \<Longrightarrow> poll_paths lib c st paths = Inr st' \<Longrightarrow> all_routed st'"
  by (induction paths arbitrary: st) (auto split: sum.splits dest: poll_path_routed)

section \<open>What is published\<close>

text \<open>
  Endpoints without conflicts: one endpoint per MAC and at most one per address of a network, each
  on a configured network and VNI and backed by at least one validated route.
\<close>

definition sound_endpoints :: "bgp_lib \<Rightarrow> RemoteImportConfig \<Rightarrow> DesiredRemoteEndpoint list \<Rightarrow> bool" where
  "sound_endpoints bgp c eps \<longleftrightarrow> distinct (map (\<lambda>ep. (de_NetworkID ep, de_MAC ep)) eps) \<and>
     distinct (map (\<lambda>ep. (de_NetworkID ep, de_IP ep)) (filter (\<lambda>ep. de_IP ep \<noteq> []) eps)) \<and>
     list_all (\<lambda>ep. de_Routes ep \<noteq> [] \<and> list_all (backs bgp c ep) (de_Routes ep) \<and>
       (de_NetworkID ep, de_VNI ep) \<in> (\<lambda>n. (rn_NetworkID n, rn_VNI n)) ` set (ic_Networks c)) eps"

lemma map_values_keys:
  assumes "\<And>k v. map_of m k = Some v \<Longrightarrow> key v = k"
  shows "map key (map_values m) = map_keys m"
proof -
  have "map key (List.map_filter (map_of m) ks) = ks" if "set ks \<subseteq> dom (map_of m)" for ks
    using that by (induction ks) (auto simp: map_filter_def assms)
  then show ?thesis by (simp add: map_values_def)
qed

lemma set_map_values: "set (map_values m) = ran (map_of m)"
  by (auto simp: map_values_def set_map_filter ran_def)

lemma map_values_sound:
  assumes ix: "poll_ok lib c st" and "all_routed st"
  shows "sound_endpoints (il_bgp lib) c (map_values (po_endpoints st))"
proof -
  let ?vs = "map_values (po_endpoints st)"
  have keys: "map de_Key ?vs = map_keys (po_endpoints st)"
    by (rule map_values_keys) (use indexedD(1) [OF ix] in blast)
  then have dist: "distinct ?vs" by (metis distinct_map distinct_map_keys)
  have at: "map_of (po_endpoints st) (de_Key ep) = Some ep" if "ep \<in> set ?vs" for ep
    using that indexedD(1) [OF ix] by (auto simp: set_map_values ran_def)
  have "inj_on (\<lambda>ep. (de_NetworkID ep, de_MAC ep)) (set ?vs)"
  proof (rule inj_onI)
    fix a b assume ab: "a \<in> set ?vs" "b \<in> set ?vs" "(de_NetworkID a, de_MAC a) = (de_NetworkID b, de_MAC b)"
    then have "mac_key a = mac_key b" by (simp add: mac_key_def)
    moreover have "map_of (po_macs st) (mac_key a) = Some (de_Key a)" "map_of (po_macs st) (mac_key b) = Some (de_Key b)"
      using indexedD(1) [OF ix at [OF ab(1)]] indexedD(1) [OF ix at [OF ab(2)]] by blast+
    ultimately have "de_Key a = de_Key b" by simp
    then show "a = b" using at [OF ab(1)] at [OF ab(2)] by (metis option.inject)
  qed
  moreover have "inj_on (\<lambda>ep. (de_NetworkID ep, de_IP ep)) (set (filter (\<lambda>ep. de_IP ep \<noteq> []) ?vs))"
  proof (rule inj_onI)
    fix a b assume "a \<in> set (filter (\<lambda>ep. de_IP ep \<noteq> []) ?vs)" "b \<in> set (filter (\<lambda>ep. de_IP ep \<noteq> []) ?vs)"
      and eq: "(de_NetworkID a, de_IP a) = (de_NetworkID b, de_IP b)"
    then have ab: "a \<in> set ?vs" "b \<in> set ?vs" "de_IP a \<noteq> []" "de_IP b \<noteq> []" by auto
    from eq have "ip_key a = ip_key b" by (simp add: ip_key_def)
    with indexedD(2) [OF ix at [OF ab(1)] ab(3)] indexedD(2) [OF ix at [OF ab(2)] ab(4)]
    have "de_Key a = de_Key b" by simp
    then show "a = b" using at [OF ab(1)] at [OF ab(2)] by (metis option.inject)
  qed
  moreover have "endpoint_ok lib c ep \<and> de_Routes ep \<noteq> []" if "ep \<in> set ?vs" for ep
    using indexedD(1) [OF ix at [OF that]] assms(2) at [OF that] by (auto simp: all_routed_def)
  ultimately show ?thesis
    using dist by (auto simp: sound_endpoints_def distinct_map list_all_iff endpoint_ok_def)
qed

lemma sound_endpoints_sorted:
  "sound_endpoints bgp c (map (\<lambda>ep. ep\<lparr>de_Routes := sort_key f (de_Routes ep)\<rparr>) eps) = sound_endpoints bgp c eps"
proof -
  have "backs bgp c (ep\<lparr>de_Routes := rs\<rparr>) v = backs bgp c ep v" for ep rs v
    by (simp add: backs_def)
  moreover have "sort_key f rs = [] \<longleftrightarrow> rs = []" for rs by (metis length_0_conv length_sort)
  ultimately show ?thesis
    by (simp add: sound_endpoints_def list_all_iff filter_map comp_def)
qed

lemma observe_paths_sound:
  assumes "inj (il_hash_strings lib)" and "observe_paths lib c confirmed paths = Inr nxt"
  shows "sound_endpoints (il_bgp lib) c (sn_Endpoints nxt)"
proof -
  from assms(2) obtain st where run: "poll_paths lib c empty_poll paths = Inr st" and nxt: "nxt = next_snapshot st"
    by (auto simp: observe_paths_def split: sum.splits option.splits)
  have "all_routed empty_poll" by (simp add: all_routed_def empty_poll_def)
  with run have "all_routed st" by (rule poll_paths_routed [rotated])
  with poll_paths_ok [OF assms(1) empty_poll_ok run] show ?thesis
    unfolding nxt next_snapshot_def by (simp add: sound_endpoints_sorted map_values_sound)
qed

lemma copyRemoteSnapshot_id [simp]: "copyRemoteSnapshot s = s"
  by (simp add: copyRemoteSnapshot_def)

text \<open>What a poll observes: \<open>None\<close> when the listing failed, is incomplete or is in doubt.\<close>

definition observed :: "import_lib \<Rightarrow> 'w Context \<Rightarrow> 'w ReadOnlyType2Importer \<times> 'w \<Rightarrow> RemoteImportSnapshot option" where
  "observed lib ctx s = (case rs_ReadRemoteRIB (im_source (fst s)) ctx (snd s) of
     (Inl _, _) \<Rightarrow> None
   | (Inr raw, w1) \<Rightarrow> if \<not> rib_Complete raw then None else (case ctx w1 of
       (Inl _, _) \<Rightarrow> None
     | (Inr _, _) \<Rightarrow> (case observe_paths lib (im_config (fst s)) (im_confirmed (fst s)) (rib_Paths raw) of
         Inl _ \<Rightarrow> None | Inr nxt \<Rightarrow> Some nxt)))"

lemma Poll_observed:
  obtains e w' where "observed lib ctx (i, w) = None" "Poll lib ctx (i, w) = (fst (uncertain e i), (snd (uncertain e i), w'))"
  | nxt w' where "observed lib ctx (i, w) = Some nxt" "Poll lib ctx (i, w) = (fst (publish lib nxt i), (snd (publish lib nxt i), w'))"
proof (cases "rs_ReadRemoteRIB (im_source i) ctx w")
  case (Pair res w1)
  show thesis
  proof (cases res)
    case (Inl e)
    with Pair show thesis by (intro that(1) [of "(e, [])"]) (simp_all add: observed_def Poll_def split_beta)
  next
    case (Inr raw)
    show thesis
    proof (cases "rib_Complete raw \<and> (\<exists>w2. ctx w1 = (Inr (), w2))")
      case False
      with Pair Inr show thesis
        by (cases "rib_Complete raw"; cases "fst (ctx w1)"; cases "ctx w1")
          (auto intro!: that(1) [of "(errors_New ''incomplete/cancelled RIB observation'', [])"] simp: observed_def Poll_def split_beta)
    next
      case True
      then obtain w2 where ctx: "rib_Complete raw" "ctx w1 = (Inr (), w2)" by blast
      show thesis
      proof (cases "observe_paths lib (im_config i) (im_confirmed i) (rib_Paths raw)")
        case (Inl e)
        with Pair \<open>res = Inr raw\<close> ctx show thesis by (intro that(1) [of e]) (simp_all add: observed_def Poll_def split_beta)
      next
        case (Inr nxt)
        with Pair \<open>res = Inr raw\<close> ctx show thesis by (intro that(2) [of nxt]) (simp_all add: observed_def Poll_def split_beta)
      qed
    qed
  qed
qed

text \<open>
  C10 (two equal observations). \<open>Poll\<close> publishes exactly when the complete, undoubted listing
  says the same as the one remembered from the poll before; then the snapshot is what was observed
  and its generation grows exactly when the content differs from the confirmed one. In every other
  case the confirmed endpoints are returned unchanged and not authoritative, and a doubtful
  listing makes the importer forget the observation it remembered.
\<close>

theorem Poll_publishes:
  "case Poll lib ctx (i, w) of ((s, err), (i', _)) \<Rightarrow>
     (case observed lib ctx (i, w) of
        None \<Rightarrow> err \<noteq> None \<and> \<not> sn_Authoritative s \<and> sn_Endpoints s = sn_Endpoints (im_confirmed i) \<and>
          i' = i\<lparr>im_pending := []\<rparr>
      | Some nxt \<Rightarrow> err = None \<and> im_pending i' = il_hash_snapshot lib nxt \<and>
          (if im_pending i = il_hash_snapshot lib nxt
           then sn_Authoritative s \<and> s = im_confirmed i' \<and> sn_Endpoints s = sn_Endpoints nxt \<and> sn_Issues s = sn_Issues nxt \<and>
             sn_Generation s = sn_Generation (im_confirmed i) +
               (if il_hash_snapshot lib ((im_confirmed i)\<lparr>sn_Authoritative := False, sn_Generation := 0\<rparr>) =
                  il_hash_snapshot lib nxt then 0 else 1)
           else \<not> sn_Authoritative s \<and> sn_Endpoints s = sn_Endpoints (im_confirmed i) \<and> im_confirmed i' = im_confirmed i))"
  by (rule Poll_observed [of lib ctx i w]) (auto simp: uncertain_def publish_def Let_def)

text \<open>
  The life of an importer: created, polled in any world, rebound to another source. The last
  argument is the hash of what the poll before observed, if nothing happened since.
\<close>

inductive import_reach :: "import_lib \<Rightarrow> 'w ReadOnlyType2Importer \<Rightarrow> string \<Rightarrow> bool" for lib where
  created: "NewReadOnlyType2Importer (il_bgp lib) source config = Inr i \<Longrightarrow> import_reach lib i []"
| polled: "\<lbrakk>import_reach lib i h; Poll lib ctx (i, w) = (r, (i', w'))\<rbrakk> \<Longrightarrow>
    import_reach lib i' (case observed lib ctx (i, w) of None \<Rightarrow> [] | Some nxt \<Rightarrow> il_hash_snapshot lib nxt)"
| rebound: "\<lbrakk>import_reach lib i h; RebindSource source i = (Inr (), i')\<rbrakk> \<Longrightarrow> import_reach lib i' []"

lemma observed_sound:
  assumes "inj (il_hash_strings lib)" and "observed lib ctx (i, w) = Some nxt"
  shows "sound_endpoints (il_bgp lib) (im_config i) (sn_Endpoints nxt)"
proof -
  from assms(2) obtain confirmed paths where "observe_paths lib (im_config i) confirmed paths = Inr nxt"
    by (auto simp: observed_def split: prod.splits sum.splits if_splits)
  with observe_paths_sound [OF assms(1)] show ?thesis .
qed

lemma Poll_keeps_sound:
  assumes "inj (il_hash_strings lib)" and "Poll lib ctx (i, w) = (r, (i', w'))"
    and "sound_endpoints (il_bgp lib) (im_config i) (sn_Endpoints (im_confirmed i))"
  shows "sound_endpoints (il_bgp lib) (im_config i') (sn_Endpoints (im_confirmed i')) \<and>
    im_pending i' = (case observed lib ctx (i, w) of None \<Rightarrow> [] | Some nxt \<Rightarrow> il_hash_snapshot lib nxt)"
proof (rule Poll_observed [of lib ctx i w])
  fix e w1
  assume "observed lib ctx (i, w) = None" "Poll lib ctx (i, w) = (fst (uncertain e i), (snd (uncertain e i), w1))"
  with assms(2,3) show ?thesis by (auto simp: uncertain_def Let_def)
next
  fix nxt w1
  assume obs: "observed lib ctx (i, w) = Some nxt" "Poll lib ctx (i, w) = (fst (publish lib nxt i), (snd (publish lib nxt i), w1))"
  with assms(2,3) observed_sound [OF assms(1) obs(1)] show ?thesis
    by (auto simp: publish_def Let_def split: if_splits)
qed


section \<open>A concrete importer\<close>

text \<open>An injective coding of lists of strings: each preceded by its length in unary.\<close>

definition sample_hash :: "string list \<Rightarrow> string" where
  "sample_hash ss = concat (map (\<lambda>s. replicate (length s) CHR ''1'' @ CHR ''0'' # s) ss)"

lemma replicate_prefix_inj:
  assumes "replicate n a @ b # x = replicate m a @ b # y" and "a \<noteq> b"
  shows "n = m \<and> x = y"
  using assms by (induction n arbitrary: m) (case_tac m; auto)+

lemma sample_hash_inj: "inj sample_hash"
proof (rule injI)
  fix xs ys assume "sample_hash xs = sample_hash ys"
  then show "xs = ys"
  proof (induction xs arbitrary: ys)
    case Nil
    then show ?case by (cases ys) (auto simp: sample_hash_def)
  next
    case (Cons x xs)
    then obtain y ys' where ys: "ys = y # ys'" by (cases ys) (auto simp: sample_hash_def)
    have "replicate (length x) CHR ''1'' @ CHR ''0'' # (x @ sample_hash xs) =
      replicate (length y) CHR ''1'' @ CHR ''0'' # (y @ sample_hash ys')"
      using Cons.prems ys by (simp add: sample_hash_def)
    then have "length x = length y \<and> x @ sample_hash xs = y @ sample_hash ys'"
      by (rule replicate_prefix_inj) simp
    then have "x = y" "sample_hash xs = sample_hash ys'" by auto
    with Cons.IH ys show ?case by simp
  qed
qed

definition sample_import_lib :: import_lib where
  "sample_import_lib = \<lparr>il_bgp = sample_bgp, il_util = sample_util, il_ESI_Serialize = Some, il_TunnelType_String = (\<lambda>_. ''vxlan''),
     il_hash_identity = (\<lambda>wire ident. wire), il_hash_strings = sample_hash,
     il_hash_snapshot = (\<lambda>s. sample_hash (map de_Key (sn_Endpoints s)))\<rparr>"

definition sample_import_config :: RemoteImportConfig where
  "sample_import_config = \<lparr>ic_LocalVTEP = ''192.0.2.1'', ic_Networks = [\<lparr>rn_NetworkID = ''net-a'', rn_VNI = 100,
     rn_ImportRouteTargets = [''65000:100''], rn_AllowedVTEPs = [''192.0.2.2'']\<rparr>]\<rparr>"

definition sample_importer :: "unit ReadOnlyType2Importer" where
  "sample_importer = \<lparr>im_source = \<lparr>rs_ReadRemoteRIB = (\<lambda>_. go_return \<lparr>rib_Paths = [], rib_Complete = True\<rparr>)\<rparr>,
     im_config = sample_import_config, im_confirmed = zero_snapshot, im_pending = []\<rparr>"


end
