(* ===== verification/Owned_Netlink.thy ===== *)
theory Owned_Netlink
  imports Remote_Import
begin

text \<open>
  \<open>pkg/evpn/owned_netlink.go\<close> and the durable half of it in \<open>remote_recovery.go\<close>: the
  backend that writes remote endpoints into the kernel (one FDB entry and at most one neighbour
  each). Every kernel object has a receipt; an object is created only in an empty slot, deleted
  only when it is still exactly the confirmed one, and each mutation is a journalled intent.
  \<open>github.com/vishvananda/netlink\<close>, the system calls, the JSON coding and the journal are
  arguments. The mutex is not modelled: every operation holds it from start to end.
\<close>

section \<open>Configuration\<close>

record RemoteNetlinkNetwork =
  nn_NetworkID :: string
  nn_LogicalSwitch :: string
  nn_VNI :: "32 word"
  nn_BridgeDevice :: string
  nn_VXLANDevice :: string

record RemoteNetlinkConfig =
  nc_Enabled :: bool
  nc_ExclusiveWriter :: bool
  nc_StateDirectory :: string
  nc_Networks :: "RemoteNetlinkNetwork list"
  nc_Recovery :: "Domain option"

definition device_name_ok :: "string list \<Rightarrow> string \<Rightarrow> bool" where
  "device_name_ok devices name \<longleftrightarrow> \<not> (name = [] \<or> length name > 15 \<or>
     ContainsAny name [CHR ''/'', CHR '' '', CHR 0x09, CHR 0x0A] \<or> name \<in> set devices)"

fun netlink_networks_ok :: "string list \<Rightarrow> 32 word list \<Rightarrow> string list \<Rightarrow> RemoteNetlinkNetwork list \<Rightarrow> go_error + unit" where
  "netlink_networks_ok names vnis devices [] = Inr ()"
| "netlink_networks_ok names vnis devices (n # ns) =
    (if TrimSpace (nn_NetworkID n) = [] \<or> TrimSpace (nn_LogicalSwitch n) = [] \<or> nn_VNI n = 0 \<or> nn_VNI n > 16777215 \<or>
       nn_NetworkID n \<in> set names \<or> nn_VNI n \<in> set vnis
     then Inl (errors_New ''unique explicit network/switch/VNI mapping required'')
     else if \<not> device_name_ok devices (nn_BridgeDevice n) \<or>
       \<not> device_name_ok (nn_BridgeDevice n # devices) (nn_VXLANDevice n)
     then Inl (errors_New ''distinct explicit Linux device names required'')
     else netlink_networks_ok (nn_NetworkID n # names) (nn_VNI n # vnis)
       (nn_VXLANDevice n # nn_BridgeDevice n # devices) ns)"

definition RemoteNetlinkConfig_Validate :: "RemoteNetlinkConfig \<Rightarrow> go_error + unit" where
  "RemoteNetlinkConfig_Validate c =
    (if \<not> nc_Enabled c then Inr ()
     else if \<not> nc_ExclusiveWriter c \<or> \<not> IsAbs (nc_StateDirectory c) \<or> nc_Networks c = []
     then Inl (errors_New ''remote Netlink requires explicit exclusive writer, absolute state directory and networks'')
     else netlink_networks_ok [] [] [] (nc_Networks c))"

section \<open>Kernel objects and receipts\<close>

record RemoteDeviceIdentity =
  di_Name :: string
  di_Ifindex :: int
  di_Kind :: string
  di_MasterIndex :: int
  di_VNI :: int
  di_Local :: string
  di_Port :: int
  di_MAC :: string
  di_Alias :: string

record RemoteKernelEntry =
  ke_Family :: int
  ke_Ifindex :: int
  ke_MAC :: string
  ke_IP :: string
  ke_State :: int
  ke_Flags :: int
  ke_FlagsExt :: int
  ke_Type :: int
  ke_VLAN :: int
  ke_VNI :: int
  ke_Master :: int

definition zero_entry :: RemoteKernelEntry where
  "zero_entry = \<lparr>ke_Family = 0, ke_Ifindex = 0, ke_MAC = [], ke_IP = [], ke_State = 0, ke_Flags = 0,
     ke_FlagsExt = 0, ke_Type = 0, ke_VLAN = 0, ke_VNI = 0, ke_Master = 0\<rparr>"

text \<open>The text of an error that is kept in the state is represented by the error; \<open>None\<close> is the empty text.\<close>

record RemoteObjectReceipt =
  ob_Request :: RemoteKernelEntry
  ob_Observed :: RemoteKernelEntry
  ob_Status :: string
  ob_ACK :: bool
  ob_DeleteACK :: bool
  ob_Error :: "go_error option"

definition unattempted :: "RemoteKernelEntry \<Rightarrow> RemoteObjectReceipt" where
  "unattempted request = \<lparr>ob_Request = request, ob_Observed = zero_entry, ob_Status = ''unattempted'',
     ob_ACK = False, ob_DeleteACK = False, ob_Error = None\<rparr>"

record RemoteNetlinkReceipt =
  rc_Controller :: string
  rc_Target :: string
  rc_Network :: RemoteNetlinkNetwork
  rc_Endpoint :: DesiredRemoteEndpoint
  rc_Incarnation :: "64 word"
  rc_Generation :: "64 word"
  rc_Devices :: "RemoteDeviceIdentity list"
  rc_FDB :: RemoteObjectReceipt
  rc_Neighbor :: "RemoteObjectReceipt option"
  rc_Status :: string
  rc_Retiring :: bool

record ImportedType2Route =
  it_Key :: string
  it_NetworkName :: string
  it_VNI :: "32 word"
  it_MAC :: string
  it_IP :: string
  it_RemoteVTEP :: string
  it_VXLANDevice :: string
  it_BridgeDevice :: string
  it_NeighborDevice :: string
  it_incarnation :: "64 word"
  it_generation :: "64 word"
  it_validated :: "DesiredRemoteEndpoint option"
  it_retiring :: bool

definition AF_INET :: int where "AF_INET = 2"
definition AF_BRIDGE :: int where "AF_BRIDGE = 7"
definition AF_INET6 :: int where "AF_INET6 = 10"
definition RTN_UNICAST :: int where "RTN_UNICAST = 1"
definition RTN_BROADCAST :: int where "RTN_BROADCAST = 3"
definition RTM_DELLINK :: int where "RTM_DELLINK = 17"
definition NTF_SELF :: int where "NTF_SELF = 2"
definition NTF_EXT_LEARNED :: int where "NTF_EXT_LEARNED = 16"
definition NUD_NOARP :: int where "NUD_NOARP = 64"
definition NUD_PERMANENT :: int where "NUD_PERMANENT = 128"

section \<open>The netlink library\<close>

text \<open>
  What the backend reads of a link and of a neighbour. \<open>net.IP\<close> is \<^const>\<open>None\<close> when its
  slice is empty.
\<close>

record Vxlan =
  vx_VxlanId :: int
  vx_SrcAddr :: "Addr option"
  vx_Port :: int

record Link =
  ln_Name :: string
  ln_Index :: int
  ln_Type :: string
  ln_MasterIndex :: int
  ln_HardwareAddr :: HardwareAddr
  ln_Alias :: string
  ln_Vxlan :: "Vxlan option"

record LinkUpdate =
  lu_HeaderType :: int
  lu_Family :: int
  lu_Link :: "Link option"

record Neigh =
  ng_LinkIndex :: int
  ng_Family :: int
  ng_State :: int
  ng_Flags :: int
  ng_FlagsExt :: int
  ng_Type :: int
  ng_IP :: "Addr option"
  ng_HardwareAddr :: HardwareAddr
  ng_Vlan :: int
  ng_VNI :: int
  ng_MasterIndex :: int

text \<open>
  \<open>kn_Drain\<close> receives from the update channel until it is empty or closed: the updates in their
  order, whether the channel is closed, and whether the error callback of the subscription has run.
\<close>

record 'w ownedKernel =
  kn_Open :: "('w, unit) go"
  kn_SetSocketTimeout :: "('w, unit) go"
  kn_Subscribe :: "('w, unit) go"
  kn_LinkByName :: "string \<Rightarrow> ('w, Link) go"
  kn_NeighList :: "int \<Rightarrow> int \<Rightarrow> ('w, Neigh list) go"
  kn_NeighAdd :: "Neigh \<Rightarrow> ('w, unit) go"
  kn_NeighDel :: "Neigh \<Rightarrow> ('w, unit) go"
  kn_Drain :: "'w \<Rightarrow> (LinkUpdate list \<times> bool \<times> bool) \<times> 'w"
  kn_Close :: "('w, unit) go"

text \<open>\<open>net.IP.String\<close>: \<open><nil>\<close> for an empty slice.\<close>

definition IP_String :: "Addr option \<Rightarrow> string" where
  "IP_String ip = (case ip of None \<Rightarrow> ''<nil>'' | Some a \<Rightarrow> Addr_String a)"

definition remoteDeviceIdentity :: "Link \<Rightarrow> RemoteDeviceIdentity" where
  "remoteDeviceIdentity link =
    (let base = \<lparr>di_Name = ln_Name link, di_Ifindex = ln_Index link, di_Kind = ln_Type link,
       di_MasterIndex = ln_MasterIndex link, di_VNI = 0, di_Local = [], di_Port = 0,
       di_MAC = HardwareAddr_String (ln_HardwareAddr link), di_Alias = ln_Alias link\<rparr>
     in case ln_Vxlan link of
          None \<Rightarrow> base
        | Some v \<Rightarrow> base\<lparr>di_VNI := vx_VxlanId v, di_Local := IP_String (vx_SrcAddr v), di_Port := vx_Port v\<rparr>)"

definition kernelEntry :: "Neigh \<Rightarrow> RemoteKernelEntry" where
  "kernelEntry n = \<lparr>ke_Family = ng_Family n, ke_Ifindex = ng_LinkIndex n,
     ke_MAC = HardwareAddr_String (ng_HardwareAddr n),
     ke_IP = (case ng_IP n of None \<Rightarrow> [] | Some a \<Rightarrow> Addr_String a),
     ke_State = ng_State n, ke_Flags = ng_Flags n, ke_FlagsExt = ng_FlagsExt n, ke_Type = ng_Type n,
     ke_VLAN = ng_Vlan n, ke_VNI = ng_VNI n, ke_Master = ng_MasterIndex n\<rparr>"

definition neigh :: "RemoteKernelEntry \<Rightarrow> Neigh" where
  "neigh e = \<lparr>ng_LinkIndex = ke_Ifindex e, ng_Family = ke_Family e, ng_State = ke_State e, ng_Flags = ke_Flags e,
     ng_FlagsExt = ke_FlagsExt e, ng_Type = ke_Type e, ng_IP = ParseIP (ke_IP e),
     ng_HardwareAddr = (case ParseMAC (ke_MAC e) of None \<Rightarrow> [] | Some mac \<Rightarrow> mac),
     ng_Vlan = ke_VLAN e, ng_VNI = ke_VNI e, ng_MasterIndex = ke_Master e\<rparr>"

definition sameKernelSlot :: "RemoteKernelEntry \<Rightarrow> RemoteKernelEntry \<Rightarrow> bool" where
  "sameKernelSlot a b =
    (if ke_Family a \<noteq> ke_Family b \<or> ke_Ifindex a \<noteq> ke_Ifindex b then False
     else if ke_Family a = AF_BRIDGE then ke_MAC a = ke_MAC b
     else ke_IP a = ke_IP b)"

definition linkLifetimeChanged :: "LinkUpdate \<Rightarrow> RemoteDeviceIdentity \<Rightarrow> bool" where
  "linkLifetimeChanged update prior = (case lu_Link update of
     None \<Rightarrow> True
   | Some link \<Rightarrow>
       lu_HeaderType update = RTM_DELLINK \<or> ln_Index link \<noteq> di_Ifindex prior \<or> ln_Name link \<noteq> di_Name prior \<or>
       (lu_Family update \<noteq> AF_BRIDGE \<and> remoteDeviceIdentity link \<noteq> prior))"

text \<open>
  \<open>errors.As\<close> with a \<open>unix.Errno\<close>: the first system error in the chain. A system error is
  represented by its symbolic name.
\<close>

definition errno_name :: "string \<Rightarrow> bool" where
  "errno_name m \<longleftrightarrow> HasPrefix m ''E'' \<and> m \<noteq> ''EOF'' \<and> list_all (\<lambda>c. 65 \<le> byte c \<and> byte c \<le> 90 \<or> digit c \<noteq> None) m"

fun as_errno :: "go_error \<Rightarrow> string option" and as_errno_any :: "go_error list \<Rightarrow> string option" where
  "as_errno (Errorf m ws) = (if ws = [] \<and> errno_name m then Some m else as_errno_any ws)"
| "as_errno_any [] = None"
| "as_errno_any (e # es) = (case as_errno e of None \<Rightarrow> as_errno_any es | Some n \<Rightarrow> Some n)"

definition definitiveReject :: "go_error \<Rightarrow> bool" where
  "definitiveReject err = (case as_errno err of
     None \<Rightarrow> False
   | Some errno \<Rightarrow> errno \<in> {''EEXIST'', ''EPERM'', ''EACCES'', ''EINVAL'', ''EOPNOTSUPP'', ''ENOENT'', ''ESRCH''})"

section \<open>State\<close>

text \<open>The durable form of the state, \<open>remote_recovery.go\<close>. Decoded maps may be nil and may hold nil receipts.\<close>

record remoteReceiptState =
  ss_Version :: int
  ss_Controller :: string
  ss_Target :: string
  ss_Networks :: "RemoteNetlinkNetwork list"
  ss_Devices :: "(string, RemoteDeviceIdentity) gomap"
  ss_Receipts :: "(string, RemoteNetlinkReceipt option) gomap option"
  ss_Latest :: "(string, 64 word) gomap option"
  ss_Snapshot :: RemoteImportSnapshot
  ss_Quarantine :: "go_error option"

record netlink_codec =
  kc_MarshalState :: "remoteReceiptState \<Rightarrow> go_error + string"
  kc_MarshalIntent :: "remoteReceiptState \<times> RemoteObjectReceipt \<Rightarrow> go_error + string"
  kc_DecodeState :: "string \<Rightarrow> go_error + remoteReceiptState \<times> string"
  kc_ParseUUID :: "string \<Rightarrow> string option"
  kc_hash_strings :: "string list \<Rightarrow> string"
  kc_hash_endpoints :: "DesiredRemoteEndpoint list \<Rightarrow> string"

record 'w owned_env =
  oe_kernel :: "'w ownedKernel"
  oe_posix :: "'w posix"
  oe_codec :: netlink_codec
  oe_OpenFile :: "string \<Rightarrow> oflag list \<Rightarrow> ('w, fd) go"
  oe_Lstat :: "string \<Rightarrow> ('w, unit) go"
  oe_OpenJournal :: "string \<Rightarrow> Domain \<Rightarrow> ('w, 'w journal_ops) go"
  oe_NetNS :: "('w, string) go"
  oe_BootID :: "('w, string) go"

record 'w ownedNetlinkState =
  on_config :: RemoteNetlinkConfig
  on_controller :: string
  on_target :: string
  on_devices :: "(string, RemoteDeviceIdentity) gomap"
  on_receipts :: "(string, RemoteNetlinkReceipt) gomap"
  on_withdrawals :: "RemoteNetlinkReceipt list"
  on_latest :: "(string, 64 word) gomap"
  on_lost :: bool
  on_blocked :: "go_error option"
  on_closed :: bool
  on_markerPath :: string
  on_subscribed :: bool
  on_journal :: "'w journal_ops option"
  on_snapshot :: RemoteImportSnapshot
  on_recoveryState :: string
  on_fault :: "(string \<Rightarrow> ('w, unit) go) option"

type_synonym ('w, 'a) owned = "('w ownedNetlinkState \<times> 'w, 'a) go"

abbreviation own_get :: "('w ownedNetlinkState \<Rightarrow> 'a) \<Rightarrow> ('w, 'a) owned" where
  "own_get f \<equiv> go_get (\<lambda>sw. f (fst sw))"

abbreviation own_modify :: "('w ownedNetlinkState \<Rightarrow> 'w ownedNetlinkState) \<Rightarrow> ('w, unit) owned" where
  "own_modify f \<equiv> go_modify (map_prod f (\<lambda>w. w))"

text \<open>\<open>s.blocked = ...\<close>\<close>

definition block_with :: "go_error \<Rightarrow> ('w, unit) owned" where
  "block_with reason = own_modify (\<lambda>s. s\<lparr>on_blocked := Some reason\<rparr>)"

text \<open>
  A pointer to an object receipt: the receipt it is part of, by its key in the map of receipts, and
  which of its two objects it is.
\<close>

datatype kernel_object = FDB | Neighbor

type_synonym object_ptr = "string \<times> kernel_object"

definition zero_object :: RemoteObjectReceipt where
  "zero_object = (unattempted zero_entry)\<lparr>ob_Status := []\<rparr>"

definition object_at :: "'w ownedNetlinkState \<Rightarrow> object_ptr \<Rightarrow> RemoteObjectReceipt" where
  "object_at s p = (case map_of (on_receipts s) (fst p) of
     None \<Rightarrow> zero_object
   | Some r \<Rightarrow> (case snd p of
       FDB \<Rightarrow> rc_FDB r
     | Neighbor \<Rightarrow> (case rc_Neighbor r of None \<Rightarrow> zero_object | Some o1 \<Rightarrow> o1)))"

definition update_receipt :: "string \<Rightarrow> (RemoteNetlinkReceipt \<Rightarrow> RemoteNetlinkReceipt) \<Rightarrow>
    'w ownedNetlinkState \<Rightarrow> 'w ownedNetlinkState" where
  "update_receipt key f s = (case map_of (on_receipts s) key of
     None \<Rightarrow> s | Some r \<Rightarrow> s\<lparr>on_receipts := AList.update key (f r) (on_receipts s)\<rparr>)"

definition update_object :: "object_ptr \<Rightarrow> (RemoteObjectReceipt \<Rightarrow> RemoteObjectReceipt) \<Rightarrow>
    'w ownedNetlinkState \<Rightarrow> 'w ownedNetlinkState" where
  "update_object p f = update_receipt (fst p) (\<lambda>r. case snd p of
     FDB \<Rightarrow> r\<lparr>rc_FDB := f (rc_FDB r)\<rparr> | Neighbor \<Rightarrow> r\<lparr>rc_Neighbor := map_option f (rc_Neighbor r)\<rparr>)"

abbreviation set_object :: "object_ptr \<Rightarrow> (RemoteObjectReceipt \<Rightarrow> RemoteObjectReceipt) \<Rightarrow> ('w, unit) owned" where
  "set_object p f \<equiv> own_modify (update_object p f)"

section \<open>The journal of the backend\<close>

definition durableState :: "'w ownedNetlinkState \<Rightarrow> remoteReceiptState" where
  "durableState s = \<lparr>ss_Version = 1, ss_Controller = on_controller s, ss_Target = on_target s,
     ss_Networks = nc_Networks (on_config s), ss_Devices = on_devices s,
     ss_Receipts = Some (map (map_prod (\<lambda>k. k) Some) (on_receipts s)), ss_Latest = Some (on_latest s),
     ss_Snapshot = on_snapshot s, ss_Quarantine = on_blocked s\<rparr>"

definition owned_boundary :: "string \<Rightarrow> ('w, unit) owned" where
  "owned_boundary name = go_bind (own_get on_fault) (\<lambda>fault. case fault of
     None \<Rightarrow> go_return () | Some f \<Rightarrow> go_env (f name))"

text \<open>A journal call whose failure blocks the backend.\<close>

definition recovery_blocked :: "('w, 'a) owned \<Rightarrow> ('w, 'a) owned" where
  "recovery_blocked m = go_bind (go_try m) (\<lambda>r. case r of
     Inr x \<Rightarrow> go_return x
   | Inl e \<Rightarrow> go_seq (own_modify (\<lambda>s. s\<lparr>on_blocked := Some e, on_recoveryState := ''RECOVERY_BLOCKED''\<rparr>)) (go_throw e))"

definition beginMutation :: "'w owned_env \<Rightarrow> string \<Rightarrow> object_ptr \<Rightarrow> ('w, 64 word) owned" where
  "beginMutation env operation p = go_bind (own_get (\<lambda>s. s)) (\<lambda>s. case on_journal s of
     None \<Rightarrow> go_return 0
   | Some j \<Rightarrow> recovery_blocked (go_env (jo_Begin j operation
       (kc_MarshalIntent (oe_codec env) (durableState s, object_at s p)))))"

definition ackMutation :: "'w owned_env \<Rightarrow> 64 word \<Rightarrow> ('w, unit) owned" where
  "ackMutation env sequence = go_bind (own_get (\<lambda>s. s)) (\<lambda>s. case on_journal s of
     None \<Rightarrow> go_return ()
   | Some j \<Rightarrow> go_seq (recovery_blocked (go_env (jo_Commit j sequence
       (kc_MarshalState (oe_codec env) (durableState s))))) (owned_boundary ''after-ack''))"

definition checkpoint :: "'w owned_env \<Rightarrow> ('w, unit) owned" where
  "checkpoint env = go_bind (own_get (\<lambda>s. s)) (\<lambda>s. case on_journal s of
     None \<Rightarrow> go_return ()
   | Some j \<Rightarrow> go_bind (recovery_blocked (go_env (jo_Begin j ''importer-checkpoint''
       (kc_MarshalState (oe_codec env) (durableState s))))) (\<lambda>seq. ackMutation env seq))"

abbreviation quarantined :: go_error where
  "quarantined \<equiv> Blocked ''%w: remote ownership quarantined: %s''"

text \<open>\<open>return s.quarantineError()\<close>: an existing pending intent is never overwritten.\<close>

definition quarantineError :: "'w owned_env \<Rightarrow> ('w, 'a) owned" where
  "quarantineError env = go_bind (own_get on_journal) (\<lambda>journal. case journal of
     None \<Rightarrow> go_throw quarantined
   | Some j \<Rightarrow> go_bind (go_try (go_env (jo_Snapshot j))) (\<lambda>r. case r of
       Inl _ \<Rightarrow> go_throw quarantined
     | Inr (_, pending) \<Rightarrow>
         if pending \<noteq> None then go_throw quarantined
         else go_bind (go_try (checkpoint env)) (\<lambda>saved.
           go_throw (the (errors_Join [Some quarantined, case saved of Inl e \<Rightarrow> Some e | Inr _ \<Rightarrow> None])))))"

section \<open>The ownership marker\<close>

definition marker_text :: "string \<Rightarrow> string \<Rightarrow> string" where
  "marker_text controller target = controller @ [CHR 0x0A] @ target @ [CHR 0x0A]"

definition marker_body :: "'w posix \<Rightarrow> fd \<Rightarrow> string \<Rightarrow> ('w, unit) go" where
  "marker_body px f expected =
     go_bind (px_Fstat px f) (\<lambda>st.
     go_seq (go_require (\<not> (st_uid st \<noteq> 0 \<or> st_mode st AND 61440 \<noteq> 32768 \<or> st_mode st AND 4095 \<noteq> 384 \<or> st_nlink st \<noteq> 1))
       (Blocked ''%w: unsafe importer marker''))
     (go_bind (go_try (px_ReadAll px f 513)) (\<lambda>value.
      go_require (value = Inr expected) (Blocked ''%w: importer marker differs from durable controller/domain: %v''))))"

definition verifyMarker :: "'w owned_env \<Rightarrow> 'w ownedNetlinkState \<Rightarrow> ('w, unit) go" where
  "verifyMarker env s =
     go_bind (go_wrap (\<lambda>_. Blocked ''%w: journal requires its original marker: %v'')
       (oe_OpenFile env (on_markerPath s) [O_RDONLY, O_NOFOLLOW, O_NONBLOCK])) (\<lambda>f.
     go_bind (go_try (marker_body (oe_posix env) f (marker_text (on_controller s) (on_target s)))) (\<lambda>r.
     go_bind (go_try (px_Close (oe_posix env) f)) (\<lambda>_. go_of r)))"

definition result_error :: "go_error + 'a \<Rightarrow> go_error option" where
  "result_error r = (case r of Inl e \<Rightarrow> Some e | Inr _ \<Rightarrow> None)"

definition acquireRemoteMarker :: "'w owned_env \<Rightarrow> string \<Rightarrow> string \<Rightarrow> string \<Rightarrow> ('w, unit) go" where
  "acquireRemoteMarker env directory controller target = (let px = oe_posix env in
     go_bind (oe_OpenFile env directory [O_RDONLY, O_DIRECTORY, O_NOFOLLOW]) (\<lambda>dir.
     go_bind (go_try (
       go_bind (px_Fstat px dir) (\<lambda>st.
       go_seq (go_require (\<not> (st_uid st \<noteq> 0 \<or> st_mode st AND 18 \<noteq> 0))
         (errors_New ''remote state directory must be root-owned and not group/world writable''))
       (go_bind (go_wrap (\<lambda>e. Errorf ''remote ownership marker unavailable; no restart adoption: %w'' [e])
          (px_Openat px dir ''remote-netlink-owner'' [O_WRONLY, O_CREAT, O_EXCL, O_NOFOLLOW] 384)) (\<lambda>f.
        go_bind (go_try (px_Write px f (marker_text controller target))) (\<lambda>writeErr.
        go_bind (go_try (px_Fsync px f)) (\<lambda>syncErr.
        go_bind (go_try (px_Close px f)) (\<lambda>closeErr.
        go_bind (go_try (px_Fsync px dir)) (\<lambda>dirErr.
        case errors_Join [result_error writeErr, result_error syncErr, result_error closeErr, result_error dirErr] of
          None \<Rightarrow> go_return () | Some e \<Rightarrow> go_throw e))))))))) (\<lambda>r.
     go_bind (go_try (px_Close px dir)) (\<lambda>_. go_of r))))"

section \<open>Checking the backend before every step\<close>

definition check_journal :: "('w, unit) owned" where
  "check_journal = go_bind (own_get on_journal) (\<lambda>journal. case journal of
     None \<Rightarrow> go_return ()
   | Some j \<Rightarrow> go_bind (go_try (go_env (jo_Snapshot j))) (\<lambda>r. case r of
       Inl e \<Rightarrow> block_with e | Inr _ \<Rightarrow> go_return ()))"

text \<open>Without a journal only the text of the marker is compared.\<close>

definition read_marker :: "'w owned_env \<Rightarrow> 'w ownedNetlinkState \<Rightarrow> ('w, unit) go" where
  "read_marker env s = (let px = oe_posix env in
     go_bind (go_wrap (\<lambda>_. errors_New ''ownership marker lost'')
       (oe_OpenFile env (on_markerPath s) [O_RDONLY, O_NOFOLLOW])) (\<lambda>f.
     go_bind (go_try (px_ReadAll px f 512)) (\<lambda>value.
     go_bind (go_try (px_Close px f)) (\<lambda>closed.
     go_require (value = Inr (marker_text (on_controller s) (on_target s)) \<and> closed = Inr ())
       (errors_New ''ownership marker changed or unreadable'')))))"

definition check_marker :: "'w owned_env \<Rightarrow> ('w, unit) owned" where
  "check_marker env = go_bind (own_get (\<lambda>s. s)) (\<lambda>s.
     if on_markerPath s = [] then go_return ()
     else go_bind (go_try (go_env (if on_journal s \<noteq> None then verifyMarker env s else read_marker env s))) (\<lambda>r. case r of
       Inl e \<Rightarrow> block_with e | Inr _ \<Rightarrow> go_return ()))"

text \<open>One received link update; Go's order of a map's entries is arbitrary, here it is that of the keys.\<close>

definition device_event :: "LinkUpdate \<Rightarrow> Link \<Rightarrow> string \<Rightarrow> 'w ownedNetlinkState \<Rightarrow> 'w ownedNetlinkState" where
  "device_event update link name s = (case map_of (on_devices s) name of
     None \<Rightarrow> s
   | Some dev \<Rightarrow>
       if (ln_Index link = di_Ifindex dev \<or> ln_Name link = name) \<and> on_blocked s = None \<and> linkLifetimeChanged update dev
       then s\<lparr>on_blocked := Some (errors_New ''managed device lifecycle/identity event; receipts invalidated'')\<rparr>
       else s)"

definition handle_update :: "LinkUpdate \<Rightarrow> 'w ownedNetlinkState \<Rightarrow> 'w ownedNetlinkState" where
  "handle_update update s = (case lu_Link update of
     None \<Rightarrow> s\<lparr>on_lost := True\<rparr>
   | Some link \<Rightarrow> fold (device_event update link) (map_keys (on_devices s)) s)"

definition drain :: "'w owned_env \<Rightarrow> ('w, unit) owned" where
  "drain env = (\<lambda>(s, w). case kn_Drain (oe_kernel env) w of ((updates, closed, failed), w') \<Rightarrow>
     (Inr (), ((fold handle_update updates s)\<lparr>on_lost := on_lost (fold handle_update updates s) \<or> closed \<or> failed\<rparr>, w')))"

definition owned_device :: "'w owned_env \<Rightarrow> string \<Rightarrow> ('w, RemoteDeviceIdentity) owned" where
  "owned_device env name = go_bind (go_env (kn_LinkByName (oe_kernel env) name)) (\<lambda>link.
     go_return (remoteDeviceIdentity link))"

definition fence :: "'w owned_env \<Rightarrow> ('w, unit) owned" where
  "fence env =
     go_seq (own_modify (\<lambda>s. if on_lost s \<and> on_blocked s = None
       then s\<lparr>on_blocked := Some (errors_New ''link observation continuity lost'')\<rparr> else s))
     (go_bind (own_get on_blocked) (\<lambda>blocked. if blocked \<noteq> None then quarantineError env else go_return ()))"

definition check_device :: "'w owned_env \<Rightarrow> string \<Rightarrow> ('w, unit) owned" where
  "check_device env name = go_bind (own_get on_devices) (\<lambda>devices. case map_of devices name of
     None \<Rightarrow> go_return ()
   | Some expected \<Rightarrow>
       go_bind (go_try (owned_device env name)) (\<lambda>got.
       if got = Inr expected then go_return ()
       else go_seq (block_with (errors_New ''device identity changed: %s: %v'')) (quarantineError env)))"

definition owned_check :: "'w owned_env \<Rightarrow> 'w Context \<Rightarrow> ('w, unit) owned" where
  "owned_check env ctx =
     go_seq (go_env ctx)
     (go_bind (own_get on_closed) (\<lambda>closed.
      go_seq (go_require (\<not> closed) (errors_New ''remote backend is closed''))
      (go_seq check_journal
      (go_seq (check_marker env)
      (go_seq (drain env)
      (go_seq (fence env)
      (go_bind (own_get on_devices) (\<lambda>devices.
       go_each (check_device env) (map_keys devices)))))))))"

end
