(* ===== verification/Netlink_Backend.thy ===== *)
theory Netlink_Backend
  imports Owned_Netlink
begin

text \<open>
  \<open>pkg/evpn/owned_netlink.go\<close> and \<open>remote_recovery.go\<close>, the operations: observing a slot,
  creating and deleting one kernel object, applying and withdrawing a route, validating durable
  receipts and opening the backend.
\<close>

section \<open>One kernel object\<close>

definition slot :: "'w owned_env \<Rightarrow> 'w Context \<Rightarrow> RemoteKernelEntry \<Rightarrow> ('w, RemoteKernelEntry list) owned" where
  "slot env ctx want =
     go_seq (owned_check env ctx)
     (go_bind (go_try (go_env (kn_NeighList (oe_kernel env) (ke_Ifindex want) (ke_Family want)))) (\<lambda>entries. case entries of
        Inl err \<Rightarrow> go_seq (block_with (Errorf ''kernel observation failed: '' [err])) (quarantineError env)
      | Inr ns \<Rightarrow> go_return (filter (\<lambda>e. sameKernelSlot e want) (map kernelEntry ns))))"

text \<open>
  The entry that confirms a receipt: the one confirmed before, or the requested one with the
  neighbour type the kernel derived.
\<close>

definition expected_entry :: "RemoteObjectReceipt \<Rightarrow> RemoteKernelEntry \<Rightarrow> RemoteKernelEntry" where
  "expected_entry r found =
    (if ob_Status r = ''confirmed'' then ob_Observed r
     else if ke_Type (ob_Request r) = 0 \<and> ke_Family (ob_Request r) \<noteq> AF_BRIDGE \<and>
       (ke_Type found = RTN_UNICAST \<or> ke_Type found = RTN_BROADCAST)
     then (ob_Request r)\<lparr>ke_Type := ke_Type found\<rparr>
     else ob_Request r)"

definition confirm :: "'w owned_env \<Rightarrow> 'w Context \<Rightarrow> object_ptr \<Rightarrow> bool \<Rightarrow> ('w, unit) owned" where
  "confirm env ctx p absent =
     go_bind (own_get (\<lambda>s. object_at s p)) (\<lambda>r.
     go_bind (slot env ctx (ob_Request r)) (\<lambda>found.
     if absent \<and> found = []
     then set_object p (\<lambda>r. r\<lparr>ob_Status := ''absent-confirmed'', ob_Error := None\<rparr>)
     else if \<not> absent \<and> length found = 1 \<and> hd found = expected_entry r (hd found)
     then set_object p (\<lambda>r. r\<lparr>ob_Observed := hd found, ob_Status := ''confirmed'', ob_Error := None\<rparr>)
     else let reason = errors_New ''kernel entry differs from confirmed operation'' in
       go_seq (block_with reason)
       (go_seq (set_object p (\<lambda>r. r\<lparr>ob_Status := ''conflict'', ob_Error := Some reason\<rparr>))
       (go_wrap (\<lambda>e. the (errors_Join [Some e, Some (errors_New ''want=%+v observed=%+v'')])) (quarantineError env)))))"

text \<open>The kernel refused a mutation: what is recorded before the error is returned.\<close>

definition mutation_failed :: "object_ptr \<Rightarrow> bool \<Rightarrow> go_error \<Rightarrow> ('w, unit) owned" where
  "mutation_failed p adding err =
     go_seq (set_object p (\<lambda>r. if adding then r\<lparr>ob_Status := ''failed'', ob_Error := Some err\<rparr> else r\<lparr>ob_Error := Some err\<rparr>))
     (go_seq (if definitiveReject err then go_return ()
        else go_seq (set_object p (\<lambda>r. r\<lparr>ob_Status := ''outcome-unknown''\<rparr>))
          (block_with (errors_New (if adding then ''unacknowledged kernel creation'' else ''unacknowledged kernel deletion''))))
     (go_bind (own_get on_journal) (\<lambda>journal. case journal of
        None \<Rightarrow> go_return ()
      | Some _ \<Rightarrow> own_modify (\<lambda>s. s\<lparr>on_blocked := Some (Errorf (if adding
          then ''unresolved durable Netlink add intent: '' else ''unresolved durable Netlink delete intent: '') [err]),
          on_recoveryState := ''RECOVERY_BLOCKED''\<rparr>))))"

text \<open>After the kernel has acknowledged a mutation: read it back, then acknowledge the intent.\<close>

definition acknowledge_object :: "'w owned_env \<Rightarrow> 'w Context \<Rightarrow> object_ptr \<Rightarrow> bool \<Rightarrow> 64 word \<Rightarrow> ('w, unit) owned" where
  "acknowledge_object env ctx p absent seq =
     go_seq (set_object p (\<lambda>r. if absent then r\<lparr>ob_DeleteACK := True\<rparr> else r\<lparr>ob_ACK := True\<rparr>))
     (go_bind (go_try (confirm env ctx p absent)) (\<lambda>confirmed. case confirmed of
        Inl err \<Rightarrow> go_seq (set_object p (\<lambda>r. r\<lparr>ob_Status := ''outcome-unknown''\<rparr>))
          (go_seq (block_with (errors_New (if absent then ''deletion ACK without verified absence''
              else ''creation ACK without verified readback'')))
          (go_throw err))
      | Inr _ \<Rightarrow>
          go_seq (owned_boundary (if absent then ''before-delete-ack'' else ''before-add-ack''))
          (go_seq (ackMutation env seq)
          (owned_boundary (if absent then ''after-delete-ack'' else ''after-add-ack'')))))"

definition create_object :: "'w owned_env \<Rightarrow> 'w Context \<Rightarrow> object_ptr \<Rightarrow> RemoteKernelEntry \<Rightarrow> 64 word \<Rightarrow> ('w, unit) owned" where
  "create_object env ctx p request seq =
     go_seq (owned_boundary ''before-add'')
     (go_bind (go_try (go_env (kn_NeighAdd (oe_kernel env) (neigh request)))) (\<lambda>added.
      go_seq (owned_boundary ''after-add'')
      (case added of
         Inl err \<Rightarrow> go_seq (mutation_failed p True err) (go_throw (Errorf ''exclusive kernel creation: %w'' [err]))
       | Inr _ \<Rightarrow> acknowledge_object env ctx p False seq)))"

definition applyObject :: "'w owned_env \<Rightarrow> 'w Context \<Rightarrow> object_ptr \<Rightarrow> ('w, unit) owned" where
  "applyObject env ctx p =
     go_bind (own_get (\<lambda>s. object_at s p)) (\<lambda>r.
     if ob_Status r = ''confirmed'' then confirm env ctx p False
     else
       go_bind (slot env ctx (ob_Request r)) (\<lambda>found.
       if found \<noteq> [] then
         let reason = errors_New ''preexisting kernel slot is not owned'' in
         go_seq (set_object p (\<lambda>r. r\<lparr>ob_Status := ''conflict'', ob_Error := Some reason\<rparr>))
         (go_seq (block_with reason)
         (go_wrap (\<lambda>e. the (errors_Join [Some e, Some (errors_New ''observed=%+v'')])) (quarantineError env)))
       else
         go_seq (owned_check env ctx)
         (go_seq (set_object p (\<lambda>r. r\<lparr>ob_Status := ''pending''\<rparr>))
         (go_bind (beginMutation env ''netlink-add'' p) (\<lambda>seq.
          go_bind (slot env ctx (ob_Request r)) (\<lambda>again.
          if again \<noteq> [] then
            let reason = errors_New ''kernel slot changed while persisting creation intent'' in
            go_seq (block_with reason) (go_throw reason)
          else create_object env ctx p (ob_Request r) seq))))))"

definition delete_object :: "'w owned_env \<Rightarrow> 'w Context \<Rightarrow> object_ptr \<Rightarrow> 64 word \<Rightarrow> ('w, unit) owned" where
  "delete_object env ctx p seq =
     go_seq (owned_boundary ''before-delete'')
     (go_bind (own_get (\<lambda>s. object_at s p)) (\<lambda>r.
      go_bind (go_try (go_env (kn_NeighDel (oe_kernel env) (neigh (ob_Observed r))))) (\<lambda>deleted.
      go_seq (owned_boundary ''after-delete'')
      (case deleted of
         Inl err \<Rightarrow> go_seq (mutation_failed p False err) (go_throw (Errorf ''owned kernel deletion: %w'' [err]))
       | Inr _ \<Rightarrow> acknowledge_object env ctx p True seq))))"

definition withdrawObject :: "'w owned_env \<Rightarrow> 'w Context \<Rightarrow> object_ptr \<Rightarrow> ('w, unit) owned" where
  "withdrawObject env ctx p =
     go_bind (own_get (\<lambda>s. object_at s p)) (\<lambda>r.
     if ob_Status r = ''absent-confirmed'' then go_return ()
     else if ob_Status r = ''failed'' \<or> ob_Status r = ''unattempted'' then
       go_bind (slot env ctx (ob_Request r)) (\<lambda>found.
       if found \<noteq> [] then
         let reason = errors_New ''unowned slot appeared during partial withdrawal'' in
         go_seq (block_with reason) (go_throw reason)
       else set_object p (\<lambda>r. r\<lparr>ob_Status := ''absent-confirmed''\<rparr>))
     else if ob_Status r \<noteq> ''confirmed'' \<or> \<not> ob_ACK r
     then go_throw (errors_New ''no confirmed receipt for withdrawal: %s'')
     else
       go_seq (confirm env ctx p False)
       (go_seq (owned_check env ctx)
       (go_bind (beginMutation env ''netlink-delete'' p) (\<lambda>seq.
        go_seq (confirm env ctx p False) (delete_object env ctx p seq)))))"

section \<open>Routes\<close>

definition same_endpoint :: "ImportedType2Route \<Rightarrow> DesiredRemoteEndpoint \<Rightarrow> bool" where
  "same_endpoint route ep \<longleftrightarrow> de_Key ep = it_Key route \<and> de_NetworkID ep = it_NetworkName route \<and> de_VNI ep = it_VNI route \<and>
     de_MAC ep = it_MAC route \<and> de_IP ep = it_IP route \<and> de_RemoteVTEP ep = it_RemoteVTEP route"

definition route_network :: "ImportedType2Route \<Rightarrow> RemoteNetlinkNetwork \<Rightarrow> bool" where
  "route_network route n \<longleftrightarrow> nn_NetworkID n = it_NetworkName route \<and> nn_VNI n = it_VNI route \<and>
     nn_VXLANDevice n = it_VXLANDevice route \<and> nn_BridgeDevice n = it_NeighborDevice route"

definition owned_route :: "'w owned_env \<Rightarrow> 'w Context \<Rightarrow> ImportedType2Route \<Rightarrow>
    ('w, RemoteNetlinkNetwork \<times> DesiredRemoteEndpoint) owned" where
  "owned_route env ctx route =
     go_seq (owned_check env ctx)
     (case it_validated route of
        None \<Rightarrow> go_throw (errors_New ''verified importer proof and route incarnation required'')
      | Some ep \<Rightarrow>
          go_seq (go_require (it_incarnation route \<noteq> 0 \<and> it_generation route \<noteq> 0 \<and>
              de_ValidationState ep = ''validated'' \<and> de_Routes ep \<noteq> [])
            (errors_New ''verified importer proof and route incarnation required''))
          (go_seq (go_require (same_endpoint route ep) (errors_New ''backend DTO differs from validated endpoint''))
          (go_bind (own_get (\<lambda>s. find (route_network route) (nc_Networks (on_config s)))) (\<lambda>found. case found of
             None \<Rightarrow> go_throw (errors_New ''no explicit remote network/device mapping'')
           | Some n \<Rightarrow> go_return (n, ep)))))"

text \<open>\<open>s.devices[name]\<close>, the zero value for an unknown name.\<close>

definition device_at :: "'w ownedNetlinkState \<Rightarrow> string \<Rightarrow> RemoteDeviceIdentity" where
  "device_at s name = (case map_of (on_devices s) name of
     Some d \<Rightarrow> d
   | None \<Rightarrow> \<lparr>di_Name = [], di_Ifindex = 0, di_Kind = [], di_MasterIndex = 0, di_VNI = 0, di_Local = [],
       di_Port = 0, di_MAC = [], di_Alias = []\<rparr>)"

definition fdb_request :: "'w ownedNetlinkState \<Rightarrow> RemoteNetlinkNetwork \<Rightarrow> ImportedType2Route \<Rightarrow> RemoteKernelEntry" where
  "fdb_request s network route = zero_entry\<lparr>ke_Family := AF_BRIDGE,
     ke_Ifindex := di_Ifindex (device_at s (nn_VXLANDevice network)), ke_MAC := it_MAC route, ke_IP := it_RemoteVTEP route,
     ke_State := NUD_NOARP OR NUD_PERMANENT, ke_Flags := NTF_SELF OR NTF_EXT_LEARNED, ke_Type := RTN_UNICAST\<rparr>"

definition neighbor_request :: "'w ownedNetlinkState \<Rightarrow> RemoteNetlinkNetwork \<Rightarrow> ImportedType2Route \<Rightarrow> RemoteKernelEntry" where
  "neighbor_request s network route = zero_entry\<lparr>
     ke_Family := (case ParseIP (it_IP route) of Some ip \<Rightarrow> if Is4 ip then AF_INET else AF_INET6 | None \<Rightarrow> AF_INET6),
     ke_Ifindex := di_Ifindex (device_at s (nn_BridgeDevice network)), ke_MAC := it_MAC route, ke_IP := it_IP route,
     ke_State := NUD_NOARP, ke_Flags := NTF_EXT_LEARNED\<rparr>"

definition newReceipt :: "'w ownedNetlinkState \<Rightarrow> RemoteNetlinkNetwork \<Rightarrow> ImportedType2Route \<Rightarrow> DesiredRemoteEndpoint \<Rightarrow>
    RemoteNetlinkReceipt" where
  "newReceipt s network route ep = \<lparr>rc_Controller = on_controller s, rc_Target = on_target s, rc_Network = network,
     rc_Endpoint = ep, rc_Incarnation = it_incarnation route, rc_Generation = it_generation route,
     rc_Devices = [device_at s (nn_BridgeDevice network), device_at s (nn_VXLANDevice network)],
     rc_FDB = unattempted (fdb_request s network route),
     rc_Neighbor = (if it_IP route \<noteq> [] then Some (unattempted (neighbor_request s network route)) else None),
     rc_Status = [], rc_Retiring = False\<rparr>"

definition latest_at :: "'w ownedNetlinkState \<Rightarrow> string \<Rightarrow> 64 word" where
  "latest_at s key = (case map_of (on_latest s) key of None \<Rightarrow> 0 | Some n \<Rightarrow> n)"

text \<open>The receipt is of this controller, this target and this incarnation of the route.\<close>

definition current_receipt :: "'w ownedNetlinkState \<Rightarrow> RemoteNetlinkReceipt \<Rightarrow> ImportedType2Route \<Rightarrow> DesiredRemoteEndpoint \<Rightarrow> bool" where
  "current_receipt s r route ep \<longleftrightarrow> rc_Controller r = on_controller s \<and> rc_Target r = on_target s \<and>
     rc_Generation r = it_generation route \<and> rc_Incarnation r = it_incarnation route \<and> rc_Endpoint r = ep"

definition claim_receipt :: "ImportedType2Route \<Rightarrow> RemoteNetlinkNetwork \<Rightarrow> DesiredRemoteEndpoint \<Rightarrow> ('w, unit) owned" where
  "claim_receipt route network ep = go_bind (own_get (\<lambda>s. s)) (\<lambda>s. case map_of (on_receipts s) (it_Key route) of
     Some r \<Rightarrow> go_require (current_receipt s r route ep) (errors_New ''receipt incarnation/payload conflict'')
   | None \<Rightarrow>
       go_seq (go_require (it_incarnation route > latest_at s (it_Key route)) (errors_New ''stale route incarnation''))
       (own_modify (\<lambda>s. s\<lparr>on_latest := AList.update (it_Key route) (it_incarnation route) (on_latest s),
          on_receipts := AList.update (it_Key route) (newReceipt s network route ep) (on_receipts s)\<rparr>)))"

abbreviation set_receipt :: "string \<Rightarrow> (RemoteNetlinkReceipt \<Rightarrow> RemoteNetlinkReceipt) \<Rightarrow> ('w, unit) owned" where
  "set_receipt key f \<equiv> own_modify (update_receipt key f)"

definition has_neighbor :: "'w ownedNetlinkState \<Rightarrow> string \<Rightarrow> bool" where
  "has_neighbor s key = (case map_of (on_receipts s) key of None \<Rightarrow> False | Some r \<Rightarrow> rc_Neighbor r \<noteq> None)"

definition ownedApply :: "'w owned_env \<Rightarrow> 'w Context \<Rightarrow> ImportedType2Route \<Rightarrow> ('w, unit) owned" where
  "ownedApply env ctx route = (let key = it_Key route in
     go_bind (owned_route env ctx route) (\<lambda>(network, ep).
     go_seq (claim_receipt route network ep)
     (go_seq (set_receipt key (\<lambda>r. r\<lparr>rc_Status := ''partially-applied''\<rparr>))
     (go_seq (applyObject env ctx (key, FDB))
     (go_bind (own_get (\<lambda>s. has_neighbor s key)) (\<lambda>neighbor.
      go_seq (if neighbor then applyObject env ctx (key, Neighbor) else go_return ())
      (go_seq (set_receipt key (\<lambda>r. r\<lparr>rc_Status := ''applied''\<rparr>))
      (checkpoint env))))))))"

text \<open>The diagnostic journal of withdrawals keeps its last 64 entries.\<close>

definition log_withdrawal :: "RemoteNetlinkReceipt \<Rightarrow> RemoteNetlinkReceipt list \<Rightarrow> RemoteNetlinkReceipt list" where
  "log_withdrawal r withdrawals = (let all = withdrawals @ [r] in
     if length all > 64 then drop (length all - 64) all else all)"

definition retire :: "string \<Rightarrow> 'w ownedNetlinkState \<Rightarrow> 'w ownedNetlinkState" where
  "retire key s = (case map_of (on_receipts s) key of
     None \<Rightarrow> s
   | Some r \<Rightarrow> s\<lparr>on_withdrawals := log_withdrawal (r\<lparr>rc_Status := ''withdrawn''\<rparr>) (on_withdrawals s),
       on_receipts := AList.delete key (on_receipts s)\<rparr>)"

definition ownedWithdraw :: "'w owned_env \<Rightarrow> 'w Context \<Rightarrow> ImportedType2Route \<Rightarrow> ('w, unit) owned" where
  "ownedWithdraw env ctx route = (let key = it_Key route in
     go_bind (owned_route env ctx route) (\<lambda>(_, ep).
     go_bind (own_get (\<lambda>s. s)) (\<lambda>s.
     go_seq (go_require (case map_of (on_receipts s) key of
         None \<Rightarrow> False
       | Some r \<Rightarrow> current_receipt s r route ep \<and> latest_at s key = it_incarnation route)
       (errors_New ''withdrawal requires current controller/route receipt''))
     (go_seq (set_receipt key (\<lambda>r. r\<lparr>rc_Status := ''partially-withdrawn'', rc_Retiring := True\<rparr>))
     (go_seq (checkpoint env)
     (go_bind (own_get (\<lambda>s. has_neighbor s key)) (\<lambda>neighbor.
      go_seq (if neighbor then withdrawObject env ctx (key, Neighbor) else go_return ())
      (go_seq (withdrawObject env ctx (key, FDB))
      (go_seq (own_modify (retire key))
      (checkpoint env))))))))))"

text \<open>\<open>Apply\<close> and \<open>Withdraw\<close> of \<open>OVNNetlinkBackend\<close>: without an owned state they refuse.\<close>

definition with_backend :: "('w, unit) owned \<Rightarrow> ('w ownedNetlinkState option \<times> 'w, unit) go" where
  "with_backend m = (\<lambda>(b, w). case b of
     None \<Rightarrow> (Inl (errors_New ''remote Netlink disabled: explicit owned backend required''), (None, w))
   | Some s \<Rightarrow> (case m (s, w) of (r, (s', w')) \<Rightarrow> (r, (Some s', w'))))"

definition OVNNetlinkBackend_Apply :: "'w owned_env \<Rightarrow> 'w Context \<Rightarrow> ImportedType2Route \<Rightarrow>
    ('w ownedNetlinkState option \<times> 'w, unit) go" where
  "OVNNetlinkBackend_Apply env ctx route = with_backend (ownedApply env ctx route)"

definition OVNNetlinkBackend_Withdraw :: "'w owned_env \<Rightarrow> 'w Context \<Rightarrow> ImportedType2Route \<Rightarrow>
    ('w ownedNetlinkState option \<times> 'w, unit) go" where
  "OVNNetlinkBackend_Withdraw env ctx route = with_backend (ownedWithdraw env ctx route)"

definition OVNNetlinkBackend_Close :: "'w owned_env \<Rightarrow> ('w, unit) owned" where
  "OVNNetlinkBackend_Close env = go_bind (own_get (\<lambda>s. s)) (\<lambda>s.
     if on_closed s then go_return ()
     else go_seq (own_modify (\<lambda>s. s\<lparr>on_closed := True\<rparr>))
       (go_bind (go_try (go_env (kn_Close (oe_kernel env)))) (\<lambda>kernel.
        go_bind (go_try (go_env (case on_journal s of None \<Rightarrow> go_return () | Some j \<Rightarrow> jo_Close j))) (\<lambda>journal.
        case errors_Join [result_error kernel, result_error journal] of
          None \<Rightarrow> go_return () | Some e \<Rightarrow> go_throw e))))"

text \<open>Status: copies of the receipts in the order of their keys, and of the withdrawals.\<close>

definition Receipts :: "'w ownedNetlinkState option \<Rightarrow> RemoteNetlinkReceipt list" where
  "Receipts b = (case b of None \<Rightarrow> [] | Some s \<Rightarrow>
     sort_key (\<lambda>r. de_Key (rc_Endpoint r)) (map_values (on_receipts s)))"

definition Withdrawals :: "'w ownedNetlinkState option \<Rightarrow> RemoteNetlinkReceipt list" where
  "Withdrawals b = (case b of None \<Rightarrow> [] | Some s \<Rightarrow> on_withdrawals s)"

definition RecoveryState :: "'w ownedNetlinkState \<Rightarrow> string" where
  "RecoveryState s = (if on_blocked s \<noteq> None then ''RECOVERY_BLOCKED'' else on_recoveryState s)"

section \<open>Durable receipts\<close>

definition receiptRoute :: "RemoteNetlinkReceipt \<Rightarrow> ImportedType2Route" where
  "receiptRoute r = (let ep = rc_Endpoint r in
     \<lparr>it_Key = de_Key ep, it_NetworkName = de_NetworkID ep, it_VNI = de_VNI ep, it_MAC = de_MAC ep, it_IP = de_IP ep,
      it_RemoteVTEP = de_RemoteVTEP ep, it_VXLANDevice = nn_VXLANDevice (rc_Network r),
      it_BridgeDevice = nn_BridgeDevice (rc_Network r), it_NeighborDevice = nn_BridgeDevice (rc_Network r),
      it_incarnation = rc_Incarnation r, it_generation = rc_Generation r, it_validated = Some ep,
      it_retiring = rc_Retiring r\<rparr>)"

definition topology_ok :: "'w ownedNetlinkState \<Rightarrow> RemoteNetlinkNetwork \<Rightarrow> bool" where
  "topology_ok s n = (case (map_of (on_devices s) (nn_BridgeDevice n), map_of (on_devices s) (nn_VXLANDevice n)) of
     (Some br, Some vx) \<Rightarrow> di_Name br = nn_BridgeDevice n \<and> di_Name vx = nn_VXLANDevice n \<and>
       di_Ifindex br > 0 \<and> di_Ifindex vx > 0 \<and> di_Kind br = ''bridge'' \<and> di_Kind vx = ''vxlan'' \<and>
       di_VNI vx = uint (nn_VNI n) \<and> di_MasterIndex vx = di_Ifindex br
   | _ \<Rightarrow> False)"

definition receipt_identity_ok :: "netlink_codec \<Rightarrow> 'w ownedNetlinkState \<Rightarrow> string \<Rightarrow> RemoteNetlinkReceipt \<Rightarrow> bool" where
  "receipt_identity_ok cd s key r \<longleftrightarrow> rc_Controller r = on_controller s \<and> rc_Target r = on_target s \<and>
     de_Key (rc_Endpoint r) = key \<and>
     key = kc_hash_strings cd [de_NetworkID (rc_Endpoint r), de_MAC (rc_Endpoint r), de_IP (rc_Endpoint r)] \<and>
     rc_Incarnation r \<noteq> 0 \<and> rc_Generation r \<noteq> 0 \<and> rc_Generation r \<le> sn_Generation (on_snapshot s) \<and>
     latest_at s key = rc_Incarnation r \<and> de_ValidationState (rc_Endpoint r) = ''validated'' \<and> de_Routes (rc_Endpoint r) \<noteq> []"

definition receipt_mapping_ok :: "'w ownedNetlinkState \<Rightarrow> RemoteNetlinkReceipt \<Rightarrow> bool" where
  "receipt_mapping_ok s r \<longleftrightarrow> rc_Network r \<in> set (nc_Networks (on_config s)) \<and>
     nn_NetworkID (rc_Network r) = de_NetworkID (rc_Endpoint r) \<and> nn_VNI (rc_Network r) = de_VNI (rc_Endpoint r) \<and>
     rc_Devices r = [device_at s (nn_BridgeDevice (rc_Network r)), device_at s (nn_VXLANDevice (rc_Network r))]"

definition receipt_tuple_ok :: "'w ownedNetlinkState \<Rightarrow> RemoteNetlinkReceipt \<Rightarrow> bool" where
  "receipt_tuple_ok s r \<longleftrightarrow> (let expected = newReceipt s (rc_Network r) (receiptRoute r) (rc_Endpoint r) in
     ob_Request (rc_FDB expected) = ob_Request (rc_FDB r) \<and>
     map_option ob_Request (rc_Neighbor expected) = map_option ob_Request (rc_Neighbor r))"

text \<open>\<open>%d\<close> of an \<open>int\<close>, and the name of a kernel slot.\<close>

definition FormatInt :: "int \<Rightarrow> string" where
  "FormatInt i = (if i < 0 then ''-'' @ FormatUint (nat (- i)) else FormatUint (nat i))"

definition slot_name :: "RemoteKernelEntry \<Rightarrow> string" where
  "slot_name e = FormatInt (ke_Family e) @ ''/'' @ FormatInt (ke_Ifindex e) @ ''/'' @
     (if ke_Family e = AF_BRIDGE then ke_MAC e else ke_IP e)"

definition object_status_ok :: "RemoteObjectReceipt \<Rightarrow> go_error + unit" where
  "object_status_ok o1 =
    (if ob_Status o1 = ''confirmed'' then
       (if \<not> ob_ACK o1 \<or> ob_DeleteACK o1 \<or> ob_Observed o1 \<noteq> (ob_Request o1)\<lparr>ke_Type := ke_Type (ob_Observed o1)\<rparr> \<or>
          (ke_Family (ob_Request o1) = AF_BRIDGE \<and> ke_Type (ob_Observed o1) \<noteq> ke_Type (ob_Request o1)) \<or>
          (ke_Family (ob_Request o1) \<noteq> AF_BRIDGE \<and> ke_Type (ob_Observed o1) \<noteq> RTN_UNICAST \<and>
           ke_Type (ob_Observed o1) \<noteq> RTN_BROADCAST)
        then Inl (Blocked ''%w: invalid confirmed kernel readback'') else Inr ())
     else if ob_Status o1 = ''unattempted'' \<or> ob_Status o1 = ''failed'' then
       (if ob_ACK o1 \<or> ob_DeleteACK o1 \<or> ob_Observed o1 \<noteq> zero_entry
        then Inl (Blocked ''%w: unconfirmed receipt contains acknowledgement evidence'') else Inr ())
     else if ob_Status o1 = ''absent-confirmed'' then Inr ()
     else Inl (Blocked ''%w: unresolved kernel receipt status %q''))"

definition receipt_objects :: "RemoteNetlinkReceipt \<Rightarrow> RemoteObjectReceipt list" where
  "receipt_objects r = rc_FDB r # (case rc_Neighbor r of None \<Rightarrow> [] | Some o1 \<Rightarrow> [o1])"

fun validate_objects :: "string list \<Rightarrow> RemoteObjectReceipt list \<Rightarrow> go_error + string list" where
  "validate_objects slots [] = Inr slots"
| "validate_objects slots (o1 # os) =
    (if slot_name (ob_Request o1) \<in> set slots then Inl (Blocked ''%w: duplicate durable kernel slot'')
     else sum_bind (object_status_ok o1) (\<lambda>_. validate_objects (slot_name (ob_Request o1) # slots) os))"

definition validate_receipt :: "netlink_codec \<Rightarrow> 'w ownedNetlinkState \<Rightarrow> string list \<Rightarrow> string \<Rightarrow> RemoteNetlinkReceipt \<Rightarrow>
    go_error + string list" where
  "validate_receipt cd s slots key r =
    (if \<not> receipt_identity_ok cd s key r
     then Inl (Blocked ''%w: invalid durable importer receipt identity/generation'')
     else if rc_Status r \<notin> {''partially-applied'', ''applied'', ''partially-withdrawn''}
     then Inl (Blocked ''%w: invalid durable route status %q'')
     else if rc_Retiring r \<noteq> (rc_Status r = ''partially-withdrawn'')
     then Inl (Blocked ''%w: inconsistent retirement evidence'')
     else if \<not> receipt_mapping_ok s r then Inl (Blocked ''%w: receipt device/network mapping conflict'')
     else if \<not> receipt_tuple_ok s r then Inl (Blocked ''%w: durable kernel tuple differs from validated endpoint'')
     else validate_objects slots (receipt_objects r))"

fun validate_each :: "netlink_codec \<Rightarrow> 'w ownedNetlinkState \<Rightarrow> (string \<Rightarrow> RemoteNetlinkReceipt option option) \<Rightarrow>
    string list \<Rightarrow> string list \<Rightarrow> go_error + unit" where
  "validate_each cd s receipts slots [] = Inr ()"
| "validate_each cd s receipts slots (key # keys) = (case receipts key of
     Some (Some r) \<Rightarrow> sum_bind (validate_receipt cd s slots key r) (\<lambda>slots'. validate_each cd s receipts slots' keys)
   | Some None \<Rightarrow> Inl (Blocked ''%w: invalid durable importer receipt identity/generation'')
   | None \<Rightarrow> validate_each cd s receipts slots keys)"

definition validateReceipts :: "netlink_codec \<Rightarrow> 'w ownedNetlinkState \<Rightarrow> (string, RemoteNetlinkReceipt option) gomap \<Rightarrow>
    go_error + unit" where
  "validateReceipts cd s receipts =
    (if \<not> list_all (topology_ok s) (nc_Networks (on_config s)) then Inl (Blocked ''%w: invalid durable device topology'')
     else validate_each cd s (map_of receipts) [] (map_keys receipts))"

definition hasConfirmedEntry :: "'w ownedNetlinkState \<Rightarrow> RemoteKernelEntry \<Rightarrow> bool" where
  "hasConfirmedEntry s entry = list_ex (\<lambda>r. list_ex (\<lambda>o1. ob_Status o1 = ''confirmed'' \<and> ob_ACK o1 \<and> ob_Observed o1 = entry)
     (receipt_objects r)) (map_values (on_receipts s))"

section \<open>Opening the backend\<close>

definition openRecovery_state :: "'w owned_env \<Rightarrow> string \<Rightarrow> string \<Rightarrow> ('w, unit) owned" where
  "openRecovery_state env marker state =
     go_bind (go_of (case kc_DecodeState (oe_codec env) state of
         Inl _ \<Rightarrow> Inl (Blocked ''%w: invalid importer receipt state: %v'')
       | Inr (r, rest) \<Rightarrow> if json_EOF rest then Inr r else Inl (Blocked ''%w: trailing importer state''))) (\<lambda>r.
     go_seq (go_require (ss_Quarantine r = None) (Blocked ''%w: durable importer quarantine: %s''))
     (go_bind (own_get (\<lambda>s. s)) (\<lambda>s.
      case (ss_Receipts r, ss_Latest r) of
        (Some receipts, Some latest) \<Rightarrow>
          go_seq (go_require ((case kc_ParseUUID (oe_codec env) (ss_Controller r) of
                None \<Rightarrow> False | Some controller \<Rightarrow> controller \<noteq> uuid_Nil) \<and>
              ss_Version r = 1 \<and> ss_Target r = on_target s \<and> ss_Networks r = nc_Networks (on_config s) \<and>
              map_len (ss_Devices r) = 2 * length (ss_Networks r))
            (Blocked ''%w: invalid importer version, domain, devices or controller''))
          (go_seq (own_modify (\<lambda>s. s\<lparr>on_controller := ss_Controller r, on_devices := ss_Devices r,
             on_receipts := List.map_filter (\<lambda>(k, v). map_option (Pair k) v) receipts,
             on_latest := latest, on_snapshot := ss_Snapshot r, on_markerPath := marker\<rparr>))
          (go_bind (own_get (\<lambda>s. s)) (\<lambda>s'.
           go_seq (go_env (verifyMarker env s'))
           (go_of (validateReceipts (oe_codec env) s' receipts)))))
      | _ \<Rightarrow> go_throw (Blocked ''%w: invalid importer version, domain, devices or controller''))))"

definition openRecovery :: "'w owned_env \<Rightarrow> Domain \<Rightarrow> string \<Rightarrow> string \<Rightarrow> ('w, unit) owned" where
  "openRecovery env d boot namespace =
     go_seq (own_modify (\<lambda>s. s\<lparr>on_recoveryState := ''VERIFYING_OWNERSHIP''\<rparr>))
     (go_seq (go_require (d_BootID d = boot \<and> d_NetworkNamespace d = namespace)
        (Blocked ''%w: actual boot/network namespace differs from journal domain''))
     (go_bind (own_get (\<lambda>s. nc_StateDirectory (on_config s))) (\<lambda>dir.
      let path = filepath_Join dir ''receipts-v1''; marker = filepath_Join dir ''remote-netlink-owner'' in
      go_bind (go_try (go_env (oe_Lstat env marker))) (\<lambda>found.
      go_seq (go_require (case found of Inl e \<Rightarrow> errors_Is e ENOENT | Inr _ \<Rightarrow> True)
        (Blocked ''%w: inspect legacy marker: %v''))
      (go_seq (if found = Inr () then go_wrap (\<lambda>_. Blocked
            ''%w: marker-only installation has no valid receipt journal; explicit administrator migration required: %v'')
            (go_env (oe_Lstat env path))
          else go_return ())
      (go_bind (go_env (oe_OpenJournal env path d)) (\<lambda>j.
       go_seq (own_modify (\<lambda>s. s\<lparr>on_journal := Some j\<rparr>))
       (go_bind (go_env (jo_Snapshot j)) (\<lambda>(state, pending).
        go_seq (go_require (pending = None)
          (Blocked ''%w: unresolved importer mutation %s sequence %d; do not infer ownership from kernel tuples''))
        (if state = ''null''
         then go_require (found \<noteq> Inr ()) (Blocked ''%w: marker exists without durable importer receipts'')
         else openRecovery_state env marker state))))))))))"

text \<open>Bind one device of a network to its identity; a recovered identity must not have changed.\<close>

definition bind_device :: "'w owned_env \<Rightarrow> string \<Rightarrow> ('w, unit) owned" where
  "bind_device env name =
     go_bind (owned_device env name) (\<lambda>d.
     go_bind (own_get (\<lambda>s. map_of (on_devices s) name)) (\<lambda>expected.
     if expected \<noteq> None \<and> expected \<noteq> Some d
     then go_seq (block_with (errors_New (''managed device identity changed: '' @ name))) (quarantineError env)
     else own_modify (\<lambda>s. s\<lparr>on_devices := AList.update name d (on_devices s)\<rparr>)))"

definition adoptable :: "'w ownedNetlinkState \<Rightarrow> int \<Rightarrow> Neigh \<Rightarrow> bool" where
  "adoptable s family entry \<longleftrightarrow>
     \<not> (ng_Flags entry AND NTF_EXT_LEARNED \<noteq> 0 \<or> (family = AF_BRIDGE \<and> ng_IP entry \<noteq> None)) \<or>
     (on_journal s \<noteq> None \<and> hasConfirmedEntry s (kernelEntry entry))"

definition check_scope :: "'w owned_env \<Rightarrow> int \<times> int \<Rightarrow> ('w, unit) owned" where
  "check_scope env scope = (case scope of (index, family) \<Rightarrow>
     go_bind (go_wrap (\<lambda>e. Errorf ''initial remote-domain observation: %w'' [e])
       (go_env (kn_NeighList (oe_kernel env) index family))) (\<lambda>entries.
     go_bind (own_get (\<lambda>s. list_all (adoptable s family) entries)) (\<lambda>clean.
     if clean then go_return ()
     else go_seq (block_with (errors_New ''network %s has unowned remote kernel state; no startup adoption''))
       (quarantineError env))))"

definition bind_network :: "'w owned_env \<Rightarrow> RemoteNetlinkNetwork \<Rightarrow> ('w, unit) owned" where
  "bind_network env network =
     go_seq (go_each (bind_device env) [nn_BridgeDevice network, nn_VXLANDevice network])
     (go_bind (own_get (\<lambda>s. (device_at s (nn_BridgeDevice network), device_at s (nn_VXLANDevice network)))) (\<lambda>(bridge, vxlan).
      go_seq (go_require (di_Kind bridge = ''bridge'' \<and> di_Kind vxlan = ''vxlan'' \<and> di_VNI vxlan = uint (nn_VNI network) \<and>
          di_MasterIndex vxlan = di_Ifindex bridge)
        (errors_New ''network %s has invalid bridge/VXLAN topology''))
      (go_each (check_scope env) [(di_Ifindex vxlan, AF_BRIDGE), (di_Ifindex bridge, AF_INET), (di_Ifindex bridge, AF_INET6)])))"

text \<open>Compare every recovered object with the kernel.\<close>

definition recover_object :: "'w owned_env \<Rightarrow> 'w Context \<Rightarrow> object_ptr \<Rightarrow> ('w, unit) owned" where
  "recover_object env ctx p =
     go_bind (own_get (\<lambda>s. object_at s p)) (\<lambda>o1.
     go_bind (slot env ctx (ob_Request o1)) (\<lambda>found.
     if ob_Status o1 = ''confirmed'' \<and> found = [ob_Observed o1] then go_return ()
     else if found \<noteq> []
     then go_seq (block_with (errors_New ''foreign/conflicting kernel slot during recovery'')) (quarantineError env)
     else
       go_bind (own_get (\<lambda>s. map_option rc_Retiring (map_of (on_receipts s) (fst p)))) (\<lambda>retiring.
       if retiring = Some True then set_object p (\<lambda>r. r\<lparr>ob_Status := ''absent-confirmed''\<rparr>)
       else go_seq (set_object p (\<lambda>r. r\<lparr>ob_Status := ''unattempted'', ob_ACK := False, ob_DeleteACK := False, ob_Observed := zero_entry\<rparr>))
         (set_receipt (fst p) (\<lambda>r. r\<lparr>rc_Status := ''partially-applied''\<rparr>)))))"

definition receipt_ptrs :: "'w ownedNetlinkState \<Rightarrow> object_ptr list" where
  "receipt_ptrs s = concat (map (\<lambda>key. (key, FDB) # (if has_neighbor s key then [(key, Neighbor)] else []))
     (map_keys (on_receipts s)))"

definition verifyRecovered :: "'w owned_env \<Rightarrow> 'w Context \<Rightarrow> ('w, unit) owned" where
  "verifyRecovered env ctx =
     go_bind (own_get (\<lambda>s. s)) (\<lambda>s.
     go_seq (go_of (validateReceipts (oe_codec env) s (map (map_prod (\<lambda>k. k) Some) (on_receipts s))))
     (go_seq (go_each (recover_object env ctx) (receipt_ptrs s))
     (checkpoint env)))"

definition take_marker :: "'w owned_env \<Rightarrow> ('w, unit) owned" where
  "take_marker env =
     go_bind (own_get (\<lambda>s. s)) (\<lambda>s.
     if on_markerPath s \<noteq> [] then go_return ()
     else
       go_seq (checkpoint env)
       (go_seq (go_env (acquireRemoteMarker env (nc_StateDirectory (on_config s)) (on_controller s) (on_target s)))
       (own_modify (\<lambda>s. s\<lparr>on_markerPath := filepath_Join (nc_StateDirectory (on_config s)) ''remote-netlink-owner''\<rparr>))))"

definition start_backend :: "'w owned_env \<Rightarrow> RemoteNetlinkConfig \<Rightarrow> string \<Rightarrow> string \<Rightarrow> ('w, unit) owned" where
  "start_backend env config boot namespace =
     go_seq (case nc_Recovery config of None \<Rightarrow> go_return () | Some d \<Rightarrow> openRecovery env d boot namespace)
     (go_seq (go_each (bind_network env) (nc_Networks config))
     (go_seq (owned_check env (go_return ()))
     (go_seq (take_marker env)
     (go_bind (own_get on_journal) (\<lambda>journal. case journal of
        None \<Rightarrow> go_return ()
      | Some _ \<Rightarrow> go_seq (verifyRecovered env (go_return ()))
          (own_modify (\<lambda>s. s\<lparr>on_recoveryState := ''RECONCILING_STATE''\<rparr>)))))))"

definition initial_owned :: "RemoteNetlinkConfig \<Rightarrow> string \<Rightarrow> string \<Rightarrow> 'w ownedNetlinkState" where
  "initial_owned config controller target = \<lparr>on_config = config, on_controller = controller, on_target = target,
     on_devices = [], on_receipts = [], on_withdrawals = [], on_latest = [], on_lost = False, on_blocked = None,
     on_closed = False, on_markerPath = [], on_subscribed = True, on_journal = None, on_snapshot = zero_snapshot,
     on_recoveryState = [], on_fault = None\<rparr>"

text \<open>Run the start; a failure closes the backend and returns no backend.\<close>

definition run_start :: "'w owned_env \<Rightarrow> RemoteNetlinkConfig \<Rightarrow> string \<Rightarrow> string \<Rightarrow> 'w ownedNetlinkState \<Rightarrow>
    ('w, 'w ownedNetlinkState) go" where
  "run_start env config boot namespace s0 w = (case start_backend env config boot namespace (s0, w) of
     (Inr _, (s, w')) \<Rightarrow> (Inr s, w')
   | (Inl e, (s, w')) \<Rightarrow> (Inl e, snd (snd (OVNNetlinkBackend_Close env (s, w')))))"

definition NewOwnedOVNNetlinkBackend :: "'w owned_env \<Rightarrow> RemoteNetlinkConfig \<Rightarrow> ('w, 'w ownedNetlinkState) go" where
  "NewOwnedOVNNetlinkBackend env config = (let kernel = oe_kernel env in
     go_seq (go_of (RemoteNetlinkConfig_Validate config))
     (go_seq (go_require (nc_Enabled config) (errors_New ''remote Netlink writes are disabled''))
     (go_bind (oe_NetNS env) (\<lambda>ns.
      go_bind (oe_BootID env) (\<lambda>boot.
      go_seq (kn_Open kernel)
      (go_bind (go_try (kn_SetSocketTimeout kernel)) (\<lambda>r. case r of
         Inl e \<Rightarrow> go_bind (go_try (kn_Close kernel)) (\<lambda>_. go_throw e)
       | Inr _ \<Rightarrow>
           go_bind (px_NewUUID (oe_posix env)) (\<lambda>controller.
           go_bind (go_try (kn_Subscribe kernel)) (\<lambda>subscribed. case subscribed of
             Inl e \<Rightarrow> go_bind (go_try (kn_Close kernel)) (\<lambda>_. go_throw (Errorf ''link lifetime subscription: %w'' [e]))
           | Inr _ \<Rightarrow> run_start env config (TrimSpace boot) ns
               (initial_owned config controller (TrimSpace boot @ ''/'' @ ns)))))))))))"

end
