(* ===== verification/Netlink_Import.thy ===== *)
theory Netlink_Import
  imports Netlink_Backend
begin

text \<open>
  \<open>pkg/evpn/route_importer.go\<close> and \<open>remote_netlink_import.go\<close>: the loop that brings the
  kernel in line with the remote routes. It has two modes: the received routes of an embedded BGP
  server, validated one by one and given to a \<open>DataplaneBackend\<close>, and the published snapshots of
  the read-only importer, given to the owned netlink backend. \<open>restoreReceipts\<close> of
  \<open>remote_recovery.go\<close> starts the second mode from durable receipts.
\<close>

section \<open>Received routes\<close>

record EVPNImportNetwork =
  en_Name :: string
  en_VNI :: "32 word"
  en_RouteTarget :: string
  en_VXLANDevice :: string
  en_BridgeDevice :: string
  en_NeighborDevice :: string

record ReceivedType2Route =
  rx_MAC :: string
  rx_IP :: string
  rx_RD :: string
  rx_Labels :: "32 word list"
  rx_NextHop :: string
  rx_Attrs :: "PathAttribute list"

record 'w RouteSnapshotSource =
  rss_Snapshot :: "'w Context \<Rightarrow> ('w, ReceivedType2Route list) go"

record 'w DataplaneBackend =
  db_Apply :: "'w Context \<Rightarrow> ImportedType2Route \<Rightarrow> ('w, unit) go"
  db_Withdraw :: "'w Context \<Rightarrow> ImportedType2Route \<Rightarrow> ('w, unit) go"

text \<open>
  What the source uses of \<open>apiutil.Path\<close> and of \<open>server.BgpServer.ListPath\<close>, which calls
  back once per prefix; \<open>None\<close> is a nil prefix.
\<close>

record apiutil_Path =
  up_Withdrawal :: bool
  up_Stale :: bool
  up_PeerAddress :: "Addr option"
  up_Attrs :: "PathAttribute list"

record 'w BgpServer =
  bs_ListPath :: "('w, (EVPNNLRI option \<times> apiutil_Path list) list) go"

definition received_path :: "bgp_lib \<Rightarrow> EVPNMacIPAdvertisementRoute \<Rightarrow> rd \<Rightarrow> apiutil_Path \<Rightarrow> ReceivedType2Route option" where
  "received_path bgp m rd p =
    (if up_Withdrawal p \<or> up_Stale p then None
     else let ip = TrimSpace (address_string (m_IPAddress m));
       peer = TrimSpace (address_string (up_PeerAddress p));
       remoteVTEP = (if peer = [] \<or> peer = ''<nil>'' \<or> peer = ''invalid IP'' \<or> ParseIP peer = None
         then TrimSpace (pathNextHop (up_Attrs p)) else peer)
     in Some \<lparr>rx_MAC = ToLower (TrimSpace (HardwareAddr_String (m_MacAddress m))), rx_IP = (if ip = ''<nil>'' then [] else ip),
          rx_RD = TrimSpace (RD_String bgp rd), rx_Labels = m_Labels m, rx_NextHop = remoteVTEP, rx_Attrs = up_Attrs p\<rparr>)"

text \<open>A nil route distinguisher panics.\<close>

definition nil_dereference :: go_error where
  "nil_dereference = errors_New ''nil pointer dereference''"

definition received_prefix :: "bgp_lib \<Rightarrow> EVPNNLRI option \<times> apiutil_Path list \<Rightarrow> go_error + ReceivedType2Route list" where
  "received_prefix bgp prefix = (case prefix of
     (None, _) \<Rightarrow> Inr []
   | (Some evpn, paths) \<Rightarrow>
       if n_RouteType evpn \<noteq> EVPN_ROUTE_TYPE_MAC_IP_ADVERTISEMENT then Inr []
       else (case n_RouteTypeData evpn of
           OtherRouteTypeData _ \<Rightarrow> Inr []
         | MacIPAdvertisement m \<Rightarrow> (case m_RD m of
             None \<Rightarrow> if list_ex (\<lambda>p. \<not> (up_Withdrawal p \<or> up_Stale p)) paths then Inl nil_dereference else Inr []
           | Some rd \<Rightarrow> Inr (List.map_filter (received_path bgp m rd) paths))))"

definition GoBGPServer_Snapshot :: "bgp_lib \<Rightarrow> 'w BgpServer option \<Rightarrow> ('w, ReceivedType2Route list) go" where
  "GoBGPServer_Snapshot bgp server = (case server of
     None \<Rightarrow> go_throw (errors_New ''gobgp snapshot source is not configured'')
   | Some s \<Rightarrow> go_bind (bs_ListPath s) (go_concat (\<lambda>prefix. go_of (received_prefix bgp prefix))))"

section \<open>Validation of received routes\<close>

fun match_communities :: "bgp_lib \<Rightarrow> string \<Rightarrow> ExtendedCommunity list \<Rightarrow> go_error + bool" where
  "match_communities bgp want [] = Inr False"
| "match_communities bgp want (c # cs) = (case Community_Serialize bgp c of
     None \<Rightarrow> Inl (errors_New ''ExtendedCommunity.Serialize'')
   | Some got \<Rightarrow> if got = want then Inr True else match_communities bgp want cs)"

fun match_attributes :: "bgp_lib \<Rightarrow> string \<Rightarrow> PathAttribute list \<Rightarrow> go_error + bool" where
  "match_attributes bgp want [] = Inr False"
| "match_attributes bgp want (attr # attrs) = (case attr of
     PathAttributeExtendedCommunities cs \<Rightarrow>
       sum_bind (match_communities bgp want cs) (\<lambda>found. if found then Inr True else match_attributes bgp want attrs)
   | _ \<Rightarrow> match_attributes bgp want attrs)"

definition pathHasRouteTarget :: "bgp_lib \<Rightarrow> PathAttribute list \<Rightarrow> string \<Rightarrow> go_error + bool" where
  "pathHasRouteTarget bgp attrs wantRT =
     sum_bind (libcall ''ParseRouteTarget'' (ParseRouteTarget bgp wantRT)) (\<lambda>want.
     sum_bind (libcall ''ExtendedCommunity.Serialize'' (Community_Serialize bgp want)) (\<lambda>wantBytes.
     match_attributes bgp wantBytes attrs))"

record Type2RouteValidator =
  va_LocalVTEP :: string
  va_Networks :: "EVPNImportNetwork list"

definition received_ok :: "Type2RouteValidator \<Rightarrow> ReceivedType2Route \<Rightarrow> bool" where
  "received_ok v route \<longleftrightarrow> \<not> (TrimSpace (rx_MAC route) = [] \<or> ParseMAC (rx_MAC route) = None \<or>
     rx_Labels route = [] \<or> hd (rx_Labels route) = 0 \<or> rx_IP route = [] \<or>
     (case ParseIP (rx_IP route) of None \<Rightarrow> True | Some ip \<Rightarrow> \<not> Is4 ip) \<or> ParseIP (rx_NextHop route) = None \<or>
     (TrimSpace (va_LocalVTEP v) \<noteq> [] \<and> TrimSpace (rx_NextHop route) = TrimSpace (va_LocalVTEP v)))"

definition imported_route :: "EVPNImportNetwork \<Rightarrow> ReceivedType2Route \<Rightarrow> ImportedType2Route" where
  "imported_route network route = \<lparr>
     it_Key = Join [en_Name network, FormatUint (unat (en_VNI network)), ToLower (rx_MAC route), rx_IP route] ''/'',
     it_NetworkName = en_Name network, it_VNI = en_VNI network, it_MAC = ToLower (rx_MAC route),
     it_IP = TrimSpace (rx_IP route), it_RemoteVTEP = TrimSpace (rx_NextHop route), it_VXLANDevice = en_VXLANDevice network,
     it_BridgeDevice = en_BridgeDevice network, it_NeighborDevice = en_NeighborDevice network,
     it_incarnation = 0, it_generation = 0, it_validated = None, it_retiring = False\<rparr>"

fun match_network :: "bgp_lib \<Rightarrow> ReceivedType2Route \<Rightarrow> EVPNImportNetwork list \<Rightarrow> go_error + ImportedType2Route option" where
  "match_network bgp route [] = Inr None"
| "match_network bgp route (network # networks) =
    (if hd (rx_Labels route) \<noteq> en_VNI network then match_network bgp route networks
     else sum_bind (pathHasRouteTarget bgp (rx_Attrs route) (en_RouteTarget network)) (\<lambda>matchRT.
       if matchRT then Inr (Some (imported_route network route)) else match_network bgp route networks))"

definition Type2RouteValidator_Validate :: "bgp_lib \<Rightarrow> Type2RouteValidator \<Rightarrow> ReceivedType2Route \<Rightarrow>
    go_error + ImportedType2Route option" where
  "Type2RouteValidator_Validate bgp v route =
    (if received_ok v route then match_network bgp route (va_Networks v) else Inr None)"

section \<open>The importer\<close>

record 'w RemoteType2Importer =
  ri_source :: "'w RouteSnapshotSource option"
  ri_validator :: "Type2RouteValidator option"
  ri_backend :: "'w DataplaneBackend option"
  ri_maxRetries :: nat
  ri_active :: "(string, ImportedType2Route) gomap"
  ri_verified :: "'w ReadOnlyType2Importer option"
  ri_owned :: "'w ownedNetlinkState option"
  ri_last :: RemoteImportSnapshot
  ri_epoch :: "64 word"
  ri_confirmedGeneration :: "64 word"
  ri_confirmedDigest :: string

type_synonym ('w, 'a) importing = "('w RemoteType2Importer \<times> 'w, 'a) go"

abbreviation imp_get :: "('w RemoteType2Importer \<Rightarrow> 'a) \<Rightarrow> ('w, 'a) importing" where
  "imp_get f \<equiv> go_get (\<lambda>iw. f (fst iw))"

abbreviation imp_modify :: "('w RemoteType2Importer \<Rightarrow> 'w RemoteType2Importer) \<Rightarrow> ('w, unit) importing" where
  "imp_modify f \<equiv> go_modify (map_prod f (\<lambda>w. w))"

definition NewRemoteType2Importer :: "'w RouteSnapshotSource option \<Rightarrow> Type2RouteValidator option \<Rightarrow>
    'w DataplaneBackend option \<Rightarrow> 'w RemoteType2Importer" where
  "NewRemoteType2Importer source validator backend = \<lparr>ri_source = source, ri_validator = validator, ri_backend = backend,
     ri_maxRetries = 3, ri_active = [], ri_verified = None, ri_owned = None, ri_last = zero_snapshot, ri_epoch = 0,
     ri_confirmedGeneration = 0, ri_confirmedDigest = []\<rparr>"

text \<open>A call on the owned backend, a poll of the read-only importer.\<close>

definition with_owned :: "('w, 'a) owned \<Rightarrow> ('w, 'a) importing" where
  "with_owned m = (\<lambda>(i, w). case ri_owned i of
     None \<Rightarrow> (Inl nil_dereference, (i, w))
   | Some s \<Rightarrow> (case m (s, w) of (r, (s', w')) \<Rightarrow> (r, (i\<lparr>ri_owned := Some s'\<rparr>, w'))))"

definition poll_verified :: "import_lib \<Rightarrow> 'w Context \<Rightarrow> ('w, RemoteImportSnapshot \<times> go_error option) importing" where
  "poll_verified lib ctx = (\<lambda>(i, w). case ri_verified i of
     None \<Rightarrow> (Inl nil_dereference, (i, w))
   | Some v \<Rightarrow> (case Poll lib ctx (v, w) of (res, (v', w')) \<Rightarrow> (Inr res, (i\<lparr>ri_verified := Some v'\<rparr>, w'))))"

section \<open>Applying a published snapshot\<close>

text \<open>A validated route is evidence for an endpoint; the routes of an endpoint must prove its address.\<close>

definition evidence_ok :: "bgp_lib \<Rightarrow> RemoteImportConfig \<Rightarrow> DesiredRemoteEndpoint \<Rightarrow> ValidatedRemoteRoute \<Rightarrow> bool" where
  "evidence_ok bgp c ep route = (case ValidateRoute bgp c (vr_Route route) of
     Inl _ \<Rightarrow> False
   | Inr valid \<Rightarrow> vr_NetworkID valid = de_NetworkID ep \<and> vr_VNI valid = de_VNI ep \<and>
       vr_NetworkID route = de_NetworkID ep \<and> vr_VNI route = de_VNI ep \<and> dr_MAC (vr_Route route) = de_MAC ep \<and>
       (dr_IP (vr_Route route) = de_IP ep \<or> dr_IP (vr_Route route) = []) \<and> dr_NextHop (vr_Route route) = de_RemoteVTEP ep \<and>
       pi_Key (dr_Source (vr_Route route)) \<noteq> [])"

definition ip_confirmed :: "DesiredRemoteEndpoint \<Rightarrow> bool" where
  "ip_confirmed ep \<longleftrightarrow> de_IP ep = [] \<or> list_ex (\<lambda>route. dr_IP (vr_Route route) = de_IP ep) (de_Routes ep)"

text \<open>The loop over the networks keeps the last match.\<close>

definition writer_network :: "RemoteNetlinkNetwork list \<Rightarrow> DesiredRemoteEndpoint \<Rightarrow> RemoteNetlinkNetwork option" where
  "writer_network networks ep =
     find (\<lambda>n. nn_NetworkID n = de_NetworkID ep \<and> nn_VNI n = de_VNI ep) (rev networks)"

definition endpoint_slots :: "RemoteNetlinkNetwork \<Rightarrow> DesiredRemoteEndpoint \<Rightarrow> string list" where
  "endpoint_slots network ep = (nn_VXLANDevice network @ ''/mac/'' @ de_MAC ep) #
     (if de_IP ep \<noteq> [] then [nn_BridgeDevice network @ ''/ip/'' @ de_IP ep] else [])"

definition desired_route :: "RemoteNetlinkNetwork \<Rightarrow> 64 word \<Rightarrow> DesiredRemoteEndpoint \<Rightarrow> ImportedType2Route" where
  "desired_route network generation ep = \<lparr>it_Key = de_Key ep, it_NetworkName = de_NetworkID ep, it_VNI = de_VNI ep,
     it_MAC = de_MAC ep, it_IP = de_IP ep, it_RemoteVTEP = de_RemoteVTEP ep, it_VXLANDevice = nn_VXLANDevice network,
     it_BridgeDevice = nn_BridgeDevice network, it_NeighborDevice = nn_BridgeDevice network, it_incarnation = 0,
     it_generation = generation, it_validated = Some ep, it_retiring = False\<rparr>"

definition desired_endpoint :: "bgp_lib \<Rightarrow> netlink_codec \<Rightarrow> RemoteImportConfig \<Rightarrow> RemoteNetlinkNetwork list \<Rightarrow> 64 word \<Rightarrow>
    string list \<Rightarrow> DesiredRemoteEndpoint \<Rightarrow> go_error + ImportedType2Route \<times> string list" where
  "desired_endpoint bgp cd c networks generation slots ep =
    (if de_ValidationState ep \<noteq> ''validated'' \<or> de_Routes ep = [] \<or> generation = 0 \<or>
       de_Key ep \<noteq> kc_hash_strings cd [de_NetworkID ep, de_MAC ep, de_IP ep]
     then Inl (errors_New ''invalid validated endpoint identity'')
     else if \<not> list_all (evidence_ok bgp c ep) (de_Routes ep)
     then Inl (errors_New ''endpoint differs from validated source evidence: %v'')
     else if \<not> ip_confirmed ep then Inl (errors_New ''endpoint IP lacks matching validated source evidence'')
     else (case writer_network networks ep of
         None \<Rightarrow> Inl (errors_New ''endpoint network has no exclusive writer mapping'')
       | Some network \<Rightarrow>
           let new = endpoint_slots network ep in
           if list_ex (\<lambda>slot. slot \<in> set slots) new \<or> \<not> distinct new
           then Inl (errors_New ''desired endpoints alias kernel slot %s'')
           else Inr (desired_route network generation ep, new @ slots)))"

fun desired_endpoints :: "bgp_lib \<Rightarrow> netlink_codec \<Rightarrow> RemoteImportConfig \<Rightarrow> RemoteNetlinkNetwork list \<Rightarrow> 64 word \<Rightarrow>
    string list \<Rightarrow> (string, ImportedType2Route) gomap \<Rightarrow> DesiredRemoteEndpoint list \<Rightarrow>
    go_error + (string, ImportedType2Route) gomap" where
  "desired_endpoints bgp cd c networks generation slots desired [] = Inr desired"
| "desired_endpoints bgp cd c networks generation slots desired (ep # eps) =
     sum_bind (desired_endpoint bgp cd c networks generation slots ep) (\<lambda>(route, slots').
     desired_endpoints bgp cd c networks generation slots' (AList.update (de_Key ep) route desired) eps)"

text \<open>An active route that is not wanted as it is must go first.\<close>

definition outdated :: "(string, ImportedType2Route) gomap \<Rightarrow> string \<Rightarrow> ImportedType2Route \<Rightarrow> bool" where
  "outdated desired key current = (case map_of desired key of
     None \<Rightarrow> True
   | Some want \<Rightarrow> it_retiring current \<or> it_validated current \<noteq> it_validated want \<or>
       it_VXLANDevice current \<noteq> it_VXLANDevice want \<or> it_NeighborDevice current \<noteq> it_NeighborDevice want)"

definition withdraw_key :: "'w owned_env \<Rightarrow> 'w Context \<Rightarrow> (string, ImportedType2Route) gomap \<Rightarrow> string \<Rightarrow> ('w, unit) importing" where
  "withdraw_key env ctx desired key = go_bind (imp_get (\<lambda>i. map_of (ri_active i) key)) (\<lambda>found. case found of
     None \<Rightarrow> go_return ()
   | Some current \<Rightarrow>
       if \<not> outdated desired key current then go_return ()
       else let retiring = current\<lparr>it_retiring := True\<rparr> in
         go_seq (imp_modify (\<lambda>i. i\<lparr>ri_active := AList.update key retiring (ri_active i)\<rparr>))
         (go_seq (with_owned (ownedWithdraw env ctx retiring))
         (imp_modify (\<lambda>i. i\<lparr>ri_active := AList.delete key (ri_active i)\<rparr>))))"

definition apply_key :: "'w owned_env \<Rightarrow> 'w Context \<Rightarrow> (string, ImportedType2Route) gomap \<Rightarrow> string \<Rightarrow> ('w, unit) importing" where
  "apply_key env ctx desired key = go_bind (imp_get (\<lambda>i. i)) (\<lambda>i. case (map_of (ri_active i) key, map_of desired key) of
     (Some route, _) \<Rightarrow> with_owned (ownedApply env ctx route)
   | (None, None) \<Rightarrow> go_return ()
   | (None, Some want) \<Rightarrow>
       go_seq (go_require (ri_epoch i \<noteq> - 1) (errors_New ''route incarnation exhausted''))
       (let route = want\<lparr>it_incarnation := ri_epoch i + 1\<rparr> in
        go_seq (imp_modify (\<lambda>i. i\<lparr>ri_epoch := ri_epoch i + 1, ri_active := AList.update key route (ri_active i)\<rparr>))
        (with_owned (ownedApply env ctx route))))"

definition stale_generation :: "netlink_codec \<Rightarrow> 'w RemoteType2Importer \<Rightarrow> RemoteImportSnapshot \<Rightarrow> bool" where
  "stale_generation cd i snapshot \<longleftrightarrow> sn_Generation snapshot < ri_confirmedGeneration i \<or>
     (sn_Generation snapshot = ri_confirmedGeneration i \<and> ri_confirmedDigest i \<noteq> [] \<and>
      ri_confirmedDigest i \<noteq> kc_hash_endpoints cd (sn_Endpoints snapshot))"

definition snapshot_routes :: "bgp_lib \<Rightarrow> netlink_codec \<Rightarrow> RemoteImportSnapshot \<Rightarrow> 'w RemoteType2Importer \<Rightarrow>
    go_error + (string, ImportedType2Route) gomap" where
  "snapshot_routes bgp cd snapshot i = (case (ri_verified i, ri_owned i) of
     (Some v, Some s) \<Rightarrow> desired_endpoints bgp cd (im_config v) (nc_Networks (on_config s)) (sn_Generation snapshot) [] []
       (sn_Endpoints snapshot)
   | _ \<Rightarrow> Inl nil_dereference)"

definition set_running :: "('w, unit) owned" where
  "set_running = own_modify (\<lambda>s. if on_journal s \<noteq> None then s\<lparr>on_recoveryState := ''RUNNING''\<rparr> else s)"

definition applyValidatedSnapshot :: "bgp_lib \<Rightarrow> 'w owned_env \<Rightarrow> 'w Context \<Rightarrow> RemoteImportSnapshot \<Rightarrow> ('w, unit) importing" where
  "applyValidatedSnapshot bgp env ctx snapshot = (let cd = oe_codec env in
     go_seq (go_require (sn_Authoritative snapshot) (errors_New ''non-authoritative snapshot cannot mutate Netlink''))
     (go_bind (imp_get (\<lambda>i. i)) (\<lambda>i.
      go_seq (go_require (\<not> stale_generation cd i snapshot) (errors_New ''stale or conflicting importer generation''))
      (go_bind (go_of (snapshot_routes bgp cd snapshot i)) (\<lambda>desired.
       go_seq (imp_modify (\<lambda>i. i\<lparr>ri_confirmedGeneration := sn_Generation snapshot,
         ri_confirmedDigest := kc_hash_endpoints cd (sn_Endpoints snapshot)\<rparr>))
       (go_seq (with_owned (go_seq (own_modify (\<lambda>s. s\<lparr>on_snapshot := copyRemoteSnapshot snapshot\<rparr>)) (checkpoint env)))
       (go_bind (imp_get (\<lambda>i. map_keys (ri_active i))) (\<lambda>keys.
        go_seq (go_each (withdraw_key env ctx desired) keys)
        (go_seq (go_each (apply_key env ctx desired) (map_keys desired))
        (with_owned set_running))))))))))"

definition reconcileValidated :: "import_lib \<Rightarrow> 'w owned_env \<Rightarrow> 'w Context \<Rightarrow> ('w, unit) importing" where
  "reconcileValidated lib env ctx =
     go_bind (poll_verified lib ctx) (\<lambda>(snapshot, err).
     go_seq (imp_modify (\<lambda>i. i\<lparr>ri_last := copyRemoteSnapshot snapshot\<rparr>))
     (case err of
        Some e \<Rightarrow> go_throw (Errorf ''remote observation frozen: %w'' [e])
      | None \<Rightarrow>
          go_seq (go_require (sn_Authoritative snapshot)
            (errors_New ''remote observation non-authoritative: all Netlink mutations frozen''))
          (applyValidatedSnapshot (il_bgp lib) env ctx snapshot)))"

definition LastSnapshot :: "'w RemoteType2Importer \<Rightarrow> RemoteImportSnapshot" where
  "LastSnapshot i = copyRemoteSnapshot (ri_last i)"

section \<open>Starting from durable receipts\<close>

definition restore_receipt :: "bgp_lib \<Rightarrow> RemoteImportConfig \<Rightarrow> RemoteNetlinkReceipt \<Rightarrow> go_error + unit" where
  "restore_receipt bgp c r =
    (if \<not> list_all (evidence_ok bgp c (rc_Endpoint r)) (de_Routes (rc_Endpoint r))
     then Inl (Blocked ''%w: recovered receipt violates current import policy: %v'')
     else if \<not> ip_confirmed (rc_Endpoint r) then Inl (Blocked ''%w: recovered IP lacks validated source evidence'')
     else Inr ())"

fun restore_each :: "bgp_lib \<Rightarrow> RemoteImportConfig \<Rightarrow> (string \<Rightarrow> RemoteNetlinkReceipt option) \<Rightarrow>
    (string, ImportedType2Route) gomap \<Rightarrow> string list \<Rightarrow> go_error + (string, ImportedType2Route) gomap" where
  "restore_each bgp c receipts active [] = Inr active"
| "restore_each bgp c receipts active (key # keys) = (case receipts key of
     None \<Rightarrow> restore_each bgp c receipts active keys
   | Some r \<Rightarrow> sum_bind (restore_receipt bgp c r) (\<lambda>_.
       restore_each bgp c receipts (AList.update key (receiptRoute r) active) keys))"

text \<open>
  The keys are those of \<open>latest\<close> that have a receipt, sorted; the epoch is the largest incarnation.
\<close>

definition restoreReceipts :: "bgp_lib \<Rightarrow> netlink_codec \<Rightarrow> 'w RemoteType2Importer \<Rightarrow> go_error + 'w RemoteType2Importer" where
  "restoreReceipts bgp cd i = (case (ri_verified i, ri_owned i) of
     (Some v, Some s) \<Rightarrow>
       if on_journal s = None then Inr i
       else let confirmed = (copyRemoteSnapshot (on_snapshot s))\<lparr>sn_Authoritative := False\<rparr>;
           keys = filter (\<lambda>key. map_of (on_receipts s) key \<noteq> None) (map_keys (on_latest s)) in
         sum_bind (restore_each bgp (im_config v) (map_of (on_receipts s)) (ri_active i) keys) (\<lambda>active.
         Inr (i\<lparr>ri_confirmedGeneration := sn_Generation (on_snapshot s),
           ri_confirmedDigest := kc_hash_endpoints cd (sn_Endpoints (on_snapshot s)),
           ri_verified := Some (v\<lparr>im_confirmed := confirmed, im_pending := []\<rparr>),
           ri_epoch := fold max (map_values (on_latest s)) (ri_epoch i), ri_active := active\<rparr>))
   | _ \<Rightarrow> Inl nil_dereference)"

definition NewValidatedRemoteType2Importer :: "bgp_lib \<Rightarrow> netlink_codec \<Rightarrow> 'w ReadOnlyType2Importer option \<Rightarrow>
    'w ownedNetlinkState option \<Rightarrow> go_error + 'w RemoteType2Importer" where
  "NewValidatedRemoteType2Importer bgp cd reader backend = (case (reader, backend) of
     (Some v, Some s) \<Rightarrow>
       if list_all (\<lambda>n. list_ex (\<lambda>policy. rn_NetworkID policy = nn_NetworkID n \<and> rn_VNI policy = nn_VNI n)
           (ic_Networks (im_config v))) (nc_Networks (on_config s))
       then restoreReceipts bgp cd ((NewRemoteType2Importer None None None)\<lparr>ri_verified := Some v, ri_owned := Some s\<rparr>)
       else Inl (errors_New ''Netlink network %s missing from verified import policy'')
   | _ \<Rightarrow> Inl (errors_New ''verified importer and explicitly owned Netlink backend required''))"

section \<open>One pass and the loop\<close>

fun received_routes :: "bgp_lib \<Rightarrow> Type2RouteValidator \<Rightarrow> (string, ImportedType2Route) gomap \<Rightarrow> ReceivedType2Route list \<Rightarrow>
    go_error + (string, ImportedType2Route) gomap" where
  "received_routes bgp v desired [] = Inr desired"
| "received_routes bgp v desired (route # routes) = sum_bind (Type2RouteValidator_Validate bgp v route) (\<lambda>parsed.
     received_routes bgp v (case parsed of None \<Rightarrow> desired | Some r \<Rightarrow> AList.update (it_Key r) r desired) routes)"

definition backend_call :: "('w DataplaneBackend \<Rightarrow> ('w, unit) go) \<Rightarrow> ('w, unit) importing" where
  "backend_call f = go_bind (imp_get ri_backend) (\<lambda>backend. case backend of
     None \<Rightarrow> go_throw nil_dereference | Some b \<Rightarrow> go_env (f b))"

text \<open>Go's order of a map's entries is arbitrary; here it is that of the keys.\<close>

definition refresh_key :: "'w Context \<Rightarrow> (string, ImportedType2Route) gomap \<Rightarrow> string \<Rightarrow> ('w, unit) importing" where
  "refresh_key ctx desired key = go_bind (imp_get (\<lambda>i. map_of (ri_active i) key)) (\<lambda>found. case found of
     None \<Rightarrow> go_return ()
   | Some current \<Rightarrow> (case map_of desired key of
       None \<Rightarrow> go_seq (backend_call (\<lambda>b. db_Withdraw b ctx current))
         (imp_modify (\<lambda>i. i\<lparr>ri_active := AList.delete key (ri_active i)\<rparr>))
     | Some want \<Rightarrow>
         if it_RemoteVTEP current \<noteq> it_RemoteVTEP want \<or> it_MAC current \<noteq> it_MAC want \<or> it_IP current \<noteq> it_IP want
         then go_seq (backend_call (\<lambda>b. db_Withdraw b ctx current))
           (go_seq (backend_call (\<lambda>b. db_Apply b ctx want))
           (imp_modify (\<lambda>i. i\<lparr>ri_active := AList.update key want (ri_active i)\<rparr>)))
         else go_return ()))"

definition install_key :: "'w Context \<Rightarrow> (string, ImportedType2Route) gomap \<Rightarrow> string \<Rightarrow> ('w, unit) importing" where
  "install_key ctx desired key = go_bind (imp_get (\<lambda>i. map_of (ri_active i) key)) (\<lambda>found.
     case (found, map_of desired key) of
       (None, Some want) \<Rightarrow> go_seq (backend_call (\<lambda>b. db_Apply b ctx want))
         (imp_modify (\<lambda>i. i\<lparr>ri_active := AList.update key want (ri_active i)\<rparr>))
     | _ \<Rightarrow> go_return ())"

definition reconcileReceived :: "bgp_lib \<Rightarrow> 'w Context \<Rightarrow> ('w, unit) importing" where
  "reconcileReceived bgp ctx = go_bind (imp_get (\<lambda>i. (ri_source i, ri_validator i))) (\<lambda>(source, validator).
     case (source, validator) of
       (Some src, Some v) \<Rightarrow>
         go_bind (go_env (rss_Snapshot src ctx)) (\<lambda>received.
         go_bind (go_of (received_routes bgp v [] received)) (\<lambda>desired.
         go_bind (imp_get (\<lambda>i. map_keys (ri_active i))) (\<lambda>keys.
         go_seq (go_each (refresh_key ctx desired) keys)
         (go_each (install_key ctx desired) (map_keys desired)))))
     | _ \<Rightarrow> go_throw nil_dereference)"

definition ReconcileOnce :: "import_lib \<Rightarrow> 'w owned_env \<Rightarrow> 'w Context \<Rightarrow> ('w, unit) importing" where
  "ReconcileOnce lib env ctx = go_bind (imp_get ri_verified) (\<lambda>verified.
     if verified \<noteq> None then reconcileValidated lib env ctx else reconcileReceived (il_bgp lib) ctx)"

text \<open>
  \<open>Run\<close> ends when its context is done or when \<open>maxRetries\<close> passes in a row have failed.
  \<open>wait\<close> is a \<open>select\<close> on the context and a timer: an error when the context is done first.
  The loop may go on for ever: the result then is \<^const>\<open>None\<close>.
\<close>

partial_function (option) run_importer :: "('w, unit) importing \<Rightarrow> (nat \<Rightarrow> ('w, unit) go) \<Rightarrow> nat \<Rightarrow>
    'w RemoteType2Importer \<times> 'w \<Rightarrow> ((go_error + unit) \<times> ('w RemoteType2Importer \<times> 'w)) option" where
  "run_importer pass wait failures s = (case pass s of
     (Inr _, s1) \<Rightarrow> (case go_env (wait 0) s1 of
         (Inl _, s2) \<Rightarrow> Some (Inr (), s2)
       | (Inr _, s2) \<Rightarrow> run_importer pass wait 0 s2)
   | (Inl e, s1) \<Rightarrow>
       if failures + 1 \<ge> ri_maxRetries (fst s1) then Some (Inl e, s1)
       else (case go_env (wait (failures + 1)) s1 of
           (Inl done_err, s2) \<Rightarrow> Some (Inl done_err, s2)
         | (Inr _, s2) \<Rightarrow> (case go_env (wait 0) s2 of
             (Inl _, s3) \<Rightarrow> Some (Inr (), s3)
           | (Inr _, s3) \<Rightarrow> run_importer pass wait (failures + 1) s3)))"

definition RemoteType2Importer_Run :: "import_lib \<Rightarrow> 'w owned_env \<Rightarrow> (nat \<Rightarrow> ('w, unit) go) \<Rightarrow> 'w Context \<Rightarrow>
    'w RemoteType2Importer \<times> 'w \<Rightarrow> ((go_error + unit) \<times> ('w RemoteType2Importer \<times> 'w)) option" where
  "RemoteType2Importer_Run lib env wait ctx = run_importer (ReconcileOnce lib env ctx) wait 0"

end
