(* ===== verification/Netlink_Frames.thy ===== *)
theory Netlink_Frames
  imports Netlink_Import
begin

text \<open>
  What the steps of the netlink backend leave alone. Observing and checking change nothing but
  the quarantine fields; work on one kernel object changes nothing but the receipt of that object.
\<close>

section \<open>Observation steps\<close>

text \<open>The state without the fields that checks write.\<close>

definition steady :: "'w ownedNetlinkState \<Rightarrow> 'w ownedNetlinkState" where
  "steady s = s\<lparr>on_blocked := None, on_lost := False, on_recoveryState := []\<rparr>"

lemma steadyD:
  assumes "steady s' = steady s"
  shows "on_config s' = on_config s" "on_controller s' = on_controller s" "on_target s' = on_target s"
    "on_devices s' = on_devices s" "on_receipts s' = on_receipts s" "on_withdrawals s' = on_withdrawals s"
    "on_latest s' = on_latest s" "on_closed s' = on_closed s" "on_markerPath s' = on_markerPath s"
    "on_journal s' = on_journal s" "on_snapshot s' = on_snapshot s" "on_fault s' = on_fault s"
  using assms by (cases s; cases s'; simp add: steady_def)+

lemma steady_updates [simp]:
  "steady (s\<lparr>on_blocked := b\<rparr>) = steady s" "steady (s\<lparr>on_lost := l\<rparr>) = steady s"
  "steady (s\<lparr>on_recoveryState := r\<rparr>) = steady s"
  by (simp_all add: steady_def)

lemma steady_idem [simp]: "steady (steady s) = steady s"
  by (simp add: steady_def)

lemma steady_device_event [simp]: "steady (device_event update link name s) = steady s"
  by (simp add: device_event_def split: option.split)

lemma steady_fold:
  assumes "\<And>x s. steady (f x s) = steady s"
  shows "steady (fold f xs s) = steady s"
  by (induction xs arbitrary: s) (simp_all add: assms)

lemma steady_handle_updates [simp]: "steady (fold handle_update updates s) = steady s"
  by (rule steady_fold) (simp add: handle_update_def steady_fold split: option.split)

text \<open>
  An invariant that a check does not disturb: it does not depend on the quarantine fields, and the
  services a check calls keep it.
\<close>

definition undisturbed :: "'w owned_env \<Rightarrow> 'w Context \<Rightarrow> ('w ownedNetlinkState \<times> 'w \<Rightarrow> bool) \<Rightarrow> bool" where
  "undisturbed env ctx P \<longleftrightarrow>
     (\<forall>s s' w. P (s, w) \<longrightarrow> steady s' = steady s \<longrightarrow> P (s', w)) \<and>
     go_preserves P (go_env ctx) \<and>
     (\<forall>s. go_preserves P (go_env (verifyMarker env s)) \<and> go_preserves P (go_env (read_marker env s))) \<and>
     (\<forall>s w r w'. P (s, w) \<longrightarrow> kn_Drain (oe_kernel env) w = (r, w') \<longrightarrow> P (s, w')) \<and>
     (\<forall>name. go_preserves P (go_env (kn_LinkByName (oe_kernel env) name))) \<and>
     (\<forall>i f. go_preserves P (go_env (kn_NeighList (oe_kernel env) i f))) \<and>
     go_preserves P check_journal \<and> go_preserves P (quarantineError env :: ('w, unit) owned)"

lemma undisturbedD:
  assumes "undisturbed env ctx P"
  shows "P (s, w) \<Longrightarrow> steady s' = steady s \<Longrightarrow> P (s', w)" "go_preserves P (go_env ctx)"
    "go_preserves P (go_env (verifyMarker env s))" "go_preserves P (go_env (read_marker env s))"
    "P (s, w) \<Longrightarrow> kn_Drain (oe_kernel env) w = (r, w') \<Longrightarrow> P (s, w')"
    "go_preserves P (go_env (kn_LinkByName (oe_kernel env) name))"
    "go_preserves P (go_env (kn_NeighList (oe_kernel env) i f))"
    "go_preserves P check_journal" "go_preserves P (quarantineError env :: ('w, unit) owned)"
  using assms unfolding undisturbed_def by (elim conjE; (drule spec)+; assumption | elim conjE; blast)+

lemma undisturbed_steady:
  assumes "undisturbed env ctx P" and "\<And>s. steady (f s) = steady s"
  shows "go_preserves P (own_modify f)"
proof (rule go_preserves_modify)
  fix sw assume "P sw"
  then show "P (map_prod f (\<lambda>w. w) sw)"
    using undisturbedD(1) [OF assms(1), of "fst sw" "snd sw" "f (fst sw)"] assms(2) by (cases sw) simp
qed

lemma quarantineError_snd:
  "snd ((quarantineError env :: ('w, 'a) owned) s) = snd ((quarantineError env :: ('w, unit) owned) s)"
  by (auto simp: quarantineError_def go_bind_def go_get_def go_throw_def split: option.split prod.split sum.split)

lemma undisturbed_quarantine: "undisturbed env ctx P \<Longrightarrow> go_preserves P (quarantineError env)"
  unfolding undisturbed_def go_preserves_def by (metis quarantineError_snd)

lemma undisturbed_block: "undisturbed env ctx P \<Longrightarrow> go_preserves P (block_with e)"
  unfolding block_with_def by (rule undisturbed_steady) simp_all

lemma undisturbed_drain:
  assumes "undisturbed env ctx P"
  shows "go_preserves P (drain env)"
  unfolding go_preserves_def
proof (intro allI impI)
  fix sw assume P: "P sw"
  obtain s w where sw: "sw = (s, w)" by (cases sw)
  obtain updates closed failed w' where drained: "kn_Drain (oe_kernel env) w = ((updates, closed, failed), w')"
    by (cases "kn_Drain (oe_kernel env) w") auto
  with P sw have "P (s, w')" using undisturbedD(5) [OF assms] by simp
  moreover have "steady ((fold handle_update updates s)\<lparr>on_lost := l\<rparr>) = steady s" for l by simp
  ultimately have "P ((fold handle_update updates s)\<lparr>on_lost := l\<rparr>, w')" for l
    using undisturbedD(1) [OF assms] by simp
  with drained sw show "P (snd (drain env sw))" by (simp add: drain_def)
qed

lemmas undisturbed_steps = undisturbedD(2-4,6-8) undisturbed_block undisturbed_quarantine undisturbed_drain

lemma undisturbed_check:
  assumes "undisturbed env ctx P"
  shows "go_preserves P (owned_check env ctx)"
proof -
  note steps = undisturbed_steps [OF assms]
  have "go_preserves P (check_marker env)"
    unfolding check_marker_def if_distrib [of go_env] by (intro go_preserves_steps steps)
  moreover have "go_preserves P (fence env)"
    unfolding fence_def by (intro go_preserves_steps steps undisturbed_steady [OF assms]) simp
  moreover have "go_preserves P (check_device env name)" for name
    unfolding check_device_def owned_device_def by (intro go_preserves_steps steps)
  ultimately show ?thesis
    unfolding owned_check_def by (intro go_preserves_steps steps)
qed

lemma undisturbed_slot:
  assumes "undisturbed env ctx P"
  shows "go_preserves P (slot env ctx want)"
  unfolding slot_def by (intro go_preserves_steps undisturbed_steps [OF assms] undisturbed_check [OF assms])

section \<open>World frames\<close>

text \<open>The services of a check do not touch what \<open>f\<close> observes of the world.\<close>

definition services_keep :: "('w \<Rightarrow> 'o) \<Rightarrow> 'w owned_env \<Rightarrow> 'w Context \<Rightarrow> bool" where
  "services_keep f env ctx \<longleftrightarrow> go_keeps f ctx \<and>
     (\<forall>s. go_keeps f (verifyMarker env s) \<and> go_keeps f (read_marker env s)) \<and>
     (\<forall>w. f (snd (kn_Drain (oe_kernel env) w)) = f w) \<and>
     (\<forall>name. go_keeps f (kn_LinkByName (oe_kernel env) name)) \<and>
     (\<forall>i g. go_keeps f (kn_NeighList (oe_kernel env) i g))"

lemma go_preserves_env:
  "go_keeps f m \<Longrightarrow> go_preserves (\<lambda>sw. Q (fst sw) \<and> f (snd sw) = c) (go_env m)"
  by (auto simp: go_preserves_def go_env_def go_keeps_def split: prod.splits) (metis snd_conv)

lemma services_undisturbed:
  assumes "services_keep f env ctx" and "\<And>s s'. Q s \<Longrightarrow> steady s' = steady s \<Longrightarrow> Q s'"
    and "go_preserves (\<lambda>sw. Q (fst sw) \<and> f (snd sw) = c) check_journal"
    and "go_preserves (\<lambda>sw. Q (fst sw) \<and> f (snd sw) = c) (quarantineError env :: ('w, unit) owned)"
  shows "undisturbed env ctx (\<lambda>sw. Q (fst sw) \<and> f (snd sw) = c)"
proof -
  note keep = assms(1) [unfolded services_keep_def]
  have "f w' = f w" if "kn_Drain (oe_kernel env) w = (r, w')" for w r w'
    using keep that by (metis snd_conv)
  with keep assms(2-4) show ?thesis
    unfolding undisturbed_def by (auto intro!: go_preserves_env)
qed

section \<open>Objects\<close>

lemma update_update: "AList.update k v (AList.update k v' m) = AList.update k v m"
  by (induction m) auto

lemma update_object_twice: "update_object p g (update_object p f s) = update_object p (g \<circ> f) s"
  by (auto simp: update_object_def update_receipt_def update_update option.map_comp split: option.split kernel_object.split)

text \<open>The state without the receipt of one object.\<close>

definition masked :: "object_ptr \<Rightarrow> 'w ownedNetlinkState \<Rightarrow> 'w ownedNetlinkState" where
  "masked p s = steady (update_object p (\<lambda>_. zero_object) s)"

lemma masked_update [simp]: "masked p (update_object p f s) = masked p s"
  by (simp add: masked_def update_object_twice comp_def)

lemma update_receipt_steady: "steady s' = steady s \<Longrightarrow> steady (update_receipt k f s') = steady (update_receipt k f s)"
  by (cases s; cases s') (auto simp: steady_def update_receipt_def split: option.splits)

lemma masked_steady: "steady s' = steady s \<Longrightarrow> masked p s' = masked p s"
  unfolding masked_def update_object_def by (rule update_receipt_steady)

lemma object_at_steady: "steady s' = steady s \<Longrightarrow> object_at s' p = object_at s p"
  by (drule steadyD(5)) (simp add: object_at_def)

text \<open>The object exists.\<close>

definition valid_ptr :: "'w ownedNetlinkState \<Rightarrow> object_ptr \<Rightarrow> bool" where
  "valid_ptr s p = (case map_of (on_receipts s) (fst p) of
     None \<Rightarrow> False | Some r \<Rightarrow> (case snd p of FDB \<Rightarrow> True | Neighbor \<Rightarrow> rc_Neighbor r \<noteq> None))"

lemma object_at_update [simp]:
  "object_at (update_object p f s) p = (if valid_ptr s p then f (object_at s p) else zero_object)"
  by (cases p)
    (auto simp: object_at_def update_object_def update_receipt_def valid_ptr_def split: option.split kernel_object.split)

lemma valid_ptr_update [simp]: "valid_ptr (update_object p f s) p = valid_ptr s p"
  by (cases p) (auto simp: update_object_def update_receipt_def valid_ptr_def split: option.split kernel_object.split)

lemma object_at_invalid: "\<not> valid_ptr s p \<Longrightarrow> object_at s p = zero_object"
  by (auto simp: object_at_def valid_ptr_def split: option.splits kernel_object.splits)

lemma valid_ptr_masked: "valid_ptr s' p = valid_ptr s p" if "masked p s' = masked p s"
proof -
  have "valid_ptr (masked p t) p = valid_ptr t p" for t :: "'w ownedNetlinkState"
    unfolding masked_def
    by (subst valid_ptr_update [of p "\<lambda>_. zero_object" t, symmetric]) (simp add: valid_ptr_def steady_def)
  with that show ?thesis by metis
qed

section \<open>Own frames\<close>

text \<open>
  An observation of the backend's own state that ignores the quarantine fields is kept by every
  step that does not write a receipt.
\<close>

definition calm :: "('w ownedNetlinkState \<Rightarrow> 'o) \<Rightarrow> bool" where
  "calm h \<longleftrightarrow> (\<forall>s s'. steady s' = steady s \<longrightarrow> h s' = h s)"

abbreviation keeps_own :: "('w ownedNetlinkState \<Rightarrow> 'o) \<Rightarrow> ('w, 'a) owned \<Rightarrow> bool" where
  "keeps_own h m \<equiv> go_keeps (\<lambda>sw. h (fst sw)) m"

lemma keeps_preserves: "(\<And>c. go_preserves (\<lambda>sw. h (fst sw) = c) m) \<Longrightarrow> keeps_own h m"
  by (simp add: go_keeps_def go_preserves_def)

lemma keeps_ownD: "keeps_own h m \<Longrightarrow> m (s, w) = (r, (s', w')) \<Longrightarrow> h s' = h s"
  using go_keepsD [of "\<lambda>sw. h (fst sw)" m "(s, w)" r "(s', w')"] by (simp only: fst_conv)

lemma keeps_own_env [go_keeps_rules]: "keeps_own h (go_env m)"
  by (simp add: go_keeps_def go_env_def split: prod.splits)

lemma keeps_own_modify: "(\<And>s. h (f s) = h s) \<Longrightarrow> keeps_own h (own_modify f)"
  by (rule go_keeps_modify) simp

lemma calm_modify: "calm h \<Longrightarrow> (\<And>s. steady (f s) = steady s) \<Longrightarrow> keeps_own h (own_modify f)"
  unfolding calm_def by (rule keeps_own_modify) blast

lemma calm_block: "calm h \<Longrightarrow> keeps_own h (block_with e)"
  unfolding block_with_def by (rule calm_modify) simp_all

lemma calm_recovery_blocked: "calm h \<Longrightarrow> keeps_own h m \<Longrightarrow> keeps_own h (recovery_blocked m)"
  unfolding recovery_blocked_def by (intro go_keeps_rules calm_modify) simp_all

lemma keeps_boundary: "keeps_own h (owned_boundary name)"
  unfolding owned_boundary_def by (intro go_keeps_rules)

lemma calm_journal:
  assumes "calm h"
  shows "keeps_own h (beginMutation env operation p)" "keeps_own h (ackMutation env seq)" "keeps_own h (checkpoint env)"
    "keeps_own h (quarantineError env)" "keeps_own h check_journal"
proof -
  note steps = go_keeps_rules calm_recovery_blocked [OF assms] keeps_boundary calm_block [OF assms]
  show "keeps_own h (beginMutation env operation p)" unfolding beginMutation_def by (intro steps)
  show ack: "keeps_own h (ackMutation env seq)" for seq unfolding ackMutation_def by (intro steps)
  show checkpoint: "keeps_own h (checkpoint env)" unfolding checkpoint_def by (intro steps ack)
  show "keeps_own h (quarantineError env)" unfolding quarantineError_def by (intro steps checkpoint)
  show "keeps_own h check_journal" unfolding check_journal_def by (intro steps)
qed

lemma calm_undisturbed:
  assumes "calm h"
  shows "undisturbed env ctx (\<lambda>sw. h (fst sw) = c)"
  unfolding undisturbed_def
proof (intro conjI allI impI; (intro go_keeps_preserves calm_journal [OF assms] go_keeps_rules; fail)?)
  fix s s' w assume "h (fst (s, w)) = c" and "steady s' = steady s"
  with assms show "h (fst (s', w)) = c" unfolding calm_def by (metis fst_conv)
qed simp

lemma calm_slot:
  assumes "calm h"
  shows "keeps_own h (owned_check env ctx)" "keeps_own h (slot env ctx want)"
  by (rule keeps_preserves, rule undisturbed_check, rule calm_undisturbed, rule assms)
    (rule keeps_preserves, rule undisturbed_slot, rule calm_undisturbed, rule assms)

lemmas calm_steps = calm_slot calm_journal calm_block calm_recovery_blocked

lemma calm_steady [simp]: "calm steady"
  unfolding calm_def by blast

lemma calm_masked [simp]: "calm (masked p)"
  unfolding calm_def using masked_steady by blast

lemma keeps_masked_set: "keeps_own (masked p) (set_object p f)"
  by (rule keeps_own_modify) simp

lemmas masked_steps = go_keeps_rules calm_steps [OF calm_masked] keeps_masked_set keeps_boundary

lemma masked_confirm: "keeps_own (masked p) (confirm env ctx p absent)"
  unfolding confirm_def by (intro masked_steps)

lemma masked_failed: "keeps_own (masked p) (mutation_failed p adding err)"
  unfolding mutation_failed_def by (intro masked_steps calm_modify) simp_all

lemma masked_acknowledge: "keeps_own (masked p) (acknowledge_object env ctx p absent seq)"
  unfolding acknowledge_object_def by (intro masked_steps masked_confirm)

lemma masked_applyObject: "keeps_own (masked p) (applyObject env ctx p)"
  unfolding applyObject_def create_object_def
  by (intro masked_steps masked_confirm masked_failed masked_acknowledge)

lemma masked_withdrawObject: "keeps_own (masked p) (withdrawObject env ctx p)"
  unfolding withdrawObject_def delete_object_def
  by (intro masked_steps masked_confirm masked_failed masked_acknowledge)

text \<open>What the operations never change: how the backend is connected.\<close>

definition wiring :: "'w ownedNetlinkState \<Rightarrow> 'w journal_ops option \<times> (string \<Rightarrow> ('w, unit) go) option" where
  "wiring s = (on_journal s, on_fault s)"

lemma wiring_update_receipt [simp]: "wiring (update_receipt key f s) = wiring s"
  by (simp add: wiring_def update_receipt_def split: option.split)

lemma wiring_masked [simp]: "wiring (masked p s) = wiring s"
  by (simp add: masked_def update_object_def wiring_def steady_def update_receipt_def split: option.split)

lemma calm_wiring [simp]: "calm wiring"
  unfolding calm_def wiring_def using steadyD(10,12) by fastforce

lemma masked_wiring: "keeps_own (masked p) m \<Longrightarrow> keeps_own wiring m"
  unfolding go_keeps_def by (metis wiring_masked)

lemma wiring_objects: "keeps_own wiring (applyObject env ctx p)" "keeps_own wiring (withdrawObject env ctx p)"
  by (rule masked_wiring [OF masked_applyObject]) (rule masked_wiring [OF masked_withdrawObject])

lemma wiring_operations:
  "keeps_own wiring (owned_route env ctx route)" "keeps_own wiring (claim_receipt route network ep)"
  "keeps_own wiring (set_receipt key f)" "keeps_own wiring (own_modify (retire key))" "keeps_own wiring (checkpoint env)"
  unfolding owned_route_def claim_receipt_def
  by (intro go_keeps_rules calm_steps [OF calm_wiring] keeps_own_modify;
      simp add: wiring_def retire_def update_receipt_def split: option.split)+

section \<open>Successful observations\<close>

lemma quarantineError_fails: "quarantineError env s \<noteq> (Inr x, s')"
  by (auto simp: quarantineError_def go_bind_def go_get_def go_throw_def split: option.splits prod.splits sum.splits if_splits)

lemma slot_steady: "slot env ctx want (s, w) = (r, (s', w')) \<Longrightarrow> steady s' = steady s"
  by (rule keeps_ownD [OF calm_slot(2) [OF calm_steady]])

lemma check_steady: "owned_check env ctx (s, w) = (r, (s', w')) \<Longrightarrow> steady s' = steady s"
  by (rule keeps_ownD [OF calm_slot(1) [OF calm_steady]])

lemma confirm_InrE:
  assumes "confirm env ctx p absent (s, w) = (Inr u, (s', w'))"
  obtains found s1 where "slot env ctx (ob_Request (object_at s p)) (s, w) = (Inr found, (s1, w'))" "steady s1 = steady s"
    "absent \<Longrightarrow> found = [] \<and> s' = update_object p (\<lambda>r. r\<lparr>ob_Status := ''absent-confirmed'', ob_Error := None\<rparr>) s1"
    "\<not> absent \<Longrightarrow> length found = 1 \<and> hd found = expected_entry (object_at s p) (hd found) \<and>
       s' = update_object p (\<lambda>r. r\<lparr>ob_Observed := hd found, ob_Status := ''confirmed'', ob_Error := None\<rparr>) s1"
proof -
  obtain found s1 w1 where observed: "slot env ctx (ob_Request (object_at s p)) (s, w) = (Inr found, (s1, w1))"
    using assms by (auto simp: confirm_def go_run elim!: go_bind_InrE)
  note rest = assms [unfolded confirm_def go_run_bind(2) fst_conv go_bind_Inr [where m = "slot env ctx (ob_Request (object_at s p))", OF observed]]
  have failed: "go_seq (block_with e) (go_seq (set_object p f) (go_wrap g (quarantineError env))) (s1, w1) \<noteq> (Inr u, (s', w'))" for e f g
    by (auto simp: go_run go_seq_def block_with_def quarantineError_fails elim!: go_bind_InrE)
  show thesis
  proof (rule that)
    show "steady s1 = steady s" using observed by (rule slot_steady)
    show "slot env ctx (ob_Request (object_at s p)) (s, w) = (Inr found, (s1, w'))"
      using rest failed observed by (auto simp: Let_def go_run_end(1) simp del: errors_Join_Some split: if_splits)
  qed (use rest failed in \<open>auto simp: Let_def go_run_end(1) simp del: errors_Join_Some split: if_splits\<close>)
qed

lemma valid_ptr_steady: "steady s' = steady s \<Longrightarrow> valid_ptr s' p = valid_ptr s p"
  by (drule steadyD(5)) (simp add: valid_ptr_def)

lemma wiring_confirm: "confirm env ctx p absent (s, w) = (r, (s', w')) \<Longrightarrow> wiring s' = wiring s"
  by (rule keeps_ownD [OF masked_wiring [OF masked_confirm]])

text \<open>Confirming a confirmed object again changes nothing of it but the error text.\<close>

lemma reconfirm:
  assumes "ob_Status (object_at s p) = ''confirmed''" and "confirm env ctx p False (s, w) = (Inr u, (s', w'))"
  shows "object_at s' p = (object_at s p)\<lparr>ob_Error := None\<rparr>"
proof -
  have "valid_ptr s p"
    by (rule ccontr) (use assms(1) object_at_invalid [of s p] in \<open>simp add: zero_object_def\<close>)
  obtain found s1 where s1: "steady s1 = steady s" and "hd found = expected_entry (object_at s p) (hd found)"
    and s': "s' = update_object p (\<lambda>r. r\<lparr>ob_Observed := hd found, ob_Status := ''confirmed'', ob_Error := None\<rparr>) s1"
    by (rule confirm_InrE [OF assms(2)]) blast
  moreover have "object_at s1 p = object_at s p" "valid_ptr s1 p"
    using object_at_steady [OF s1] valid_ptr_steady [OF s1] \<open>valid_ptr s p\<close> by simp_all
  ultimately show ?thesis using assms(1) by (simp add: expected_entry_def)
qed

end
