(* ===== verification/Address_Text.thy ===== *)
theory Address_Text
  imports Go_Std
begin

text \<open>
  Reading back what was printed: decimal numbers, IPv4 addresses and hardware addresses of the
  Go library, as \<open>Go_Std\<close> models them.
\<close>

section \<open>Separators\<close>

lemma split_at_first:
  assumes "c \<notin> set a" and "c \<notin> set a'"
  shows "a @ c # b = a' @ c # b' \<longleftrightarrow> a = a' \<and> b = b'"
  using assms
proof (induction a arbitrary: a')
  case Nil
  then show ?case by (cases a') auto
next
  case (Cons x a)
  then show ?case by (cases a') auto
qed

lemma split_on_head: "c \<notin> set p \<Longrightarrow> split_on c (p @ c # s) = p # split_on c s"
  by (induction p) auto

lemma split_on_last: "c \<notin> set p \<Longrightarrow> split_on c p = [p]"
  by (induction p) auto

lemma split_on_Join:
  assumes "ps \<noteq> []" and "\<And>p. p \<in> set ps \<Longrightarrow> c \<notin> set p"
  shows "split_on c (Join ps [c]) = ps"
  using assms
proof (induction ps rule: induct_list012)
  case (3 p q ps)
  then have "split_on c (Join (q # ps) [c]) = q # ps" "c \<notin> set p" by auto
  then show ?case by (simp add: split_on_head)
qed (simp_all add: split_on_last)

section \<open>Decimal numbers\<close>

lemma digit_char_bytes: "d < 10 \<Longrightarrow> byte (digit_char d) = d + 48"
  by (simp add: digit_char_def)

lemma FormatUint_digits: "c \<in> set (FormatUint n) \<Longrightarrow> 48 \<le> byte c \<and> byte c \<le> 57"
  unfolding FormatUint_def
proof (induction n rule: less_induct)
  case (less n)
  show ?case
  proof (cases "n < 10")
    case True
    with less.prems show ?thesis by (simp add: digits_of.simps digit_char_bytes)
  next
    case False
    with less.prems have "c \<in> set (digits_of 10 (n div 10)) \<or> c = digit_char (n mod 10)"
      by (subst (asm) digits_of.simps) auto
    with less.IH [of "n div 10"] False show ?thesis by (auto simp: digit_char_bytes)
  qed
qed

lemma FormatUint_separator:
  "CHR ''/'' \<notin> set (FormatUint n)" "CHR ''.'' \<notin> set (FormatUint n)" "CHR ''-'' \<notin> set (FormatUint n)"
  "CHR '':'' \<notin> set (FormatUint n)" "CHR ''%'' \<notin> set (FormatUint n)"
  using FormatUint_digits [of _ n] by fastforce+

lemma FormatUint_not_Nil [simp]: "FormatUint n \<noteq> []"
  by (simp add: FormatUint_def)

text \<open>A number of two or more digits does not start with zero.\<close>

lemma FormatUint_head: "length (FormatUint n) = 1 \<or> hd (FormatUint n) \<noteq> CHR ''0''"
  unfolding FormatUint_def
proof (induction n rule: less_induct)
  case (less n)
  show ?case
  proof (cases "n < 10")
    case True
    then show ?thesis by (simp add: digits_of.simps)
  next
    case False
    have "hd (digits_of 10 (n div 10)) \<noteq> CHR ''0''"
    proof (cases "n div 10 < 10")
      case True
      with False have "byte (digit_char (n div 10)) \<noteq> byte (CHR ''0'')"
        by (simp add: digit_char_bytes)
      with True show ?thesis by (auto simp: digits_of.simps)
    next
      case small: False
      have "length (digits_of 10 (n div 10)) \<noteq> 1"
        using small by (subst digits_of.simps) simp
      with less.IH [of "n div 10"] False show ?thesis by simp
    qed
    with False show ?thesis by (subst (2) digits_of.simps) simp
  qed
qed

section \<open>IPv4 addresses\<close>

lemma octet_FormatUint [simp]: "octet (FormatUint (unat (b :: 8 word))) = Some b"
proof -
  have "unat b \<le> 255" using unsigned_less [of b, where 'a = nat] by simp
  with FormatUint_head [of "unat b"] show ?thesis by (auto simp: octet_def)
qed

lemma find_append: "find P (xs @ ys) = (case find P xs of None \<Rightarrow> find P ys | Some x \<Rightarrow> Some x)"
  by (induction xs) auto

lemma ParseIP_string4: "ParseIP (Addr_String (V4 a b c d)) = Some (V4 a b c d)"
proof -
  let ?ps = "map (FormatUint \<circ> unat) [a, b, c, d]"
  have "split_on CHR ''.'' (string4 a b c d) = ?ps"
    unfolding string4_def by (rule split_on_Join) (auto simp: FormatUint_separator)
  then have "parseIPv4 (string4 a b c d) = Some (V4 a b c d)" by simp
  moreover have "find (\<lambda>c. c = CHR ''.'' \<or> c = CHR '':'' \<or> c = CHR ''%'') (FormatUint (unat a)) = None"
    using FormatUint_separator [of "unat a"] by (auto simp: find_None_iff)
  ultimately show ?thesis
    by (simp add: Addr_String_def ParseIP_def ParseAddr_def string4_def find_append zone_of_def Unmap_def)
qed

lemma ParseIP_Nil [simp]: "ParseIP [] = None"
  by (simp add: ParseIP_def ParseAddr_def)

section \<open>Hardware addresses\<close>

lemma hex_digit_digit_char: "d < 16 \<Longrightarrow> hex_digit (digit_char d) = Some d"
  by (auto simp: hex_digit_def digit_char_def Let_def)

lemma xtoi2_hex_byte: "xtoi2 (digit_char (unat b div 16)) (digit_char (unat b mod 16)) = Some b"
proof -
  have "unat b div 16 < 16" using unsigned_less [of b, where 'a = nat] by simp
  then show ?thesis by (simp add: xtoi2_def parse_hex_def hex_digit_digit_char)
qed

lemma mac_pairs_Join:
  "hw \<noteq> [] \<Longrightarrow> mac_pairs CHR '':'' (Join (map hex_byte hw) '':'') = Some hw"
proof (induction hw rule: induct_list012)
  case (3 x y hw)
  then show ?case by (simp add: hex_byte_def xtoi2_hex_byte)
qed (simp_all add: hex_byte_def xtoi2_hex_byte)

lemma length_HardwareAddr_String: "length (HardwareAddr_String hw) = 3 * length hw - 1"
  unfolding HardwareAddr_String_def
  by (induction hw rule: induct_list012) (simp_all add: hex_byte_def)

lemma ParseMAC_String:
  assumes "length hw \<in> {6, 8, 20}"
  shows "ParseMAC (HardwareAddr_String hw) = Some hw"
proof -
  obtain x y ys where hw: "hw = x # y # ys" using assms by (cases hw; cases "tl hw") auto
  then have "HardwareAddr_String hw ! 2 = CHR '':''"
    by (simp add: HardwareAddr_String_def hex_byte_def)
  moreover have "mac_pairs CHR '':'' (HardwareAddr_String hw) = Some hw"
    unfolding HardwareAddr_String_def using hw by (intro mac_pairs_Join) simp
  moreover have "length (HardwareAddr_String hw) + 1 = 3 * length hw" "\<not> length (HardwareAddr_String hw) < 14"
    using assms by (auto simp: length_HardwareAddr_String)
  ultimately show ?thesis using assms by (simp add: ParseMAC_def)
qed

end
