(* ===== verification/Netlink_Receipts.thy ===== *)
theory Netlink_Receipts
  imports Netlink_Frames Address_Text
begin

text \<open>
  The receipts that finished operations of the netlink backend leave behind, and when durable
  receipts are accepted by \<open>validateReceipts\<close>.
\<close>

section \<open>Slots\<close>

lemma FormatInt_slash: "CHR ''/'' \<notin> set (FormatInt i)"
  by (auto simp: FormatInt_def FormatUint_separator)

lemma FormatInt_inj: "FormatInt i = FormatInt j \<longleftrightarrow> i = j"
proof -
  have minus: "''-'' @ FormatUint m \<noteq> FormatUint n" for m n
    using FormatUint_separator(3) [of n] by (metis append_Cons list.set_intros(1))
  show ?thesis
    using minus by (auto simp: FormatInt_def FormatUint_inj split: if_splits) (metis append_Cons minus)+
qed

lemma slot_name_iff: "slot_name a = slot_name b \<longleftrightarrow> sameKernelSlot a b"
  by (auto simp: slot_name_def sameKernelSlot_def split_at_first FormatInt_slash FormatInt_inj)

section \<open>Accepted receipts\<close>

abbreviation slot_names :: "RemoteNetlinkReceipt \<Rightarrow> string list" where
  "slot_names r \<equiv> map (\<lambda>o1. slot_name (ob_Request o1)) (receipt_objects r)"

lemma validate_objects_iff:
  "validate_objects slots os = Inr slots' \<longleftrightarrow> (\<forall>o1 \<in> set os. object_status_ok o1 = Inr ()) \<and>
     distinct (map (\<lambda>o1. slot_name (ob_Request o1)) os) \<and>
     set (map (\<lambda>o1. slot_name (ob_Request o1)) os) \<inter> set slots = {} \<and>
     slots' = rev (map (\<lambda>o1. slot_name (ob_Request o1)) os) @ slots"
  by (induction os arbitrary: slots) (auto simp: sum_bind_Inr_iff)

text \<open>What \<open>validateReceipts\<close> requires of one receipt on its own.\<close>

definition receipt_sound :: "netlink_codec \<Rightarrow> 'w ownedNetlinkState \<Rightarrow> string \<Rightarrow> RemoteNetlinkReceipt \<Rightarrow> bool" where
  "receipt_sound cd s key r \<longleftrightarrow> receipt_identity_ok cd s key r \<and>
     rc_Status r \<in> {''partially-applied'', ''applied'', ''partially-withdrawn''} \<and>
     rc_Retiring r = (rc_Status r = ''partially-withdrawn'') \<and> receipt_mapping_ok s r \<and> receipt_tuple_ok s r \<and>
     (\<forall>o1 \<in> set (receipt_objects r). object_status_ok o1 = Inr ()) \<and> distinct (slot_names r)"

lemma validate_receipt_iff:
  "validate_receipt cd s slots key r = Inr slots' \<longleftrightarrow> receipt_sound cd s key r \<and>
     set (slot_names r) \<inter> set slots = {} \<and> slots' = rev (slot_names r) @ slots"
  by (auto simp: validate_receipt_def receipt_sound_def validate_objects_iff)

lemma validate_each_iff:
  assumes "\<And>key. key \<in> set keys \<Longrightarrow> receipts key = Some (Some (R key))"
  shows "validate_each cd s receipts slots keys = Inr () \<longleftrightarrow> (\<forall>key \<in> set keys. receipt_sound cd s key (R key)) \<and>
     distinct (concat (map (\<lambda>key. slot_names (R key)) keys)) \<and>
     set (concat (map (\<lambda>key. slot_names (R key)) keys)) \<inter> set slots = {}"
  using assms
proof (induction keys arbitrary: slots)
  case (Cons key keys)
  have now: "receipts key = Some (Some (R key))" using Cons.prems by simp
  have rest: "validate_each cd s receipts slots' keys = Inr () \<longleftrightarrow> (\<forall>key \<in> set keys. receipt_sound cd s key (R key)) \<and>
     distinct (concat (map (\<lambda>key. slot_names (R key)) keys)) \<and>
     set (concat (map (\<lambda>key. slot_names (R key)) keys)) \<inter> set slots' = {}" for slots'
    using Cons.IH Cons.prems by simp
  have "distinct (slot_names (R key))" if "receipt_sound cd s key (R key)"
    using that by (simp add: receipt_sound_def)
  then show ?case
    by (simp add: now sum_bind_Inr_iff validate_receipt_iff rest) blast
qed simp

lemma distinct_concat_keys:
  "distinct keys \<Longrightarrow> distinct (concat (map f keys)) \<longleftrightarrow> (\<forall>k \<in> set keys. distinct (f k)) \<and>
     (\<forall>k \<in> set keys. \<forall>k' \<in> set keys. k \<noteq> k' \<longrightarrow> set (f k) \<inter> set (f k') = {})"
  by (induction keys) (auto 0 4)

text \<open>The receipts in memory would be accepted by a restart.\<close>

definition recoverable :: "netlink_codec \<Rightarrow> 'w ownedNetlinkState \<Rightarrow> bool" where
  "recoverable cd s \<longleftrightarrow> validateReceipts cd s (map (map_prod (\<lambda>k. k) Some) (on_receipts s)) = Inr ()"

lemma map_of_some_values: "map_of (map (map_prod (\<lambda>k. k) Some) m) k = map_option Some (map_of m k)"
  by (induction m) auto

lemma Ball_dom_the:
  "(\<forall>k \<in> dom m. P k (the (m k))) \<longleftrightarrow> (\<forall>k r. m k = Some r \<longrightarrow> P k r)"
  "(\<forall>k \<in> dom m. \<forall>k' \<in> dom m. Q k (the (m k)) k' (the (m k'))) \<longleftrightarrow>
   (\<forall>k k' r r'. m k = Some r \<longrightarrow> m k' = Some r' \<longrightarrow> Q k r k' r')"
  by (auto simp: dom_def) (metis option.sel)

lemma recoverable_iff:
  "recoverable cd s \<longleftrightarrow> list_all (topology_ok s) (nc_Networks (on_config s)) \<and>
     (\<forall>k r. map_of (on_receipts s) k = Some r \<longrightarrow> receipt_sound cd s k r) \<and>
     (\<forall>k k' r r'. map_of (on_receipts s) k = Some r \<longrightarrow> map_of (on_receipts s) k' = Some r' \<longrightarrow> k \<noteq> k' \<longrightarrow>
        set (slot_names r) \<inter> set (slot_names r') = {})"
proof -
  let ?m = "map (map_prod (\<lambda>k. k) Some) (on_receipts s)" and ?R = "\<lambda>k. the (map_of (on_receipts s) k)"
  have keys: "map_keys ?m = map_keys (on_receipts s)"
    by (simp add: map_keys_def comp_def case_prod_beta)
  have "validate_each cd s (map_of ?m) [] (map_keys ?m) = Inr () \<longleftrightarrow>
      (\<forall>k \<in> set (map_keys ?m). receipt_sound cd s k (?R k)) \<and> distinct (concat (map (\<lambda>k. slot_names (?R k)) (map_keys ?m)))"
    by (subst validate_each_iff [where R = ?R]) (auto simp: map_of_some_values)
  also have "\<dots> \<longleftrightarrow> (\<forall>k r. map_of (on_receipts s) k = Some r \<longrightarrow> receipt_sound cd s k r) \<and>
     (\<forall>k k' r r'. map_of (on_receipts s) k = Some r \<longrightarrow> map_of (on_receipts s) k' = Some r' \<longrightarrow> k \<noteq> k' \<longrightarrow>
        set (slot_names r) \<inter> set (slot_names r') = {})"
    unfolding keys distinct_concat_keys [OF distinct_map_keys] set_map_keys
      Ball_dom_the(1) [where P = "\<lambda>k r. receipt_sound cd s k r"] Ball_dom_the(1) [where P = "\<lambda>k r. distinct (slot_names r)"]
      Ball_dom_the(2) [where Q = "\<lambda>k r k' r'. k \<noteq> k' \<longrightarrow> set (slot_names r) \<inter> set (slot_names r') = {}"]
    unfolding receipt_sound_def by blast
  finally show ?thesis by (simp add: recoverable_def validateReceipts_def)
qed

section \<open>Applied objects\<close>

text \<open>The kernel gives every listed neighbour a type.\<close>

definition typed_kernel :: "'w owned_env \<Rightarrow> bool" where
  "typed_kernel env \<longleftrightarrow> (\<forall>i f w ns w'. kn_NeighList (oe_kernel env) i f w = (Inr ns, w') \<longrightarrow>
     (\<forall>n \<in> set ns. ng_Family n \<noteq> AF_BRIDGE \<longrightarrow> ng_Type n \<noteq> 0))"

lemma slot_InrD:
  assumes "slot env ctx want (s, w) = (Inr found, (s', w'))"
  shows "\<exists>ns w1. kn_NeighList (oe_kernel env) (ke_Ifindex want) (ke_Family want) w1 = (Inr ns, w') \<and>
    found = filter (\<lambda>e. sameKernelSlot e want) (map kernelEntry ns)"
proof -
  from assms obtain r s1 w1 s2 w2 where "kn_NeighList (oe_kernel env) (ke_Ifindex want) (ke_Family want) w1 = (r, w2)"
    and "(case r of
          Inl err \<Rightarrow> go_seq (block_with (Errorf ''kernel observation failed: '' [err])) (quarantineError env)
        | Inr ns \<Rightarrow> go_return (filter (\<lambda>e. sameKernelSlot e want) (map kernelEntry ns))) (s2, w2) = (Inr found, (s', w'))"
    unfolding slot_def by (simp only: go_success split_paired_Ex) blast
  then show ?thesis
    by (cases r) (auto simp: go_success quarantineError_fails)
qed

lemma slot_typed:
  assumes "typed_kernel env" and "slot env ctx want (s, w) = (Inr found, (s', w'))" and "e \<in> set found"
  shows "ke_Family e \<noteq> AF_BRIDGE \<longrightarrow> ke_Type e \<noteq> 0"
proof -
  obtain ns w1 where listed: "kn_NeighList (oe_kernel env) (ke_Ifindex want) (ke_Family want) w1 = (Inr ns, w')"
    and "found = filter (\<lambda>e. sameKernelSlot e want) (map kernelEntry ns)"
    using slot_InrD [OF assms(2)] by blast
  with assms(3) obtain n where "n \<in> set ns" "e = kernelEntry n" by auto
  moreover have "\<forall>n \<in> set ns. ng_Family n \<noteq> AF_BRIDGE \<longrightarrow> ng_Type n \<noteq> 0"
    using assms(1) listed unfolding typed_kernel_def by blast
  ultimately show ?thesis by (simp add: kernelEntry_def)
qed

text \<open>An entry of the kernel that confirms an object.\<close>

definition confirms_object :: "RemoteObjectReceipt \<Rightarrow> RemoteKernelEntry \<Rightarrow> bool" where
  "confirms_object o1 e \<longleftrightarrow> e = expected_entry o1 e \<and> (ke_Family e \<noteq> AF_BRIDGE \<longrightarrow> ke_Type e \<noteq> 0)"

lemma confirm_effect:
  assumes "typed_kernel env" and "valid_ptr s p" and "confirm env ctx p False (s, w) = (Inr u, (s', w'))"
  shows "\<exists>e. object_at s' p = (object_at s p)\<lparr>ob_Observed := e, ob_Status := ''confirmed'', ob_Error := None\<rparr> \<and>
    confirms_object (object_at s p) e"
proof -
  obtain found s1 where s1: "steady s1 = steady s" and found: "length found = 1" "hd found = expected_entry (object_at s p) (hd found)"
    and s': "s' = update_object p (\<lambda>r. r\<lparr>ob_Observed := hd found, ob_Status := ''confirmed'', ob_Error := None\<rparr>) s1"
    and slot: "slot env ctx (ob_Request (object_at s p)) (s, w) = (Inr found, (s1, w'))"
    by (rule confirm_InrE [OF assms(3)]) blast
  have "hd found \<in> set found" using found(1) by (cases found) simp_all
  with slot_typed [OF assms(1) slot] found have "confirms_object (object_at s p) (hd found)"
    unfolding confirms_object_def by blast
  with s' object_at_steady [OF s1, of p] valid_ptr_steady [OF s1, of p] assms(2) show ?thesis by auto
qed

text \<open>How a successful application changes the receipt of an object.\<close>

definition applied_from :: "RemoteObjectReceipt \<Rightarrow> RemoteObjectReceipt \<Rightarrow> bool" where
  "applied_from o1 o2 \<longleftrightarrow> ob_Request o2 = ob_Request o1 \<and> ob_DeleteACK o2 = ob_DeleteACK o1 \<and> ob_Status o2 = ''confirmed'' \<and>
     (if ob_Status o1 = ''confirmed'' then ob_ACK o2 = ob_ACK o1 \<and> ob_Observed o2 = ob_Observed o1
      else ob_ACK o2 \<and> confirms_object o1 (ob_Observed o2))"

lemma boundary_own: "owned_boundary name (s, w) = (r, (s', w')) \<Longrightarrow> s' = s"
  by (rule keeps_ownD [OF keeps_boundary])

lemma journal_steady:
  "beginMutation env operation p (s, w) = (r, (s', w')) \<Longrightarrow> steady s' = steady s"
  "ackMutation env seq (s, w) = (r', (s', w')) \<Longrightarrow> steady s' = steady s"
  "checkpoint env (s, w) = (r'', (s', w')) \<Longrightarrow> steady s' = steady s"
  by (rule keeps_ownD [OF calm_journal(1) [OF calm_steady]], assumption)
    (rule keeps_ownD [OF calm_journal(2) [OF calm_steady]], assumption,
     rule keeps_ownD [OF calm_journal(3) [OF calm_steady]], assumption)

lemma acknowledge_InrE:
  assumes "acknowledge_object env ctx p False seq (s, w) = (Inr u, (s', w'))"
  obtains s2 w2 where "confirm env ctx p False (update_object p (\<lambda>r. r\<lparr>ob_ACK := True\<rparr>) s, w) = (Inr (), (s2, w2))"
    "steady s' = steady s2"
proof -
  obtain r s2 w2 where confirm: "confirm env ctx p False (update_object p (\<lambda>r. r\<lparr>ob_ACK := True\<rparr>) s, w) = (r, (s2, w2))"
    by (metis surj_pair)
  note rest = assms [unfolded acknowledge_object_def go_success split_paired_Ex if_False map_prod_simp ex_simps simp_thms]
  show thesis
  proof (cases r)
    case (Inl e)
    with rest confirm show thesis by (simp add: go_success)
  next
    case (Inr x)
    with rest confirm obtain s3 w3 s4 w4 where "owned_boundary ''before-add-ack'' (s2, w2) = (Inr (), (s3, w3))"
      "ackMutation env seq (s3, w3) = (Inr (), (s4, w4))" "owned_boundary ''after-add-ack'' (s4, w4) = (Inr u, (s', w'))"
      by (auto simp: go_success)
    then have "steady s' = steady s2" using boundary_own journal_steady(2) by metis
    with confirm Inr show thesis by (intro that) simp_all
  qed
qed

lemma go_if_success:
  "(if b then m else n) s = (Inr y, s') \<longleftrightarrow> b \<and> m s = (Inr y, s') \<or> \<not> b \<and> n s = (Inr y, s')"
  by simp

lemma create_object_effect:
  assumes "typed_kernel env" and "valid_ptr s p" and "ob_Status (object_at s p) \<noteq> ''confirmed''"
    and "create_object env ctx p request seq (s, w) = (Inr u, (s', w'))"
  shows "applied_from (object_at s p) (object_at s' p)"
proof -
  from assms(4) obtain added :: "go_error + unit" and s1 w1 w2 s3 w3 where bounds: "owned_boundary ''before-add'' (s, w) = (Inr (), (s1, w1))"
    "owned_boundary ''after-add'' (s1, w2) = (Inr (), (s3, w3))" and rest: "(case added of
         Inl err \<Rightarrow> go_seq (mutation_failed p True err) (go_throw (Errorf ''exclusive kernel creation: %w'' [err]))
       | Inr _ \<Rightarrow> acknowledge_object env ctx p False seq) (s3, w3) = (Inr u, (s', w'))"
    unfolding create_object_def
    by (simp only: go_success split_paired_Ex) (elim exE conjE, hypsubst, rule that, assumption+)
  have "s3 = s" using boundary_own [OF bounds(1)] boundary_own [OF bounds(2)] by simp
  with rest have "acknowledge_object env ctx p False seq (s, w3) = (Inr u, (s', w'))"
    by (cases added) (simp_all add: go_success)
  then obtain s4 w4 where confirm: "confirm env ctx p False (update_object p (\<lambda>r. r\<lparr>ob_ACK := True\<rparr>) s, w3) = (Inr (), (s4, w4))"
    and steady: "steady s' = steady s4" by (rule acknowledge_InrE)
  have expected: "confirms_object (o1\<lparr>ob_ACK := a\<rparr>) e = confirms_object o1 e" for o1 a e
    by (auto simp: confirms_object_def expected_entry_def)
  show ?thesis
    using confirm_effect [OF assms(1) _ confirm] assms(2,3) object_at_steady [OF steady, of p]
    by (auto simp: applied_from_def expected)
qed

lemma applyObject_effect:
  assumes "typed_kernel env" and "valid_ptr s p" and "applyObject env ctx p (s, w) = (Inr u, (s', w'))"
  shows "applied_from (object_at s p) (object_at s' p)"
proof (cases "ob_Status (object_at s p) = ''confirmed''")
  case True
  with assms(3) have "confirm env ctx p False (s, w) = (Inr u, (s', w'))"
    by (simp add: applyObject_def go_run)
  from reconfirm [OF True this] True show ?thesis by (simp add: applied_from_def)
next
  case False
  let ?r = "object_at s p" and ?pending = "\<lambda>r :: RemoteObjectReceipt. r\<lparr>ob_Status := ''pending''\<rparr>"
  have conflict: "(let reason = e in go_seq (set_object p (f reason)) (go_seq (block_with reason) (go_wrap g (quarantineError env)))) t \<noteq> (Inr u, t')"
    "(let reason = e in go_seq (block_with reason) (go_throw reason)) t \<noteq> (Inr u, t')" for e f g t t'
    by (simp_all add: go_success Let_def quarantineError_fails)
  from assms(3) False obtain found s1 w1 s2 w2 seq s3 w3 again s4 w4 where
    first: "slot env ctx (ob_Request ?r) (s, w) = (Inr found, (s1, w1))" and check: "owned_check env ctx (s1, w1) = (Inr (), (s2, w2))"
    and begun: "beginMutation env ''netlink-add'' p (update_object p ?pending s2, w2) = (Inr seq, (s3, w3))"
    and second: "slot env ctx (ob_Request ?r) (s3, w3) = (Inr again, (s4, w4))"
    and create: "create_object env ctx p (ob_Request ?r) seq (s4, w4) = (Inr u, (s', w'))"
    unfolding applyObject_def
    by (simp only: go_success go_if_success conflict split_paired_Ex map_prod_simp fst_conv simp_thms prod.inject) blast
  have s2: "steady s2 = steady s" using check_steady [OF check] slot_steady [OF first] by simp
  have s4: "steady s4 = steady (update_object p ?pending s2)"
    using journal_steady(1) [OF begun] slot_steady [OF second] by simp
  have valid: "valid_ptr s2 p" using valid_ptr_steady [OF s2] assms(2) by simp
  then have "valid_ptr s4 p" "object_at s4 p = ?pending ?r"
    using valid_ptr_steady [OF s4, of p] object_at_steady [OF s4, of p] object_at_steady [OF s2, of p] by simp_all
  with create_object_effect [OF assms(1) _ _ create] have "applied_from (?pending ?r) (object_at s' p)" by simp
  with False show ?thesis by (auto simp: applied_from_def confirms_object_def expected_entry_def)
qed

section \<open>Recoverable states\<close>

text \<open>Everything of the state but the receipts and the diagnostic journal.\<close>

definition ground :: "'w ownedNetlinkState \<Rightarrow> 'w ownedNetlinkState" where
  "ground s = steady (s\<lparr>on_receipts := [], on_withdrawals := []\<rparr>)"

lemma groundD:
  assumes "ground s' = ground s"
  shows "on_config s' = on_config s" "on_controller s' = on_controller s" "on_target s' = on_target s"
    "on_devices s' = on_devices s" "on_latest s' = on_latest s" "on_snapshot s' = on_snapshot s"
    "on_journal s' = on_journal s" "on_fault s' = on_fault s"
  using assms by (cases s; cases s'; simp add: ground_def steady_def)+

lemma receipt_sound_cong:
  assumes "on_config s' = on_config s" "on_controller s' = on_controller s" "on_target s' = on_target s"
    "on_devices s' = on_devices s" "on_snapshot s' = on_snapshot s" "latest_at s' k = latest_at s k"
  shows "receipt_sound cd s' k r = receipt_sound cd s k r"
proof -
  have "device_at s' = device_at s" using assms by (simp add: device_at_def fun_eq_iff)
  with assms show ?thesis
    by (simp add: receipt_sound_def receipt_identity_ok_def receipt_mapping_ok_def receipt_tuple_ok_def newReceipt_def
        fdb_request_def neighbor_request_def)
qed

lemma receipt_sound_ground: "ground s' = ground s \<Longrightarrow> receipt_sound cd s' k r = receipt_sound cd s k r"
  by (rule receipt_sound_cong) (auto dest: groundD simp: latest_at_def)

lemma topology_ground: "ground s' = ground s \<Longrightarrow> topology_ok s' = topology_ok s"
  by (drule groundD(4)) (simp add: topology_ok_def fun_eq_iff)

lemma recoverableD:
  assumes "recoverable cd s" and "map_of (on_receipts s) k = Some r"
  shows "receipt_sound cd s k r"
  using assms unfolding recoverable_iff by blast

lemma recoverable_replace:
  assumes "recoverable cd s" and "ground s' = ground s" and "map_of (on_receipts s) k = Some b"
    and "map_of (on_receipts s') = (map_of (on_receipts s))(k \<mapsto> b')" and "receipt_sound cd s k b'"
    and "slot_names b' = slot_names b"
  shows "recoverable cd s'"
  unfolding recoverable_iff
proof (intro conjI allI impI)
  show "list_all (topology_ok s') (nc_Networks (on_config s'))"
    using assms(1,2) topology_ground [OF assms(2)] groundD(1) [OF assms(2)] by (simp add: recoverable_iff)
  fix k1 r1 assume r1: "map_of (on_receipts s') k1 = Some r1"
  show "receipt_sound cd s' k1 r1"
    using r1 assms(4,5) recoverableD [OF assms(1), of k1 r1] by (auto simp: receipt_sound_ground [OF assms(2)] split: if_splits)
  fix k2 r2 assume r2: "map_of (on_receipts s') k2 = Some r2" and "k1 \<noteq> k2"
  have names: "\<exists>r0. map_of (on_receipts s) k0 = Some r0 \<and> slot_names r0 = slot_names r" if "map_of (on_receipts s') k0 = Some r" for k0 r
    using that assms(3,4,6) by (auto split: if_splits)
  from names [OF r1] names [OF r2] obtain b1 b2 where "map_of (on_receipts s) k1 = Some b1" "map_of (on_receipts s) k2 = Some b2"
    and same: "slot_names b1 = slot_names r1" "slot_names b2 = slot_names r2" by blast
  with assms(1) \<open>k1 \<noteq> k2\<close> have "set (slot_names b1) \<inter> set (slot_names b2) = {}" unfolding recoverable_iff by blast
  then show "set (slot_names r1) \<inter> set (slot_names r2) = {}" by (simp only: same)
qed

lemma recoverable_remove:
  assumes "recoverable cd s" and "ground s' = ground s" and "map_of (on_receipts s') = (map_of (on_receipts s))(k := None)"
  shows "recoverable cd s'"
  using assms(1) topology_ground [OF assms(2)] groundD(1) [OF assms(2)]
  unfolding recoverable_iff receipt_sound_ground [OF assms(2)] assms(3)
  by (simp split: if_splits)

text \<open>A confirmed object is accepted after a restart.\<close>

definition creatable :: "RemoteObjectReceipt \<Rightarrow> bool" where
  "creatable o1 \<longleftrightarrow> ob_Status o1 \<noteq> ''absent-confirmed'' \<and>
     (ke_Family (ob_Request o1) = AF_BRIDGE \<or> ke_Type (ob_Request o1) = 0)"

lemma applied_status_ok:
  assumes "applied_from o1 o2" and "object_status_ok o1 = Inr ()" and "creatable o1"
  shows "object_status_ok o2 = Inr ()"
proof (cases "ob_Status o1 = ''confirmed''")
  case True
  with assms show ?thesis by (auto simp: applied_from_def object_status_ok_def split: if_splits)
next
  case False
  with assms have delete: "\<not> ob_DeleteACK o2"
    by (auto simp: applied_from_def object_status_ok_def creatable_def split: if_splits)
  from False assms(1) have "ob_ACK o2" "ob_Status o2 = ''confirmed''" "ob_Request o2 = ob_Request o1"
    and e: "confirms_object o1 (ob_Observed o2)" by (auto simp: applied_from_def)
  moreover have "ob_Observed o2 = (ob_Request o1)\<lparr>ke_Type := ke_Type (ob_Observed o2)\<rparr>"
    using e False by (auto simp: confirms_object_def expected_entry_def split: if_splits)
  moreover have "if ke_Family (ob_Request o1) = AF_BRIDGE then ke_Type (ob_Observed o2) = ke_Type (ob_Request o1)
      else ke_Type (ob_Observed o2) = RTN_UNICAST \<or> ke_Type (ob_Observed o2) = RTN_BROADCAST"
    using e False assms(3) by (auto simp: confirms_object_def expected_entry_def creatable_def split: if_splits)
  ultimately show ?thesis using delete by (auto simp: object_status_ok_def split: if_splits)
qed

section \<open>Steps between recoverable states\<close>

definition mask_receipt :: "kernel_object \<Rightarrow> RemoteNetlinkReceipt \<Rightarrow> RemoteNetlinkReceipt" where
  "mask_receipt o1 r = (case o1 of FDB \<Rightarrow> r\<lparr>rc_FDB := zero_object\<rparr>
     | Neighbor \<Rightarrow> r\<lparr>rc_Neighbor := map_option (\<lambda>_. zero_object) (rc_Neighbor r)\<rparr>)"

lemma map_of_masked:
  "map_of (on_receipts (masked p s)) = (case map_of (on_receipts s) (fst p) of
     None \<Rightarrow> map_of (on_receipts s) | Some r \<Rightarrow> (map_of (on_receipts s))(fst p \<mapsto> mask_receipt (snd p) r))"
  by (simp add: masked_def steady_def update_object_def update_receipt_def mask_receipt_def split: option.split kernel_object.split)

lemma ground_masked: "ground (masked p s) = ground s"
  by (simp add: ground_def masked_def steady_def update_object_def update_receipt_def split: option.split)

lemma masked_others:
  assumes "masked p s' = masked p s"
  shows "ground s' = ground s" "(map_of (on_receipts s'))(fst p := None) = (map_of (on_receipts s))(fst p := None)"
proof -
  show "ground s' = ground s" using ground_masked assms by metis
  have "(map_of (on_receipts (masked p t)))(fst p := None) = (map_of (on_receipts t))(fst p := None)" for t :: "'a ownedNetlinkState"
    by (simp add: map_of_masked split: option.split)
  then show "(map_of (on_receipts s'))(fst p := None) = (map_of (on_receipts s))(fst p := None)"
    using assms by metis
qed

lemma masked_receipt:
  assumes "masked p s' = masked p s" and "map_of (on_receipts s) (fst p) = Some b"
  obtains b' where "map_of (on_receipts s') = (map_of (on_receipts s))(fst p \<mapsto> b')" "mask_receipt (snd p) b' = mask_receipt (snd p) b"
proof -
  have "map_of (on_receipts (masked p s')) (fst p) = Some (mask_receipt (snd p) b)"
    using assms by (simp add: map_of_masked)
  then obtain b' where b': "map_of (on_receipts s') (fst p) = Some b'" "mask_receipt (snd p) b' = mask_receipt (snd p) b"
    by (auto simp: map_of_masked split: option.splits)
  moreover have "map_of (on_receipts s') = (map_of (on_receipts s))(fst p \<mapsto> b')"
    using masked_others(2) [OF assms(1)] b'(1) by (metis fun_upd_triv fun_upd_upd)
  ultimately show thesis by (intro that)
qed

lemma mask_receipt_same:
  "mask_receipt FDB b' = mask_receipt FDB b \<Longrightarrow> b\<lparr>rc_FDB := rc_FDB b'\<rparr> = b'"
  "mask_receipt Neighbor b' = mask_receipt Neighbor b \<Longrightarrow> b\<lparr>rc_Neighbor := rc_Neighbor b'\<rparr> = b'"
  by (cases b; cases b'; simp add: mask_receipt_def)+

lemma mask_receipt_fields:
  "mask_receipt FDB b' = mask_receipt FDB b \<Longrightarrow> rc_Neighbor b' = rc_Neighbor b"
  "mask_receipt Neighbor b' = mask_receipt Neighbor b \<Longrightarrow> rc_FDB b' = rc_FDB b"
  "mask_receipt o1 b' = mask_receipt o1 b \<Longrightarrow> rc_Retiring b' = rc_Retiring b"
  by (cases b; cases b'; cases o1; simp add: mask_receipt_def)+

lemma receiptRoute_updates [simp]:
  "receiptRoute (b\<lparr>rc_FDB := x\<rparr>) = receiptRoute b" "receiptRoute (b\<lparr>rc_Neighbor := y\<rparr>) = receiptRoute b"
  by (simp_all add: receiptRoute_def)

lemma receipt_ok_updates [simp]:
  "receipt_identity_ok cd s k (b\<lparr>rc_FDB := x\<rparr>) = receipt_identity_ok cd s k b"
  "receipt_identity_ok cd s k (b\<lparr>rc_Neighbor := y\<rparr>) = receipt_identity_ok cd s k b"
  "receipt_identity_ok cd s k (b\<lparr>rc_Status := st\<rparr>) = receipt_identity_ok cd s k b"
  "receipt_mapping_ok s (b\<lparr>rc_FDB := x\<rparr>) = receipt_mapping_ok s b"
  "receipt_mapping_ok s (b\<lparr>rc_Neighbor := y\<rparr>) = receipt_mapping_ok s b"
  "receipt_mapping_ok s (b\<lparr>rc_Status := st\<rparr>) = receipt_mapping_ok s b"
  unfolding receipt_identity_ok_def receipt_mapping_ok_def by simp_all

text \<open>An object of a sound receipt is replaced by an accepted one with the same request.\<close>

lemma receipt_sound_objects:
  assumes "receipt_sound cd s k b" and "object_status_ok x = Inr ()"
  shows "ob_Request x = ob_Request (rc_FDB b) \<Longrightarrow>
      receipt_sound cd s k (b\<lparr>rc_FDB := x\<rparr>) \<and> slot_names (b\<lparr>rc_FDB := x\<rparr>) = slot_names b"
    and "Some (ob_Request x) = map_option ob_Request (rc_Neighbor b) \<Longrightarrow>
      receipt_sound cd s k (b\<lparr>rc_Neighbor := Some x\<rparr>) \<and> slot_names (b\<lparr>rc_Neighbor := Some x\<rparr>) = slot_names b"
proof -
  note defs = receipt_sound_def receipt_tuple_ok_def receipt_objects_def Let_def
  show "receipt_sound cd s k (b\<lparr>rc_FDB := x\<rparr>) \<and> slot_names (b\<lparr>rc_FDB := x\<rparr>) = slot_names b"
    if "ob_Request x = ob_Request (rc_FDB b)"
    using assms that unfolding defs by simp
  show "receipt_sound cd s k (b\<lparr>rc_Neighbor := Some x\<rparr>) \<and> slot_names (b\<lparr>rc_Neighbor := Some x\<rparr>) = slot_names b"
    if "Some (ob_Request x) = map_option ob_Request (rc_Neighbor b)"
    using assms that unfolding defs by (cases "rc_Neighbor b") simp_all
qed

lemma applyObject_recoverable:
  assumes "typed_kernel env" and "recoverable cd s" and "valid_ptr s p" and "creatable (object_at s p)"
    and "applyObject env ctx p (s, w) = (Inr u, (s', w'))"
  shows "recoverable cd s'"
proof -
  obtain b where b: "map_of (on_receipts s) (fst p) = Some b" using assms(3) by (auto simp: valid_ptr_def split: option.splits)
  have mask: "masked p s' = masked p s" by (rule keeps_ownD [OF masked_applyObject assms(5)])
  obtain b' where b': "map_of (on_receipts s') = (map_of (on_receipts s))(fst p \<mapsto> b')"
    and same: "mask_receipt (snd p) b' = mask_receipt (snd p) b"
    by (rule masked_receipt [OF mask b])
  note effect = applyObject_effect [OF assms(1,3,5)]
  have sound: "receipt_sound cd s (fst p) b" using recoverableD [OF assms(2) b] .
  have "object_at s p \<in> set (receipt_objects b)"
    using assms(3) b by (cases p; cases "snd p") (auto simp: object_at_def valid_ptr_def receipt_objects_def split: option.splits)
  with sound have "object_status_ok (object_at s p) = Inr ()" unfolding receipt_sound_def by blast
  then have ok: "object_status_ok (object_at s' p) = Inr ()" by (rule applied_status_ok [OF effect _ assms(4)])
  have request: "ob_Request (object_at s' p) = ob_Request (object_at s p)" using effect by (simp add: applied_from_def)
  have "receipt_sound cd s (fst p) b' \<and> slot_names b' = slot_names b"
  proof (cases "snd p")
    case FDB
    with b b' have "object_at s p = rc_FDB b" "object_at s' p = rc_FDB b'" by (simp_all add: object_at_def)
    with ok request have "object_status_ok (rc_FDB b') = Inr ()" "ob_Request (rc_FDB b') = ob_Request (rc_FDB b)" by simp_all
    from receipt_sound_objects(1) [OF sound this] show ?thesis using mask_receipt_same(1) same FDB by simp
  next
    case Neighbor
    with assms(3) b obtain x where x: "rc_Neighbor b = Some x" by (auto simp: valid_ptr_def)
    with same Neighbor have "rc_Neighbor b' \<noteq> None" by (cases b; cases b') (auto simp: mask_receipt_def)
    then obtain x' where x': "rc_Neighbor b' = Some x'" by blast
    with Neighbor b b' x have "object_at s p = x" "object_at s' p = x'" by (simp_all add: object_at_def)
    with ok request x have "object_status_ok x' = Inr ()" "Some (ob_Request x') = map_option ob_Request (rc_Neighbor b)" by simp_all
    from receipt_sound_objects(2) [OF sound this] show ?thesis using mask_receipt_same(2) [of b' b] same Neighbor x' by simp
  qed
  then show ?thesis
    by (intro recoverable_replace [OF assms(2) masked_others(1) [OF mask] b b']) simp_all
qed

section \<open>Applying and withdrawing a route\<close>

lemma steady_ground: "steady s' = steady s \<Longrightarrow> ground s' = ground s"
  by (cases s; cases s') (simp add: ground_def steady_def)

lemma recoverable_steady:
  assumes "recoverable cd s" and "steady s' = steady s"
  shows "recoverable cd s'"
proof -
  note same = steady_ground [OF assms(2)]
  have "on_receipts s' = on_receipts s" "topology_ok s' = topology_ok s" "on_config s' = on_config s"
    using steadyD(1,5) [OF assms(2)] topology_ground [OF same] by simp_all
  with assms(1) show ?thesis unfolding recoverable_iff receipt_sound_ground [OF same] by simp
qed

lemma recoverable_add:
  assumes "recoverable cd s" and "map_of (on_receipts s) k = None"
    and s': "s' = s\<lparr>on_latest := AList.update k n (on_latest s), on_receipts := AList.update k b (on_receipts s)\<rparr>"
    and "receipt_sound cd s' k b"
    and "\<And>k' r. map_of (on_receipts s) k' = Some r \<Longrightarrow> set (slot_names r) \<inter> set (slot_names b) = {}"
  shows "recoverable cd s'"
  unfolding recoverable_iff
proof (intro conjI allI impI)
  have "topology_ok s' = topology_ok s" by (simp add: s' topology_ok_def fun_eq_iff)
  with assms(1) show "list_all (topology_ok s') (nc_Networks (on_config s'))" by (simp add: s' recoverable_iff)
  fix k1 r1 assume r1: "map_of (on_receipts s') k1 = Some r1"
  show "receipt_sound cd s' k1 r1"
  proof (cases "k1 = k")
    case True
    with r1 assms(4) show ?thesis by (simp add: s')
  next
    case False
    then have "receipt_sound cd s' k1 r1 = receipt_sound cd s k1 r1"
      by (intro receipt_sound_cong) (simp_all add: s' latest_at_def)
    with False r1 recoverableD [OF assms(1)] show ?thesis by (simp add: s')
  qed
  fix k2 r2 assume "map_of (on_receipts s') k2 = Some r2" "k1 \<noteq> k2"
  with r1 assms(1,5) show "set (slot_names r1) \<inter> set (slot_names r2) = {}"
    unfolding recoverable_iff s' by (simp split: if_splits) blast+
qed

text \<open>No receipt holds the slot of an entry.\<close>

definition slot_free :: "'w ownedNetlinkState \<Rightarrow> RemoteKernelEntry \<Rightarrow> bool" where
  "slot_free s e \<longleftrightarrow> list_all (\<lambda>r. list_all (\<lambda>o1. \<not> sameKernelSlot (ob_Request o1) e) (receipt_objects r)) (map_values (on_receipts s))"

lemma slot_freeD:
  assumes "slot_free s e" and "map_of (on_receipts s) k = Some r"
  shows "slot_name e \<notin> set (slot_names r)"
proof -
  have "r \<in> set (map_values (on_receipts s))" using assms(2) by (auto simp: map_values_def set_map_filter)
  with assms(1) show ?thesis by (auto simp: slot_free_def list_all_iff) (metis slot_name_iff)
qed

text \<open>
  The routes that the import loop applies: the key is the hash of the endpoint, the generation is
  one of the current snapshot or an earlier one, no other receipt holds a slot of the route, and a
  route that is known already is not on its way out.
\<close>

definition admissible :: "netlink_codec \<Rightarrow> 'w ownedNetlinkState \<Rightarrow> ImportedType2Route \<Rightarrow> bool" where
  "admissible cd s route = (case map_of (on_receipts s) (it_Key route) of
     Some r \<Rightarrow> \<not> rc_Retiring r \<and> list_all (\<lambda>o1. ob_Status o1 \<noteq> ''absent-confirmed'') (receipt_objects r)
   | None \<Rightarrow> it_Key route = kc_hash_strings cd [it_NetworkName route, it_MAC route, it_IP route] \<and>
       it_generation route \<le> sn_Generation (on_snapshot s) \<and>
       list_all (\<lambda>n. route_network route n \<longrightarrow> slot_free s (fdb_request s n route) \<and>
         (it_IP route = [] \<or> slot_free s (neighbor_request s n route))) (nc_Networks (on_config s)))"

lemma request_kinds:
  "ke_Family (fdb_request s n route) = AF_BRIDGE" "ke_Family (neighbor_request s n route) \<noteq> AF_BRIDGE"
  "ke_Type (neighbor_request s n route) = 0"
  by (auto simp: fdb_request_def neighbor_request_def zero_entry_def AF_BRIDGE_def AF_INET_def AF_INET6_def split: option.split)

lemma newReceipt_sound:
  assumes "n \<in> set (nc_Networks (on_config s))" and "route_network route n" and "same_endpoint route ep"
    and "it_incarnation route \<noteq> 0" "it_generation route \<noteq> 0" "de_ValidationState ep = ''validated''" "de_Routes ep \<noteq> []"
    and "it_Key route = kc_hash_strings cd [it_NetworkName route, it_MAC route, it_IP route]"
    and "it_generation route \<le> sn_Generation (on_snapshot s)" and "latest_at s' (it_Key route) = it_incarnation route"
    and s': "on_config s' = on_config s" "on_controller s' = on_controller s" "on_target s' = on_target s"
      "on_devices s' = on_devices s" "on_snapshot s' = on_snapshot s"
  shows "receipt_sound cd s' (it_Key route) ((newReceipt s n route ep)\<lparr>rc_Status := ''partially-applied''\<rparr>)"
proof -
  have dev: "device_at s' = device_at s" using s' by (simp add: device_at_def fun_eq_iff)
  have names: "slot_name (fdb_request s n route) \<noteq> slot_name (neighbor_request s n route)"
    unfolding slot_name_iff using request_kinds [of s n route] by (auto simp: sameKernelSlot_def)
  have ep: "de_Key ep = it_Key route" "de_NetworkID ep = it_NetworkName route" "de_VNI ep = it_VNI route" "de_MAC ep = it_MAC route"
    "de_IP ep = it_IP route" "de_RemoteVTEP ep = it_RemoteVTEP route"
    using assms(3) by (simp_all add: same_endpoint_def)
  let ?r = "(newReceipt s n route ep)\<lparr>rc_Status := ''partially-applied''\<rparr>"
  have "receipt_identity_ok cd s' (it_Key route) ?r"
    unfolding receipt_identity_ok_def using assms(4-10) s' ep by (simp add: newReceipt_def)
  moreover have "receipt_mapping_ok s' ?r"
    using assms(1,2) s' ep dev by (simp add: receipt_mapping_ok_def newReceipt_def route_network_def)
  moreover have "receipt_tuple_ok s' ?r"
    using ep dev by (simp add: receipt_tuple_ok_def newReceipt_def receiptRoute_def fdb_request_def neighbor_request_def)
  ultimately show ?thesis
    using names by (auto simp: receipt_sound_def receipt_objects_def newReceipt_def unattempted_def object_status_ok_def)
qed

lemma recoverable_status:
  assumes "recoverable cd s" and b: "map_of (on_receipts s) k = Some b" and "\<not> rc_Retiring b"
    and "st = ''partially-applied'' \<or> st = ''applied''"
  shows "recoverable cd (update_receipt k (\<lambda>r. r\<lparr>rc_Status := st\<rparr>) s)"
proof (rule recoverable_replace [OF assms(1) _ b])
  have "receiptRoute (b\<lparr>rc_Status := st\<rparr>) = receiptRoute b" "receipt_objects (b\<lparr>rc_Status := st\<rparr>) = receipt_objects b"
    by (simp_all add: receiptRoute_def receipt_objects_def)
  with assms(3,4) recoverableD [OF assms(1) b] show "receipt_sound cd s k (b\<lparr>rc_Status := st\<rparr>)"
    "slot_names (b\<lparr>rc_Status := st\<rparr>) = slot_names b"
    by (auto simp: receipt_sound_def receipt_tuple_ok_def)
qed (simp_all add: b update_receipt_def ground_def steady_def)

text \<open>The receipt of a route that is being applied.\<close>

definition applicable :: "netlink_codec \<Rightarrow> string \<Rightarrow> 'w ownedNetlinkState \<Rightarrow> bool" where
  "applicable cd k s \<longleftrightarrow> recoverable cd s \<and>
     (\<exists>b. map_of (on_receipts s) k = Some b \<and> \<not> rc_Retiring b \<and> (\<forall>o1 \<in> set (receipt_objects b). creatable o1))"

lemma sound_kinds:
  assumes "receipt_sound cd s k b" and "o1 \<in> set (receipt_objects b)"
  shows "ke_Family (ob_Request o1) = AF_BRIDGE \<or> ke_Type (ob_Request o1) = 0"
  using assms request_kinds [of s "rc_Network b" "receiptRoute b"]
  by (auto simp: receipt_sound_def receipt_tuple_ok_def receipt_objects_def newReceipt_def unattempted_def split: option.splits if_splits)

lemma owned_route_InrD:
  assumes "owned_route env ctx route (s, w) = (Inr (n, ep), (s', w'))"
  shows "steady s' = steady s" "it_validated route = Some ep" "it_incarnation route \<noteq> 0" "it_generation route \<noteq> 0"
    "de_ValidationState ep = ''validated''" "de_Routes ep \<noteq> []" "same_endpoint route ep"
    "n \<in> set (nc_Networks (on_config s'))" "route_network route n"
proof -
  from assms obtain s1 w1 where check: "owned_check env ctx (s, w) = (Inr (), (s1, w1))"
    and rest: "(case it_validated route of
        None \<Rightarrow> go_throw (errors_New ''verified importer proof and route incarnation required'')
      | Some ep \<Rightarrow>
          go_seq (go_require (it_incarnation route \<noteq> 0 \<and> it_generation route \<noteq> 0 \<and>
              de_ValidationState ep = ''validated'' \<and> de_Routes ep \<noteq> [])
            (errors_New ''verified importer proof and route incarnation required''))
          (go_seq (go_require (same_endpoint route ep) (errors_New ''backend DTO differs from validated endpoint''))
          (go_bind (own_get (\<lambda>s. find (route_network route) (nc_Networks (on_config s)))) (\<lambda>found. case found of
             None \<Rightarrow> go_throw (errors_New ''no explicit remote network/device mapping'')
           | Some n \<Rightarrow> go_return (n, ep))))) (s1, w1) = (Inr (n, ep), (s', w'))"
    unfolding owned_route_def by (simp only: go_success split_paired_Ex) blast
  then have facts: "s' = s1 \<and> it_validated route = Some ep \<and> it_incarnation route \<noteq> 0 \<and> it_generation route \<noteq> 0 \<and>
    de_ValidationState ep = ''validated'' \<and> de_Routes ep \<noteq> [] \<and> same_endpoint route ep \<and>
    find (route_network route) (nc_Networks (on_config s1)) = Some n"
    by (auto simp: go_success split: option.splits)
  with check_steady [OF check] show "steady s' = steady s" by simp
  show "n \<in> set (nc_Networks (on_config s'))" "route_network route n"
    using facts by (auto simp: find_Some_iff)
qed (use assms in \<open>auto simp: owned_route_def go_success split: option.splits\<close>)

lemma claim_applicable:
  assumes "recoverable cd s" and "admissible cd s route" and "n \<in> set (nc_Networks (on_config s))" "route_network route n"
    and "same_endpoint route ep" "it_incarnation route \<noteq> 0" "it_generation route \<noteq> 0" "de_ValidationState ep = ''validated''" "de_Routes ep \<noteq> []"
    and "claim_receipt route n ep (s, w) = (Inr u, (s', w'))"
  shows "applicable cd (it_Key route) (update_receipt (it_Key route) (\<lambda>r. r\<lparr>rc_Status := ''partially-applied''\<rparr>) s')"
proof (cases "map_of (on_receipts s) (it_Key route)")
  case (Some b)
  with assms(10) have s': "s' = s" by (simp add: claim_receipt_def go_success)
  from Some assms(2) have b: "\<not> rc_Retiring b" "\<forall>o1 \<in> set (receipt_objects b). ob_Status o1 \<noteq> ''absent-confirmed''"
    by (simp_all add: admissible_def list_all_iff)
  then have "\<forall>o1 \<in> set (receipt_objects b). creatable o1"
    using sound_kinds [OF recoverableD [OF assms(1) Some]] unfolding creatable_def by blast
  with b(1) recoverable_status [OF assms(1) Some b(1)] Some show ?thesis
    unfolding s' applicable_def by (simp add: update_receipt_def receipt_objects_def)
next
  case None
  let ?k = "it_Key route" and ?b = "(newReceipt s n route ep)\<lparr>rc_Status := ''partially-applied''\<rparr>"
  let ?s = "update_receipt ?k (\<lambda>r. r\<lparr>rc_Status := ''partially-applied''\<rparr>) s'"
  from None assms(10) have s': "?s = s\<lparr>on_latest := AList.update ?k (it_incarnation route) (on_latest s), on_receipts := AList.update ?k ?b (on_receipts s)\<rparr>"
    by (simp add: claim_receipt_def go_success update_receipt_def update_update)
  from None assms(2) have key: "?k = kc_hash_strings cd [it_NetworkName route, it_MAC route, it_IP route]"
    and gen: "it_generation route \<le> sn_Generation (on_snapshot s)"
    and free: "slot_free s (fdb_request s n route)" "it_IP route = [] \<or> slot_free s (neighbor_request s n route)"
    using assms(3,4) by (auto simp: admissible_def list_all_iff)
  have sound: "receipt_sound cd ?s ?k ?b"
    by (rule newReceipt_sound [OF assms(3-9) key gen]) (simp_all add: s' latest_at_def)
  have "set (slot_names r) \<inter> set (slot_names ?b) = {}" if "map_of (on_receipts s) k' = Some r" for k' r
  proof -
    have "slot_names ?b = slot_name (fdb_request s n route) # (if it_IP route = [] then [] else [slot_name (neighbor_request s n route)])"
      by (simp add: receipt_objects_def newReceipt_def unattempted_def)
    moreover have "slot_name (fdb_request s n route) \<notin> set (slot_names r)"
      "it_IP route = [] \<or> slot_name (neighbor_request s n route) \<notin> set (slot_names r)"
      using slot_freeD [OF _ that] free by blast+
    ultimately show ?thesis by auto
  qed
  from recoverable_add [OF assms(1) None s' sound this] have "recoverable cd ?s" .
  moreover have "\<forall>o1 \<in> set (receipt_objects ?b). creatable o1"
    using sound_kinds [OF sound] by (auto simp: creatable_def receipt_objects_def newReceipt_def unattempted_def)
  moreover have "map_of (on_receipts ?s) ?k = Some ?b" by (simp add: s')
  moreover have "\<not> rc_Retiring ?b" by (simp add: newReceipt_def)
  ultimately show ?thesis unfolding applicable_def by blast
qed

lemma admissible_steady: "admissible cd s' route = admissible cd s route" if "steady s' = steady s"
  unfolding admissible_def slot_free_def fdb_request_def neighbor_request_def device_at_def steadyD [OF that] by (rule refl)

lemma applyObject_applicable:
  assumes "typed_kernel env" and "applicable cd k s" and "valid_ptr s (k, o1)"
    and "applyObject env ctx (k, o1) (s, w) = (Inr u, (s', w'))"
  shows "applicable cd k s'"
proof -
  let ?p = "(k, o1)"
  from assms(2) obtain b where b: "map_of (on_receipts s) (fst ?p) = Some b" "\<not> rc_Retiring b" "\<forall>o1 \<in> set (receipt_objects b). creatable o1"
    and rec: "recoverable cd s" unfolding applicable_def by auto
  have in_b: "object_at s ?p \<in> set (receipt_objects b)"
    using assms(3) b by (cases o1) (auto simp: object_at_def valid_ptr_def receipt_objects_def)
  then have creatable: "creatable (object_at s ?p)" using b(3) by blast
  have mask: "masked ?p s' = masked ?p s" by (rule keeps_ownD [OF masked_applyObject assms(4)])
  obtain b' where b': "map_of (on_receipts s') = (map_of (on_receipts s))(fst ?p \<mapsto> b')" "mask_receipt (snd ?p) b' = mask_receipt (snd ?p) b"
    by (rule masked_receipt [OF mask b(1)])
  note effect = applyObject_effect [OF assms(1,3,4)]
  have "ob_Request (object_at s' ?p) = ob_Request (object_at s ?p)" "ob_Status (object_at s' ?p) = ''confirmed''"
    using effect unfolding applied_from_def by blast+
  then have new: "creatable (object_at s' ?p)" using creatable unfolding creatable_def by simp
  have "\<not> rc_Retiring b' \<and> (\<forall>o1 \<in> set (receipt_objects b'). creatable o1)"
  proof (cases o1)
    case FDB
    with b'(2) have "rc_Neighbor b' = rc_Neighbor b" "rc_Retiring b' = rc_Retiring b"
      using mask_receipt_fields [where b' = b' and b = b] by simp_all
    moreover have "object_at s' ?p = rc_FDB b'" using FDB b'(1) by (simp add: object_at_def)
    ultimately show ?thesis using b(2,3) new by (auto simp: receipt_objects_def)
  next
    case Neighbor
    with b'(2) have "rc_FDB b' = rc_FDB b" "rc_Retiring b' = rc_Retiring b"
      using mask_receipt_fields [where b' = b' and b = b] by simp_all
    moreover have "rc_Neighbor b' = Some x \<Longrightarrow> object_at s' ?p = x" for x using Neighbor b'(1) by (simp add: object_at_def)
    ultimately show ?thesis using b(2,3) new by (cases "rc_Neighbor b'") (auto simp: receipt_objects_def)
  qed
  with b'(1) applyObject_recoverable [OF assms(1) rec assms(3) creatable assms(4)] show ?thesis unfolding applicable_def by simp
qed

lemma ownedApply_recoverable:
  assumes "typed_kernel env" and "recoverable cd s" and "admissible cd s route"
    and "ownedApply env ctx route (s, w) = (Inr u, (s', w'))"
  shows "recoverable cd s'"
proof -
  let ?k = "it_Key route" and ?status = "\<lambda>st r :: RemoteNetlinkReceipt. r\<lparr>rc_Status := st\<rparr>"
  from assms(4) obtain n ep s1 w1 s2 w2 s4 w4 s5 w5 where
    route: "owned_route env ctx route (s, w) = (Inr (n, ep), (s1, w1))"
    and claim: "claim_receipt route n ep (s1, w1) = (Inr (), (s2, w2))"
    and fdb: "applyObject env ctx (?k, FDB) (update_receipt ?k (?status ''partially-applied'') s2, w2) = (Inr (), (s4, w4))"
    and neighbor: "(if has_neighbor s4 ?k then applyObject env ctx (?k, Neighbor) else go_return ()) (s4, w4) = (Inr (), (s5, w5))"
    and checkpoint: "checkpoint env (update_receipt ?k (?status ''applied'') s5, w5) = (Inr u, (s', w'))"
    unfolding ownedApply_def Let_def by (simp only: go_success split_paired_Ex map_prod_simp fst_conv prod.case simp_thms prod.inject) blast
  note facts = owned_route_InrD [OF route]
  have same: "recoverable cd s1" "admissible cd s1 route"
    using recoverable_steady [OF assms(2) facts(1)] assms(3) unfolding admissible_steady [OF facts(1)] .
  let ?s3 = "update_receipt ?k (?status ''partially-applied'') s2"
  have s3: "applicable cd ?k ?s3" by (rule claim_applicable [OF same facts(8,9,7,3-6) claim])
  then have "valid_ptr ?s3 (?k, FDB)" by (auto simp: applicable_def valid_ptr_def)
  from applyObject_applicable [OF assms(1) s3 this fdb] have s4: "applicable cd ?k s4" .
  have s5: "applicable cd ?k s5"
  proof (cases "has_neighbor s4 ?k")
    case True
    then have "valid_ptr s4 (?k, Neighbor)" by (simp add: has_neighbor_def valid_ptr_def split: option.splits)
    from applyObject_applicable [OF assms(1) s4 this] neighbor True show ?thesis by simp
  qed (use s4 neighbor in \<open>simp add: go_success\<close>)
  then have "recoverable cd (update_receipt ?k (?status ''applied'') s5)"
    unfolding applicable_def using recoverable_status by blast
  then show ?thesis by (rule recoverable_steady) (rule journal_steady(3) [OF checkpoint])
qed

text \<open>A withdrawal touches one receipt, and in the end removes it.\<close>

definition others :: "string \<Rightarrow> 'w ownedNetlinkState \<Rightarrow> 'w ownedNetlinkState \<times> (string \<Rightarrow> RemoteNetlinkReceipt option)" where
  "others k s = (ground s, (map_of (on_receipts s))(k := None))"

lemma calm_others [simp]: "calm (others k)"
  unfolding calm_def others_def using steady_ground steadyD(5) by fastforce

lemma masked_keeps_others: "keeps_own (masked (k, o1)) m \<Longrightarrow> keeps_own (others k) m"
  unfolding go_keeps_def others_def using masked_others [where p = "(k, o1)", unfolded fst_conv] by blast

lemma others_update [simp]: "others k (update_receipt k f s) = others k s"
  by (simp add: others_def update_receipt_def ground_def steady_def split: option.split)

lemma others_retire [simp]: "others k (retire k s) = others k s"
  by (auto simp: others_def retire_def ground_def steady_def delete_conv split: option.split)

lemma others_ownedWithdraw: "keeps_own (others (it_Key route)) (ownedWithdraw env ctx route)"
proof -
  have "keeps_own (others k) (owned_route env ctx route)" for k
    unfolding owned_route_def by (intro go_keeps_rules calm_steps [OF calm_others])
  then show ?thesis
    unfolding ownedWithdraw_def Let_def
    by (intro go_keeps_rules calm_steps [OF calm_others] masked_keeps_others [OF masked_withdrawObject] keeps_own_modify)
      (simp_all)
qed

lemma ownedWithdraw_forgets:
  assumes "ownedWithdraw env ctx route (s, w) = (Inr u, (s', w'))"
  shows "map_of (on_receipts s') (it_Key route) = None"
proof -
  from assms obtain s1 w1 where checkpoint: "checkpoint env (retire (it_Key route) s1, w1) = (Inr u, (s', w'))"
    unfolding ownedWithdraw_def Let_def
    by (simp only: go_success split_paired_Ex map_prod_simp fst_conv prod.case simp_thms prod.inject) blast
  then have "on_receipts s' = on_receipts (retire (it_Key route) s1)" by (intro steadyD(5) journal_steady(3))
  then show ?thesis by (simp add: retire_def delete_conv split: option.split)
qed

lemma ownedWithdraw_recoverable:
  assumes "recoverable cd s" and "ownedWithdraw env ctx route (s, w) = (Inr u, (s', w'))"
  shows "recoverable cd s'"
proof -
  have "others (it_Key route) s' = others (it_Key route) s" by (rule keeps_ownD [OF others_ownedWithdraw assms(2)])
  then have "ground s' = ground s" and rest: "(map_of (on_receipts s'))(it_Key route := None) = (map_of (on_receipts s))(it_Key route := None)"
    by (simp_all add: others_def)
  moreover from rest ownedWithdraw_forgets [OF assms(2)] have "map_of (on_receipts s') = (map_of (on_receipts s))(it_Key route := None)"
    by (metis fun_upd_triv)
  ultimately show ?thesis by (intro recoverable_remove [OF assms(1)])
qed

end
