(* ===== verification/Netlink_Samples.thy ===== *)
theory Netlink_Samples
  imports Netlink_Import Journal_Durability
begin

text \<open>
  Concrete services and a concrete state of the netlink backend, on which its properties are
  applied: one network with a bridge and a VXLAN device, one remote endpoint whose FDB entry the
  kernel holds and whose receipt is applied, and the journal on the in-memory disk.
\<close>

definition net_network :: RemoteNetlinkNetwork where
  "net_network = \<lparr>nn_NetworkID = ''net-a'', nn_LogicalSwitch = ''ls-a'', nn_VNI = 100, nn_BridgeDevice = ''br-a'', nn_VXLANDevice = ''vx-a''\<rparr>"

definition net_config :: RemoteNetlinkConfig where
  "net_config = \<lparr>nc_Enabled = True, nc_ExclusiveWriter = True, nc_StateDirectory = ''/d'', nc_Networks = [net_network], nc_Recovery = None\<rparr>"

definition net_bridge :: Link where
  "net_bridge = \<lparr>ln_Name = ''br-a'', ln_Index = 3, ln_Type = ''bridge'', ln_MasterIndex = 0, ln_HardwareAddr = [], ln_Alias = [], ln_Vxlan = None\<rparr>"

definition net_vxlan :: Link where
  "net_vxlan = \<lparr>ln_Name = ''vx-a'', ln_Index = 4, ln_Type = ''vxlan'', ln_MasterIndex = 3, ln_HardwareAddr = [], ln_Alias = [],
     ln_Vxlan = Some \<lparr>vx_VxlanId = 100, vx_SrcAddr = None, vx_Port = 4789\<rparr>\<rparr>"

definition net_source :: DecodedRemoteType2 where
  "net_source = \<lparr>dr_Source = \<lparr>pi_Key = ''p'', pi_NeighborIP = ''192.0.2.9'', pi_SourceID = ''192.0.2.9'', pi_SourceASN = 65000,
       pi_Identifier = 0, pi_LocalIdentifier = 0\<rparr>,
     dr_Classification = ''remote'', dr_RouteType = 2, dr_RD = ''65000:1'', dr_EthernetTag = 0, dr_ESI = ''00000000000000000000'',
     dr_MAC = ''02:00:00:00:00:01'', dr_IP = [], dr_Labels = [100], dr_RouteTargets = [''65000:100''], dr_Encapsulation = [''vxlan''],
     dr_NextHop = ''192.0.2.9'', dr_Best = True, dr_Stale = False, dr_Filtered = False, dr_NexthopInvalid = False, dr_AttributeKey = []\<rparr>"

definition net_endpoint :: DesiredRemoteEndpoint where
  "net_endpoint = \<lparr>de_Key = ''k'', de_NetworkID = ''net-a'', de_VNI = 100, de_MAC = ''02:00:00:00:00:01'', de_IP = [],
     de_RemoteVTEP = ''192.0.2.9'', de_ValidationState = ''validated'',
     de_Routes = [\<lparr>vr_NetworkID = ''net-a'', vr_VNI = 100, vr_Route = net_source\<rparr>]\<rparr>"

definition net_route :: ImportedType2Route where
  "net_route = (desired_route net_network 1 net_endpoint)\<lparr>it_incarnation := 1\<rparr>"

definition net_snapshot :: RemoteImportSnapshot where
  "net_snapshot = \<lparr>sn_Authoritative = True, sn_Generation = 1, sn_Endpoints = [net_endpoint], sn_Issues = []\<rparr>"

definition net_start :: "'w ownedNetlinkState" where
  "net_start = (initial_owned net_config ''c'' ''t'')\<lparr>
     on_devices := [(''br-a'', remoteDeviceIdentity net_bridge), (''vx-a'', remoteDeviceIdentity net_vxlan)],
     on_markerPath := ''/d/remote-netlink-owner'',
     on_snapshot := net_snapshot\<rparr>"

definition net_receipt :: RemoteNetlinkReceipt where
  "net_receipt = (let r = newReceipt (net_start :: unit ownedNetlinkState) net_network net_route net_endpoint in
     r\<lparr>rc_Status := ''applied'', rc_FDB := (rc_FDB r)\<lparr>ob_Observed := ob_Request (rc_FDB r), ob_Status := ''confirmed'', ob_ACK := True\<rparr>\<rparr>)"

definition net_state :: "'w journal_ops option \<Rightarrow> 'w ownedNetlinkState" where
  "net_state j = net_start\<lparr>on_receipts := [(''k'', net_receipt)], on_latest := [(''k'', 1)], on_journal := j\<rparr>"

definition net_codec :: netlink_codec where
  "net_codec = \<lparr>kc_MarshalState = (\<lambda>_. Inr ''1''), kc_MarshalIntent = (\<lambda>_. Inr ''1''),
     kc_DecodeState = (\<lambda>_. Inr (durableState (net_state None :: unit ownedNetlinkState), [])),
     kc_ParseUUID = Some, kc_hash_strings = (\<lambda>_. ''k''), kc_hash_endpoints = (\<lambda>_. ''d'')\<rparr>"

definition net_kernel :: "'w ownedKernel" where
  "net_kernel = \<lparr>kn_Open = go_return (), kn_SetSocketTimeout = go_return (), kn_Subscribe = go_return (),
     kn_LinkByName = (\<lambda>name. if name = ''br-a'' then go_return net_bridge else go_return net_vxlan),
     kn_NeighList = (\<lambda>i f. go_return (filter (\<lambda>n. ng_LinkIndex n = i \<and> ng_Family n = f) [neigh (ob_Request (rc_FDB net_receipt))])),
     kn_NeighAdd = (\<lambda>_. go_return ()), kn_NeighDel = (\<lambda>_. go_return ()), kn_Drain = (\<lambda>w. (([], False, False), w)),
     kn_Close = go_return ()\<rparr>"

definition net_posix :: "'w posix" where
  "net_posix = \<lparr>px_Geteuid = (\<lambda>_. 0), px_OpenRoot = go_return 1, px_Openat = (\<lambda>_ _ _ _. go_return 2), px_Mkdirat = (\<lambda>_ _ _. go_return ()),
     px_Fsync = (\<lambda>_. go_return ()), px_Fstat = (\<lambda>_. go_return \<lparr>st_dev = 1, st_ino = 1, st_mode = 33152, st_uid = 0, st_nlink = 1\<rparr>),
     px_Fstatat = (\<lambda>_ _. go_throw ENOENT), px_Flock = (\<lambda>_. go_return ()), px_Write = (\<lambda>_ _. go_return ()),
     px_ReadAll = (\<lambda>_ _. go_return (marker_text ''c'' ''t'')), px_Close = (\<lambda>_. go_return ()), px_Renameat = (\<lambda>_ _ _. go_return ()),
     px_Unlinkat = (\<lambda>_ _. go_return ()), px_NewUUID = go_return ''c''\<rparr>"

definition net_env :: "'w owned_env" where
  "net_env = \<lparr>oe_kernel = net_kernel, oe_posix = net_posix, oe_codec = net_codec, oe_OpenFile = (\<lambda>_ _. go_return 3),
     oe_Lstat = (\<lambda>_. go_return ()), oe_OpenJournal = (\<lambda>_ _. go_throw ENOENT), oe_NetNS = go_return ''net'', oe_BootID = go_return ''b''\<rparr>"

text \<open>The journal, with the records of one checkpoint.\<close>

definition net_jenv :: "memfs journal_env" where
  "net_jenv = mem_env (let r = initial_record mem_domain; b = begun r ''importer-checkpoint'' ''1'' in [r, b, committed b ''1''])"

definition net_owned :: "(Journal \<times> memfs) ownedNetlinkState" where
  "net_owned = net_state (Some (ownership_ops net_jenv))"

lemma net_apply:
  "case ownedApply net_env (go_return ()) net_route (net_owned, (mem_journal, mem_ready)) of
     (r, (s', w')) \<Rightarrow> r = Inr () \<and> durableState s' = durableState net_owned"
  by code_simp

text \<open>A kernel whose table is the world, and an importer that starts with nothing applied and no journal.\<close>

definition table_env :: "Neigh list owned_env" where
  "table_env = net_env\<lparr>oe_kernel := net_kernel\<lparr>
     kn_NeighList := (\<lambda>i f w. (Inr (filter (\<lambda>n. ng_LinkIndex n = i \<and> ng_Family n = f) w), w)),
     kn_NeighAdd := (\<lambda>n w. (Inr (), w @ [n])), kn_NeighDel := (\<lambda>n w. (Inr (), filter (\<lambda>m. m \<noteq> n) w))\<rparr>\<rparr>"

definition net_reader :: "'w ReadOnlyType2Importer" where
  "net_reader = \<lparr>im_source = \<lparr>rs_ReadRemoteRIB = (\<lambda>_. go_throw (errors_New ''speaker down''))\<rparr>,
     im_config = \<lparr>ic_LocalVTEP = ''192.0.2.1'', ic_Networks = [\<lparr>rn_NetworkID = ''net-a'', rn_VNI = 100,
       rn_ImportRouteTargets = [''65000:100''], rn_AllowedVTEPs = [''192.0.2.9'']\<rparr>]\<rparr>,
     im_confirmed = zero_snapshot, im_pending = []\<rparr>"

definition net_lib :: import_lib where
  "net_lib = \<lparr>il_bgp = sample_bgp, il_util = sample_util, il_ESI_Serialize = Some, il_TunnelType_String = (\<lambda>_. ''vxlan''),
     il_hash_identity = (\<lambda>wire ident. wire), il_hash_strings = concat, il_hash_snapshot = (\<lambda>_. ''d'')\<rparr>"

definition net_importer :: "'w RemoteType2Importer" where
  "net_importer = (NewRemoteType2Importer None None None)\<lparr>ri_verified := Some net_reader, ri_owned := Some net_start\<rparr>"

lemma net_applied:
  "case applyValidatedSnapshot sample_bgp table_env (go_return ()) net_snapshot (net_importer, []) of
     (r, (_, table)) \<Rightarrow> r = Inr () \<and> table = [neigh (ob_Request (rc_FDB net_receipt))]"
  by code_simp

end
