(* ===== verification/Netlink_Restart.thy ===== *)
theory Netlink_Restart
  imports Netlink_Receipts Netlink_Samples
begin

text \<open>
  A restart after a finished operation of the netlink backend: the operation leaves the backend
  without a quarantine and its state in the journal, and a new process that opens this journal
  accepts the state and has the same receipts.
\<close>

section \<open>Successful runs\<close>

text \<open>
  \<open>go_ends P m\<close>: when \<open>m\<close> succeeds, \<open>P\<close> holds at the end; \<open>go_holds P m\<close>: when \<open>m\<close>
  succeeds, it has kept \<open>P\<close>. Nothing is said about failures.
\<close>

named_theorems go_holds_rules "introduction rules of invariants of successful runs"

definition go_ends :: "('s \<Rightarrow> bool) \<Rightarrow> ('s, 'a) go \<Rightarrow> bool" where
  "go_ends P m \<longleftrightarrow> (\<forall>s y s'. m s = (Inr y, s') \<longrightarrow> P s')"

definition go_holds :: "('s \<Rightarrow> bool) \<Rightarrow> ('s, 'a) go \<Rightarrow> bool" where
  "go_holds P m \<longleftrightarrow> (\<forall>s y s'. P s \<longrightarrow> m s = (Inr y, s') \<longrightarrow> P s')"

lemma go_ends_holds: "go_ends P m \<Longrightarrow> go_holds P m"
  by (simp add: go_ends_def go_holds_def)

lemma go_preserves_holds: "go_preserves P m \<Longrightarrow> go_holds P m"
  unfolding go_holds_def by (blast dest: go_preservesD)

lemma go_holds_basic [go_holds_rules]:
  "go_holds P (go_return x)" "go_holds P (go_throw e)" "go_holds P (go_get f)" "go_holds P (go_require b e)"
  by (intro go_preserves_holds go_preserves_rules)+

lemma go_holds_bind [go_holds_rules]:
  "go_holds P m \<Longrightarrow> (\<And>x. go_holds P (k x)) \<Longrightarrow> go_holds P (go_bind m k)"
  unfolding go_holds_def go_bind_success by blast

lemma go_holds_seq [go_holds_rules]: "go_holds P m \<Longrightarrow> go_holds P n \<Longrightarrow> go_holds P (go_seq m n)"
  unfolding go_seq_def by (intro go_holds_rules)

lemma go_holds_if [go_holds_rules]: "(b \<Longrightarrow> go_holds P m) \<Longrightarrow> (\<not> b \<Longrightarrow> go_holds P n) \<Longrightarrow> go_holds P (if b then m else n)"
  by simp

lemma go_holds_case_option [go_holds_rules]:
  "go_holds P m \<Longrightarrow> (\<And>x. go_holds P (f x)) \<Longrightarrow> go_holds P (case v of None \<Rightarrow> m | Some x \<Rightarrow> f x)"
  by (cases v) simp_all

lemma go_holds_case_sum [go_holds_rules]:
  "(\<And>e. go_holds P (f e)) \<Longrightarrow> (\<And>x. go_holds P (g x)) \<Longrightarrow> go_holds P (case v of Inl e \<Rightarrow> f e | Inr x \<Rightarrow> g x)"
  by (cases v) simp_all

lemma go_holds_try_bind:
  assumes "go_holds P m" and "\<And>e. go_ends P (k (Inl e))" and "\<And>x. go_holds P (k (Inr x))"
  shows "go_holds P (go_bind (go_try m) k)"
  unfolding go_holds_def
proof (intro allI impI)
  fix s y s' assume "P s" and run: "go_bind (go_try m) k s = (Inr y, s')"
  obtain r s1 where m: "m s = (r, s1)" by (cases "m s")
  with run have rest: "k r s1 = (Inr y, s')" by (simp add: go_bind_def go_try_def)
  show "P s'"
  proof (cases r)
    case (Inl e)
    with rest assms(2) show ?thesis unfolding go_ends_def by blast
  next
    case (Inr x)
    with m \<open>P s\<close> assms(1) have "P s1" unfolding go_holds_def by blast
    with Inr rest assms(3) show ?thesis unfolding go_holds_def by blast
  qed
qed

lemma go_ends_basic: "go_ends P (go_throw e)"
  by (simp add: go_ends_def go_throw_def)

lemma go_ends_bind: "(\<And>x. go_ends P (k x)) \<Longrightarrow> go_ends P (go_bind m k)"
  unfolding go_ends_def go_bind_success by blast

lemma go_ends_seq: "go_ends P n \<Longrightarrow> go_ends P (go_seq m n)"
  unfolding go_seq_def by (rule go_ends_bind)

lemmas go_ends_later = go_ends_bind go_ends_seq

lemma go_ends_first_bind: "go_ends P m \<Longrightarrow> (\<And>x. go_holds P (k x)) \<Longrightarrow> go_ends P (go_bind m k)"
  unfolding go_ends_def go_holds_def go_bind_success by blast

lemma go_ends_first_seq: "go_ends P m \<Longrightarrow> go_holds P n \<Longrightarrow> go_ends P (go_seq m n)"
  unfolding go_seq_def by (rule go_ends_first_bind)

section \<open>No quarantine after a success\<close>

abbreviation unblocked :: "'w ownedNetlinkState \<times> 'w \<Rightarrow> bool" where
  "unblocked sw \<equiv> on_blocked (fst sw) = None"

lemma unblocked_env [go_holds_rules]: "go_holds unblocked (go_env m)"
  by (rule go_preserves_holds, rule go_keeps_preserves, rule keeps_own_env)

lemma unblocked_try_env [go_holds_rules]: "go_holds unblocked (go_try (go_env m))"
  by (rule go_preserves_holds, rule go_keeps_preserves) (intro go_keeps_rules)

lemma unblocked_modify: "(\<And>s. on_blocked (f s) = on_blocked s) \<Longrightarrow> go_holds unblocked (own_modify f)"
  by (rule go_preserves_holds, rule go_keeps_preserves, rule keeps_own_modify)

lemma unblocked_update_receipt [simp]: "on_blocked (update_receipt k f s) = on_blocked s"
  by (simp add: update_receipt_def split: option.split)

lemma unblocked_set [go_holds_rules]: "go_holds unblocked (set_receipt k g)" "go_holds unblocked (set_object p f)"
  by (rule unblocked_modify; simp add: update_object_def)+

lemma quarantine_ends [go_holds_rules]: "go_holds P (quarantineError env)"
  by (simp add: go_holds_def quarantineError_fails)

lemma unblocked_boundary [go_holds_rules]: "go_holds unblocked (owned_boundary name)"
  unfolding owned_boundary_def by (intro go_holds_rules)

lemma unblocked_recovery: "go_holds unblocked m \<Longrightarrow> go_holds unblocked (recovery_blocked m)"
  unfolding recovery_blocked_def
  by (intro go_holds_try_bind) (simp_all add: go_ends_later go_ends_basic go_holds_basic)

lemma unblocked_journal [go_holds_rules]:
  "go_holds unblocked (beginMutation env operation p)" "go_holds unblocked (ackMutation env seq)" "go_holds unblocked (checkpoint env)"
  unfolding checkpoint_def beginMutation_def ackMutation_def by (intro go_holds_rules unblocked_recovery)+

lemma unblocked_check: "go_ends unblocked (owned_check env ctx)"
proof -
  have fence: "go_ends unblocked (fence env)"
    unfolding fence_def go_ends_def by (auto simp: go_success quarantineError_fails split: if_splits)
  have device: "go_holds unblocked (check_device env name)" for name
    unfolding check_device_def owned_device_def go_holds_def
    by (auto simp: go_success quarantineError_fails go_holds_def split: option.splits if_splits
        dest: keeps_ownD)
  then have "go_holds unblocked (go_each (check_device env) names)" for names
    by (induction names) (auto intro!: go_holds_rules)
  then have "go_ends unblocked (go_seq (fence env) (go_bind (own_get on_devices) (\<lambda>devices. go_each (check_device env) (map_keys devices))))"
    by (intro go_ends_first_seq [OF fence] go_holds_rules)
  then show ?thesis unfolding owned_check_def by (intro go_ends_bind go_ends_seq [where m = "go_env ctx"]
      go_ends_seq [where m = "go_require b e" for b e] go_ends_seq [where m = check_journal]
      go_ends_seq [where m = "check_marker env"] go_ends_seq [where m = "drain env"])
qed

lemma failing_holds [go_holds_rules]:
  "go_holds unblocked (go_seq n (go_throw e))"
  "go_holds unblocked (go_seq (block_with reason) (quarantineError env))"
  "go_holds unblocked (go_seq (block_with reason) (go_seq n (go_wrap g (quarantineError env))))"
  "go_holds unblocked (go_seq n (go_seq (block_with reason) (go_wrap g (quarantineError env))))"
  by (auto simp: go_holds_def go_success quarantineError_fails)

lemma unblocked_slot: "go_ends unblocked (slot env ctx want)"
  unfolding slot_def by (rule go_ends_first_seq [OF unblocked_check] go_holds_rules)+

lemmas unblocked_observe [go_holds_rules] = go_ends_holds [OF unblocked_check] go_ends_holds [OF unblocked_slot]

lemma unblocked_confirm [go_holds_rules]: "go_holds unblocked (confirm env ctx p absent)"
  unfolding confirm_def Let_def by (rule go_holds_rules)+

lemma unblocked_acknowledge [go_holds_rules]: "go_holds unblocked (acknowledge_object env ctx p absent seq)"
  unfolding acknowledge_object_def
  by (rule go_holds_seq, rule unblocked_set, rule go_holds_try_bind)
    (simp_all add: go_ends_later go_ends_basic go_holds_rules)

lemma unblocked_objects [go_holds_rules]:
  "go_holds unblocked (applyObject env ctx p)" "go_holds unblocked (withdrawObject env ctx p)"
proof -
  have create: "go_holds unblocked (create_object env ctx p request seq)" for request seq
    unfolding create_object_def
    by (rule go_holds_rules)+
  have delete: "go_holds unblocked (delete_object env ctx p seq)" for seq
    unfolding delete_object_def
    by (rule go_holds_rules)+
  show "go_holds unblocked (applyObject env ctx p)" "go_holds unblocked (withdrawObject env ctx p)"
    unfolding applyObject_def withdrawObject_def Let_def by (rule create delete go_holds_rules)+
qed

lemma unblocked_operations:
  "go_ends unblocked (ownedApply env ctx route)" "go_ends unblocked (ownedWithdraw env ctx route)"
proof -
  have route: "go_ends unblocked (owned_route env ctx route)"
    unfolding owned_route_def by (intro go_ends_first_seq [OF unblocked_check] go_holds_rules)
  have claim: "go_holds unblocked (claim_receipt route network ep)" for network ep
    unfolding claim_receipt_def by (intro go_holds_rules unblocked_modify) simp
  have retire: "go_holds unblocked (own_modify (retire key))" for key
    by (rule unblocked_modify) (simp add: retire_def split: option.split)
  show "go_ends unblocked (ownedApply env ctx route)" "go_ends unblocked (ownedWithdraw env ctx route)"
    unfolding ownedApply_def ownedWithdraw_def Let_def case_prod_beta
    by (intro go_ends_first_bind [OF route] go_holds_rules claim retire)+
qed

section \<open>What an operation leaves in the journal\<close>

text \<open>What a restart must find unchanged.\<close>

definition setting :: "'w ownedNetlinkState \<Rightarrow> RemoteNetlinkConfig \<times> string \<times> string \<times> (string, RemoteDeviceIdentity) gomap" where
  "setting s = (on_config s, on_controller s, on_target s, on_devices s)"

lemma setting_update [simp]: "setting (update_receipt k f s) = setting s"
  by (simp add: setting_def update_receipt_def split: option.split)

lemma calm_setting [simp]: "calm setting"
  unfolding calm_def
proof (intro allI impI)
  fix s s' :: "'a ownedNetlinkState"
  assume "steady s' = steady s"
  from steadyD(1-4) [OF this] show "setting s' = setting s" by (simp add: setting_def)
qed

lemma setting_masked [simp]: "setting (masked p s) = setting s"
  by (simp add: masked_def update_object_def setting_def steady_def update_receipt_def split: option.split)

lemma masked_setting: "keeps_own (masked p) m \<Longrightarrow> keeps_own setting m"
  unfolding go_keeps_def by (metis setting_masked)

lemma setting_operations:
  "keeps_own setting (ownedApply env ctx route)" "keeps_own setting (ownedWithdraw env ctx route)"
proof -
  have steps: "keeps_own setting (owned_route env ctx route)" "keeps_own setting (claim_receipt route network ep)"
    "keeps_own setting (set_receipt key f)" "keeps_own setting (own_modify (retire key))" "keeps_own setting (checkpoint env)"
    for network ep key f
    unfolding owned_route_def claim_receipt_def
    by (intro go_keeps_rules calm_steps [OF calm_setting] keeps_own_modify;
        simp add: setting_def retire_def update_receipt_def split: option.split)+
  show "keeps_own setting (ownedApply env ctx route)" "keeps_own setting (ownedWithdraw env ctx route)"
    unfolding ownedApply_def ownedWithdraw_def Let_def case_prod_beta
    by (intro go_keeps_rules steps masked_setting [OF masked_applyObject] masked_setting [OF masked_withdrawObject])+
qed

lemma wiring_whole: "keeps_own wiring (ownedApply env ctx route)" "keeps_own wiring (ownedWithdraw env ctx route)"
  unfolding ownedApply_def ownedWithdraw_def Let_def case_prod_beta
  by (intro go_keeps_rules wiring_operations wiring_objects)+

text \<open>Both operations end with a checkpoint.\<close>

lemma ends_with_checkpoint:
  assumes "ownedApply env ctx route (s, w) = (Inr u, (s', w')) \<or> ownedWithdraw env ctx route (s, w) = (Inr u, (s', w'))"
  obtains s1 w1 where "checkpoint env (s1, w1) = (Inr u, (s', w'))" "wiring s1 = wiring s"
proof -
  from assms obtain s1 w1 where last: "checkpoint env (s1, w1) = (Inr u, (s', w'))"
    unfolding ownedApply_def ownedWithdraw_def Let_def
    by (simp only: go_success split_paired_Ex map_prod_simp fst_conv prod.case simp_thms prod.inject) blast
  have "wiring s' = wiring s" using assms wiring_whole by (metis keeps_ownD)
  moreover have "wiring s' = wiring s1" using last wiring_operations(5) by (metis keeps_ownD)
  ultimately show thesis by (intro that [OF last]) simp
qed

lemma recovery_blocked_success: "recovery_blocked m s = (Inr x, s') \<longleftrightarrow> m s = (Inr x, s')"
  by (cases "m s"; cases "fst (m s)") (auto simp: recovery_blocked_def go_bind_def go_try_def go_seq_def go_throw_def go_return_def
      go_modify_def)

context intent_log
begin

lemma checkpoint_saved:
  assumes "wiring s = (Some ops, None)" and "checkpoint env (s, w) = (Inr u, (s', w'))"
  shows "s' = s \<and> pending_of w' = None \<and> kc_MarshalState (oe_codec env) (durableState s) = Inr (state_of w')"
proof -
  let ?data = "kc_MarshalState (oe_codec env) (durableState s)"
  from assms obtain n w1 where commit: "jo_Commit ops n ?data w1 = (Inr (), w')" and "s' = s"
    by (auto simp: checkpoint_def ackMutation_def owned_boundary_def wiring_def go_success recovery_blocked_success)
  with go_wp_resultD [OF Commit_law] show ?thesis by fastforce
qed

lemma operation_saved:
  assumes "wiring s = (Some ops, None)"
    and "ownedApply env ctx route (s, w) = (Inr u, (s', w')) \<or> ownedWithdraw env ctx route (s, w) = (Inr u, (s', w'))"
  shows "pending_of w' = None" "kc_MarshalState (oe_codec env) (durableState s') = Inr (state_of w')"
    "ss_Quarantine (durableState s') = None"
proof -
  obtain s1 w1 where "checkpoint env (s1, w1) = (Inr u, (s', w'))" "wiring s1 = (Some ops, None)"
    using ends_with_checkpoint [OF assms(2)] assms(1) by metis
  with checkpoint_saved show "pending_of w' = None" "kc_MarshalState (oe_codec env) (durableState s') = Inr (state_of w')"
    by blast+
  show "ss_Quarantine (durableState s') = None"
  proof -
    have "unblocked (s', w')" using assms(2) unblocked_operations [of env ctx route] unfolding go_ends_def by blast
    then show ?thesis by (simp add: durableState_def)
  qed
qed

end

section \<open>The restart\<close>

lemma restored_receipts: "List.map_filter (\<lambda>(k, v). map_option (Pair k) v) (map (map_prod (\<lambda>k. k) Some) m) = m"
  by (induction m) (auto simp: map_filter_simps)

lemma recoverable_cong:
  assumes "recoverable cd s" and "setting s' = setting s" and "on_receipts s' = on_receipts s" "on_latest s' = on_latest s"
    "on_snapshot s' = on_snapshot s"
  shows "recoverable cd s'"
proof -
  have same: "on_config s' = on_config s" "on_controller s' = on_controller s" "on_target s' = on_target s" "on_devices s' = on_devices s"
    using assms(2) by (simp_all add: setting_def)
  then have "receipt_sound cd s' k r = receipt_sound cd s k r" for k r
    using assms(4,5) by (intro receipt_sound_cong) (simp_all add: latest_at_def)
  moreover have "topology_ok s' = topology_ok s" using same by (simp add: topology_ok_def fun_eq_iff)
  ultimately show ?thesis using assms(1,3) same(1) unfolding recoverable_iff by simp
qed

lemma openRecovery_accepts:
  assumes "recoverable (oe_codec env) s" and "ss_Quarantine (durableState s) = None"
    and "kc_DecodeState (oe_codec env) data = Inr (durableState s, [])"
    and "kc_ParseUUID (oe_codec env) (on_controller s) = Some c" "c \<noteq> uuid_Nil"
    and "map_len (on_devices s) = 2 * length (nc_Networks (on_config s))"
    and "on_config s0 = on_config s" "on_target s0 = on_target s"
    and s1: "s1 = s0\<lparr>on_controller := on_controller s, on_devices := on_devices s, on_receipts := on_receipts s,
      on_latest := on_latest s, on_snapshot := on_snapshot s, on_markerPath := marker\<rparr>"
    and "verifyMarker env s1 w = (Inr (), w')"
  shows "openRecovery_state env marker data (s0, w) = (Inr (), (s1, w'))"
proof -
  have "recoverable (oe_codec env) s1"
    by (rule recoverable_cong [OF assms(1)]) (simp_all add: s1 setting_def assms(7,8))
  then have valid: "validateReceipts (oe_codec env) s1 (map (map_prod (\<lambda>k. k) Some) (on_receipts s)) = Inr ()"
    by (simp add: recoverable_def s1)
  have "json_EOF []" by (simp add: json_EOF_def)
  with assms(2-6) assms(7,8) [symmetric] assms(10) valid restored_receipts [of "on_receipts s"] show ?thesis
    by (simp add: openRecovery_state_def durableState_def go_run go_bind_def go_seq_def go_env_def go_of_def flip: s1)
qed


lemma net_typed: "typed_kernel (net_env :: 'w owned_env)"
  unfolding typed_kernel_def
proof (intro allI impI ballI)
  fix i f ns n and w w' :: 'w
  assume "kn_NeighList (oe_kernel net_env) i f w = (Inr ns, w')" and "n \<in> set ns" and "ng_Family n \<noteq> AF_BRIDGE"
  moreover have "ng_Family (neigh (ob_Request (rc_FDB net_receipt))) = AF_BRIDGE" by code_simp
  ultimately show "ng_Type n \<noteq> 0" by (auto simp: net_env_def net_kernel_def go_return_def split: if_splits)
qed

lemma net_env_codec [simp]: "oe_codec net_env = net_codec"
  by (simp add: net_env_def)

lemma net_marker:
  "on_controller s1 = ''c'' \<Longrightarrow> on_target s1 = ''t'' \<Longrightarrow> verifyMarker net_env s1 w = (Inr (), w)"
  by (simp add: verifyMarker_def marker_body_def net_env_def net_posix_def go_bind_def go_seq_def go_try_def go_wrap_def go_return_def
      go_of_def go_require_def)


end
