(* ===== verification/Netlink_Properties.thy ===== *)
theory Netlink_Properties
  imports Netlink_Restart
begin

text \<open>
  What the netlink backend and the import loop guarantee: the two notions of a kernel slot agree,
  an observed neighbour is deleted as it was observed, kernel mutations are journalled first, the
  receipts of finished operations are accepted after a restart, a published snapshot is applied
  completely or not at all, and the retry loop stops.
\<close>

section \<open>Slots and entries\<close>

text \<open>
  C36 (slots). The text that durable receipts use to detect two objects in one kernel slot
  distinguishes exactly the entries that the kernel observation puts into different slots.
\<close>

theorem slot_name_sameKernelSlot: "slot_name a = slot_name b \<longleftrightarrow> sameKernelSlot a b"
  by (rule slot_name_iff)

text \<open>
  C37 (entries read back). The receipt of an observed neighbour with a hardware address and with an
  IPv4 address or none gives back exactly that neighbour: \<open>NeighDel\<close> receives what was listed.
\<close>

theorem kernelEntry_roundtrip:
  assumes "length (ng_HardwareAddr n) \<in> {6, 8, 20}"
    and "case ng_IP n of None \<Rightarrow> True | Some a \<Rightarrow> Is4 a"
  shows "neigh (kernelEntry n) = n"
proof -
  have "ParseIP (case ng_IP n of None \<Rightarrow> [] | Some a \<Rightarrow> Addr_String a) = ng_IP n"
    using assms(2) by (cases "ng_IP n") (auto simp: Is4_def ParseIP_string4 split: Addr.splits)
  with ParseMAC_String [OF assms(1)] show ?thesis
    by (cases n) (simp add: neigh_def kernelEntry_def)
qed

theorem kernelEntry_roundtrip_witness:
  "let n = \<lparr>ng_LinkIndex = 4, ng_Family = AF_INET, ng_State = 64, ng_Flags = 16, ng_FlagsExt = 0, ng_Type = 1,
      ng_IP = Some (V4 192 0 2 7), ng_HardwareAddr = [2, 0, 0, 0, 0, 1], ng_Vlan = 0, ng_VNI = 0, ng_MasterIndex = 0\<rparr>
   in neigh (kernelEntry n) = n \<and> ke_IP (kernelEntry n) = ''192.0.2.7''"
proof -
  have "ke_IP (kernelEntry \<lparr>ng_LinkIndex = 4, ng_Family = AF_INET, ng_State = 64, ng_Flags = 16, ng_FlagsExt = 0, ng_Type = 1,
      ng_IP = Some (V4 192 0 2 7), ng_HardwareAddr = [2, 0, 0, 0, 0, 1], ng_Vlan = 0, ng_VNI = 0, ng_MasterIndex = 0\<rparr>) = ''192.0.2.7''"
    by code_simp
  then show ?thesis unfolding Let_def by (intro conjI kernelEntry_roundtrip) (simp_all add: Is4_def)
qed

section \<open>Journalled before executed\<close>

text \<open>The journal holds an intent for an object with the given property.\<close>

definition object_intent :: "netlink_codec \<Rightarrow> string \<Rightarrow> (RemoteObjectReceipt \<Rightarrow> bool) \<Rightarrow> Intent option \<Rightarrow> bool" where
  "object_intent cd operation good pending \<longleftrightarrow> (\<exists>n st o1 data. pending =
       Some \<lparr>in_Sequence = n, in_Operation = operation, in_Payload = data\<rparr> \<and>
     kc_MarshalIntent cd (st, o1) = Inr data \<and> good o1)"

text \<open>A kernel that refuses every mutation for which the journal holds no matching intent.\<close>

definition write_ahead_kernel :: "('w \<Rightarrow> Intent option) \<Rightarrow> 'w owned_env \<Rightarrow> 'w owned_env" where
  "write_ahead_kernel pending_of env = env\<lparr>oe_kernel := (oe_kernel env)\<lparr>
     kn_NeighAdd := (\<lambda>n w. if object_intent (oe_codec env) ''netlink-add'' (\<lambda>o1. n = neigh (ob_Request o1)) (pending_of w)
       then kn_NeighAdd (oe_kernel env) n w else (Inl (errors_New ''not journalled''), w)),
     kn_NeighDel := (\<lambda>n w. if object_intent (oe_codec env) ''netlink-delete''
         (\<lambda>o1. ob_Status o1 = ''confirmed'' \<and> ob_ACK o1 \<and> n = neigh (ob_Observed o1)) (pending_of w)
       then kn_NeighDel (oe_kernel env) n w else (Inl (errors_New ''not journalled''), w))\<rparr>\<rparr>"

lemma write_ahead_fields [simp]:
  "oe_posix (write_ahead_kernel f env) = oe_posix env" "oe_codec (write_ahead_kernel f env) = oe_codec env"
  "oe_OpenFile (write_ahead_kernel f env) = oe_OpenFile env"
  "kn_LinkByName (oe_kernel (write_ahead_kernel f env)) = kn_LinkByName (oe_kernel env)"
  "kn_NeighList (oe_kernel (write_ahead_kernel f env)) = kn_NeighList (oe_kernel env)"
  "kn_Drain (oe_kernel (write_ahead_kernel f env)) = kn_Drain (oe_kernel env)"
  by (simp_all add: write_ahead_kernel_def)

lemma write_ahead_journal [simp]:
  "ackMutation (write_ahead_kernel f env) = ackMutation env"
  "beginMutation (write_ahead_kernel f env) = beginMutation env"
  "checkpoint (write_ahead_kernel f env) = checkpoint env"
  "quarantineError (write_ahead_kernel f env) = quarantineError env"
proof -
  show ack: "ackMutation (write_ahead_kernel f env) = ackMutation env"
    by (rule ext, unfold ackMutation_def write_ahead_fields, rule refl)
  show checkpoint: "checkpoint (write_ahead_kernel f env) = checkpoint env"
    by (unfold checkpoint_def write_ahead_fields ack, rule refl)
  show "beginMutation (write_ahead_kernel f env) = beginMutation env"
    by (rule ext, rule ext, unfold beginMutation_def write_ahead_fields, rule refl)
  show "quarantineError (write_ahead_kernel f env) = quarantineError env"
    by (unfold quarantineError_def checkpoint, rule refl)
qed

lemma write_ahead_observe [simp]:
  "owned_check (write_ahead_kernel f env) = owned_check env"
  "slot (write_ahead_kernel f env) = slot env"
  "confirm (write_ahead_kernel f env) = confirm env"
proof -
  note same = write_ahead_fields write_ahead_journal
  have verify: "verifyMarker (write_ahead_kernel f env) = verifyMarker env"
    by (rule ext, unfold verifyMarker_def same, rule refl)
  have read: "read_marker (write_ahead_kernel f env) = read_marker env"
    by (rule ext, unfold read_marker_def same, rule refl)
  have marker: "check_marker (write_ahead_kernel f env) = check_marker env"
    by (unfold check_marker_def verify read, rule refl)
  have drain: "drain (write_ahead_kernel f env) = drain env"
    by (unfold drain_def same, rule refl)
  have fence: "fence (write_ahead_kernel f env) = fence env"
    by (unfold fence_def same, rule refl)
  have device: "check_device (write_ahead_kernel f env) = check_device env"
    by (rule ext, unfold check_device_def owned_device_def same, rule refl)
  show check: "owned_check (write_ahead_kernel f env) = owned_check env"
    by (rule ext, unfold owned_check_def marker drain fence device, rule refl)
  show slot: "slot (write_ahead_kernel f env) = slot env"
    by (rule ext, rule ext, unfold slot_def same check, rule refl)
  show "confirm (write_ahead_kernel f env) = confirm env"
    by ((rule ext)+, unfold confirm_def same slot, rule refl)
qed

lemma write_ahead_acknowledge [simp]: "acknowledge_object (write_ahead_kernel f env) = acknowledge_object env"
  by ((rule ext)+, unfold acknowledge_object_def write_ahead_journal write_ahead_observe, rule refl)

lemma write_ahead_route [simp]: "owned_route (write_ahead_kernel f env) = owned_route env"
  by (rule ext, rule ext, unfold owned_route_def write_ahead_observe, rule refl)

lemma quiet_boundary: "on_fault s = None \<Longrightarrow> go_bind (owned_boundary name) k (s, w) = k () (s, w)"
  by (simp add: owned_boundary_def go_run go_bind_def go_get_def go_return_def)

lemma write_ahead_create:
  assumes "object_intent (oe_codec env) ''netlink-add'' (\<lambda>o1. neigh request = neigh (ob_Request o1)) (pending_of w)"
    and "on_fault s = None"
  shows "create_object (write_ahead_kernel pending_of env) ctx p request seq (s, w) = create_object env ctx p request seq (s, w)"
proof -
  have "go_env (kn_NeighAdd (oe_kernel (write_ahead_kernel pending_of env)) (neigh request)) (s, w) =
      go_env (kn_NeighAdd (oe_kernel env) (neigh request)) (s, w)"
    using assms(1) by (simp add: write_ahead_kernel_def go_env_def)
  then show ?thesis
    unfolding create_object_def write_ahead_acknowledge
    by (simp only: go_run_seq go_run_bind quiet_boundary [OF assms(2)] fst_conv) (rule go_bind_at; simp add: go_try_def)
qed

lemma write_ahead_delete:
  assumes "object_intent (oe_codec env) ''netlink-delete''
      (\<lambda>o1. ob_Status o1 = ''confirmed'' \<and> ob_ACK o1 \<and> neigh (ob_Observed (object_at s p)) = neigh (ob_Observed o1)) (pending_of w)"
    and "on_fault s = None"
  shows "delete_object (write_ahead_kernel pending_of env) ctx p seq (s, w) = delete_object env ctx p seq (s, w)"
proof -
  let ?n = "neigh (ob_Observed (object_at s p))"
  have "go_env (kn_NeighDel (oe_kernel (write_ahead_kernel pending_of env)) ?n) (s, w) =
      go_env (kn_NeighDel (oe_kernel env) ?n) (s, w)"
    using assms(1) by (simp add: write_ahead_kernel_def go_env_def)
  then show ?thesis
    unfolding delete_object_def write_ahead_acknowledge
    by (simp only: go_run_seq go_run_bind quiet_boundary [OF assms(2)] fst_conv) (rule go_bind_at; simp add: go_try_def)
qed

context intent_log
begin

lemma pending_undisturbed:
  assumes "services_keep pending_of env ctx" and "on_journal s0 = Some ops"
  shows "undisturbed env ctx (\<lambda>sw. steady (fst sw) = steady s0 \<and> pending_of (snd sw) = Some i)"
proof (rule services_undisturbed [where Q = "\<lambda>s. steady s = steady s0", OF assms(1)])
  let ?P = "\<lambda>sw. steady (fst sw) = steady s0 \<and> pending_of (snd sw) = Some i"
  have journal: "on_journal s = Some ops" if "steady s = steady s0" for s
    using steadyD(10) [OF that] assms(2) by simp
  show "go_preserves ?P check_journal"
  proof (rule go_preservesI)
    fix sw assume "?P sw"
    then show "go_wp check_journal (\<lambda>_. ?P) (\<lambda>_. ?P) sw"
      by (cases sw) (auto simp: check_journal_def block_with_def go_wp_rules journal intro!: go_wp_mono [OF Snapshot_law])
  qed
  show "go_preserves ?P (quarantineError env)"
  proof (rule go_preservesI)
    fix sw assume "?P sw"
    then show "go_wp (quarantineError env) (\<lambda>_. ?P) (\<lambda>_. ?P) sw"
      by (cases sw) (auto simp: quarantineError_def go_wp_rules journal intro!: go_wp_mono [OF Snapshot_law])
  qed
qed simp

lemma slot_pending:
  assumes "services_keep pending_of env ctx" and "on_journal s = Some ops" and "pending_of w = Some i"
    and "slot env ctx want (s, w) = (r, (s', w'))"
  shows "pending_of w' = Some i"
  using go_preservesD [OF undisturbed_slot [OF pending_undisturbed [OF assms(1,2)]] _ assms(4)] assms(3) by simp

lemma beginMutation_InrD:
  assumes "on_journal s = Some ops" and "beginMutation env operation p (s, w) = (Inr n, (s', w'))"
  shows "s' = s \<and> object_intent (oe_codec env) operation (\<lambda>o1. o1 = object_at s p) (pending_of w')"
proof -
  from assms obtain data where "jo_Begin ops operation (kc_MarshalIntent (oe_codec env) (durableState s, object_at s p)) w = (Inr n, w')"
    and "s' = s"
    by (auto simp: beginMutation_def recovery_blocked_def go_run go_env_def go_try_def go_bind_def go_seq_def
        split: prod.splits sum.splits)
  with go_wp_resultD [OF Begin_law] show ?thesis
    unfolding object_intent_def by fastforce
qed

lemma object_intent_mono:
  "object_intent cd operation good pending \<Longrightarrow> (\<And>o1. good o1 \<Longrightarrow> good' o1) \<Longrightarrow> object_intent cd operation good' pending"
  unfolding object_intent_def by blast

lemma apply_write_ahead:
  assumes "services_keep pending_of env ctx" and "wiring s = (Some ops, None)"
  shows "applyObject (write_ahead_kernel pending_of env) ctx p (s, w) = applyObject env ctx p (s, w)"
proof -
  let ?r = "object_at s p" and ?pending = "\<lambda>r :: RemoteObjectReceipt. r\<lparr>ob_Status := ''pending''\<rparr>"
  have wires: "on_journal s' = Some ops \<and> on_fault s' = None" if "steady s' = steady s" for s'
    using steadyD(10,12) [OF that] assms(2) by (simp add: wiring_def)
  have create: "create_object (write_ahead_kernel pending_of env) ctx p (ob_Request ?r) seq (s4, w4) =
      create_object env ctx p (ob_Request ?r) seq (s4, w4)"
    if check: "owned_check env ctx (s1, w1) = (Inr u, (s2, w2))" and first: "slot env ctx (ob_Request ?r) (s, w) = (Inr found, (s1, w1))"
      and begun: "beginMutation env ''netlink-add'' p (update_object p ?pending s2, w2) = (Inr seq, (s3, w3))"
      and again: "slot env ctx (ob_Request ?r) (s3, w3) = (Inr found', (s4, w4))"
    for s1 w1 u s2 w2 found seq s3 w3 found' s4 w4
  proof (rule write_ahead_create)
    have s2: "steady s2 = steady s" using check_steady [OF check] slot_steady [OF first] by simp
    have journal: "on_journal (update_object p ?pending s2) = Some ops" "on_fault (update_object p ?pending s2) = None"
      using wires [OF s2] by (simp_all add: update_object_def update_receipt_def split: option.split)
    note s3 = beginMutation_InrD [OF journal(1) begun]
    have "on_fault s4 = on_fault s3" using steadyD(12) [OF slot_steady [OF again]] .
    then show "on_fault s4 = None" using s3 journal(2) by simp
    obtain i where i: "pending_of w3 = Some i" using s3 by (auto simp: object_intent_def)
    have "pending_of w4 = Some i"
      by (rule slot_pending [OF assms(1) _ i again]) (use s3 journal in simp)
    moreover have "ob_Request (object_at (update_object p ?pending s2) p) = ob_Request ?r"
      using object_at_steady [OF s2, of p] object_at_invalid [of s2 p] by simp
    ultimately show "object_intent (oe_codec env) ''netlink-add'' (\<lambda>o1. neigh (ob_Request ?r) = neigh (ob_Request o1)) (pending_of w4)"
      using s3 i by (auto elim!: object_intent_mono)
  qed
  show ?thesis
    unfolding applyObject_def write_ahead_observe write_ahead_journal go_run_bind(2) fst_conv
    by (auto simp: go_run_seq go_run_bind go_run_end(1) create intro!: go_bind_at)
qed

lemma confirm_pending:
  assumes "services_keep pending_of env ctx" and "on_journal s = Some ops" and "pending_of w = Some i"
    and "confirm env ctx p absent (s, w) = (Inr u, (s', w'))"
  shows "pending_of w' = Some i"
  by (rule confirm_InrE [OF assms(4)]) (rule slot_pending [OF assms(1-3)])

lemma withdraw_write_ahead:
  assumes "services_keep pending_of env ctx" and "wiring s = (Some ops, None)"
  shows "withdrawObject (write_ahead_kernel pending_of env) ctx p (s, w) = withdrawObject env ctx p (s, w)"
proof -
  let ?r = "object_at s p"
  have delete: "delete_object (write_ahead_kernel pending_of env) ctx p seq (s4, w4) = delete_object env ctx p seq (s4, w4)"
    if confirmed: "ob_Status ?r = ''confirmed''" "ob_ACK ?r"
      and first: "confirm env ctx p False (s, w) = (Inr u, (s1, w1))" and check: "owned_check env ctx (s1, w1) = (Inr u1, (s2, w2))"
      and begun: "beginMutation env ''netlink-delete'' p (s2, w2) = (Inr seq, (s3, w3))"
      and again: "confirm env ctx p False (s3, w3) = (Inr u2, (s4, w4))"
    for s1 w1 u u1 u2 s2 w2 seq s3 w3 s4 w4
  proof (rule write_ahead_delete)
    have object1: "object_at s1 p = ?r\<lparr>ob_Error := None\<rparr>" using reconfirm [OF confirmed(1) first] .
    have s2: "steady s2 = steady s1" using check_steady [OF check] .
    have journal: "on_journal s2 = Some ops" "on_fault s2 = None"
      using steadyD(10,12) [OF s2] wiring_confirm [OF first] assms(2) by (simp_all add: wiring_def)
    note s3 = beginMutation_InrD [OF journal(1) begun]
    have object3: "object_at s3 p = ?r\<lparr>ob_Error := None\<rparr>" using s3 object1 object_at_steady [OF s2, of p] by simp
    then have object4: "object_at s4 p = ?r\<lparr>ob_Error := None\<rparr>" using reconfirm [OF _ again] confirmed by simp
    show "on_fault s4 = None" using wiring_confirm [OF again] s3 journal by (simp add: wiring_def)
    obtain i where i: "pending_of w3 = Some i" using s3 by (auto simp: object_intent_def)
    have "pending_of w4 = Some i" by (rule confirm_pending [OF assms(1) _ i again]) (use s3 journal in simp)
    then show "object_intent (oe_codec env) ''netlink-delete''
        (\<lambda>o1. ob_Status o1 = ''confirmed'' \<and> ob_ACK o1 \<and> neigh (ob_Observed (object_at s4 p)) = neigh (ob_Observed o1)) (pending_of w4)"
      using s3 i object3 object4 confirmed by (auto elim!: object_intent_mono)
  qed
  show ?thesis
    unfolding withdrawObject_def write_ahead_observe write_ahead_journal go_run_bind(2) fst_conv
    by (auto simp: go_run_seq go_run_bind go_run_end(1) delete intro!: go_bind_at)
qed

text \<open>Both operations as a whole, in a connected backend.\<close>

definition connected :: "'w ownedNetlinkState \<times> 'w \<Rightarrow> bool" where
  "connected sw \<longleftrightarrow> wiring (fst sw) = (Some ops, None)"

lemma connected_keeps: "keeps_own wiring m \<Longrightarrow> go_preserves connected m"
  unfolding connected_def by (rule go_keeps_preserves)

lemma object_write_ahead:
  assumes "services_keep pending_of env ctx"
  shows "go_same connected (applyObject (write_ahead_kernel pending_of env) ctx p) (applyObject env ctx p)"
    and "go_same connected (withdrawObject (write_ahead_kernel pending_of env) ctx p) (withdrawObject env ctx p)"
  using apply_write_ahead [OF assms] withdraw_write_ahead [OF assms] by (simp_all add: go_same_def connected_def)

lemma backend_write_ahead:
  assumes "services_keep pending_of env ctx"
  shows "go_same connected (ownedApply (write_ahead_kernel pending_of env) ctx route) (ownedApply env ctx route)"
    and "go_same connected (ownedWithdraw (write_ahead_kernel pending_of env) ctx route) (ownedWithdraw env ctx route)"
proof -
  note steps = go_same_rules object_write_ahead [OF assms] connected_keeps wiring_operations wiring_objects
    go_preserves_if go_preserves_return go_preserves_get go_preserves_require
  show "go_same connected (ownedApply (write_ahead_kernel pending_of env) ctx route) (ownedApply env ctx route)"
    unfolding ownedApply_def Let_def write_ahead_route write_ahead_journal case_prod_beta
    by (intro steps go_same_refl)
  show "go_same connected (ownedWithdraw (write_ahead_kernel pending_of env) ctx route) (ownedWithdraw env ctx route)"
    unfolding ownedWithdraw_def Let_def write_ahead_route write_ahead_journal case_prod_beta
    by (intro steps go_same_refl)
qed

end

text \<open>
  C4 (kernel mutations are journalled first). A kernel that refuses every creation and deletion for
  which the ownership journal does not hold the matching pending intent cannot be told apart from
  the real one: \<open>NeighAdd\<close> is only reached with the requested entry of a recorded intent, and
  \<open>NeighDel\<close> only with the observed entry of an object that was confirmed and acknowledged.
\<close>

theorem kernel_mutations_journalled:
  assumes "services_keep log_pending env ctx" and "on_journal s = Some (ownership_ops jenv)" and "on_fault s = None"
  shows "ownedApply (write_ahead_kernel log_pending env) ctx route (s, w) = ownedApply env ctx route (s, w) \<and>
    ownedWithdraw (write_ahead_kernel log_pending env) ctx route (s, w) = ownedWithdraw env ctx route (s, w)"
proof -
  have "jlog.connected jenv (s, w)" using assms(2,3) by (simp add: jlog.connected_def wiring_def)
  with jlog.backend_write_ahead [OF assms(1)] show ?thesis unfolding go_same_def by blast
qed

lemma net_services_keep: "services_keep f (net_env :: 'w owned_env) (go_return ())"
  unfolding services_keep_def verifyMarker_def read_marker_def marker_body_def Let_def net_env_def net_kernel_def net_posix_def
  by (simp, intro conjI allI impI go_keeps_rules)

theorem kernel_mutations_journalled_witness:
  "services_keep log_pending (net_env :: (Journal \<times> memfs) owned_env) (go_return ()) \<and> on_fault net_owned = None \<and>
   ownedApply (write_ahead_kernel log_pending net_env) (go_return ()) net_route (net_owned, (mem_journal, mem_ready)) =
   ownedApply net_env (go_return ()) net_route (net_owned, (mem_journal, mem_ready))"
proof -
  have "on_fault net_owned = None" "on_journal net_owned = Some (ownership_ops net_jenv)"
    by (simp_all add: net_owned_def net_state_def net_start_def initial_owned_def)
  with kernel_mutations_journalled [OF net_services_keep] net_services_keep show ?thesis by blast
qed

end
