(* ===== verification/Import_Convergence.thy ===== *)
theory Import_Convergence
  imports Netlink_Restart
begin

text \<open>
  The import loop over the owned backend: a snapshot that is applied successfully leaves exactly
  the receipts of its endpoints, a snapshot that is refused leaves everything alone, and the loop
  of \<open>Run\<close> ends when its context is done or when passes keep failing.
\<close>

section \<open>What one operation does to the receipts\<close>

abbreviation receipts :: "'w ownedNetlinkState \<Rightarrow> string \<rightharpoonup> RemoteNetlinkReceipt" where
  "receipts s \<equiv> map_of (on_receipts s)"

text \<open>The receipts of the other keys, and the endpoint of one receipt.\<close>

definition other_receipts :: "string \<Rightarrow> 'w ownedNetlinkState \<Rightarrow> string \<rightharpoonup> RemoteNetlinkReceipt" where
  "other_receipts k s = (receipts s)(k := None)"

definition endpoint_at :: "string \<Rightarrow> 'w ownedNetlinkState \<Rightarrow> DesiredRemoteEndpoint option" where
  "endpoint_at k s = map_option rc_Endpoint (receipts s k)"

lemma calm_receipts [simp]: "calm (other_receipts k)" "calm (endpoint_at k)"
  unfolding calm_def other_receipts_def endpoint_at_def using steadyD(5) by (metis, metis)

lemma masked_keeps_receipts:
  "keeps_own (masked (k, o1)) m \<Longrightarrow> keeps_own (other_receipts k) m"
  "keeps_own (masked (k, o1)) m \<Longrightarrow> keeps_own (endpoint_at k) m"
proof -
  have other: "other_receipts k (masked (k, o1) s) = other_receipts k s" for s :: "'a ownedNetlinkState"
    by (simp add: other_receipts_def map_of_masked split: option.split)
  have "rc_Endpoint (mask_receipt o2 r) = rc_Endpoint r" for o2 r
    by (simp add: mask_receipt_def split: kernel_object.split)
  then have endpoint: "endpoint_at k (masked (k, o1) s) = endpoint_at k s" for s :: "'a ownedNetlinkState"
    by (simp add: endpoint_at_def map_of_masked split: option.split)
  show "keeps_own (masked (k, o1)) m \<Longrightarrow> keeps_own (other_receipts k) m"
    unfolding go_keeps_def by (metis other)
  show "keeps_own (masked (k, o1)) m \<Longrightarrow> keeps_own (endpoint_at k) m"
    unfolding go_keeps_def by (metis endpoint)
qed

lemma receipts_update [simp]:
  "other_receipts k (update_receipt k f s) = other_receipts k s"
  "(\<And>r. rc_Endpoint (f r) = rc_Endpoint r) \<Longrightarrow> endpoint_at k (update_receipt k f s) = endpoint_at k s"
  by (simp_all add: other_receipts_def endpoint_at_def update_receipt_def split: option.split)

lemma ownedApply_others: "keeps_own (other_receipts (it_Key route)) (ownedApply env ctx route)"
proof -
  have "keeps_own (other_receipts (it_Key route)) (owned_route env ctx route)"
    unfolding owned_route_def by (intro go_keeps_rules calm_steps [OF calm_receipts(1)])
  moreover have "keeps_own (other_receipts (it_Key route)) (claim_receipt route network ep)" for network ep
    unfolding claim_receipt_def by (intro go_keeps_rules keeps_own_modify) (simp add: other_receipts_def)
  ultimately show ?thesis
    unfolding ownedApply_def Let_def case_prod_beta
    by (intro go_keeps_rules calm_steps [OF calm_receipts(1)] masked_keeps_receipts(1) [OF masked_applyObject] keeps_own_modify)
      simp_all
qed

text \<open>A successful \<open>Apply\<close> leaves an applied receipt of the endpoint.\<close>

lemma ownedApply_receipt:
  assumes "ownedApply env ctx route (s, w) = (Inr u, (s', w'))"
  shows "\<exists>r. receipts s' (it_Key route) = Some r \<and> rc_Status r = ''applied'' \<and> it_validated route = Some (rc_Endpoint r)"
proof -
  let ?k = "it_Key route" and ?status = "\<lambda>st r :: RemoteNetlinkReceipt. r\<lparr>rc_Status := st\<rparr>"
  from assms obtain n ep s1 w1 s2 w2 s4 w4 s5 w5 where
    route: "owned_route env ctx route (s, w) = (Inr (n, ep), (s1, w1))"
    and claim: "claim_receipt route n ep (s1, w1) = (Inr (), (s2, w2))"
    and fdb: "applyObject env ctx (?k, FDB) (update_receipt ?k (?status ''partially-applied'') s2, w2) = (Inr (), (s4, w4))"
    and neighbor: "(if has_neighbor s4 ?k then applyObject env ctx (?k, Neighbor) else go_return ()) (s4, w4) = (Inr (), (s5, w5))"
    and checkpoint: "checkpoint env (update_receipt ?k (?status ''applied'') s5, w5) = (Inr u, (s', w'))"
    unfolding ownedApply_def Let_def by (simp only: go_success split_paired_Ex map_prod_simp fst_conv prod.case simp_thms prod.inject) blast
  have "endpoint_at ?k s2 = Some ep"
    using claim by (auto simp: claim_receipt_def go_success endpoint_at_def current_receipt_def newReceipt_def split: option.splits)
  then have "endpoint_at ?k s4 = Some ep"
    using keeps_ownD [OF masked_keeps_receipts(2) [OF masked_applyObject] fdb] by simp
  moreover have "endpoint_at ?k s5 = endpoint_at ?k s4"
    using neighbor keeps_ownD [OF masked_keeps_receipts(2) [OF masked_applyObject]] by (cases "has_neighbor s4 ?k") (auto simp: go_success)
  moreover have "receipts s' = receipts (update_receipt ?k (?status ''applied'') s5)"
    using steadyD(5) [OF journal_steady(3) [OF checkpoint]] by simp
  ultimately show ?thesis
    using owned_route_InrD(2) [OF route] by (auto simp: endpoint_at_def update_receipt_def split: option.splits)
qed

lemma ownedWithdraw_receipts:
  assumes "ownedWithdraw env ctx route (s, w) = (Inr u, (s', w'))"
  shows "receipts s' = (receipts s)(it_Key route := None)"
proof -
  have "(receipts s')(it_Key route := None) = (receipts s)(it_Key route := None)"
    using keeps_ownD [OF others_ownedWithdraw assms] by (simp add: others_def)
  with ownedWithdraw_forgets [OF assms] show ?thesis by (metis fun_upd_triv)
qed

section \<open>The two loops\<close>

abbreviation active :: "'w RemoteType2Importer \<Rightarrow> string \<rightharpoonup> ImportedType2Route" where
  "active i \<equiv> map_of (ri_active i)"

text \<open>The importer knows every receipt of its backend under the key of the route.\<close>

definition coherent :: "'w RemoteType2Importer \<Rightarrow> bool" where
  "coherent i \<longleftrightarrow> (\<exists>s. ri_owned i = Some s \<and> dom (receipts s) \<subseteq> dom (active i)) \<and>
     (\<forall>k route. active i k = Some route \<longrightarrow> it_Key route = k)"

lemma with_owned_success:
  "with_owned m (i, w) = (Inr u, (i', w')) \<longleftrightarrow> (\<exists>s s'. ri_owned i = Some s \<and> m (s, w) = (Inr u, (s', w')) \<and> i' = i\<lparr>ri_owned := Some s'\<rparr>)"
  by (cases "ri_owned i") (auto simp: with_owned_def split: prod.splits)

lemma withdraw_key_effect:
  assumes "withdraw_key env ctx desired k (i, w) = (Inr u, (i', w'))" and "coherent i"
  shows "coherent i' \<and> active i' \<subseteq>\<^sub>m active i \<and> (\<forall>c. active i' k = Some c \<longrightarrow> \<not> outdated desired k c)"
proof (cases "\<exists>c. active i k = Some c \<and> outdated desired k c")
  case False
  with assms(1) have "i' = i" by (auto simp: withdraw_key_def go_success split: option.splits)
  with False assms(2) show ?thesis by auto
next
  case True
  then obtain c where c: "active i k = Some c" "outdated desired k c" by blast
  let ?c = "c\<lparr>it_retiring := True\<rparr>"
  from assms(1) c obtain s s' where s: "ri_owned i = Some s" and run: "ownedWithdraw env ctx ?c (s, w) = (Inr (), (s', w'))"
    and i': "i' = i\<lparr>ri_owned := Some s', ri_active := AList.delete k (AList.update k ?c (ri_active i))\<rparr>"
    by (auto simp: withdraw_key_def Let_def go_success with_owned_success)
  have "it_Key ?c = k" using assms(2) c by (simp add: coherent_def)
  with ownedWithdraw_receipts [OF run] have "receipts s' = (receipts s)(k := None)" by simp
  moreover have active: "active i' = (active i)(k := None)" by (simp add: i' delete_conv)
  ultimately show ?thesis using assms(2) s by (auto simp: coherent_def i' delete_conv map_le_def split: if_splits)
qed

lemma withdraw_loop_effect:
  assumes "go_each (withdraw_key env ctx desired) ks (i, w) = (Inr u, (i', w'))" and "coherent i"
  shows "coherent i' \<and> active i' \<subseteq>\<^sub>m active i \<and> (\<forall>k c. k \<in> set ks \<longrightarrow> active i' k = Some c \<longrightarrow> \<not> outdated desired k c)"
  using assms
proof (induction ks arbitrary: i w)
  case (Cons k ks)
  from Cons.prems(1) obtain i1 w1 where first: "withdraw_key env ctx desired k (i, w) = (Inr (), (i1, w1))"
    and rest: "go_each (withdraw_key env ctx desired) ks (i1, w1) = (Inr u, (i', w'))"
    by (auto simp: go_success)
  note step = withdraw_key_effect [OF first Cons.prems(2)]
  note later = Cons.IH [OF rest conjunct1 [OF step]]
  have "\<not> outdated desired k c" if "active i' k = Some c" for c
    using that later step unfolding map_le_def by (metis domI)
  with later step show ?case by (auto intro: map_le_trans)
qed (auto simp: go_success)

text \<open>A key of the desired state that has been applied.\<close>

definition applied_key :: "(string, ImportedType2Route) gomap \<Rightarrow> 'w RemoteType2Importer \<Rightarrow> string \<Rightarrow> bool" where
  "applied_key desired i k = (case (active i k, map_of desired k, ri_owned i) of
     (Some route, Some want, Some s) \<Rightarrow> \<not> outdated desired k route \<and> (case receipts s k of
         None \<Rightarrow> False
       | Some r \<Rightarrow> rc_Status r = ''applied'' \<and> it_validated want = Some (rc_Endpoint r))
   | _ \<Rightarrow> False)"

definition well_keyed :: "(string, ImportedType2Route) gomap \<Rightarrow> bool" where
  "well_keyed desired \<longleftrightarrow> (\<forall>k want. map_of desired k = Some want \<longrightarrow> it_Key want = k \<and> \<not> it_retiring want)"

lemma apply_key_effect:
  assumes "apply_key env ctx desired k (i, w) = (Inr u, (i', w'))" and "coherent i" and "well_keyed desired"
    and "k \<in> dom (map_of desired)" and "\<forall>k c. active i k = Some c \<longrightarrow> \<not> outdated desired k c"
  shows "coherent i' \<and> applied_key desired i' k \<and> (\<forall>k c. active i' k = Some c \<longrightarrow> \<not> outdated desired k c) \<and>
    (\<forall>k'. k' \<noteq> k \<longrightarrow> applied_key desired i k' \<longrightarrow> applied_key desired i' k')"
proof -
  obtain want where want: "map_of desired k = Some want" using assms(4) by blast
  obtain route s s' i1 where active: "active i1 = (active i)(k \<mapsto> route)" and key: "it_Key route = k" and "\<not> outdated desired k route"
    and s: "ri_owned i = Some s" and run: "ownedApply env ctx route (s, w) = (Inr (), (s', w'))" and i': "i' = i1\<lparr>ri_owned := Some s'\<rparr>"
  proof (cases "active i k")
    case (Some route)
    with assms(1) obtain s s' where "ri_owned i = Some s" "ownedApply env ctx route (s, w) = (Inr (), (s', w'))"
      "i' = i\<lparr>ri_owned := Some s'\<rparr>"
      by (auto simp: apply_key_def go_success with_owned_success)
    then show thesis
      by (intro that [of i route]) (use Some assms(2,5) in \<open>auto simp: coherent_def\<close>)
  next
    case None
    let ?route = "want\<lparr>it_incarnation := ri_epoch i + 1\<rparr>"
    let ?i = "i\<lparr>ri_epoch := ri_epoch i + 1, ri_active := AList.update k ?route (ri_active i)\<rparr>"
    from assms(1) None want obtain s s' where "ri_owned i = Some s" "ownedApply env ctx ?route (s, w) = (Inr (), (s', w'))"
      "i' = ?i\<lparr>ri_owned := Some s'\<rparr>"
      by (auto simp: apply_key_def go_success with_owned_success Let_def)
    then show thesis
      by (intro that [of ?i ?route]) (use want assms(3) in \<open>auto simp: well_keyed_def outdated_def\<close>)
  qed
  obtain r where r: "receipts s' k = Some r" "rc_Status r = ''applied''" "it_validated route = Some (rc_Endpoint r)"
    using ownedApply_receipt [OF run] key by auto
  have others: "receipts s' k' = receipts s k'" if "k' \<noteq> k" for k'
    using keeps_ownD [OF ownedApply_others run] key that by (simp add: other_receipts_def) (metis fun_upd_other)
  have "it_validated want = it_validated route" using \<open>\<not> outdated desired k route\<close> want by (auto simp: outdated_def)
  then have "applied_key desired i' k" using r want active i' \<open>\<not> outdated desired k route\<close> by (simp add: applied_key_def)
  moreover have "applied_key desired i' k'" if "k' \<noteq> k" "applied_key desired i k'" for k'
    using that others [OF that(1)] active i' s by (simp add: applied_key_def split: option.splits)
  moreover have "coherent i'"
  proof -
    have "dom (receipts s') \<subseteq> insert k (dom (receipts s))" using others by (metis domIff insertI1 insertI2 subsetI)
    with assms(2) s i' active key show ?thesis by (auto simp: coherent_def split: if_splits)
  qed
  moreover have "\<forall>k c. active i' k = Some c \<longrightarrow> \<not> outdated desired k c"
    using assms(5) active i' \<open>\<not> outdated desired k route\<close> by simp
  ultimately show ?thesis by blast
qed

lemma apply_loop_effect:
  assumes "go_each (apply_key env ctx desired) ks (i, w) = (Inr u, (i', w'))" and "coherent i" and "well_keyed desired"
    and "distinct ks" "set ks \<subseteq> dom (map_of desired)" and "\<forall>k c. active i k = Some c \<longrightarrow> \<not> outdated desired k c"
  shows "coherent i' \<and> (\<forall>k \<in> set ks. applied_key desired i' k) \<and> (\<forall>k c. active i' k = Some c \<longrightarrow> \<not> outdated desired k c) \<and>
    (\<forall>k. k \<notin> set ks \<longrightarrow> applied_key desired i k \<longrightarrow> applied_key desired i' k)"
  using assms
proof (induction ks arbitrary: i w)
  case (Cons k ks)
  from Cons.prems(1) obtain i1 w1 where first: "apply_key env ctx desired k (i, w) = (Inr (), (i1, w1))"
    and rest: "go_each (apply_key env ctx desired) ks (i1, w1) = (Inr u, (i', w'))"
    by (auto simp: go_success)
  have step: "coherent i1 \<and> applied_key desired i1 k \<and> (\<forall>k c. active i1 k = Some c \<longrightarrow> \<not> outdated desired k c) \<and>
    (\<forall>k'. k' \<noteq> k \<longrightarrow> applied_key desired i k' \<longrightarrow> applied_key desired i1 k')"
    using apply_key_effect [OF first Cons.prems(2,3) _ Cons.prems(6)] Cons.prems(5) by simp
  then have "coherent i' \<and> (\<forall>k \<in> set ks. applied_key desired i' k) \<and> (\<forall>k c. active i' k = Some c \<longrightarrow> \<not> outdated desired k c) \<and>
    (\<forall>k. k \<notin> set ks \<longrightarrow> applied_key desired i1 k \<longrightarrow> applied_key desired i' k)"
    using Cons.IH [OF rest _ Cons.prems(3)] Cons.prems(4,5) by simp
  with step Cons.prems(4) show ?case by simp
qed (auto simp: go_success)

section \<open>A snapshot is applied\<close>

lemma desired_endpoints_routes:
  assumes "desired_endpoints bgp cd c networks g slots desired eps = Inr result"
  shows "dom (map_of result) = dom (map_of desired) \<union> de_Key ` set eps"
    and "map_of result k = Some want \<Longrightarrow> map_of desired k = Some want \<or>
      (\<exists>ep n. ep \<in> set eps \<and> de_Key ep = k \<and> want = desired_route n g ep)"
  using assms
proof (induction eps arbitrary: slots desired)
  case (Cons ep eps)
  {
    case 1
    from 1 obtain route slots' where rest: "desired_endpoints bgp cd c networks g slots' (AList.update (de_Key ep) route desired) eps = Inr result"
      by (auto simp: sum_bind_Inr_iff)
    from Cons.IH(1) [OF rest] show ?case by auto
  next
    case 2
    from 2(2) obtain route slots' where first: "desired_endpoint bgp cd c networks g slots ep = Inr (route, slots')"
      and rest: "desired_endpoints bgp cd c networks g slots' (AList.update (de_Key ep) route desired) eps = Inr result"
      by (auto simp: sum_bind_Inr_iff)
    from first obtain n where "route = desired_route n g ep"
      by (auto simp: desired_endpoint_def Let_def split: if_splits option.splits)
    with Cons.IH(2) [OF 2(1) rest] show ?case by (auto split: if_splits)
  }
qed simp_all

lemma snapshot_routes_endpoints:
  assumes "snapshot_routes bgp cd snapshot i = Inr desired"
  shows "well_keyed desired" "dom (map_of desired) = de_Key ` set (sn_Endpoints snapshot)"
    "map_of desired k = Some want \<Longrightarrow> \<exists>ep \<in> set (sn_Endpoints snapshot). de_Key ep = k \<and> it_validated want = Some ep"
proof -
  from assms obtain c networks where run:
    "desired_endpoints bgp cd c networks (sn_Generation snapshot) [] [] (sn_Endpoints snapshot) = Inr desired"
    by (auto simp: snapshot_routes_def split: option.splits)
  note routes = desired_endpoints_routes [OF run]
  show "dom (map_of desired) = de_Key ` set (sn_Endpoints snapshot)" using routes(1) by simp
  have want: "\<exists>ep n. ep \<in> set (sn_Endpoints snapshot) \<and> de_Key ep = k \<and> want = desired_route n (sn_Generation snapshot) ep"
    if "map_of desired k = Some want" for k want
    using routes(2) [OF that] by simp
  then show "well_keyed desired" unfolding well_keyed_def by (metis desired_route_def ImportedType2Route.select_convs(1,13))
  show "\<exists>ep \<in> set (sn_Endpoints snapshot). de_Key ep = k \<and> it_validated want = Some ep" if "map_of desired k = Some want"
    using want [OF that] by (auto simp: desired_route_def)
qed

lemma applyValidatedSnapshot_success:
  assumes "applyValidatedSnapshot bgp env ctx snapshot (i, w) = (Inr u, (i', w'))" and "coherent i"
  obtains desired where "snapshot_routes bgp (oe_codec env) snapshot i = Inr desired" "coherent i'"
    "\<forall>k \<in> dom (map_of desired). applied_key desired i' k" "\<forall>k c. active i' k = Some c \<longrightarrow> \<not> outdated desired k c"
proof -
  let ?snapshot = "go_seq (own_modify (\<lambda>s. s\<lparr>on_snapshot := copyRemoteSnapshot snapshot\<rparr>)) (checkpoint env)"
  let ?i = "i\<lparr>ri_confirmedGeneration := sn_Generation snapshot, ri_confirmedDigest := kc_hash_endpoints (oe_codec env) (sn_Endpoints snapshot)\<rparr>"
  from assms(1) obtain desired i1 w1 i2 w2 i3 w3 where routes: "snapshot_routes bgp (oe_codec env) snapshot i = Inr desired"
    and saved: "with_owned ?snapshot (?i, w) = (Inr (), (i1, w1))"
    and withdrawn: "go_each (withdraw_key env ctx desired) (map_keys (ri_active i1)) (i1, w1) = (Inr (), (i2, w2))"
    and applied: "go_each (apply_key env ctx desired) (map_keys desired) (i2, w2) = (Inr (), (i3, w3))"
    and running: "with_owned set_running (i3, w3) = (Inr u, (i', w'))"
    unfolding applyValidatedSnapshot_def Let_def
    by (auto simp only: go_success split_paired_Ex map_prod_simp fst_conv simp_thms prod.inject)
  from saved obtain s s1 where s: "ri_owned i = Some s" "i1 = ?i\<lparr>ri_owned := Some s1\<rparr>"
    and checkpoint: "checkpoint env (s\<lparr>on_snapshot := copyRemoteSnapshot snapshot\<rparr>, w) = (Inr (), (s1, w1))"
    by (auto simp: with_owned_success go_success)
  have "receipts s1 = receipts s" using steadyD(5) [OF journal_steady(3) [OF checkpoint]] by simp
  with s assms(2) have i1: "coherent i1" by (simp add: coherent_def)
  note i2 = withdraw_loop_effect [OF withdrawn i1]
  have "active i2 k = Some c \<Longrightarrow> k \<in> set (map_keys (ri_active i1))" for k c
    using i2 by (auto simp: map_le_def) (metis domI)
  with i2 have current: "\<forall>k c. active i2 k = Some c \<longrightarrow> \<not> outdated desired k c" by blast
  have i3: "coherent i3 \<and> (\<forall>k \<in> dom (map_of desired). applied_key desired i3 k) \<and> (\<forall>k c. active i3 k = Some c \<longrightarrow> \<not> outdated desired k c)"
    using apply_loop_effect [OF applied _ snapshot_routes_endpoints(1) [OF routes] _ _ current] i2 by simp
  from running obtain s3 s4 where s4: "ri_owned i3 = Some s3" "i' = i3\<lparr>ri_owned := Some s4\<rparr>" "set_running (s3, w3) = (Inr u, (s4, w'))"
    by (auto simp: with_owned_success)
  moreover from s4(3) have "on_receipts s4 = on_receipts s3" by (auto simp: set_running_def go_success)
  ultimately have "coherent i' = coherent i3" "applied_key desired i' k = applied_key desired i3 k" "active i' = active i3" for k
    by (simp_all add: coherent_def applied_key_def split: option.split)
  with i3 show thesis by (intro that [OF routes]) metis+
qed

text \<open>
  C5 (convergence). When the backend's receipts are all known to the importer and a snapshot is
  applied successfully, the receipts are exactly those of the snapshot's endpoints: every one is
  applied and belongs to the endpoint of its key, and everything else has been withdrawn. The
  receipts are known to the importer again.
\<close>

theorem snapshot_converges:
  assumes "coherent i" and "applyValidatedSnapshot bgp env ctx snapshot (i, w) = (Inr u, (i', w'))"
  shows "coherent i' \<and> (\<exists>s'. ri_owned i' = Some s' \<and> dom (receipts s') = de_Key ` set (sn_Endpoints snapshot) \<and>
    (\<forall>k r. receipts s' k = Some r \<longrightarrow> rc_Status r = ''applied'' \<and> de_Key (rc_Endpoint r) = k \<and>
       rc_Endpoint r \<in> set (sn_Endpoints snapshot)))"
proof -
  obtain desired where routes: "snapshot_routes bgp (oe_codec env) snapshot i = Inr desired" and "coherent i'"
    and applied: "\<forall>k \<in> dom (map_of desired). applied_key desired i' k"
    and current: "\<forall>k c. active i' k = Some c \<longrightarrow> \<not> outdated desired k c"
    by (rule applyValidatedSnapshot_success [OF assms(2,1)])
  from \<open>coherent i'\<close> obtain s' where s': "ri_owned i' = Some s'" "dom (receipts s') \<subseteq> dom (active i')" by (auto simp: coherent_def)
  have "dom (active i') \<subseteq> dom (map_of desired)" using current by (auto simp: outdated_def split: option.splits)
  moreover have "dom (map_of desired) \<subseteq> dom (receipts s')"
    using applied s'(1) by (auto simp: applied_key_def split: option.splits)
  ultimately have dom: "dom (receipts s') = dom (map_of desired)" using s'(2) by blast
  have "rc_Status r = ''applied'' \<and> de_Key (rc_Endpoint r) = k \<and> rc_Endpoint r \<in> set (sn_Endpoints snapshot)"
    if r: "receipts s' k = Some r" for k r
  proof -
    obtain want where want: "map_of desired k = Some want" using dom r by blast
    with applied s'(1) r have "rc_Status r = ''applied''" "it_validated want = Some (rc_Endpoint r)"
      by (auto simp: applied_key_def split: option.splits)
    with snapshot_routes_endpoints(3) [OF routes want] show ?thesis by auto
  qed
  with \<open>coherent i'\<close> s'(1) dom snapshot_routes_endpoints(2) [OF routes] show ?thesis by simp
qed

theorem snapshot_converges_witness:
  "coherent (net_importer :: Neigh list RemoteType2Importer) \<and>
   (\<exists>i' s' w'. applyValidatedSnapshot sample_bgp table_env (go_return ()) net_snapshot (net_importer, []) = (Inr (), (i', w')) \<and>
     ri_owned i' = Some s' \<and> dom (receipts s') = {''k''})"
proof -
  obtain r i' w' where run: "applyValidatedSnapshot sample_bgp table_env (go_return ()) net_snapshot (net_importer, []) = (r, (i', w'))"
    by (metis surj_pair)
  have ok: "r = Inr ()" using net_applied unfolding run by simp
  have coherent: "coherent (net_importer :: Neigh list RemoteType2Importer)"
    by (simp add: coherent_def net_importer_def NewRemoteType2Importer_def net_start_def initial_owned_def)
  have "de_Key ` set (sn_Endpoints net_snapshot) = {''k''}" by (simp add: net_snapshot_def net_endpoint_def)
  with snapshot_converges [OF coherent run [unfolded ok]] obtain s' where "ri_owned i' = Some s'" "dom (receipts s') = {''k''}" by auto
  with coherent run ok show ?thesis by metis
qed

section \<open>A snapshot is refused\<close>

text \<open>A poll that may not change the kernel.\<close>

definition refused :: "bgp_lib \<Rightarrow> netlink_codec \<Rightarrow> 'w RemoteType2Importer \<Rightarrow> RemoteImportSnapshot \<Rightarrow> go_error option \<Rightarrow> bool" where
  "refused bgp cd i snapshot err \<longleftrightarrow> err \<noteq> None \<or> \<not> sn_Authoritative snapshot \<or> stale_generation cd i snapshot \<or>
     (case snapshot_routes bgp cd snapshot i of Inl _ \<Rightarrow> True | Inr _ \<Rightarrow> False)"

lemma refused_unchanged:
  assumes "ri_verified i = Some v" and "Poll lib ctx (v, w) = ((snapshot, err), (v', w'))"
    and "refused (il_bgp lib) (oe_codec env) (i\<lparr>ri_verified := Some v'\<rparr>) snapshot err"
  shows "\<exists>e. reconcileValidated lib env ctx (i, w) =
    (Inl e, (i\<lparr>ri_verified := Some v', ri_last := copyRemoteSnapshot snapshot\<rparr>, w'))"
proof -
  let ?i = "i\<lparr>ri_verified := Some v', ri_last := copyRemoteSnapshot snapshot\<rparr>"
  have same: "stale_generation (oe_codec env) ?i snapshot = stale_generation (oe_codec env) (i\<lparr>ri_verified := Some v'\<rparr>) snapshot"
    "snapshot_routes (il_bgp lib) (oe_codec env) snapshot ?i = snapshot_routes (il_bgp lib) (oe_codec env) snapshot (i\<lparr>ri_verified := Some v'\<rparr>)"
    by (simp_all add: stale_generation_def snapshot_routes_def)
  have "\<exists>e. applyValidatedSnapshot (il_bgp lib) env ctx snapshot (?i, w') = (Inl e, (?i, w'))" if "err = None" "sn_Authoritative snapshot"
    using assms(3) that unfolding refused_def applyValidatedSnapshot_def Let_def
    by (auto simp: go_run go_bind_def go_seq_def go_require_def go_of_def go_return_def go_throw_def same split: sum.splits)
  then show ?thesis
    using assms(1,2)
    by (cases err) (auto simp: reconcileValidated_def poll_verified_def go_run go_bind_def go_seq_def go_require_def go_return_def
        go_throw_def go_modify_def)
qed


lemma Poll_source_down:
  assumes "rs_ReadRemoteRIB (im_source v) ctx w = (Inl e, w')"
  shows "\<exists>snapshot. Poll lib ctx (v, w) = ((snapshot, Some e), (v\<lparr>im_pending := []\<rparr>, w'))"
  using assms by (simp add: Poll_def uncertain_def Let_def)


section \<open>The loop ends\<close>

lemma run_importer_bounded:
  assumes "\<And>s. I s \<Longrightarrow> \<exists>e s'. pass s = (Inl e, s') \<and> I s' \<and> ri_maxRetries (fst s') = m"
    and "\<And>n s r s'. I s \<Longrightarrow> go_env (wait n) s = (r, s') \<Longrightarrow> I s'" and "I s"
  shows "\<exists>r s'. run_importer pass wait n s = Some (r, s') \<and> I s' \<and>
    ((\<forall>n s e s'. I s \<longrightarrow> go_env (wait n) s \<noteq> (Inl e, s')) \<longrightarrow> (\<exists>e. r = Inl e))"
  using assms(3)
proof (induction "m - n" arbitrary: n s rule: less_induct)
  case less
  from assms(1) [OF less.prems] obtain e s1 where pass: "pass s = (Inl e, s1)" "I s1" "ri_maxRetries (fst s1) = m" by blast
  show ?case
  proof (cases "n + 1 \<ge> m")
    case True
    with pass show ?thesis by (subst run_importer.simps) simp
  next
    case False
    obtain r2 s2 where w2: "go_env (wait (n + 1)) s1 = (r2, s2)" by (metis surj_pair)
    obtain r3 s3 where w3: "go_env (wait 0) s2 = (r3, s3)" by (metis surj_pair)
    have "I s2" "I s3" using assms(2) pass(2) w2 w3 by blast+
    moreover have "m - (n + 1) < m - n" using False by simp
    ultimately have "\<exists>r s'. run_importer pass wait (n + 1) s3 = Some (r, s') \<and> I s' \<and>
      ((\<forall>n s e s'. I s \<longrightarrow> go_env (wait n) s \<noteq> (Inl e, s')) \<longrightarrow> (\<exists>e. r = Inl e))"
      using less.hyps by blast
    moreover have "\<not> (\<forall>n s e s'. I s \<longrightarrow> go_env (wait n) s \<noteq> (Inl e, s'))" if "r2 = Inl x \<or> r3 = Inl x" for x
      using that w2 w3 \<open>I s1\<close> \<open>I s2\<close> by blast
    ultimately show ?thesis
      using False pass w2 w3 \<open>I s2\<close> \<open>I s3\<close>
      by (subst run_importer.simps) (cases r2; cases r3; simp; blast)
  qed
qed



lemma run_importer_returns:
  assumes "\<And>s r s'. I s \<Longrightarrow> pass s = (r, s') \<Longrightarrow> I s' \<and> fuel (snd s') \<le> fuel (snd s)"
    and "\<And>n s r s'. I s \<Longrightarrow> go_env (wait n) s = (r, s') \<Longrightarrow> I s'"
    and wait: "\<And>n w w'. wait n w = (Inr (), w') \<Longrightarrow> fuel w' < (fuel w :: nat)" and "I s"
  shows "\<exists>r s'. run_importer pass wait n s = Some (r, s') \<and> I s'"
  using assms(4)
proof (induction "fuel (snd s)" arbitrary: n s rule: less_induct)
  case less
  have spent: "fuel (snd s') < fuel (snd s)" if "go_env (wait n) s = (Inr u, s')" for n s u s'
    using that wait [of n "snd s"] by (cases s) (auto simp: go_env_def split: prod.splits)
  obtain r1 s1 where pass: "pass s = (r1, s1)" by (metis surj_pair)
  note s1 = assms(1) [OF less.prems pass]
  obtain r2 s2 where w2: "go_env (wait (n + 1)) s1 = (r2, s2)" by (metis surj_pair)
  obtain r3 s3 where w3: "go_env (wait 0) s2 = (r3, s3)" by (metis surj_pair)
  obtain r4 s4 where w4: "go_env (wait 0) s1 = (r4, s4)" by (metis surj_pair)
  have keep: "I s2" "I s3" "I s4" using assms(2) s1 w2 w3 w4 by blast+
  have again: "\<exists>r s'. run_importer pass wait k t = Some (r, s') \<and> I s'" if "I t" "fuel (snd t) < fuel (snd s1)" for k t
    by (rule less.hyps) (use that s1 in simp_all)
  have later: "\<exists>r s'. run_importer pass wait (n + 1) s3 = Some (r, s') \<and> I s'" if "r2 = Inr x" "r3 = Inr y" for x y
  proof (rule again [OF keep(2)])
    have "fuel (snd s3) < fuel (snd s2)" "fuel (snd s2) < fuel (snd s1)"
      using spent [of 0 s2 y s3] spent [of "n + 1" s1 x s2] w2 w3 that by simp_all
    then show "fuel (snd s3) < fuel (snd s1)" by simp
  qed
  have now: "\<exists>r s'. run_importer pass wait 0 s4 = Some (r, s') \<and> I s'" if "r4 = Inr x" for x
    by (rule again [OF keep(3)]) (use spent [of 0 s1 x s4] w4 that in simp)
  show ?case
  proof (cases r1)
    case (Inl e)
    with pass w2 w3 keep(1,2) conjunct1 [OF s1] later show ?thesis
      by (subst run_importer.simps) (cases r2; cases r3; cases s1; cases s2; cases s3; simp)
  next
    case (Inr x)
    with pass w4 keep(3) now show ?thesis
      by (subst run_importer.simps) (cases r4; cases s4; simp)
  qed
qed

text \<open>
  C22 (cancellation). \<open>Run\<close> returns when its context is done: if at most finitely many more waits
  can succeed before the context is done, the loop has a result, whether the passes succeed or
  fail.
\<close>

theorem run_returns:
  assumes "\<And>s r s'. I s \<Longrightarrow> ReconcileOnce lib env ctx s = (r, s') \<Longrightarrow> I s' \<and> fuel (snd s') \<le> fuel (snd s)"
    and "\<And>n s r s'. I s \<Longrightarrow> go_env (wait n) s = (r, s') \<Longrightarrow> I s'"
    and "\<And>n w w'. wait n w = (Inr (), w') \<Longrightarrow> fuel w' < (fuel w :: nat)" and "I s"
  shows "\<exists>r s'. RemoteType2Importer_Run lib env wait ctx s = Some (r, s') \<and> I s'"
  unfolding RemoteType2Importer_Run_def
  by (rule run_importer_returns [where I = I and fuel = fuel, OF assms(1,2) assms(3,4)])

text \<open>A context that is done after a number of waits.\<close>

definition counted_wait :: "nat \<Rightarrow> (nat, unit) go" where
  "counted_wait n w = (if w = 0 then (Inl (errors_New ''context canceled''), w) else (Inr (), w - 1))"

text \<open>An importer of received routes whose source is always empty.\<close>

definition idle_importer :: "nat RemoteType2Importer" where
  "idle_importer = NewRemoteType2Importer (Some \<lparr>rss_Snapshot = (\<lambda>_. go_return [])\<rparr>) (Some \<lparr>va_LocalVTEP = [], va_Networks = []\<rparr>) None"

theorem run_returns_witness:
  "\<exists>r i' w'. RemoteType2Importer_Run net_lib net_env counted_wait (go_return ()) (idle_importer, 5) = Some (r, (i', w')) \<and> i' = idle_importer"
proof -
  let ?I = "\<lambda>s. fst s = idle_importer"
  have pass: "ReconcileOnce net_lib net_env (go_return ()) (idle_importer, w) = (Inr (), (idle_importer, w))" for w
    by (simp add: ReconcileOnce_def reconcileReceived_def idle_importer_def NewRemoteType2Importer_def go_run go_bind_def go_env_def
        go_return_def go_of_def go_seq_def map_keys_def)
  have "\<exists>r s'. RemoteType2Importer_Run net_lib net_env counted_wait (go_return ()) (idle_importer, 5) = Some (r, s') \<and> ?I s'"
  proof (rule run_returns [where I = ?I and fuel = "\<lambda>w. w"])
    show "?I s' \<and> snd s' \<le> snd s" if "?I s" "ReconcileOnce net_lib net_env (go_return ()) s = (r, s')" for s r s'
      using that pass by (cases s) auto
    show "?I s'" if "?I s" "go_env (counted_wait n) s = (r, s')" for n s r s'
      using that by (cases s) (auto simp: go_env_def split: prod.splits)
  qed (auto simp: counted_wait_def split: if_splits)
  then show ?thesis by auto
qed

end
