(* ===== verification/Import_Sessions.thy ===== *)
theory Import_Sessions
  imports Import_Convergence
begin

text \<open>
  The states of an importer over the owned backend: created from the backend's durable receipts,
  then used by any number of passes, successful or not. In each of them the importer knows every
  receipt of the backend, which is what a later snapshot needs to withdraw what is not wanted.
\<close>

section \<open>One pass\<close>

text \<open>The invariant of a session.\<close>

definition in_session :: "'w RemoteType2Importer \<times> 'w \<Rightarrow> bool" where
  "in_session iw \<longleftrightarrow> coherent (fst iw) \<and> ri_verified (fst iw) \<noteq> None"

lemma coherent_one:
  assumes "coherent i" and "ri_owned i = Some s" and "ri_owned i' = Some s'" and "active i' = (active i)(k \<mapsto> c)" and "it_Key c = k"
    and "other_receipts k s' = other_receipts k s"
  shows "coherent i'"
proof -
  have "receipts s' k' = receipts s k'" if "k' \<noteq> k" for k'
    using fun_cong [OF assms(6), of k'] that by (simp add: other_receipts_def)
  then have "dom (receipts s') \<subseteq> insert k (dom (receipts s))" by (metis domIff insertI1 insertI2 subsetI)
  with assms(1-5) show ?thesis by (auto simp: coherent_def split: if_splits)
qed

lemma with_owned_some:
  "ri_owned i = Some s \<Longrightarrow> m (s, w) = (r, (s', w')) \<Longrightarrow> with_owned m (i, w) = (r, (i\<lparr>ri_owned := Some s'\<rparr>, w'))"
  by (simp add: with_owned_def)

lemma ownedWithdraw_others: "keeps_own (other_receipts (it_Key route)) (ownedWithdraw env ctx route)"
  using others_ownedWithdraw [of route env ctx] by (auto simp: go_keeps_def others_def other_receipts_def)

lemma withdraw_key_session: "go_preserves in_session (withdraw_key (env :: 'w owned_env) ctx desired k)"
  unfolding go_preserves_def
proof (intro allI impI)
  fix iw :: "'w RemoteType2Importer \<times> 'w" assume P: "in_session iw"
  obtain i w where iw: "iw = (i, w)" by (cases iw)
  obtain r i' w' where run: "withdraw_key env ctx desired k (i, w) = (r, (i', w'))" by (metis surj_pair)
  show "in_session (snd (withdraw_key env ctx desired k iw))"
  proof (cases "\<exists>c. active i k = Some c \<and> outdated desired k c")
    case False
    with P iw show ?thesis by (auto simp: withdraw_key_def go_run go_bind_def go_return_def split: option.splits)
  next
    case True
    then obtain c where c: "active i k = Some c" "outdated desired k c" by blast
    let ?c = "c\<lparr>it_retiring := True\<rparr>" and ?i = "\<lambda>s'. i\<lparr>ri_active := AList.update k (c\<lparr>it_retiring := True\<rparr>) (ri_active i), ri_owned := Some s'\<rparr>"
    from P iw obtain s where s: "ri_owned i = Some s" and key: "it_Key ?c = k" using c by (auto simp: in_session_def coherent_def)
    obtain r1 s1 w1 where w1: "ownedWithdraw env ctx ?c (s, w) = (r1, (s1, w1))" by (metis surj_pair)
    have coherent: "coherent (?i s1)"
      by (rule coherent_one [where i = i and s = s and k = k and c = ?c and s' = s1])
        (use P iw s key keeps_ownD [OF ownedWithdraw_others w1] in \<open>auto simp: in_session_def\<close>)
    show ?thesis
    proof (cases r1)
      case (Inl e)
      with c s w1 iw coherent P show ?thesis
        by (simp add: withdraw_key_def Let_def go_run go_bind_def go_seq_def go_modify_def with_owned_def in_session_def)
    next
      case (Inr u)
      with run c s w1 have "r = Inr ()"
        by (simp add: withdraw_key_def Let_def go_run go_bind_def go_seq_def go_modify_def with_owned_def)
      moreover have "ri_verified i' = ri_verified i"
        using run c s w1 Inr by (auto simp: withdraw_key_def Let_def go_run go_bind_def go_seq_def go_modify_def with_owned_def)
      ultimately show ?thesis
        using withdraw_key_effect [of env ctx desired k i w] run P iw by (simp add: in_session_def)
    qed
  qed
qed

lemma apply_key_session: "well_keyed desired \<Longrightarrow> go_preserves in_session (apply_key (env :: 'w owned_env) ctx desired k)"
  unfolding go_preserves_def
proof (intro allI impI)
  fix iw :: "'w RemoteType2Importer \<times> 'w" assume keyed: "well_keyed desired" and P: "in_session iw"
  obtain i w where iw: "iw = (i, w)" by (cases iw)
  from P iw obtain s where s: "ri_owned i = Some s" by (auto simp: in_session_def coherent_def)
  note runs = apply_key_def Let_def go_run go_bind_def go_seq_def go_modify_def go_require_def go_return_def go_throw_def with_owned_def
  show "in_session (snd (apply_key env ctx desired k iw))"
  proof (cases "active i k")
    case (Some route)
    then have key: "it_Key route = k" using P iw by (simp add: in_session_def coherent_def)
    obtain r1 s1 w1 where w1: "ownedApply env ctx route (s, w) = (r1, (s1, w1))" by (metis surj_pair)
    have "coherent (i\<lparr>ri_owned := Some s1\<rparr>)"
      by (rule coherent_one [where i = i and s = s and k = k and c = route and s' = s1])
        (use P iw s key Some keeps_ownD [OF ownedApply_others w1] in \<open>auto simp: in_session_def\<close>)
    with Some s w1 iw P show ?thesis by (simp add: runs in_session_def)
  next
    case None
    show ?thesis
    proof (cases "map_of desired k")
      case None
      with \<open>active i k = None\<close> P iw show ?thesis by (simp add: runs)
    next
      case (Some want)
      let ?route = "want\<lparr>it_incarnation := ri_epoch i + 1\<rparr>"
      have key: "it_Key ?route = k" using keyed Some by (simp add: well_keyed_def)
      obtain r1 s1 w1 where w1: "ownedApply env ctx ?route (s, w) = (r1, (s1, w1))" by (metis surj_pair)
      have "coherent (i\<lparr>ri_epoch := ri_epoch i + 1, ri_active := AList.update k ?route (ri_active i), ri_owned := Some s1\<rparr>)"
        by (rule coherent_one [where i = i and s = s and k = k and c = ?route and s' = s1])
          (use P iw s key keeps_ownD [OF ownedApply_others w1] in \<open>auto simp: in_session_def\<close>)
      with None Some s w1 iw P show ?thesis by (cases "ri_epoch i = - 1") (simp_all add: runs in_session_def)
    qed
  qed
qed

lemma with_owned_session:
  assumes "keeps_own on_receipts m"
  shows "go_preserves in_session (with_owned (m :: ('w, 'a) owned))"
  unfolding go_preserves_def
proof (intro allI impI)
  fix iw :: "'w RemoteType2Importer \<times> 'w" assume P: "in_session iw"
  obtain i w where iw: "iw = (i, w)" by (cases iw)
  from P iw obtain s where s: "ri_owned i = Some s" by (auto simp: in_session_def coherent_def)
  obtain r s' w' where run: "m (s, w) = (r, (s', w'))" by (metis surj_pair)
  have "on_receipts s' = on_receipts s" by (rule keeps_ownD [OF assms run])
  with P iw s run show "in_session (snd (with_owned m iw))" by (simp add: with_owned_def in_session_def coherent_def)
qed

lemma session_modify:
  "(\<And>i. ri_owned (f i) = ri_owned i \<and> ri_active (f i) = ri_active i \<and> ri_verified (f i) = ri_verified i) \<Longrightarrow>
   go_preserves in_session (imp_modify f)"
  by (rule go_preserves_modify) (auto simp: in_session_def coherent_def)

lemma calm_on_receipts [simp]: "calm on_receipts"
  unfolding calm_def using steadyD(5) by blast

lemma snapshot_session: "go_preserves in_session (applyValidatedSnapshot bgp env ctx snapshot)"
proof -
  have loops: "go_preserves in_session (go_bind (imp_get (\<lambda>i. map_keys (ri_active i))) (\<lambda>keys.
      go_seq (go_each (withdraw_key env ctx desired) keys) (go_seq (go_each (apply_key env ctx desired) (map_keys desired))
        (with_owned set_running))))" if "well_keyed desired" for desired
    by (intro go_preserves_steps withdraw_key_session apply_key_session [OF that] with_owned_session)
      (simp add: set_running_def keeps_own_modify)
  have saved: "go_preserves in_session (with_owned (go_seq (own_modify (\<lambda>s. s\<lparr>on_snapshot := copyRemoteSnapshot snapshot\<rparr>)) (checkpoint env)))"
    by (intro with_owned_session go_keeps_rules calm_steps [OF calm_on_receipts] keeps_own_modify) simp
  have rest: "go_preserves in_session (go_bind (go_of (snapshot_routes bgp (oe_codec env) snapshot i)) f)"
    if "\<And>desired. snapshot_routes bgp (oe_codec env) snapshot i = Inr desired \<Longrightarrow> go_preserves in_session (f desired)" for i f
    using that by (cases "snapshot_routes bgp (oe_codec env) snapshot i") (auto simp: go_preserves_def go_bind_def go_of_def)
  show ?thesis
    unfolding applyValidatedSnapshot_def Let_def
    by (intro go_preserves_seq go_preserves_require go_preserves_get_bind rest session_modify saved loops
        snapshot_routes_endpoints(1)) simp_all
qed

lemma poll_session: "go_preserves in_session (poll_verified lib (ctx :: 'w Context))"
  unfolding go_preserves_def
proof (intro allI impI)
  fix iw :: "'w RemoteType2Importer \<times> 'w" assume P: "in_session iw"
  obtain i w where iw: "iw = (i, w)" by (cases iw)
  from P iw obtain v where v: "ri_verified i = Some v" by (auto simp: in_session_def)
  obtain res v' w' where "Poll lib ctx (v, w) = (res, (v', w'))" by (metis surj_pair)
  with P iw v show "in_session (snd (poll_verified lib ctx iw))" by (simp add: poll_verified_def in_session_def coherent_def)
qed

lemma pass_session: "go_preserves in_session (ReconcileOnce lib env ctx)"
proof -
  have "go_preserves in_session (reconcileValidated lib env ctx)"
    unfolding reconcileValidated_def
    by (intro go_preserves_bind poll_session go_preserves_case_prod go_preserves_seq session_modify go_preserves_case_option
        go_preserves_throw go_preserves_require snapshot_session) simp_all
  then show ?thesis
    unfolding ReconcileOnce_def by (intro go_preserves_get_bind) (auto simp: in_session_def)
qed

section \<open>The start\<close>

lemma restore_each_active:
  assumes "restore_each bgp c rs act keys = Inr result"
  shows "map_of result = map_of act ++ (\<lambda>k. if k \<in> set keys then map_option receiptRoute (rs k) else None)"
  using assms
proof (induction keys arbitrary: act)
  case (Cons key keys)
  show ?case
  proof (cases "rs key")
    case None
    with Cons.prems have "restore_each bgp c rs act keys = Inr result" by simp
    from Cons.IH [OF this] None show ?thesis by (auto simp: map_add_def fun_eq_iff)
  next
    case (Some r)
    with Cons.prems have "restore_each bgp c rs (AList.update key (receiptRoute r) act) keys = Inr result"
      by (auto simp: sum_bind_Inr_iff)
    from Cons.IH [OF this] Some show ?thesis by (auto simp: map_add_def fun_eq_iff update_conv split: option.splits)
  qed
qed (simp add: map_add_def fun_eq_iff)

text \<open>An importer in use: any number of passes after it was created over accepted receipts.\<close>

inductive importer_reach :: "import_lib \<Rightarrow> 'w owned_env \<Rightarrow> 'w RemoteType2Importer \<Rightarrow> bool" for lib env where
  created: "importer_reach lib env i"
    if "NewValidatedRemoteType2Importer (il_bgp lib) (oe_codec env) (Some v) (Some s) = Inr i"
      and "recoverable (oe_codec env) s" and "on_journal s = None \<longrightarrow> on_receipts s = []"
| pass: "importer_reach lib env i'"
    if "importer_reach lib env i" and "ReconcileOnce lib env ctx (i, w) = (r, (i', w'))"

lemma created_session:
  assumes "NewValidatedRemoteType2Importer bgp cd (Some v) (Some s) = Inr i" and "recoverable cd s"
    and "on_journal s = None \<longrightarrow> on_receipts s = []"
  shows "coherent i \<and> ri_verified i \<noteq> None"
proof (cases "on_journal s")
  case None
  with assms(1,3) have "i = (NewRemoteType2Importer None None None)\<lparr>ri_verified := Some v, ri_owned := Some s\<rparr>"
    by (auto simp: NewValidatedRemoteType2Importer_def restoreReceipts_def split: if_splits)
  with None assms(3) show ?thesis by (simp add: coherent_def NewRemoteType2Importer_def)
next
  case (Some j)
  let ?keys = "filter (\<lambda>key. receipts s key \<noteq> None) (map_keys (on_latest s))"
  from assms(1) Some obtain result where restored: "restore_each bgp (im_config v) (receipts s) [] ?keys = Inr result"
    and i: "ri_active i = result" "ri_owned i = Some s" "ri_verified i \<noteq> None"
    by (auto simp: NewValidatedRemoteType2Importer_def restoreReceipts_def NewRemoteType2Importer_def sum_bind_Inr_iff Let_def
        split: if_splits)
  have identity: "receipt_identity_ok cd s k r" if "receipts s k = Some r" for k r
    using recoverableD [OF assms(2) that] by (simp add: receipt_sound_def)
  have known: "k \<in> set ?keys" if "receipts s k = Some r" for k r
  proof -
    have "latest_at s k \<noteq> 0" using identity [OF that] unfolding receipt_identity_ok_def by metis
    then have "map_of (on_latest s) k \<noteq> None" by (auto simp: latest_at_def split: option.splits)
    with that show ?thesis by (auto simp: dom_def)
  qed
  have active: "active i = (\<lambda>k. map_option receiptRoute (receipts s k))"
  proof
    fix k show "active i k = map_option receiptRoute (receipts s k)"
      using restore_each_active [OF restored] i(1) known [of k] by (cases "receipts s k") (simp_all add: map_add_def)
  qed
  have "it_Key (receiptRoute r) = k" if "receipts s k = Some r" for k r
    using identity [OF that] unfolding receipt_identity_ok_def receiptRoute_def Let_def by simp
  with active i show ?thesis by (auto simp: coherent_def dom_def)
qed

text \<open>
  C13 (the importer knows its receipts). An importer that was created over accepted receipts and
  has made any number of passes, failed ones and refused snapshots included, knows every receipt
  of its backend under the key of its route. Hence the next snapshot that is applied withdraws
  whatever it does not contain.
\<close>

theorem importer_knows_receipts:
  assumes "importer_reach lib env i"
  shows "coherent i \<and> ri_verified i \<noteq> None"
  using assms
proof induction
  case (created v s i)
  then show ?case by (rule created_session)
next
  case (pass i ctx w r i' w')
  then have "in_session (i, w)" by (simp add: in_session_def)
  from go_preservesD [OF pass_session this pass.hyps(2)] show ?case by (simp add: in_session_def)
qed

theorem importer_knows_receipts_witness:
  "\<exists>i e i' w'. NewValidatedRemoteType2Importer sample_bgp net_codec (Some net_reader) (Some net_owned) = Inr i \<and>
     ReconcileOnce net_lib net_env (go_return ()) (i, (mem_journal, mem_ready)) = (Inl e, (i', w')) \<and>
     coherent i' \<and> (\<exists>s. ri_owned i' = Some s \<and> dom (receipts s) = {''k''})"
proof -
  have run: "case NewValidatedRemoteType2Importer sample_bgp net_codec (Some net_reader) (Some net_owned) of
      Inl _ \<Rightarrow> False
    | Inr i \<Rightarrow> (case ReconcileOnce net_lib net_env (go_return ()) (i, (mem_journal, mem_ready)) of
        (Inl _, (i', _)) \<Rightarrow> map_option (\<lambda>s. map fst (on_receipts s)) (ri_owned i') = Some [''k'']
      | _ \<Rightarrow> False)"
    by code_simp
  obtain i where new: "NewValidatedRemoteType2Importer sample_bgp net_codec (Some net_reader) (Some net_owned) = Inr i"
    using run by (cases "NewValidatedRemoteType2Importer sample_bgp net_codec (Some net_reader) (Some net_owned)") simp_all
  obtain r i' w' where once: "ReconcileOnce net_lib net_env (go_return ()) (i, (mem_journal, mem_ready)) = (r, (i', w'))"
    by (metis surj_pair)
  from run obtain e where pass: "ReconcileOnce net_lib net_env (go_return ()) (i, (mem_journal, mem_ready)) = (Inl e, (i', w'))"
    and owned: "map_option (\<lambda>s. map fst (on_receipts s)) (ri_owned i') = Some [''k'']"
    unfolding new sum.case once by (cases r) simp_all
  have "recoverable net_codec net_owned" "on_journal net_owned \<noteq> None"
    by code_simp (simp add: net_owned_def net_state_def)
  with new have "importer_reach net_lib net_env i"
    by (intro importer_reach.created [where v = net_reader and s = net_owned]) (auto simp: net_lib_def)
  then have "importer_reach net_lib net_env i'" using pass by (rule importer_reach.pass)
  then have "coherent i'" using importer_knows_receipts by blast
  moreover from owned obtain s where "ri_owned i' = Some s" "map fst (on_receipts s) = [''k'']" by (auto simp: map_option_case split: option.splits)
  moreover from this(2) have "dom (receipts s) = {''k''}" by (simp add: dom_map_of_conv_image_fst flip: set_map)
  ultimately show ?thesis using new pass by blast
qed

end
