(* ===== verification/Linux_Backend.thy ===== *)
theory Linux_Backend
  imports Netlink_Import
begin

text \<open>
  \<open>LinuxVXLANBackend\<close> of \<open>pkg/evpn/route_importer.go\<close>: the backend of the received-route
  mode, which runs \<open>bridge\<close> and \<open>ip\<close> as commands. Running a command is an argument: the command
  line is given to it, it returns the combined output and the error of the exit status.
\<close>

section \<open>Commands\<close>

type_synonym 'w command_runner = "string list \<Rightarrow> 'w \<Rightarrow> (string \<times> go_error option) \<times> 'w"

definition CombinedOutput :: "'w command_runner \<Rightarrow> string list \<Rightarrow> ('w, string \<times> go_error option) go" where
  "CombinedOutput run command w = (case run command w of (r, w') \<Rightarrow> (Inr r, w'))"

definition bridge :: "string list \<Rightarrow> string list" where
  "bridge args = [''sudo'', ''-n'', ''bridge''] @ args"

definition zero_mac :: string where
  "zero_mac = ''00:00:00:00:00:00''"

text \<open>The messages of a deletion that found nothing.\<close>

definition already_gone :: "string \<Rightarrow> bool" where
  "already_gone out = (let msg = TrimSpace out in Contains msg ''No such file'' \<or> Contains msg ''Cannot find'')"

text \<open>A command whose failure is an error unless its output is tolerated.\<close>

definition run_tolerant :: "'w command_runner \<Rightarrow> (string \<Rightarrow> bool) \<Rightarrow> string \<Rightarrow> string list \<Rightarrow> ('w, unit) go" where
  "run_tolerant run tolerated message command = go_bind (CombinedOutput run command) (\<lambda>(out, err). case err of
     None \<Rightarrow> go_return ()
   | Some e \<Rightarrow> go_require (tolerated out) (Errorf message [e]))"

definition setRemoteMacFdb :: "'w command_runner \<Rightarrow> string \<Rightarrow> string \<Rightarrow> string \<Rightarrow> bool \<Rightarrow> ('w, unit) go" where
  "setRemoteMacFdb run vxlanName macAddr remoteVTEP withdraw =
     run_tolerant run (\<lambda>out. withdraw \<and> already_gone out) ''bridge %s failed: %w (%s)''
       (bridge [''fdb'', if withdraw then ''del'' else ''replace'', macAddr, ''dev'', vxlanName, ''dst'', remoteVTEP, ''self'', ''permanent''])"

section \<open>Flood entries\<close>

definition flood_match :: "string \<Rightarrow> string \<Rightarrow> bool" where
  "flood_match remoteVTEP line = (let t = TrimSpace line in
     \<not> (t = [] \<or> \<not> HasPrefix t zero_mac \<or> \<not> Contains t (''dst '' @ remoteVTEP)))"

text \<open>The words of a listed entry that identify it, after its hardware address.\<close>

fun flood_args :: "string list \<Rightarrow> string list" where
  "flood_args (f # g # fs) =
    (if f \<in> {''dst'', ''vlan'', ''via''} then f # g # flood_args fs
     else (if f \<in> {''self'', ''permanent'', ''master'', ''router'', ''extern_learn'', ''static''} then [f] else []) @ flood_args (g # fs))"
| "flood_args [f] = (if f \<in> {''self'', ''permanent'', ''master'', ''router'', ''extern_learn'', ''static''} then [f] else [])"
| "flood_args [] = []"

definition flood_delete :: "string \<Rightarrow> string \<Rightarrow> string list" where
  "flood_delete vxlanName line = bridge ([''fdb'', ''del'', zero_mac, ''dev'', vxlanName] @ flood_args (drop 1 (Fields (TrimSpace line))))"

definition removeFloodEntry :: "'w command_runner \<Rightarrow> string \<Rightarrow> string \<Rightarrow> ('w, unit) go" where
  "removeFloodEntry run vxlanName remoteVTEP =
     go_bind (CombinedOutput run (bridge [''fdb'', ''show'', ''dev'', vxlanName])) (\<lambda>(out, err). case err of
       Some e \<Rightarrow> go_throw (Errorf ''bridge fdb show dev %s failed: %w (%s)'' [e])
     | None \<Rightarrow> go_each (\<lambda>line. if flood_match remoteVTEP line
         then run_tolerant run already_gone ''bridge %s failed: %w (%s)'' (flood_delete vxlanName line) else go_return ())
         (split_on CHR 0x0A out))"

definition setFloodFdb :: "'w command_runner \<Rightarrow> string \<Rightarrow> string \<Rightarrow> bool \<Rightarrow> ('w, unit) go" where
  "setFloodFdb run vxlanName remoteVTEP withdraw =
    (if withdraw then removeFloodEntry run vxlanName remoteVTEP
     else run_tolerant run (\<lambda>out. Contains (TrimSpace out) ''File exists'') ''bridge %s failed: %w (%s)''
       (bridge [''fdb'', ''append'', zero_mac, ''dev'', vxlanName, ''dst'', remoteVTEP, ''self'', ''permanent'']))"

definition setIPNeighbor :: "'w command_runner \<Rightarrow> string \<Rightarrow> string \<Rightarrow> string \<Rightarrow> bool \<Rightarrow> ('w, unit) go" where
  "setIPNeighbor run device ipAddr mac withdraw =
     go_seq (go_require (ParseIP ipAddr \<noteq> None) (errors_New ''invalid neighbor ip %q''))
     (go_seq (go_require (ParseMAC mac \<noteq> None) (errors_New ''invalid neighbor mac %q: %w''))
     (run_tolerant run (\<lambda>out. withdraw \<and> already_gone out) ''ip neigh %s %s on %s failed: %w (%s)''
       [''sudo'', ''-n'', ''ip'', ''neigh'', if withdraw then ''del'' else ''replace'', ipAddr, ''lladdr'', mac, ''dev'', device,
        ''nud'', ''permanent'']))"

section \<open>The backend\<close>

definition LinuxVXLANBackend_Apply :: "'w command_runner \<Rightarrow> ImportedType2Route \<Rightarrow> ('w, unit) go" where
  "LinuxVXLANBackend_Apply run route =
     go_seq (setRemoteMacFdb run (it_VXLANDevice route) (it_MAC route) (it_RemoteVTEP route) False)
     (setFloodFdb run (it_VXLANDevice route) (it_RemoteVTEP route) False)"

definition LinuxVXLANBackend_Withdraw :: "'w command_runner \<Rightarrow> ImportedType2Route \<Rightarrow> ('w, unit) go" where
  "LinuxVXLANBackend_Withdraw run route =
     go_seq (setRemoteMacFdb run (it_VXLANDevice route) (it_MAC route) (it_RemoteVTEP route) True)
     (setFloodFdb run (it_VXLANDevice route) (it_RemoteVTEP route) True)"

definition LinuxVXLANBackend :: "'w command_runner \<Rightarrow> 'w DataplaneBackend" where
  "LinuxVXLANBackend run = \<lparr>db_Apply = (\<lambda>_. LinuxVXLANBackend_Apply run), db_Withdraw = (\<lambda>_. LinuxVXLANBackend_Withdraw run)\<rparr>"

section \<open>The commands that are run\<close>

text \<open>
  Any commands, recorded: the results are a function of the commands so far and
  the new one; the world is the list of commands so far.
\<close>

definition recorded :: "(string list list \<Rightarrow> string list \<Rightarrow> string \<times> go_error option) \<Rightarrow> string list list command_runner" where
  "recorded answers command log = (answers log command, log @ [command])"

lemma run_recorded:
  "run_tolerant (recorded answers) tolerated message command log =
    (case answers log command of
       (out, None) \<Rightarrow> (Inr (), log @ [command])
     | (out, Some e) \<Rightarrow> (if tolerated out then Inr () else Inl (Errorf message [e]), log @ [command]))"
  by (simp add: run_tolerant_def CombinedOutput_def recorded_def go_bind_def go_require_def go_return_def go_throw_def
      split: prod.split option.split)

lemma flood_match_prefix_aux: "HasPrefix s (p @ q) \<Longrightarrow> HasPrefix s p"
  by (induction s p rule: HasPrefix.induct) auto

lemma Contains_prefix: "Contains s (p @ q) \<Longrightarrow> Contains s p"
  by (induction s) (auto dest: flood_match_prefix_aux [of "_ # _"])

text \<open>
  The address of a flood entry is compared as a prefix of the listed text: every line that belongs
  to a longer address is also taken for the shorter one.
\<close>

lemma flood_match_longer: "flood_match (vtep @ suffix) line \<Longrightarrow> flood_match vtep line"
  using Contains_prefix [of "TrimSpace line" "''dst '' @ vtep" suffix] by (simp add: flood_match_def Let_def)

lemma other_vtep_deleted:
  "let listing = ''00:00:00:00:00:00 dst 10.0.0.10 self permanent'';
     answers = (\<lambda>_ command. (if command = bridge [''fdb'', ''show'', ''dev'', ''vx''] then listing else [], None))
   in removeFloodEntry (recorded answers) ''vx'' ''10.0.0.1'' [] =
     (Inr (), [bridge [''fdb'', ''show'', ''dev'', ''vx''],
       bridge [''fdb'', ''del'', zero_mac, ''dev'', ''vx'', ''dst'', ''10.0.0.10'', ''self'', ''permanent'']])"
  by code_simp

text \<open>Every command succeeds, or reports that there was nothing to delete.\<close>

definition accepting :: "(string list list \<Rightarrow> string list \<Rightarrow> string \<times> go_error option) \<Rightarrow> bool" where
  "accepting answers \<longleftrightarrow> (\<forall>log command. snd (answers log command) = None \<or> already_gone (fst (answers log command)))"

lemma accepted:
  "accepting answers \<Longrightarrow> (\<And>out. already_gone out \<Longrightarrow> tolerated out) \<Longrightarrow>
   run_tolerant (recorded answers) tolerated message command log = (Inr (), log @ [command])"
  unfolding accepting_def run_recorded
  by (drule spec [of _ log], drule spec [of _ command]) (auto split: prod.split option.split)

lemma delete_lines:
  assumes "accepting answers"
  shows "go_each (\<lambda>line. if flood_match vtep line
      then run_tolerant (recorded answers) already_gone message (flood_delete dev line) else go_return ()) lines log =
    (Inr (), log @ map (flood_delete dev) (filter (flood_match vtep) lines))"
  by (induction lines arbitrary: log) (simp_all add: accepted [OF assms] go_seq_def go_bind_def go_return_def)


text \<open>A device with two flood entries, one of another VTEP.\<close>

definition two_entries :: string where
  "two_entries = ''00:00:00:00:00:00 dst 10.0.0.1 self permanent'' @ [CHR 0x0A] @ ''00:00:00:00:00:00 dst 10.0.0.2 self permanent'' @ [CHR 0x0A]"

definition linux_route :: ImportedType2Route where
  "linux_route = \<lparr>it_Key = ''k'', it_NetworkName = ''n'', it_VNI = 100, it_MAC = ''02:00:00:00:00:01'', it_IP = [], it_RemoteVTEP = ''10.0.0.1'',
     it_VXLANDevice = ''vx'', it_BridgeDevice = ''br'', it_NeighborDevice = ''br'', it_incarnation = 0, it_generation = 0,
     it_validated = None, it_retiring = False\<rparr>"


end
