(* ===== verification/Spec2Isabelle.thy ===== *)
theory Spec2Isabelle
  imports Journal_Durability Reconciler_Properties Recovery_Properties Exporter_Properties Remote_Import_Properties Netlink_Properties
    Import_Sessions Linux_Backend
begin

text \<open>
  Verification of the Type-2 route path of EVPN-for-OVN: the packages \<open>pkg/ownership\<close> and
  \<open>pkg/evpn\<close>.

  \<^bold>\<open>The program.\<close> A node exports the endpoints of its own chassis as EVPN Type-2 routes and
  imports those of other nodes. For the export, \<open>observer.go\<close> reads the endpoints from OVN,
  \<open>exporter.go\<close> checks that the BGP speaker is ready and the same as before and drives the
  reconciler of \<open>type2_lifecycle.go\<close>, which compares the endpoints with the routes it has
  acknowledged and adds or deletes paths; \<open>type2_gobgp.go\<close> does this in GoBGP and
  \<open>export_recovery.go\<close> wraps it with durable receipts. For the import, \<open>remote_type2.go\<close> reads
  and validates the RIB and publishes a snapshot after two equal observations,
  \<open>remote_netlink_import.go\<close> and \<open>route_importer.go\<close> apply snapshots, and
  \<open>owned_netlink.go\<close> with \<open>remote_recovery.go\<close> writes them into the kernel. Both directions keep
  what they own in the journal of \<open>pkg/ownership/journal.go\<close>.

  \<^bold>\<open>How it is modelled.\<close> Go code that can fail and has effects is a function of type
  \<open>('s, 'a) go\<close>, from a state to a result or an error and a new state (theory \<open>Prelude\<close>); each
  Go function is one definition of the same name, composed as in the source, each \<open>return err\<close> a
  branch. An object is a record. A component runs on its own record next to a world; the services
  it calls (GoBGP, OVN, the kernel, system calls, JSON and hashing) are records of functions on
  the world and are arguments. A Go map is an association list, ranged over in the order of its
  keys where the source's order is arbitrary. \<open>uint32\<close> and \<open>uint64\<close> values are words. What the
  source uses of Go's \<open>strings\<close>, \<open>net\<close>, \<open>strconv\<close>, \<open>filepath\<close> is defined in \<open>Go_Std\<close>.

  \<^bold>\<open>Theories of the model.\<close>
  \<^item> \<open>Prelude\<close>: the monad, weakest preconditions (\<open>go_wp\<close>), frames (\<open>go_keeps\<close>), invariants
    (\<open>go_preserves\<close>), analysis of successful runs (\<open>go_success\<close>); \<open>Go_Std\<close>, \<open>Address_Text\<close>: the
    standard library and facts about the text of addresses.
  \<^item> \<open>Ownership_Journal\<close> (\<open>journal.go\<close>): \<open>Journal_Open\<close>, \<open>Journal_Begin\<close>, \<open>Journal_Commit\<close>,
    \<open>Journal_Snapshot\<close>, \<open>Journal_Close\<close> over POSIX calls, and the locale \<open>intent_log\<close>, the contract
    of a write-ahead log that the clients of the journal rely on; its interpretation \<open>jlog\<close> is the
    journal itself.
  \<^item> \<open>Type2_Route\<close>, \<open>Route_Reconciler\<close> (\<open>type2.go\<close>, \<open>type2_lifecycle.go\<close>): endpoints, routes,
    \<open>RouteReconciler\<close> with \<open>Reconcile\<close>, \<open>Apply\<close>, \<open>Resync\<close>, \<open>resyncDurable\<close>.
  \<^item> \<open>GoBGP_Adapter\<close> (\<open>type2_gobgp.go\<close>): reading the RIB, adding and deleting one exact path.
  \<^item> \<open>Export_Recovery\<close> (\<open>export_recovery.go\<close>): the applier with durable receipts; the locale
    \<open>receipted_applier\<close> of \<open>Receipted_Applier\<close> is the contract the reconciler uses, and the
    interpretation \<open>recov\<close> in \<open>Recovery_Properties\<close> shows that the recovery object keeps it.
  \<^item> \<open>Endpoint_Observer\<close>, \<open>Exporter\<close> (\<open>observer.go\<close>, \<open>exporter.go\<close>): the endpoints of the chassis,
    the exporter's configuration, \<open>EndpointExporter_Reconcile\<close> and \<open>DrainNetworks\<close>.
  \<^item> \<open>Remote_Import\<close> (\<open>remote_type2.go\<close>): decoding, validation, \<open>Poll\<close>.
  \<^item> \<open>Owned_Netlink\<close>, \<open>Netlink_Backend\<close> (\<open>owned_netlink.go\<close>, \<open>remote_recovery.go\<close>): the receipts of
    kernel objects, the check before each step, \<open>ownedApply\<close>, \<open>ownedWithdraw\<close>, the start from durable
    state.
  \<^item> \<open>Netlink_Import\<close>, \<open>Linux_Backend\<close> (\<open>route_importer.go\<close>, \<open>remote_netlink_import.go\<close>): the importer
    in its two modes, its loop \<open>run_importer\<close>, and the backend that runs \<open>bridge\<close> commands.
  \<^item> \<open>Sample_Services\<close>, \<open>Netlink_Samples\<close> and the in-memory disk of \<open>Journal_Durability\<close>: concrete
    services on which the properties are applied.

  \<^bold>\<open>What is shown.\<close>
  \<^item> \<open>Journal_Durability\<close>: under a model of files in which only synchronised data survives a crash,
    an acknowledged intent or state survives every crash and a crash never leaves a damaged file;
    a failed write stops the journal; what was opened was verified.
  \<^item> \<open>Reconciler_Planning\<close>, \<open>Reconciler_Properties\<close>: \<open>Reconcile\<close> refines an abstract plan;
    executing the plan converges, calls exactly the planned operations, and refuses stale plans.
  \<^item> \<open>GoBGP_Adapter\<close>: a path is never replaced, and only the path with the given UUID is deleted.
  \<^item> \<open>Recovery_Properties\<close>: recovery never adopts a path, an unacknowledged addition blocks,
    mutations are journalled before they are executed, memory is never ahead of the journal.
  \<^item> \<open>Endpoint_Observer\<close>, \<open>Exporter_Properties\<close>: the observed endpoints are exactly those of the
    chassis; a pass converges, and writes nothing when a check fails.
  \<^item> \<open>Remote_Import_Properties\<close>: only validated and unambiguous endpoints are published, and only
    after two equal observations.
  \<^item> \<open>Netlink_Frames\<close>, \<open>Netlink_Receipts\<close>, \<open>Netlink_Restart\<close>, \<open>Netlink_Properties\<close>: a kernel entry is
    only created or deleted under a matching journalled intent; after every successful operation
    the journal's state is accepted by a restart, which finds the same receipts; the text names of
    kernel slots agree with the comparison of entries; an observed entry is deleted as it was
    observed.
  \<^item> \<open>Import_Convergence\<close>, \<open>Import_Sessions\<close>: an applied snapshot leaves exactly its own receipts, a
    refused one changes nothing; the importer knows all receipts after any passes; the loop ends.
  \<^item> \<open>Linux_Backend\<close>: the commands a withdrawal runs.

  \<^bold>\<open>Hypotheses.\<close> They are about services: the file system (\<open>posix_durable\<close>), JSON (decoding gives
  back what was encoded), that the kernel gives every listed neighbour a type (\<open>typed_kernel\<close>:
  \<open>confirm\<close> accepts an entry without a type that \<open>validateReceipts\<close> would reject), and that a
  service does not write the journal (\<open>services_keep\<close>). Each property with a hypothesis is applied
  to concrete services in the theorem that follows it.

  \<^bold>\<open>Bounds.\<close> No definition has fuel. All loops but one are recursions on lists; the loop of \<open>Run\<close>
  may go on for ever and is a partial function whose value is \<^const>\<open>None\<close> then. That it returns is
  shown when passes keep failing and when the context ends.

  \<^bold>\<open>Not modelled.\<close> Mutexes (each operation holds its mutex from start to end), goroutines and timers;
  the text of formatted errors beyond the errors they wrap. Outside the two packages: the node
  agent, the CNI and its continuity, attachments and the endpoint manager, the OVSDB programming
  path, the operator, the management services and the programs are left out; they mostly call
  gRPC, libovsdb, the Kubernetes API, \<open>/proc\<close> or containerd, and keep their state there.
  In \<open>pkg/evpn\<close>: \<open>local_netlink.go\<close>, \<open>observer_ovnctl.go\<close>, \<open>owned_netlink_dump.go\<close> and
  \<open>export_authority.go\<close> are sources and sinks behind the interfaces that are arguments here. Generated
  code is not modelled.
\<close>

end
